(* ===== verification/Prelude.thy ===== *)
theory Prelude
  imports Main "HOL-Library.Word" "HOL-Library.Signed_Division" "HOL-Library.AList"
    "HOL-Library.Sublist"
begin

text \<open>
  What every component of the broker shares: Go's fixed-width integers, error values, strings,
  maps kept as association lists, durations and instants in nanoseconds, and the world a
  service runs in (the Redis keyspace it reaches through its client, the readings of the clock
  and the identifiers the uuid package mints).
  Go's \<open>int\<close> and \<open>int64\<close> are values of \<^typ>\<open>int\<close> kept in range by \<open>wrap64\<close> at every
  arithmetic operation that can leave it, \<open>int32\<close> by \<open>wrap32\<close>. Bytes are \<open>8 word\<close>.
\<close>

unbundle bit_operations_syntax

named_theorems wrap_simps \<open>integers that stay in range are not changed by the wrap-around\<close>
named_theorems world_simps \<open>what reading the clock or minting an identifier leaves alone\<close>
named_theorems keep \<open>what an operation leaves unchanged\<close>

section \<open>Fixed-width integers\<close>

definition wrap64 :: "int \<Rightarrow> int" where
  "wrap64 x = (x + 2 ^ 63) mod 2 ^ 64 - 2 ^ 63"

definition wrap32 :: "int \<Rightarrow> int" where
  "wrap32 x = (x + 2 ^ 31) mod 2 ^ 32 - 2 ^ 31"

abbreviation in64 :: "int \<Rightarrow> bool" where
  "in64 x \<equiv> - (2 ^ 63) \<le> x \<and> x < 2 ^ 63"

abbreviation in32 :: "int \<Rightarrow> bool" where
  "in32 x \<equiv> - (2 ^ 31) \<le> x \<and> x < 2 ^ 31"

lemma wrap64_id [wrap_simps]: "- (2 ^ 63) \<le> x \<Longrightarrow> x < 2 ^ 63 \<Longrightarrow> wrap64 x = x"
  by (simp add: wrap64_def)

lemma wrap32_id [wrap_simps]: "- (2 ^ 31) \<le> x \<Longrightarrow> x < 2 ^ 31 \<Longrightarrow> wrap32 x = x"
  by (simp add: wrap32_def)

lemma wrap64_range: "in64 (wrap64 x)"
  unfolding wrap64_def using pos_mod_bound [of "2 ^ 64" "x + 2 ^ 63"] by simp

lemma wrap32_range: "in32 (wrap32 x)"
  unfolding wrap32_def using pos_mod_bound [of "2 ^ 32" "x + 2 ^ 31"] by simp

lemma wrap64_bounds [simp]: "- 9223372036854775808 \<le> wrap64 x" "wrap64 x < 9223372036854775808"
  using wrap64_range [of x] by simp_all

lemma wrap32_bounds [simp]: "- 2147483648 \<le> wrap32 x" "wrap32 x < 2147483648"
  using wrap32_range [of x] by simp_all

text \<open>The wrapped value is the two's complement reading of the machine word.\<close>

lemma sint_word64_of_int: "sint (word_of_int x :: 64 word) = wrap64 x"
  by (simp add: wrap64_def int_word_sint)

lemma sint_word32_of_int: "sint (word_of_int x :: 32 word) = wrap32 x"
  by (simp add: wrap32_def int_word_sint)

text \<open>Go's \<open>%\<close> truncates towards zero, as \<open>smod\<close> does.\<close>

lemma smod_bounds:
  "0 < b \<Longrightarrow> - b < a smod b \<and> a smod b < b" for a b :: int
proof -
  assume "0 < b"
  then have "0 \<le> \<bar>a\<bar> mod b" and "\<bar>a\<bar> mod b < b" by simp_all
  with \<open>0 < b\<close> show ?thesis
    unfolding signed_modulo_int_def sgn_if by (auto simp del: abs_of_nonneg)
qed

lemma smod_nonneg: "0 \<le> a \<Longrightarrow> 0 < b \<Longrightarrow> a smod b = a mod b" for a b :: int
  by (auto simp: signed_modulo_int_def sgn_if)

text \<open>
  \<open>float64(x)\<close> of an integer: 53 significant bits, to nearest, ties to even. \<open>bits\<close> is the length
  of the binary representation.
\<close>

fun bits :: "nat \<Rightarrow> nat" where
  "bits n = (if n = 0 then 0 else Suc (bits (n div 2)))"

declare bits.simps [simp del]

definition float64_of_int :: "int \<Rightarrow> int" where
  "float64_of_int x =
     (let a = nat \<bar>x\<bar>; s = bits a - 53; q = a div 2 ^ s; r = a mod 2 ^ s
      in sgn x * int ((if 2 * r > 2 ^ s \<or> (2 * r = 2 ^ s \<and> odd q) then Suc q else q) * 2 ^ s))"

lemma bits_le: "n < 2 ^ k \<Longrightarrow> bits n \<le> k"
proof (induction k arbitrary: n)
  case (Suc k)
  then have "n div 2 < 2 ^ k" by simp
  with Suc.IH show ?case by (simp add: bits.simps [of n])
qed (simp add: bits.simps)

lemma float64_exact: "\<bar>x\<bar> < 2 ^ 53 \<Longrightarrow> float64_of_int x = x"
proof -
  assume "\<bar>x\<bar> < 2 ^ 53"
  then have "nat \<bar>x\<bar> < 2 ^ 53" by (simp add: nat_less_iff)
  then have "bits (nat \<bar>x\<bar>) - 53 = 0" using bits_le by simp
  then show ?thesis by (simp add: float64_of_int_def Let_def mult_sgn_abs)
qed

section \<open>Errors\<close>

text \<open>
  \<open>fmt.Errorf("text")\<close> is \<open>Errorf text\<close> and \<open>fmt.Errorf("text: %w", err)\<close> is
  \<open>Wrap text err\<close>; \<open>Error\<close> is the text that \<open>err.Error()\<close> prints, on which the HTTP
  handlers dispatch. A call that returns a value or an error is a sum, a call that returns only
  an error an option.
\<close>

datatype go_error = Errorf string | Wrap string go_error

primrec Error :: "go_error \<Rightarrow> string" where
  "Error (Errorf s) = s"
| "Error (Wrap s e) = s @ '': '' @ Error e"

type_synonym 'a res = "go_error + 'a"

definition contains_str :: "string \<Rightarrow> string \<Rightarrow> bool" where
  "contains_str s sub \<longleftrightarrow> sublist sub s"

lemma contains_Wrap: "contains_str (Error e) t \<Longrightarrow> contains_str (Error (Wrap s e)) t"
  by (simp add: contains_str_def sublist_append sublist_Cons_right)

section \<open>Strings\<close>

definition HasPrefix :: "string \<Rightarrow> string \<Rightarrow> bool" where
  "HasPrefix s p \<longleftrightarrow> prefix p s"

definition HasSuffix :: "string \<Rightarrow> string \<Rightarrow> bool" where
  "HasSuffix s p \<longleftrightarrow> suffix p s"

definition TrimPrefix :: "string \<Rightarrow> string \<Rightarrow> string" where
  "TrimPrefix s p = (if prefix p s then drop (length p) s else s)"

definition to_lower_char :: "char \<Rightarrow> char" where
  "to_lower_char c =
     (if 65 \<le> (of_char c :: nat) \<and> (of_char c :: nat) \<le> 90 then char_of ((of_char c :: nat) + 32)
      else c)"

definition ToLower :: "string \<Rightarrow> string" where
  "ToLower s = map to_lower_char s"

text \<open>\<open>strings.Split(s, sep)\<close> for a separator of one character: never the empty list.\<close>

fun split_on :: "char \<Rightarrow> string \<Rightarrow> string list" where
  "split_on c [] = [[]]"
| "split_on c (x # xs) =
     (if x = c then [] # split_on c xs
      else (case split_on c xs of [] \<Rightarrow> [[x]] | y # ys \<Rightarrow> (x # y) # ys))"

lemma split_on_not_Nil [simp]: "split_on c s \<noteq> []"
  by (induction s) (auto split: list.splits)

text \<open>\<open>fmt.Sprintf("%d", n)\<close>.\<close>

fun digits :: "nat \<Rightarrow> string" where
  "digits n = (if n < 10 then [char_of (n + 48)] else digits (n div 10) @ [char_of (n mod 10 + 48)])"

declare digits.simps [simp del]

lemma digits_small: "n < 10 \<Longrightarrow> digits n = [char_of (n + 48)]"
  by (simp add: digits.simps)

lemma digits_ge: "\<not> n < 10 \<Longrightarrow> digits n = digits (n div 10) @ [char_of (n mod 10 + 48)]"
  by (subst digits.simps) simp

definition itoa :: "int \<Rightarrow> string" where
  "itoa n = (if n < 0 then CHR ''-'' # digits (nat (- n)) else digits (nat n))"

text \<open>\<open>t.Format(time.RFC3339)\<close> of an instant in nanoseconds, in UTC.\<close>

definition civil_from_days :: "int \<Rightarrow> int \<times> int \<times> int" where
  "civil_from_days days =
     (let z = days + 719468;
          era = z div 146097;
          doe = z mod 146097;
          yoe = (doe - doe div 1460 + doe div 36524 - doe div 146096) div 365;
          doy = doe - (365 * yoe + yoe div 4 - yoe div 100);
          mp = (5 * doy + 2) div 153;
          d = doy - (153 * mp + 2) div 5 + 1;
          m = (if mp < 10 then mp + 3 else mp - 9)
      in ((if m \<le> 2 then yoe + era * 400 + 1 else yoe + era * 400), m, d))"

definition pad :: "nat \<Rightarrow> int \<Rightarrow> string" where
  "pad n x = (let s = itoa x in replicate (n - length s) CHR ''0'' @ s)"

definition RFC3339 :: "int \<Rightarrow> string" where
  "RFC3339 t =
     (let secs = t div 1000000000; (y, m, d) = civil_from_days (secs div 86400); s = secs mod 86400
      in pad 4 y @ ''-'' @ pad 2 m @ ''-'' @ pad 2 d @ ''T'' @ pad 2 (s div 3600) @ '':''
         @ pad 2 (s mod 3600 div 60) @ '':'' @ pad 2 (s mod 60) @ ''Z'')"

text \<open>
  \<open>time.Parse(time.RFC3339, s)\<close>, an instant in nanoseconds. As in Go the hour may have one digit, a
  fraction of a second may follow the seconds, and only its first nine digits count.
\<close>

definition is_digit :: "char \<Rightarrow> bool" where
  "is_digit c \<longleftrightarrow> (48 :: nat) \<le> of_char c \<and> (of_char c :: nat) \<le> 57"

definition atoi_digits :: "string \<Rightarrow> int" where
  "atoi_digits s = foldl (\<lambda>n c. 10 * n + (of_char c - 48)) 0 s"

definition two_digits :: "string \<Rightarrow> (int \<times> string) option" where
  "two_digits s = (case s of a # b # s \<Rightarrow> if is_digit a \<and> is_digit b then Some (atoi_digits [a, b], s) else None
                   | _ \<Rightarrow> None)"

definition one_or_two_digits :: "string \<Rightarrow> (int \<times> string) option" where
  "one_or_two_digits s = (case two_digits s of Some r \<Rightarrow> Some r
     | None \<Rightarrow> (case s of a # s \<Rightarrow> if is_digit a then Some (atoi_digits [a], s) else None | [] \<Rightarrow> None))"

definition literal :: "char \<Rightarrow> string \<Rightarrow> string option" where
  "literal c s = (case s of x # s \<Rightarrow> if x = c then Some s else None | [] \<Rightarrow> None)"

definition fraction :: "string \<Rightarrow> int \<times> string" where
  "fraction s = (case s of
     p # d # s' \<Rightarrow> if (p = CHR ''.'' \<or> p = CHR '','') \<and> is_digit d
       then (let f = takeWhile is_digit (d # s'); g = take 9 f
             in (atoi_digits g * 10 ^ (9 - length g), drop (length f) (d # s')))
       else (0, s)
   | _ \<Rightarrow> (0, s))"

text \<open>The offset of the zone in seconds; nothing may follow it.\<close>

definition zone_offset :: "string \<Rightarrow> int option" where
  "zone_offset s =
     (if s = ''Z'' then Some 0
      else (case s of
              sign # s \<Rightarrow>
                if sign = CHR ''+'' \<or> sign = CHR ''-''
                then Option.bind (two_digits s) (\<lambda>(h, s). Option.bind (literal CHR '':'' s) (\<lambda>s.
                     Option.bind (two_digits s) (\<lambda>(m, s).
                       if h \<le> 24 \<and> m \<le> 60 \<and> s = []
                       then Some ((if sign = CHR ''-'' then - 1 else 1) * (h * 60 + m) * 60) else None)))
                else None
            | [] \<Rightarrow> None))"

definition is_leap :: "int \<Rightarrow> bool" where
  "is_leap y \<longleftrightarrow> y mod 4 = 0 \<and> (y mod 100 \<noteq> 0 \<or> y mod 400 = 0)"

definition days_in :: "int \<Rightarrow> int \<Rightarrow> int" where
  "days_in m y = (if m = 2 then (if is_leap y then 29 else 28)
                  else if m \<in> {4, 6, 9, 11} then 30 else 31)"

definition days_from_civil :: "int \<Rightarrow> int \<Rightarrow> int \<Rightarrow> int" where
  "days_from_civil y m d =
     (let y = (if m \<le> 2 then y - 1 else y);
          era = y div 400;
          yoe = y mod 400;
          doy = (153 * (if m > 2 then m - 3 else m + 9) + 2) div 5 + d - 1
      in era * 146097 + yoe * 365 + yoe div 4 - yoe div 100 + doy - 719468)"

definition ParseRFC3339 :: "string \<Rightarrow> int option" where
  "ParseRFC3339 s =
     (let (ys, s) = (take 4 s, drop 4 s)
      in if length ys = 4 \<and> list_all is_digit ys
         then Option.bind (literal CHR ''-'' s) (\<lambda>s. Option.bind (two_digits s) (\<lambda>(mo, s).
              Option.bind (literal CHR ''-'' s) (\<lambda>s. Option.bind (two_digits s) (\<lambda>(d, s).
              Option.bind (literal CHR ''T'' s) (\<lambda>s. Option.bind (one_or_two_digits s) (\<lambda>(h, s).
              Option.bind (literal CHR '':'' s) (\<lambda>s. Option.bind (two_digits s) (\<lambda>(mi, s).
              Option.bind (literal CHR '':'' s) (\<lambda>s. Option.bind (two_digits s) (\<lambda>(sec, s).
              (let y = atoi_digits ys; (ns, s) = fraction s
               in Option.bind (zone_offset s) (\<lambda>off.
                    if 1 \<le> mo \<and> mo \<le> 12 \<and> 1 \<le> d \<and> d \<le> days_in mo y \<and> h < 24 \<and> mi < 60 \<and> sec < 60
                    then Some ((days_from_civil y mo d * 86400 + h * 3600 + mi * 60 + sec - off)
                               * 1000000000 + ns)
                    else None))))))))))))
         else None)"

section \<open>Maps\<close>

text \<open>
  A Go map is an association list: \<open>map_of m k\<close> looks a key up, \<open>AList.update\<close> stores,
  \<open>AList.delete\<close> removes, \<open>length\<close> is \<open>len\<close>. The keys are distinct in every map the code
  builds. \<open>range\<close> over a map has no fixed order; where the order shows, it is a parameter.
\<close>

type_synonym 'v gomap = "(string \<times> 'v) list"

abbreviation mput :: "string \<Rightarrow> 'v \<Rightarrow> 'v gomap \<Rightarrow> 'v gomap" where
  "mput \<equiv> AList.update"

abbreviation mdel :: "string \<Rightarrow> 'v gomap \<Rightarrow> 'v gomap" where
  "mdel \<equiv> AList.delete"

definition wf_map :: "'v gomap \<Rightarrow> bool" where
  "wf_map m \<longleftrightarrow> distinct (map fst m)"

lemma map_of_mput [simp]: "map_of (mput k v m) = (map_of m)(k \<mapsto> v)"
  by (simp add: update_conv')

lemma map_of_mdel [simp]: "map_of (mdel k m) = (map_of m)(k := None)"
  by (simp add: delete_conv')

lemma wf_map_Nil [simp]: "wf_map []"
  by (simp add: wf_map_def)

lemma wf_map_mput [intro]: "wf_map m \<Longrightarrow> wf_map (mput k v m)"
  by (simp add: wf_map_def distinct_update)

lemma wf_map_mdel [intro]: "wf_map m \<Longrightarrow> wf_map (mdel k m)"
  by (simp add: wf_map_def distinct_delete)

section \<open>Time, identifiers and the world\<close>

text \<open>A \<open>time.Duration\<close> and an instant (\<open>UnixNano\<close>) are nanoseconds.\<close>

definition Millisecond :: int where "Millisecond = 1000000"
definition Second :: int where "Second = 1000000000"
definition Minute :: int where "Minute = 60 * Second"
definition Hour :: int where "Hour = 60 * Minute"

lemmas durations = Millisecond_def Second_def Minute_def Hour_def

text \<open>
  \<open>clock w n\<close> is the reading that the \<open>n\<close>-th call of \<open>time.Now()\<close> returns and \<open>uuids w n\<close>
  the string of the \<open>n\<close>-th \<open>uuid.New()\<close>; both are arbitrary, so that what is proved holds
  for every behaviour of the clock and of the generator. \<open>db\<close> is the state of the Redis server.
\<close>

record 'd world =
  db :: 'd
  clock :: "nat \<Rightarrow> int"
  ticks :: nat
  uuids :: "nat \<Rightarrow> string"
  minted :: nat

definition time_now :: "'d world \<Rightarrow> int \<times> 'd world" where
  "time_now w = (clock w (ticks w), w\<lparr>ticks := Suc (ticks w)\<rparr>)"

definition uuid_new :: "'d world \<Rightarrow> string \<times> 'd world" where
  "uuid_new w = (uuids w (minted w), w\<lparr>minted := Suc (minted w)\<rparr>)"

lemma time_now_db [world_simps]: "time_now w = (t, w') \<Longrightarrow> db w' = db w"
  by (auto simp: time_now_def)

lemma uuid_new_db [world_simps]: "uuid_new w = (u, w') \<Longrightarrow> db w' = db w"
  by (auto simp: uuid_new_def)

lemma snd_time_now_db [simp, world_simps]: "db (snd (time_now w)) = db w"
  by (simp add: time_now_def)

lemma snd_uuid_new_db [simp, world_simps]: "db (snd (uuid_new w)) = db w"
  by (simp add: uuid_new_def)

end
