(* ===== verification/RingBuffer.thy ===== *)
theory RingBuffer
  imports Prelude
begin

text \<open>
  \<^verbatim>\<open>pkg/collections/ringbuffer.go\<close>: a double-ended ring buffer that grows and shrinks by
  powers of two. The abstract view of a queue is the list of its elements, front first
  (\<open>contents\<close>); the invariant \<open>q_inv\<close> says how head, tail and count sit in the buffer.
  \<open>Push\<close> and \<open>Pop\<close> return \<open>None\<close> where the Go code would panic on an index out of range.
  Stored values are \<open>interface{}\<close>, so \<open>'a option\<close> with \<open>None\<close> for \<open>nil\<close>.
\<close>

section \<open>The code\<close>

definition minCapacity :: int where
  "minCapacity = 2"

record 'a queue =
  q_buf :: "'a option list"
  q_head :: int
  q_tail :: int
  q_count :: int
  q_maxlen :: int

definition NewQueue :: "int list \<Rightarrow> 'a queue" where
  "NewQueue maxlen =
     (if length maxlen > 0
      then \<lparr>q_buf = [], q_head = 0, q_tail = 0, q_count = 0, q_maxlen = maxlen ! 0\<rparr>
      else \<lparr>q_buf = [], q_head = 0, q_tail = 0, q_count = 0, q_maxlen = 0\<rparr>)"

definition Len :: "'a queue \<Rightarrow> int" where "Len q = q_count q"
definition MaxLen :: "'a queue \<Rightarrow> int" where "MaxLen q = q_maxlen q"
definition Size :: "'a queue \<Rightarrow> int" where "Size q = int (length (q_buf q))"
definition Empty :: "'a queue \<Rightarrow> bool" where "Empty q \<longleftrightarrow> q_count q = 0"
definition Full :: "'a queue \<Rightarrow> bool" where "Full q \<longleftrightarrow> q_count q = q_maxlen q"

definition next_pos :: "'a queue \<Rightarrow> int \<Rightarrow> int" where
  "next_pos q i = (i + 1) AND (int (length (q_buf q)) - 1)"

text \<open>\<open>copy(dst[n:], src)\<close>: as many elements as fit.\<close>

definition go_copy :: "'b list \<Rightarrow> nat \<Rightarrow> 'b list \<Rightarrow> 'b list" where
  "go_copy dst n src = take n dst @ take (length dst - n) src @ drop (n + length src) dst"

definition resize :: "'a queue \<Rightarrow> 'a queue" where
  "resize q =
     (let newBuf = replicate (nat (push_bit 1 (q_count q))) None;
          h = nat (q_head q); t = nat (q_tail q);
          filled =
            (if q_tail q > q_head q
             then go_copy newBuf 0 (take (t - h) (drop h (q_buf q)))
             else (let src = drop h (q_buf q); n = min (length newBuf) (length src)
                   in go_copy (go_copy newBuf 0 src) n (take t (q_buf q))))
      in q\<lparr>q_head := 0, q_tail := q_count q, q_buf := filled\<rparr>)"

definition growIfFull :: "'a queue \<Rightarrow> 'a queue" where
  "growIfFull q =
     (if length (q_buf q) = 0 then q\<lparr>q_buf := replicate (nat minCapacity) None\<rparr>
      else if q_count q = int (length (q_buf q)) \<and> q_count q < q_maxlen q then resize q
      else q)"

definition shrinkIfExcess :: "'a queue \<Rightarrow> 'a queue" where
  "shrinkIfExcess q =
     (if int (length (q_buf q)) > minCapacity \<and> push_bit 2 (q_count q) = int (length (q_buf q))
      then resize q else q)"

abbreviation in_range :: "int \<Rightarrow> 'b list \<Rightarrow> bool" where
  "in_range i xs \<equiv> 0 \<le> i \<and> i < int (length xs)"

definition Push :: "'a option \<Rightarrow> 'a queue \<Rightarrow> 'a queue option" where
  "Push e q =
     (let q1 = growIfFull q in
      if \<not> in_range (q_tail q1) (q_buf q1) then None
      else (let q2 = q1\<lparr>q_buf := (q_buf q1)[nat (q_tail q1) := e]\<rparr>
            in Some (q2\<lparr>q_tail := next_pos q2 (q_tail q2), q_count := q_count q2 + 1\<rparr>)))"

definition Pop :: "'a queue \<Rightarrow> ('a option \<times> 'a queue) option" where
  "Pop q =
     (if q_count q \<le> 0 then Some (None, q)
      else if \<not> in_range (q_head q) (q_buf q) then None
      else (let ret = q_buf q ! nat (q_head q);
                q1 = q\<lparr>q_buf := (q_buf q)[nat (q_head q) := None]\<rparr>;
                q2 = q1\<lparr>q_head := next_pos q1 (q_head q1), q_count := q_count q1 - 1\<rparr>
            in Some (ret, shrinkIfExcess q2)))"

definition Peek :: "'a queue \<Rightarrow> 'a option option" where
  "Peek q =
     (if q_count q \<le> 0 then Some None
      else if \<not> in_range (q_head q) (q_buf q) then None
      else Some (q_buf q ! nat (q_head q)))"

section \<open>Invariant and abstraction\<close>

definition contents :: "'a queue \<Rightarrow> 'a option list" where
  "contents q = take (nat (q_count q)) (rotate (nat (q_head q)) (q_buf q))"

definition ring :: "'b list \<Rightarrow> nat \<Rightarrow> nat \<Rightarrow> nat \<Rightarrow> bool" where
  "ring xs h t c \<longleftrightarrow> (\<exists>k>0. length xs = 2 ^ k) \<and> h < length xs \<and> c \<le> length xs
     \<and> t = (h + c) mod length xs"

definition q_inv :: "'a queue \<Rightarrow> bool" where
  "q_inv q \<longleftrightarrow> 0 \<le> q_head q \<and> 0 \<le> q_tail q \<and> 0 \<le> q_count q \<and>
     (if q_buf q = [] then q_head q = 0 \<and> q_tail q = 0 \<and> q_count q = 0
      else ring (q_buf q) (nat (q_head q)) (nat (q_tail q)) (nat (q_count q)))"

text \<open>There is room for one more element: a free slot, or leave to grow.\<close>

definition room :: "'a queue \<Rightarrow> bool" where
  "room q \<longleftrightarrow> q_buf q = [] \<or> q_count q < int (length (q_buf q)) \<or> q_count q < q_maxlen q"

lemma add_mod_less:
  "a < n \<Longrightarrow> b \<le> n \<Longrightarrow> (a + b) mod n = (if a + b < n then a + b else a + b - n)" for a b n :: nat
  by (simp add: le_mod_geq)

lemma rotate_update:
  assumes "h < length xs" "i < length xs"
  shows "rotate h (xs[(h + i) mod length xs := e]) = (rotate h xs)[i := e]"
proof (rule nth_equalityI)
  fix j assume "j < length (rotate h (xs[(h + i) mod length xs := e]))"
  then have j: "j < length xs" by simp
  have "(h + j) mod length xs = (h + i) mod length xs \<longleftrightarrow> j = i"
    using add_mod_less [of h "length xs" i] add_mod_less [of h "length xs" j] assms j
    by (simp split: if_splits) arith+
  moreover have "(h + i) mod length xs < length xs"
    using assms by (intro mod_less_divisor) linarith
  ultimately show "rotate h (xs[(h + i) mod length xs := e]) ! j = (rotate h xs)[i := e] ! j"
    using assms j by (cases "j = i") (simp_all add: nth_rotate)
qed simp

lemma ring_pop:
  "ring xs h t c \<Longrightarrow> 0 < c \<Longrightarrow> ring (xs[h := y]) (Suc h mod length xs) t (c - 1)"
  using mod_add_left_eq [of "Suc h" "length xs" "c - 1"]
  by (auto simp: ring_def intro: mod_less_divisor)

lemma and_len_minus_one:
  "length xs = 2 ^ k \<Longrightarrow> int x AND (int (length xs) - 1) = int (x mod length xs)"
proof -
  assume "length xs = 2 ^ k"
  then have "int (length xs) - 1 = mask k" by (simp add: mask_eq_exp_minus_1)
  then have "int x AND (int (length xs) - 1) = take_bit k (int x)"
    by (simp add: take_bit_eq_mask)
  also have "\<dots> = int (x mod length xs)"
    by (simp add: take_bit_eq_mod \<open>length xs = 2 ^ k\<close> zmod_int)
  finally show ?thesis .
qed

lemma ring_next:
  "ring (q_buf q) h t c \<Longrightarrow> next_pos q (int i) = int (Suc i mod length (q_buf q))"
  unfolding ring_def next_pos_def using and_len_minus_one [of "q_buf q" _ "Suc i"]
  by (auto simp: add.commute)

text \<open>The two copies of \<open>resize\<close> lay the contents at the start of the new buffer.\<close>

lemma go_copy_two:
  assumes "length a + length b \<le> n"
  shows "go_copy (go_copy (replicate n x) 0 a) (length a) b
       = a @ b @ replicate (n - length a - length b) x"
proof -
  have "go_copy (replicate n x) 0 a = a @ replicate (n - length a) x"
    using assms by (simp add: go_copy_def)
  then show ?thesis using assms by (simp add: go_copy_def)
qed

lemma go_copy_one:
  "length a \<le> n \<Longrightarrow> go_copy (replicate n x) 0 a = a @ replicate (n - length a) x"
  by (auto simp: go_copy_def)

lemma take_append_shift: "take (length a + n) (a @ b) = a @ take n b"
  by simp

lemma ring_unwrap:
  assumes r: "ring xs h t c" and "0 < c"
  shows "take c (rotate h xs) = (if h < t then take (t - h) (drop h xs) else drop h xs @ take t xs)"
proof -
  from r have hc: "h < length xs" "c \<le> length xs" "t = (h + c) mod length xs"
    by (auto simp: ring_def)
  have rot: "rotate h xs = drop h xs @ take h xs"
    using hc by (simp add: rotate_drop_take)
  show ?thesis
  proof (cases "h + c < length xs")
    case True
    with hc \<open>0 < c\<close> rot show ?thesis using add_mod_less [of h "length xs" c] by simp
  next
    case False
    with hc have "t = h + c - length xs" using add_mod_less [of h "length xs" c] by simp
    then have t: "t \<le> h" and c: "c = length (drop h xs) + t" using False hc by simp_all
    have "take c (rotate h xs) = drop h xs @ take t (take h xs)"
      unfolding rot c by (rule take_append_shift)
    with t show ?thesis by (simp add: min_absorb1)
  qed
qed

lemma resize_correct:
  assumes inv: "q_inv q" and b: "q_buf q \<noteq> []" and c: "0 < q_count q"
    and pow: "q_count q = 2 ^ k"
  shows "q_inv (resize q)" "contents (resize q) = contents q"
    "length (q_buf (resize q)) = 2 ^ Suc k"
    "q_count (resize q) = q_count q" "q_maxlen (resize q) = q_maxlen q"
proof -
  define h t n where "h = nat (q_head q)" and "t = nat (q_tail q)" and "n = nat (q_count q)"
  have r: "ring (q_buf q) h t n" using inv b by (simp add: q_inv_def h_def t_def n_def)
  have n: "0 < n" "q_count q = int n" using c by (simp_all add: n_def)
  have ht: "q_head q < q_tail q \<longleftrightarrow> h < t" using inv by (auto simp: q_inv_def h_def t_def)
  have C: "contents q = (if h < t then take (t - h) (drop h (q_buf q))
      else drop h (q_buf q) @ take t (q_buf q))"
    using ring_unwrap [OF r \<open>0 < n\<close>] by (simp add: contents_def h_def n_def)
  have new: "nat (push_bit (Suc 0) (int n)) = 2 * n" "nat (int n * 2) = 2 * n"
    by (simp_all add: push_bit_eq_mult)
  have "length (contents q) = n" using r by (simp add: contents_def n_def ring_def)
  have buf: "q_buf (resize q) = contents q @ replicate n None"
  proof (cases "h < t")
    case True
    then show ?thesis using C n ht \<open>length (contents q) = n\<close>
      by (simp add: resize_def Let_def h_def [symmetric] t_def [symmetric] new go_copy_one)
  next
    case False
    with C \<open>length (contents q) = n\<close>
    have "length (drop h (q_buf q)) + length (take t (q_buf q)) = n" by (metis length_append)
    with False show ?thesis using C n ht
      by (simp add: resize_def Let_def h_def [symmetric] t_def [symmetric] new
          go_copy_two [where n = "2 * n"] del: length_drop length_take)
  qed
  have hd0: "q_head (resize q) = 0" and tl: "q_tail (resize q) = q_count q"
    and cn: "q_count (resize q) = q_count q" and mx: "q_maxlen (resize q) = q_maxlen q"
    by (simp_all add: resize_def Let_def)
  have "n = 2 ^ k" using pow by (simp add: n_def nat_power_eq)
  then show L: "length (q_buf (resize q)) = 2 ^ Suc k"
    using buf \<open>length (contents q) = n\<close> by simp
  show "contents (resize q) = contents q"
    using buf hd0 cn n \<open>length (contents q) = n\<close> by (simp add: contents_def [of "resize q"])
  show "q_inv (resize q)"
    using L hd0 tl cn n buf \<open>n = 2 ^ k\<close>
    by (auto simp: q_inv_def ring_def nat_power_eq intro!: exI [of _ "Suc k"])
  show "q_count (resize q) = q_count q" "q_maxlen (resize q) = q_maxlen q" by fact+
qed

section \<open>Push and Pop on the abstract view\<close>

lemma q_inv_New: "q_inv (NewQueue m)" "contents (NewQueue m) = []"
  by (simp_all add: NewQueue_def q_inv_def contents_def)

lemma length_contents: "q_inv q \<Longrightarrow> length (contents q) = nat (q_count q)"
  by (auto simp: q_inv_def contents_def ring_def split: if_splits)

lemma Len_contents: "q_inv q \<Longrightarrow> Len q = int (length (contents q))"
  by (simp add: length_contents Len_def) (simp add: q_inv_def)

lemma growIfFull_correct:
  assumes inv: "q_inv q" and room: "room q"
  defines "g \<equiv> growIfFull q"
  shows "q_inv g" "contents g = contents q" "q_maxlen g = q_maxlen q" "q_count g = q_count q"
    "q_count g < int (length (q_buf g))"
proof -
  consider "q_buf q = []" | "q_buf q \<noteq> []" "q_count q = int (length (q_buf q))" "q_count q < q_maxlen q"
    | "q_buf q \<noteq> []" "q_count q < int (length (q_buf q))"
    using room inv by (fastforce simp: room_def q_inv_def ring_def)
  then have "q_inv g \<and> contents g = contents q \<and> q_maxlen g = q_maxlen q \<and> q_count g = q_count q
    \<and> q_count g < int (length (q_buf g))"
  proof cases
    case 1
    then have "\<exists>k>0. (2::nat) = 2 ^ k" by (intro exI [of _ 1]) simp
    with 1 inv show ?thesis
      by (auto simp: g_def growIfFull_def minCapacity_def q_inv_def ring_def contents_def)
  next
    case 2
    then obtain k where k: "length (q_buf q) = 2 ^ k" using inv by (auto simp: q_inv_def ring_def)
    with 2 have "q_count q = 2 ^ k" by simp
    from resize_correct [OF inv \<open>q_buf q \<noteq> []\<close> _ this] 2 k this show ?thesis
      by (simp add: g_def growIfFull_def)
  next
    case 3
    then show ?thesis using inv by (simp add: g_def growIfFull_def)
  qed
  then show "q_inv g" "contents g = contents q" "q_maxlen g = q_maxlen q" "q_count g = q_count q"
    "q_count g < int (length (q_buf g))" by auto
qed

lemma Push_correct:
  assumes inv: "q_inv q" and room: "room q"
  shows "\<exists>q'. Push e q = Some q' \<and> q_inv q' \<and> contents q' = contents q @ [e]
    \<and> q_maxlen q' = q_maxlen q"
proof -
  define g where "g = growIfFull q"
  note G = growIfFull_correct [OF inv room, folded g_def]
  define h c where "h = nat (q_head g)" and "c = nat (q_count g)"
  have nonempty: "q_buf g \<noteq> []" using G(1,5) by (auto simp: q_inv_def)
  then have r: "ring (q_buf g) h (nat (q_tail g)) c" using G(1) by (simp add: q_inv_def h_def c_def)
  have c: "c < length (q_buf g)" "q_count g = int c" using G(1,5) unfolding q_inv_def c_def by linarith+
  have t: "q_tail g = int ((h + c) mod length (q_buf g))"
    using r G(1) by (auto simp: ring_def q_inv_def split: if_splits)
  define q' where "q' = g\<lparr>q_buf := (q_buf g)[nat (q_tail g) := e],
    q_tail := int (Suc (h + c) mod length (q_buf g)), q_count := int (Suc c)\<rparr>"
  have "ring (q_buf (g\<lparr>q_buf := (q_buf g)[nat (q_tail g) := e]\<rparr>)) h (nat (q_tail g)) c"
    using r by (simp add: ring_def)
  from ring_next [OF this, of "(h + c) mod length (q_buf g)"]
  have "Push e q = Some q'"
    using c t nonempty by (simp add: Push_def Let_def g_def [symmetric] q'_def mod_Suc_eq)
  moreover have "q_inv q'"
  proof -
    have "ring ((q_buf g)[nat (q_tail g) := e]) h (Suc (h + c) mod length (q_buf g)) (Suc c)"
      using r c by (auto simp: ring_def)
    then show ?thesis using G(1) nonempty by (simp add: q_inv_def q'_def h_def nat_add_distrib)
  qed
  moreover have "contents q' = contents g @ [e]"
    using r c t nonempty
    by (simp add: contents_def q'_def h_def [symmetric] rotate_update ring_def
        take_Suc_conv_app_nth nat_add_distrib)
  ultimately show ?thesis using G by (simp add: q'_def)
qed

lemma rotate_Suc_clear:
  assumes "h < length xs" "0 < c" "c \<le> length xs"
  shows "take (c - 1) (rotate (Suc h mod length xs) (xs[h := y])) = tl (take c (rotate h xs))"
proof -
  have "rotate (Suc h mod length xs) (xs[h := y]) = rotate1 (rotate h (xs[h := y]))"
    by (metis length_list_update rotate_Suc rotate_conv_mod)
  also have "rotate h (xs[h := y]) = (rotate h xs)[0 := y]"
    using rotate_update [OF assms(1), of 0 y] assms by (cases xs) simp_all
  finally show ?thesis
    using assms rotate_is_Nil_conv [of h xs] length_rotate [of h xs]
    by (cases "rotate h xs"; cases c) auto
qed

lemma shrinkIfExcess_correct:
  assumes inv: "q_inv q" and b: "q_buf q \<noteq> []"
  shows "q_inv (shrinkIfExcess q) \<and> contents (shrinkIfExcess q) = contents q
    \<and> q_maxlen (shrinkIfExcess q) = q_maxlen q"
proof (cases "int (length (q_buf q)) > minCapacity \<and> push_bit 2 (q_count q) = int (length (q_buf q))")
  case True
  then have len: "length (q_buf q) > 2" "4 * q_count q = int (length (q_buf q))"
    by (simp_all add: minCapacity_def push_bit_eq_mult mult.commute)
  obtain k where k: "length (q_buf q) = 2 ^ k" using inv b by (auto simp: q_inv_def ring_def)
  with len(1) obtain j where j: "k = Suc (Suc j)"
    by (metis One_nat_def less_irrefl not0_implies_Suc numeral_2_eq_2 one_less_numeral_iff
        power_0 power_one_right semiring_norm(76) less_asym)
  with k len(2) have "q_count q = 2 ^ j" by simp
  moreover have "0 < q_count q" using len by linarith
  ultimately show ?thesis
    using True resize_correct [OF inv b] by (simp add: shrinkIfExcess_def)
next
  case False
  then show ?thesis using inv by (auto simp: shrinkIfExcess_def)
qed

lemma Pop_correct:
  assumes inv: "q_inv q" and c: "contents q \<noteq> []"
  shows "\<exists>q'. Pop q = Some (hd (contents q), q') \<and> q_inv q' \<and> contents q' = tl (contents q)
    \<and> q_maxlen q' = q_maxlen q"
proof -
  define h n where "h = nat (q_head q)" and "n = nat (q_count q)"
  have n: "0 < n" "q_count q = int n" using c inv by (auto simp: contents_def n_def q_inv_def)
  then have b: "q_buf q \<noteq> []" using inv by (auto simp: q_inv_def)
  then have r: "ring (q_buf q) h (nat (q_tail q)) n" and h: "q_head q = int h"
    using inv by (simp_all add: q_inv_def h_def n_def)
  define q2 where "q2 = q\<lparr>q_buf := (q_buf q)[h := None],
    q_head := int (Suc h mod length (q_buf q)), q_count := int (n - 1)\<rparr>"
  have "ring (q_buf (q\<lparr>q_buf := (q_buf q)[h := None]\<rparr>)) h (nat (q_tail q)) n"
    using r by (simp add: ring_def)
  from ring_next [OF this, of h]
  have "Pop q = Some (q_buf q ! h, shrinkIfExcess q2)"
    using r n h b by (auto simp: Pop_def Let_def ring_def q2_def of_nat_diff)
  moreover have "hd (contents q) = q_buf q ! h"
    using r n b by (simp add: contents_def h_def [symmetric] n_def [symmetric] hd_rotate_conv_nth ring_def hd_take)
  moreover have "q_inv q2"
  proof -
    have "ring ((q_buf q)[h := None]) (Suc h mod length (q_buf q)) (nat (q_tail q)) (n - 1)"
      using ring_pop [OF r \<open>0 < n\<close>] .
    then show ?thesis using b inv by (simp add: q_inv_def q2_def)
  qed
  moreover have "contents q2 = tl (contents q)"
  proof -
    have "nat (q_count q2) = n - 1" using n by (simp add: q2_def)
    then show ?thesis using rotate_Suc_clear [of h "q_buf q" n None] r n
      by (simp add: contents_def q2_def h_def [symmetric] n_def [symmetric] ring_def)
  qed
  moreover have "q_buf q2 \<noteq> []" using b by (simp add: q2_def)
  ultimately show ?thesis using shrinkIfExcess_correct [of q2] by (auto simp: q2_def)
qed

lemma Pop_empty: "q_inv q \<Longrightarrow> contents q = [] \<Longrightarrow> Pop q = Some (None, q)"
  using length_contents [of q] by (simp add: Pop_def)

section \<open>The buffer follows its contents in size\<close>

definition compact :: "'a queue \<Rightarrow> bool" where
  "compact q \<longleftrightarrow> Size q \<le> 2 \<or> Size q < 4 * Len q"

definition q_ok :: "'a queue \<Rightarrow> bool" where
  "q_ok q \<longleftrightarrow> q_inv q \<and> compact q"

lemma q_count_resize [simp]: "q_count (resize q) = q_count q"
  by (simp add: resize_def Let_def)

lemma q_count_Push: "Push e q = Some q' \<Longrightarrow> q_count q' = q_count q + 1"
  by (auto simp: Push_def Let_def growIfFull_def split: if_splits)

lemma Push_compact:
  assumes "q_ok q" "room q" "Push e q = Some q'"
  shows "compact q'"
proof -
  have size: "Size q' = Size (growIfFull q)"
    using assms(3) by (auto simp: Push_def Let_def Size_def split: if_splits)
  have "q_inv q" and c: "compact q" using assms(1) by (simp_all add: q_ok_def)
  show ?thesis
  proof (cases "q_buf q \<noteq> [] \<and> q_count q = int (length (q_buf q)) \<and> q_count q < q_maxlen q")
    case True
    then obtain k where "length (q_buf q) = 2 ^ k"
      using \<open>q_inv q\<close> by (auto simp: q_inv_def ring_def)
    with True have "q_count q = 2 ^ k" by simp
    with True \<open>q_inv q\<close> have "Size (growIfFull q) = 2 * q_count q"
      by (simp add: growIfFull_def Size_def resize_correct(3))
    with size q_count_Push [OF assms(3)] \<open>q_inv q\<close> show ?thesis
      by (simp add: compact_def Len_def q_inv_def)
  next
    case False
    then have "Size (growIfFull q) = (if q_buf q = [] then 2 else Size q)"
      by (auto simp: growIfFull_def Size_def minCapacity_def)
    with size q_count_Push [OF assms(3)] c show ?thesis
      by (auto simp: compact_def Len_def split: if_splits)
  qed
qed

lemma shrink_compact:
  assumes inv: "q_inv q" "q_buf q \<noteq> []" and c: "Size q \<le> 2 \<or> Size q < 4 * (Len q + 1)"
  shows "compact (shrinkIfExcess q)"
proof -
  obtain k where k: "length (q_buf q) = 2 ^ k" using inv by (auto simp: q_inv_def ring_def)
  consider "k \<le> 1" | j where "k = Suc (Suc j)"
    by (metis One_nat_def Suc_le_mono le0 not0_implies_Suc)
  then show ?thesis
  proof cases
    case 1
    then have "length (q_buf q) \<le> 2" using k power_increasing [of k 1 "2::nat"] by simp
    then show ?thesis by (simp add: shrinkIfExcess_def minCapacity_def compact_def Size_def)
  next
    case (2 j)
    with k have len: "length (q_buf q) = 4 * 2 ^ j" by simp
    show ?thesis
    proof (cases "q_count q = 2 ^ j")
      case True
      moreover have "(1::int) < 2 * 2 ^ j" using one_le_power [of "2::int" j] by linarith
      ultimately show ?thesis using inv len
        by (simp add: shrinkIfExcess_def minCapacity_def push_bit_eq_mult compact_def Size_def Len_def
            resize_correct(3))
    next
      case False
      moreover have "(1::nat) \<le> 2 ^ j" by simp
      ultimately show ?thesis
        using len c by (auto simp: shrinkIfExcess_def push_bit_eq_mult compact_def Size_def Len_def)
    qed
  qed
qed

lemma Pop_compact:
  assumes "q_ok q" "Pop q = Some (x, q')"
  shows "compact q'"
proof (cases "q_count q \<le> 0")
  case True
  then show ?thesis using assms by (simp add: Pop_def q_ok_def)
next
  case False
  then obtain q2 where q2: "q' = shrinkIfExcess q2" "Size q2 = Size q" "Len q2 = Len q - 1"
    "q2 = q\<lparr>q_buf := (q_buf q)[nat (q_head q) := None],
      q_head := next_pos (q\<lparr>q_buf := (q_buf q)[nat (q_head q) := None]\<rparr>) (q_head q),
      q_count := q_count q - 1\<rparr>"
    using assms(2) by (auto simp: Pop_def Let_def Size_def Len_def split: if_splits)
  have inv: "q_inv q" using assms(1) by (simp add: q_ok_def)
  with False have b: "q_buf q \<noteq> []" by (auto simp: q_inv_def)
  with inv False have r: "ring (q_buf q) (nat (q_head q)) (nat (q_tail q)) (nat (q_count q))"
    by (simp add: q_inv_def)
  have "q_inv q2"
    using inv b False r ring_next [of "q\<lparr>q_buf := (q_buf q)[nat (q_head q) := None]\<rparr>" "nat (q_head q)"
        "nat (q_tail q)" "nat (q_count q)" "nat (q_head q)"] ring_pop [OF r]
    by (simp add: q2(4) q_inv_def ring_def nat_diff_distrib)
  moreover have "q_buf q2 \<noteq> []" using b q2(4) by simp
  moreover have "Size q2 \<le> 2 \<or> Size q2 < 4 * (Len q2 + 1)"
    using assms(1) q2 by (simp add: q_ok_def compact_def)
  ultimately show ?thesis using q2(1) shrink_compact by blast
qed

section \<open>First in, first out\<close>

text \<open>
  A client pushes and pops; \<open>run_fifo\<close> is what it is promised: a first-in-first-out list of at
  most \<open>cap\<close> elements, and \<open>nil\<close> from an empty one.
\<close>

datatype 'e qop = OpPush 'e | OpPop

fun run_fifo :: "int \<Rightarrow> 'e \<Rightarrow> 'e qop list \<Rightarrow> 'e list \<Rightarrow> ('e list \<times> 'e list) option" where
  "run_fifo cap nil [] xs = Some ([], xs)"
| "run_fifo cap nil (OpPush e # ops) xs =
     (if int (length xs) < cap then run_fifo cap nil ops (xs @ [e]) else None)"
| "run_fifo cap nil (OpPop # ops) xs =
     (case xs of
        [] \<Rightarrow> map_option (\<lambda>(outs, ys). (nil # outs, ys)) (run_fifo cap nil ops [])
      | x # xs' \<Rightarrow> map_option (\<lambda>(outs, ys). (x # outs, ys)) (run_fifo cap nil ops xs'))"

fun run_queue ::
  "('e \<Rightarrow> 'q \<Rightarrow> 'q option) \<Rightarrow> ('q \<Rightarrow> ('e \<times> 'q) option) \<Rightarrow> 'e qop list \<Rightarrow> 'q \<Rightarrow> ('e list \<times> 'q) option"
where
  "run_queue push pop [] q = Some ([], q)"
| "run_queue push pop (OpPush e # ops) q =
     (case push e q of None \<Rightarrow> None | Some q' \<Rightarrow> run_queue push pop ops q')"
| "run_queue push pop (OpPop # ops) q =
     (case pop q of None \<Rightarrow> None
      | Some (x, q') \<Rightarrow> map_option (\<lambda>(outs, q''). (x # outs, q'')) (run_queue push pop ops q'))"

locale fifo_buffer =
  fixes push :: "'e \<Rightarrow> 'q \<Rightarrow> 'q option"
    and pop :: "'q \<Rightarrow> ('e \<times> 'q) option"
    and nil :: "'e"
    and view :: "'q \<Rightarrow> 'e list"
    and inv :: "'q \<Rightarrow> bool"
    and cap :: "'q \<Rightarrow> int"
  assumes push_ok: "inv q \<Longrightarrow> int (length (view q)) < cap q \<Longrightarrow>
      \<exists>q'. push e q = Some q' \<and> inv q' \<and> view q' = view q @ [e] \<and> cap q' = cap q"
    and pop_ok: "inv q \<Longrightarrow> view q \<noteq> [] \<Longrightarrow>
      \<exists>q'. pop q = Some (hd (view q), q') \<and> inv q' \<and> view q' = tl (view q) \<and> cap q' = cap q"
    and pop_nil: "inv q \<Longrightarrow> view q = [] \<Longrightarrow> pop q = Some (nil, q)"
begin

lemma run_refines:
  "inv q \<Longrightarrow> run_fifo (cap q) nil ops (view q) = Some (outs, xs) \<Longrightarrow>
   \<exists>q'. run_queue push pop ops q = Some (outs, q') \<and> inv q' \<and> view q' = xs \<and> cap q' = cap q"
proof (induction ops arbitrary: q outs)
  case Nil
  then show ?case by simp
next
  case (Cons op ops)
  show ?case
  proof (cases op)
    case (OpPush e)
    with Cons.prems(2) have "int (length (view q)) < cap q" by (simp split: if_splits)
    with push_ok [OF Cons.prems(1)] obtain q1 where
      q1: "push e q = Some q1" "inv q1" "view q1 = view q @ [e]" "cap q1 = cap q" by blast
    with Cons.IH [of q1 outs] Cons.prems OpPush show ?thesis by (simp split: if_splits)
  next
    case OpPop
    obtain q1 x outs' where q1: "pop q = Some (x, q1)" "inv q1" "cap q1 = cap q"
      "run_fifo (cap q1) nil ops (view q1) = Some (outs', xs)" "outs = x # outs'"
      using pop_ok [OF Cons.prems(1)] pop_nil [OF Cons.prems(1)] Cons.prems OpPop
      by (cases "view q") fastforce+
    with Cons.IH [of q1 outs'] OpPop show ?thesis by auto
  qed
qed

end

lemma below_maxlen_room: "q_inv q \<Longrightarrow> int (length (contents q)) < q_maxlen q \<Longrightarrow> room q"
  by (simp add: length_contents room_def q_inv_def)

interpretation ring_fifo: fifo_buffer Push Pop None contents q_ok q_maxlen
proof
  fix q :: "'a queue" and e
  assume "q_ok q" "int (length (contents q)) < q_maxlen q"
  then have "q_inv q" "room q" by (auto simp: q_ok_def below_maxlen_room)
  with \<open>q_ok q\<close> Push_correct [of q e] Push_compact [of q e]
  show "\<exists>q'. Push e q = Some q' \<and> q_ok q' \<and> contents q' = contents q @ [e] \<and> q_maxlen q' = q_maxlen q"
    by (auto simp: q_ok_def)
next
  fix q :: "'a queue"
  assume "q_ok q" "contents q \<noteq> []"
  with Pop_correct [of q] Pop_compact [of q]
  show "\<exists>q'. Pop q = Some (hd (contents q), q') \<and> q_ok q' \<and> contents q' = tl (contents q)
      \<and> q_maxlen q' = q_maxlen q"
    by (fastforce simp: q_ok_def)
next
  fix q :: "'a queue"
  show "q_ok q \<Longrightarrow> contents q = [] \<Longrightarrow> Pop q = Some (None, q)"
    by (simp add: q_ok_def Pop_empty)
qed

lemma q_ok_New: "q_ok (NewQueue m)"
  using q_inv_New(1) [of m] by (auto simp: q_ok_def compact_def Size_def NewQueue_def)

section \<open>Properties\<close>

text \<open>
  C29. A queue created with \<open>NewQueue(n)\<close> and never asked to hold more than \<open>n\<close> elements is a
  first-in-first-out list: every run of pushes and pops that the list of capacity \<open>n\<close> allows
  runs on the ring buffer without a panic, pops the same values in the same order, and leaves
  the same elements; \<open>Len\<close> counts them and the buffer holds fewer than four times as many slots
  (or the two slots it never shrinks below).
\<close>

theorem queue_is_bounded_fifo:
  fixes ops :: "'a option qop list"
  assumes "run_fifo n None ops [] = Some (outs, xs)"
  shows "\<exists>q. run_queue Push Pop ops (NewQueue [n]) = Some (outs, q) \<and> contents q = xs
    \<and> Len q = int (length xs) \<and> (Size q \<le> 2 \<or> Size q < 4 * Len q)"
proof -
  have "q_maxlen (NewQueue [n] :: 'a queue) = n" by (simp add: NewQueue_def)
  with assms have "run_fifo (q_maxlen (NewQueue [n] :: 'a queue)) None ops (contents (NewQueue [n])) = Some (outs, xs)"
    by (simp add: q_inv_New)
  from ring_fifo.run_refines [OF q_ok_New this] show ?thesis
    by (auto simp: q_ok_def Len_contents compact_def)
qed

theorem queue_is_bounded_fifo_witness:
  "run_fifo 3 None [OpPush (Some 1), OpPush (Some 2), OpPush (Some 3), OpPop, OpPush (Some 4), OpPop] []
     = Some ([Some 1, Some (2::int)], [Some 3, Some 4]) \<and>
   (\<exists>q. run_queue Push Pop [OpPush (Some 1), OpPush (Some 2), OpPush (Some 3), OpPop, OpPush (Some 4), OpPop]
          (NewQueue [3]) = Some ([Some 1, Some (2::int)], q) \<and> contents q = [Some 3, Some 4])"
  using queue_is_bounded_fifo [of 3 "[OpPush (Some 1), OpPush (Some 2), OpPush (Some 3), OpPop,
      OpPush (Some 4), OpPop]" "[Some 1, Some (2::int)]" "[Some 3, Some 4]"]
  by auto

text \<open>
  \<open>NewQueue()\<close> is documented as unbounded, but its \<open>maxlen\<close> of 0 never lets the buffer grow
  past two slots: the third push overwrites the oldest element, so the first pop after pushing
  three elements returns the third, and the queue claims a length that its buffer cannot hold.
\<close>

theorem unbounded_queue_overwrites:
  "\<exists>q. run_queue Push Pop [OpPush x, OpPush y, OpPush z] (NewQueue []) = Some ([], q)
     \<and> Len q = 3 \<and> Size q = 2 \<and> (\<exists>q'. Pop q = Some (z, q'))"
  by (simp add: Push_def Pop_def NewQueue_def growIfFull_def minCapacity_def next_pos_def Let_def
      Len_def Size_def numeral_2_eq_2)

end
