(* ===== verification/Json.thy ===== *)
theory Json
  imports Prelude "HOL-Library.Monad_Syntax"
begin

text \<open>
  The documents that \<^verbatim>\<open>encoding/json\<close> writes and reads. A text is represented by the tree it
  denotes; \<open>JTime\<close> is the text of an instant. \<open>obj\<close> is a struct whose \<open>omitempty\<close> fields may be
  missing; a \<open>dec_\<close> function reads one field the way \<open>json.Unmarshal\<close> fills a Go variable: a
  missing field and \<open>null\<close> leave the zero value, a value of another type or out of the range of
  the Go type is an error. A byte slice travels in standard base64.
\<close>

section \<open>Base64\<close>

type_synonym bytes = "8 word list"

text \<open>\<open>[]byte(s)\<close>.\<close>

definition bytes_of :: "string \<Rightarrow> bytes" where
  "bytes_of s = map of_char s"

definition b64_char :: "nat \<Rightarrow> char" where
  "b64_char n =
     (if n < 26 then char_of (65 + n) else if n < 52 then char_of (97 + (n - 26))
      else if n < 62 then char_of (48 + (n - 52)) else if n = 62 then CHR ''+'' else CHR ''/'')"

definition b64_val :: "char \<Rightarrow> nat option" where
  "b64_val ch =
     (let c = (of_char ch :: nat) in
      if 65 \<le> c \<and> c \<le> 90 then Some (c - 65)
      else if 97 \<le> c \<and> c \<le> 122 then Some (c - 97 + 26)
      else if 48 \<le> c \<and> c \<le> 57 then Some (c - 48 + 52)
      else if ch = CHR ''+'' then Some 62 else if ch = CHR ''/'' then Some 63 else None)"

fun b64_encode :: "bytes \<Rightarrow> string" where
  "b64_encode [] = []"
| "b64_encode [x] = (let a = unat x in
     [b64_char (a div 4), b64_char (a mod 4 * 16), CHR ''='', CHR ''=''])"
| "b64_encode [x, y] = (let a = unat x; b = unat y in
     [b64_char (a div 4), b64_char (a mod 4 * 16 + b div 16), b64_char (b mod 16 * 4), CHR ''=''])"
| "b64_encode (x # y # z # r) = (let a = unat x; b = unat y; c = unat z in
     b64_char (a div 4) # b64_char (a mod 4 * 16 + b div 16) # b64_char (b mod 16 * 4 + c div 64)
     # b64_char (c mod 64) # b64_encode r)"

fun b64_decode :: "string \<Rightarrow> bytes option" where
  "b64_decode [] = Some []"
| "b64_decode (p # q # r # s # t) =
     (if t = [] \<and> s = CHR ''='' \<and> r = CHR ''='' then
        do { i \<leftarrow> b64_val p; j \<leftarrow> b64_val q; Some [of_nat (i * 4 + j div 16)] }
      else if t = [] \<and> s = CHR ''='' then
        do { i \<leftarrow> b64_val p; j \<leftarrow> b64_val q; k \<leftarrow> b64_val r;
             Some [of_nat (i * 4 + j div 16), of_nat (j mod 16 * 16 + k div 4)] }
      else do { i \<leftarrow> b64_val p; j \<leftarrow> b64_val q; k \<leftarrow> b64_val r; l \<leftarrow> b64_val s; ys \<leftarrow> b64_decode t;
             Some (of_nat (i * 4 + j div 16) # of_nat (j mod 16 * 16 + k div 4)
                   # of_nat (k mod 4 * 64 + l) # ys) })"
| "b64_decode _ = None"

lemma b64_val_char: "n < 64 \<Longrightarrow> b64_val (b64_char n) = Some n"
  by (auto simp: b64_val_def b64_char_def Let_def)

lemma b64_char_not_pad: "b64_char n \<noteq> CHR ''=''" if "n < 64"
proof
  assume "b64_char n = CHR ''=''"
  then have "b64_val (CHR ''='') = Some n" using b64_val_char [OF that] by simp
  then show False by (simp add: b64_val_def)
qed

lemma split_4:
  fixes a b :: nat
  assumes "b < 256"
  shows "a mod 4 * 16 + b div 16 < 64" "a div 4 * 4 + (a mod 4 * 16 + b div 16) div 16 = a"
    "(a mod 4 * 16 + b div 16) mod 16 = b div 16"
proof -
  have b: "b div 16 < 16" using assms by linarith
  then show "a mod 4 * 16 + b div 16 < 64" by linarith
  from b show "a div 4 * 4 + (a mod 4 * 16 + b div 16) div 16 = a" by simp
  from b show "(a mod 4 * 16 + b div 16) mod 16 = b div 16" by simp
qed

lemma split_16:
  fixes b c :: nat
  assumes "c < 256"
  shows "b mod 16 * 4 + c div 64 < 64" "(b mod 16 * 4 + c div 64) div 4 = b mod 16"
    "(b mod 16 * 4 + c div 64) mod 4 = c div 64"
proof -
  have c: "c div 64 < 4" using assms by linarith
  then show "b mod 16 * 4 + c div 64 < 64" by linarith
  from c show "(b mod 16 * 4 + c div 64) div 4 = b mod 16" by simp
  from c show "(b mod 16 * 4 + c div 64) mod 4 = c div 64" by simp
qed

lemma split_pad:
  "(a mod 4 * 16) div 16 = a mod 4" "a mod 4 * 16 < 64" "(b mod 16 * 4) div 4 = b mod 16"
  "b mod 16 * 4 < 64" "a div 4 * 4 + a mod 4 = a" "b div 16 * 16 + b mod 16 = b"
  "c div 64 * 64 + c mod 64 = c" for a b c :: nat
  by (simp_all add: mult_less_cancel2 [of _ 16 4, simplified])

lemma unat8_bounds: "unat w < 256" "unat w div 4 < 64" "unat w mod 64 < 64" for w :: "8 word"
proof -
  show "unat w < 256" using unsigned_less [of w] by simp
  then show "unat w div 4 < 64" by linarith
  show "unat w mod 64 < 64" by simp
qed

lemma word_div_mod:
  "of_nat (unat w div 4) * 4 + of_nat (unat w mod 4) = w"
  "of_nat (unat w div 16) * 16 + of_nat (unat w mod 16) = w"
  "of_nat (unat w div 64) * 64 + of_nat (unat w mod 64) = w" for w :: "8 word"
proof -
  have "of_nat (unat w div n * n + unat w mod n) = w" for n by simp
  then have *: "of_nat (unat w div n) * of_nat n + of_nat (unat w mod n) = w" for n
    by (simp only: of_nat_add of_nat_mult)
  from * [of 4] * [of 16] * [of 64]
  show "of_nat (unat w div 4) * 4 + of_nat (unat w mod 4) = w"
    "of_nat (unat w div 16) * 16 + of_nat (unat w mod 16) = w"
    "of_nat (unat w div 64) * 64 + of_nat (unat w mod 64) = w" by simp_all
qed

lemma b64_roundtrip: "b64_decode (b64_encode bs) = Some bs"
proof (induction bs rule: b64_encode.induct)
  case (4 x y z r)
  show ?case
    using 4 unat8_bounds [of x] unat8_bounds [of y] unat8_bounds [of z]
    by (simp add: Let_def b64_val_char b64_char_not_pad split_4 split_16 split_pad word_div_mod)
next
  case (3 x y)
  show ?case
    using unat8_bounds [of x] unat8_bounds [of y]
    by (simp add: Let_def b64_val_char b64_char_not_pad split_4 split_pad word_div_mod)
next
  case (2 x)
  show ?case
    using unat8_bounds [of x] by (simp add: Let_def b64_val_char split_pad word_div_mod)
qed simp

section \<open>Documents\<close>

datatype json =
    JNull
  | JBool bool
  | JNum int
  | JStr string
  | JTime int
  | JArr "json list"
  | JObj "(string \<times> json) list"

definition present :: "(string \<times> json option) list \<Rightarrow> (string \<times> json) list" where
  "present fs = concat (map (\<lambda>(k, v). case v of None \<Rightarrow> [] | Some j \<Rightarrow> [(k, j)]) fs)"

definition obj :: "(string \<times> json option) list \<Rightarrow> json" where
  "obj fs = JObj (present fs)"

definition omitempty :: "bool \<Rightarrow> json \<Rightarrow> json option" where
  "omitempty z j = (if z then None else Some j)"

text \<open>The last of several fields of one name wins.\<close>

definition jfield :: "string \<Rightarrow> (string \<times> json) list \<Rightarrow> json option" where
  "jfield k kvs = map_of (rev kvs) k"

definition dec_with :: "'a \<Rightarrow> (json \<Rightarrow> 'a option) \<Rightarrow> json option \<Rightarrow> 'a option" where
  "dec_with z f j = (case j of None \<Rightarrow> Some z | Some v \<Rightarrow> if v = JNull then Some z else f v)"

definition dec_str :: "json option \<Rightarrow> string option" where
  "dec_str = dec_with '''' (\<lambda>j. case j of JStr s \<Rightarrow> Some s | _ \<Rightarrow> None)"

definition dec_bool :: "json option \<Rightarrow> bool option" where
  "dec_bool = dec_with False (\<lambda>j. case j of JBool b \<Rightarrow> Some b | _ \<Rightarrow> None)"

definition dec_int32 :: "json option \<Rightarrow> int option" where
  "dec_int32 = dec_with 0 (\<lambda>j. case j of JNum n \<Rightarrow> if in32 n then Some n else None | _ \<Rightarrow> None)"

definition dec_int64 :: "json option \<Rightarrow> int option" where
  "dec_int64 = dec_with 0 (\<lambda>j. case j of JNum n \<Rightarrow> if in64 n then Some n else None | _ \<Rightarrow> None)"

text \<open>The zero \<open>time.Time\<close> is 0 here.\<close>

definition dec_time :: "json option \<Rightarrow> int option" where
  "dec_time = dec_with 0 (\<lambda>j. case j of JTime t \<Rightarrow> Some t | _ \<Rightarrow> None)"

definition dec_time_ptr :: "json option \<Rightarrow> int option option" where
  "dec_time_ptr = dec_with None (\<lambda>j. case j of JTime t \<Rightarrow> Some (Some t) | _ \<Rightarrow> None)"

definition dec_bytes :: "json option \<Rightarrow> bytes option" where
  "dec_bytes = dec_with [] (\<lambda>j. case j of JStr s \<Rightarrow> b64_decode s | _ \<Rightarrow> None)"

text \<open>A map of strings, a map of anything, a slice.\<close>

fun dec_all :: "('a \<Rightarrow> 'b option) \<Rightarrow> 'a list \<Rightarrow> 'b list option" where
  "dec_all f [] = Some []"
| "dec_all f (x # xs) = do { y \<leftarrow> f x; ys \<leftarrow> dec_all f xs; Some (y # ys) }"

definition dec_map :: "(json option \<Rightarrow> 'a option) \<Rightarrow> json option \<Rightarrow> 'a gomap option" where
  "dec_map f = dec_with []
     (\<lambda>j. case j of
        JObj kvs \<Rightarrow> dec_all (\<lambda>(k, v). map_option (Pair k) (f (Some v))) kvs | _ \<Rightarrow> None)"

definition dec_list :: "(json option \<Rightarrow> 'a option) \<Rightarrow> json option \<Rightarrow> 'a list option" where
  "dec_list f = dec_with []
     (\<lambda>j. case j of JArr vs \<Rightarrow> dec_all (\<lambda>v. f (Some v)) vs | _ \<Rightarrow> None)"

definition dec_any :: "json option \<Rightarrow> json option" where
  "dec_any j = Some (case j of None \<Rightarrow> JNull | Some v \<Rightarrow> v)"

definition enc_map :: "('a \<Rightarrow> json) \<Rightarrow> 'a gomap \<Rightarrow> json" where
  "enc_map f m = JObj (map (\<lambda>(k, v). (k, f v)) m)"

definition enc_list :: "('a \<Rightarrow> json) \<Rightarrow> 'a list \<Rightarrow> json" where
  "enc_list f xs = JArr (map f xs)"

definition enc_bytes :: "bytes \<Rightarrow> json" where
  "enc_bytes bs = JStr (b64_encode bs)"

definition enc_time_ptr :: "int option \<Rightarrow> json option" where
  "enc_time_ptr t = map_option JTime t"

section \<open>Reading back what was written\<close>

named_theorems json_simps \<open>a decoder applied to the field its encoder wrote\<close>

lemma dec_str_enc [json_simps]: "dec_str (Some (JStr s)) = Some s"
  "dec_str (omitempty (s = '''') (JStr s)) = Some s"
  by (auto simp: dec_str_def dec_with_def omitempty_def)

lemma dec_bool_enc [json_simps]: "dec_bool (Some (JBool b)) = Some b"
  "dec_bool (omitempty (\<not> b) (JBool b)) = Some b"
  by (auto simp: dec_bool_def dec_with_def omitempty_def)

lemma dec_int_enc [json_simps]:
  "in32 n \<Longrightarrow> dec_int32 (Some (JNum n)) = Some n"
  "in32 n \<Longrightarrow> dec_int32 (omitempty (n = 0) (JNum n)) = Some n"
  "in64 n \<Longrightarrow> dec_int64 (Some (JNum n)) = Some n"
  "in64 n \<Longrightarrow> dec_int64 (omitempty (n = 0) (JNum n)) = Some n"
  by (auto simp: dec_int32_def dec_int64_def dec_with_def omitempty_def)

lemma dec_int_cases:
  "dec_int32 (Some (JNum n)) = (if in32 n then Some n else None)"
  "dec_int32 (omitempty (n = 0) (JNum n)) = (if in32 n then Some n else None)"
  "dec_int64 (Some (JNum n)) = (if in64 n then Some n else None)"
  "dec_int64 (omitempty (n = 0) (JNum n)) = (if in64 n then Some n else None)"
  by (auto simp: dec_int32_def dec_int64_def dec_with_def omitempty_def)

lemma dec_time_enc [json_simps]: "dec_time (Some (JTime t)) = Some t"
  "dec_time_ptr (enc_time_ptr p) = Some p"
  by (auto simp: dec_time_def dec_time_ptr_def enc_time_ptr_def dec_with_def split: option.splits)

lemma dec_bytes_enc [json_simps]: "dec_bytes (Some (enc_bytes bs)) = Some bs"
  "dec_bytes (omitempty (bs = []) (enc_bytes bs)) = Some bs"
  by (auto simp: dec_bytes_def dec_with_def enc_bytes_def omitempty_def b64_roundtrip)

lemma dec_all_map: "(\<And>x. x \<in> set xs \<Longrightarrow> f (g x) = Some x) \<Longrightarrow> dec_all f (map g xs) = Some xs"
  by (induction xs) auto

lemma dec_map_enc:
  "(\<And>k v. (k, v) \<in> set m \<Longrightarrow> f (Some (g v)) = Some v) \<Longrightarrow> dec_map f (Some (enc_map g m)) = Some m"
  by (auto simp: dec_map_def dec_with_def enc_map_def intro!: dec_all_map)

lemma dec_list_enc:
  "(\<And>x. x \<in> set xs \<Longrightarrow> f (Some (g x)) = Some x) \<Longrightarrow> dec_list f (Some (enc_list g xs)) = Some xs"
  by (auto simp: dec_list_def dec_with_def enc_list_def intro!: dec_all_map)

lemma dec_str_map [json_simps]:
  "dec_map dec_str (Some (enc_map JStr m)) = Some m"
  "dec_map dec_str (omitempty (m = []) (enc_map JStr m)) = Some m"
  using dec_map_enc [of m dec_str JStr]
  by (simp_all add: dec_str_enc omitempty_def) (simp add: dec_map_def dec_with_def)

lemma dec_any_map [json_simps]: "dec_map dec_any (Some (enc_map id m)) = Some m"
  by (rule dec_map_enc) (simp add: dec_any_def)

lemma dec_int32_list [json_simps]:
  "\<forall>n \<in> set ns. in32 n \<Longrightarrow> dec_list dec_int32 (Some (enc_list JNum ns)) = Some ns"
  by (rule dec_list_enc) (simp add: dec_int_enc)

text \<open>The field that \<open>obj\<close> wrote under a name, when the names are distinct.\<close>

lemma present_simps [simp]: "present [] = []" "present ((k, None) # fs) = present fs"
  "present ((k, Some j) # fs) = (k, j) # present fs"
  by (simp_all add: present_def)

lemma set_present: "fst ` set (present fs) \<subseteq> fst ` set fs"
  by (force simp: present_def split: option.splits)

lemma distinct_present: "distinct (map fst fs) \<Longrightarrow> distinct (map fst (present fs))"
proof (induction fs)
  case (Cons f fs)
  then show ?case using set_present [of fs] by (cases f; cases "snd f") auto
qed simp

lemma map_of_present: "distinct (map fst fs) \<Longrightarrow> map_of (present fs) k = Option.bind (map_of fs k) id"
proof (induction fs)
  case (Cons f fs)
  then have "map_of fs (fst f) = None" by (simp add: map_of_eq_None_iff)
  with Cons show ?case by (cases f; cases "snd f") auto
qed simp

lemma map_of_rev_distinct: "distinct (map fst xs) \<Longrightarrow> map_of (rev xs) = map_of xs"
proof (induction xs)
  case (Cons x xs)
  then have "map_of xs (fst x) = None" and IH: "map_of (rev xs) = map_of xs"
    by (simp_all add: map_of_eq_None_iff)
  then show ?case by (cases x) (auto simp: map_add_def fun_eq_iff split: option.splits)
qed simp

lemma jfield_present: "distinct (map fst fs) \<Longrightarrow> jfield k (present fs) = Option.bind (map_of fs k) id"
  by (simp add: jfield_def map_of_rev_distinct distinct_present map_of_present)

end
