(* ===== verification/Core.thy ===== *)
theory Core
  imports Json
begin

text \<open>
  The entities under \<^verbatim>\<open>internal/core\<close>: messages, topics, subscriptions, consumer groups, their
  methods and the JSON documents in which they are stored. Go's open integer types
  (\<open>type Status int\<close>) are integers with the constants of the source; an absent map and an empty
  one are the same value. A method that reads the clock takes and returns the world. The mutexes
  are not modelled: every method is one step.
\<close>

section \<open>internal/core/message/message.go\<close>

definition PriorityLow :: int where "PriorityLow = 0"
definition PriorityNormal :: int where "PriorityNormal = 1"
definition PriorityHigh :: int where "PriorityHigh = 2"
definition PriorityCritical :: int where "PriorityCritical = 3"

definition DeliveryAtMostOnce :: int where "DeliveryAtMostOnce = 0"
definition DeliveryAtLeastOnce :: int where "DeliveryAtLeastOnce = 1"
definition DeliveryExactlyOnce :: int where "DeliveryExactlyOnce = 2"

definition StatusPending :: int where "StatusPending = 0"
definition StatusDelivered :: int where "StatusDelivered = 1"
definition StatusAcknowledged :: int where "StatusAcknowledged = 2"
definition StatusFailed :: int where "StatusFailed = 3"
definition StatusExpired :: int where "StatusExpired = 4"
definition StatusDLQ :: int where "StatusDLQ = 5"

lemmas priority_defs = PriorityLow_def PriorityNormal_def PriorityHigh_def PriorityCritical_def
lemmas delivery_defs = DeliveryAtMostOnce_def DeliveryAtLeastOnce_def DeliveryExactlyOnce_def
lemmas status_defs = StatusPending_def StatusDelivered_def StatusAcknowledged_def StatusFailed_def
  StatusExpired_def StatusDLQ_def

record message =
  m_ID :: string
  m_Topic :: string
  m_Partition :: int
  m_Offset :: int
  m_Key :: bytes
  m_Payload :: bytes
  m_Headers :: "string gomap"
  m_Priority :: int
  m_DeliveryMode :: int
  m_Status :: int
  m_RetryCount :: int
  m_MaxRetries :: int
  m_ConsumerGroup :: string
  m_ConsumerID :: string
  m_CreatedAt :: int
  m_ExpiresAt :: "int option"
  m_DeliveredAt :: "int option"
  m_AckedAt :: "int option"
  m_Compressed :: bool
  m_CompressionType :: string

definition zero_message :: message where
  "zero_message = \<lparr>m_ID = '''', m_Topic = '''', m_Partition = 0, m_Offset = 0, m_Key = [],
     m_Payload = [], m_Headers = [], m_Priority = 0, m_DeliveryMode = 0, m_Status = 0,
     m_RetryCount = 0, m_MaxRetries = 0, m_ConsumerGroup = '''', m_ConsumerID = '''', m_CreatedAt = 0,
     m_ExpiresAt = None, m_DeliveredAt = None, m_AckedAt = None, m_Compressed = False,
     m_CompressionType = ''''\<rparr>"

definition IsExpired :: "message \<Rightarrow> 'd world \<Rightarrow> bool \<times> 'd world" where
  "IsExpired m w = (case m_ExpiresAt m of
     None \<Rightarrow> (False, w)
   | Some t \<Rightarrow> (let (now, w) = time_now w in (now > t, w)))"

definition message_ShouldRetry :: "message \<Rightarrow> bool" where
  "message_ShouldRetry m \<longleftrightarrow> m_Status m = StatusFailed \<and> m_RetryCount m < m_MaxRetries m"

definition message_fields :: "message \<Rightarrow> (string \<times> json option) list" where
  "message_fields m =
    [(''id'', Some (JStr (m_ID m))),
     (''topic'', Some (JStr (m_Topic m))),
     (''partition'', omitempty (m_Partition m = 0) (JNum (m_Partition m))),
     (''offset'', omitempty (m_Offset m = 0) (JNum (m_Offset m))),
     (''key'', omitempty (m_Key m = []) (enc_bytes (m_Key m))),
     (''payload'', Some (enc_bytes (m_Payload m))),
     (''headers'', omitempty (m_Headers m = []) (enc_map JStr (m_Headers m))),
     (''priority'', Some (JNum (m_Priority m))),
     (''delivery_mode'', Some (JNum (m_DeliveryMode m))),
     (''status'', Some (JNum (m_Status m))),
     (''retry_count'', Some (JNum (m_RetryCount m))),
     (''max_retries'', Some (JNum (m_MaxRetries m))),
     (''consumer_group'', omitempty (m_ConsumerGroup m = '''') (JStr (m_ConsumerGroup m))),
     (''consumer_id'', omitempty (m_ConsumerID m = '''') (JStr (m_ConsumerID m))),
     (''created_at'', Some (JTime (m_CreatedAt m))),
     (''expires_at'', enc_time_ptr (m_ExpiresAt m)),
     (''delivered_at'', enc_time_ptr (m_DeliveredAt m)),
     (''acked_at'', enc_time_ptr (m_AckedAt m)),
     (''compressed'', omitempty (\<not> m_Compressed m) (JBool (m_Compressed m))),
     (''compression_type'', omitempty (m_CompressionType m = '''') (JStr (m_CompressionType m)))]"

definition message_ToJSON :: "message \<Rightarrow> json" where
  "message_ToJSON m = obj (message_fields m)"

fun message_of_json :: "json \<Rightarrow> message option" where
  "message_of_json (JObj kvs) = do {
     i \<leftarrow> dec_str (jfield ''id'' kvs);
     t \<leftarrow> dec_str (jfield ''topic'' kvs);
     p \<leftarrow> dec_int32 (jfield ''partition'' kvs);
     off \<leftarrow> dec_int64 (jfield ''offset'' kvs);
     k \<leftarrow> dec_bytes (jfield ''key'' kvs);
     pl \<leftarrow> dec_bytes (jfield ''payload'' kvs);
     hs \<leftarrow> dec_map dec_str (jfield ''headers'' kvs);
     pr \<leftarrow> dec_int64 (jfield ''priority'' kvs);
     dm \<leftarrow> dec_int64 (jfield ''delivery_mode'' kvs);
     st \<leftarrow> dec_int64 (jfield ''status'' kvs);
     rc \<leftarrow> dec_int64 (jfield ''retry_count'' kvs);
     mr \<leftarrow> dec_int64 (jfield ''max_retries'' kvs);
     cg \<leftarrow> dec_str (jfield ''consumer_group'' kvs);
     ci \<leftarrow> dec_str (jfield ''consumer_id'' kvs);
     ca \<leftarrow> dec_time (jfield ''created_at'' kvs);
     ea \<leftarrow> dec_time_ptr (jfield ''expires_at'' kvs);
     da \<leftarrow> dec_time_ptr (jfield ''delivered_at'' kvs);
     aa \<leftarrow> dec_time_ptr (jfield ''acked_at'' kvs);
     co \<leftarrow> dec_bool (jfield ''compressed'' kvs);
     ct \<leftarrow> dec_str (jfield ''compression_type'' kvs);
     Some \<lparr>m_ID = i, m_Topic = t, m_Partition = p, m_Offset = off, m_Key = k, m_Payload = pl,
       m_Headers = hs, m_Priority = pr, m_DeliveryMode = dm, m_Status = st, m_RetryCount = rc,
       m_MaxRetries = mr, m_ConsumerGroup = cg, m_ConsumerID = ci, m_CreatedAt = ca,
       m_ExpiresAt = ea, m_DeliveredAt = da, m_AckedAt = aa, m_Compressed = co,
       m_CompressionType = ct\<rparr> }"
| "message_of_json JNull = Some zero_message"
| "message_of_json _ = None"

record acknowledgment =
  a_MessageID :: string
  a_ConsumerID :: string
  a_ConsumerGroup :: string
  a_Success :: bool
  a_Reason :: string
  a_Timestamp :: int

definition acknowledgment_json :: "acknowledgment \<Rightarrow> json" where
  "acknowledgment_json a = obj
    [(''message_id'', Some (JStr (a_MessageID a))),
     (''consumer_id'', Some (JStr (a_ConsumerID a))),
     (''consumer_group'', omitempty (a_ConsumerGroup a = '''') (JStr (a_ConsumerGroup a))),
     (''success'', Some (JBool (a_Success a))),
     (''reason'', omitempty (a_Reason a = '''') (JStr (a_Reason a))),
     (''timestamp'', Some (JTime (a_Timestamp a)))]"

text \<open>The integer fields are values of their Go types.\<close>

definition message_wf :: "message \<Rightarrow> bool" where
  "message_wf m \<longleftrightarrow> in32 (m_Partition m) \<and> in64 (m_Offset m) \<and> in64 (m_Priority m)
     \<and> in64 (m_DeliveryMode m) \<and> in64 (m_Status m) \<and> in64 (m_RetryCount m) \<and> in64 (m_MaxRetries m)"

lemma distinct_message_fields: "distinct (map fst (message_fields m))"
  by (simp add: message_fields_def)

lemma message_json_cases:
  "message_of_json (message_ToJSON m) = (if message_wf m then Some m else None)"
proof -
  note [simp] = dec_int_cases
  show ?thesis
    by (simp add: message_ToJSON_def obj_def jfield_present [OF distinct_message_fields])
      (simp add: message_fields_def json_simps message_wf_def)
qed

lemma message_roundtrip: "message_wf m \<Longrightarrow> message_of_json (message_ToJSON m) = Some m"
  by (simp add: message_json_cases)

section \<open>internal/core/topic/topic.go\<close>

record topic =
  t_Name :: string
  t_Partitions :: int
  t_Replication :: int
  t_RetentionTime :: int
  t_MaxSize :: int
  t_Config :: "json gomap"
  t_CreatedAt :: int
  t_UpdatedAt :: int
  t_MessageCount :: int
  t_BytesIn :: int
  t_BytesOut :: int

definition NewTopic :: "string \<Rightarrow> int \<Rightarrow> 'd world \<Rightarrow> topic \<times> 'd world" where
  "NewTopic name partitions w =
     (let (t1, w) = time_now w; (t2, w) = time_now w
      in (\<lparr>t_Name = name, t_Partitions = partitions, t_Replication = 1, t_RetentionTime = 24 * Hour,
          t_MaxSize = push_bit 30 1, t_Config = [], t_CreatedAt = t1, t_UpdatedAt = t2,
          t_MessageCount = 0, t_BytesIn = 0, t_BytesOut = 0\<rparr>, w))"

definition IncrementMessages :: "int \<Rightarrow> topic \<Rightarrow> 'd world \<Rightarrow> topic \<times> 'd world" where
  "IncrementMessages count t w =
     (let (now, w) = time_now w
      in (t\<lparr>t_MessageCount := wrap64 (t_MessageCount t + count), t_UpdatedAt := now\<rparr>, w))"

definition AddBytesIn :: "int \<Rightarrow> topic \<Rightarrow> topic" where
  "AddBytesIn bytes t = t\<lparr>t_BytesIn := wrap64 (t_BytesIn t + bytes)\<rparr>"

definition AddBytesOut :: "int \<Rightarrow> topic \<Rightarrow> topic" where
  "AddBytesOut bytes t = t\<lparr>t_BytesOut := wrap64 (t_BytesOut t + bytes)\<rparr>"

definition GetStats :: "topic \<Rightarrow> int \<times> int \<times> int" where
  "GetStats t = (t_MessageCount t, t_BytesIn t, t_BytesOut t)"

definition topic_fields :: "topic \<Rightarrow> (string \<times> json option) list" where
  "topic_fields t =
    [(''name'', Some (JStr (t_Name t))),
     (''partitions'', Some (JNum (t_Partitions t))),
     (''replication'', Some (JNum (t_Replication t))),
     (''retention_time'', Some (JNum (t_RetentionTime t))),
     (''max_size'', Some (JNum (t_MaxSize t))),
     (''config'', Some (enc_map id (t_Config t))),
     (''created_at'', Some (JTime (t_CreatedAt t))),
     (''updated_at'', Some (JTime (t_UpdatedAt t))),
     (''message_count'', Some (JNum (t_MessageCount t))),
     (''bytes_in'', Some (JNum (t_BytesIn t))),
     (''bytes_out'', Some (JNum (t_BytesOut t)))]"

definition topic_json :: "topic \<Rightarrow> json" where
  "topic_json t = obj (topic_fields t)"

fun topic_of_json :: "json \<Rightarrow> topic option" where
  "topic_of_json (JObj kvs) = do {
     n \<leftarrow> dec_str (jfield ''name'' kvs);
     p \<leftarrow> dec_int32 (jfield ''partitions'' kvs);
     r \<leftarrow> dec_int32 (jfield ''replication'' kvs);
     rt \<leftarrow> dec_int64 (jfield ''retention_time'' kvs);
     ms \<leftarrow> dec_int64 (jfield ''max_size'' kvs);
     cf \<leftarrow> dec_map dec_any (jfield ''config'' kvs);
     ca \<leftarrow> dec_time (jfield ''created_at'' kvs);
     ua \<leftarrow> dec_time (jfield ''updated_at'' kvs);
     mc \<leftarrow> dec_int64 (jfield ''message_count'' kvs);
     bi \<leftarrow> dec_int64 (jfield ''bytes_in'' kvs);
     bo \<leftarrow> dec_int64 (jfield ''bytes_out'' kvs);
     Some \<lparr>t_Name = n, t_Partitions = p, t_Replication = r, t_RetentionTime = rt, t_MaxSize = ms,
       t_Config = cf, t_CreatedAt = ca, t_UpdatedAt = ua, t_MessageCount = mc, t_BytesIn = bi,
       t_BytesOut = bo\<rparr> }"
| "topic_of_json JNull = Some \<lparr>t_Name = '''', t_Partitions = 0, t_Replication = 0,
     t_RetentionTime = 0, t_MaxSize = 0, t_Config = [], t_CreatedAt = 0, t_UpdatedAt = 0,
     t_MessageCount = 0, t_BytesIn = 0, t_BytesOut = 0\<rparr>"
| "topic_of_json _ = None"

definition topic_wf :: "topic \<Rightarrow> bool" where
  "topic_wf t \<longleftrightarrow> in32 (t_Partitions t) \<and> in32 (t_Replication t) \<and> in64 (t_RetentionTime t)
     \<and> in64 (t_MaxSize t) \<and> in64 (t_MessageCount t) \<and> in64 (t_BytesIn t) \<and> in64 (t_BytesOut t)"

lemma distinct_topic_fields: "distinct (map fst (topic_fields t))"
  by (simp add: topic_fields_def)

lemma topic_json_cases: "topic_of_json (topic_json t) = (if topic_wf t then Some t else None)"
proof -
  note [simp] = dec_int_cases
  show ?thesis
    by (simp add: topic_json_def obj_def jfield_present [OF distinct_topic_fields])
      (simp add: topic_fields_def json_simps topic_wf_def)
qed

lemma topic_roundtrip: "topic_wf t \<Longrightarrow> topic_of_json (topic_json t) = Some t"
  by (simp add: topic_json_cases)

section \<open>internal/core/subscription/subscription.go\<close>

definition TypePull :: int where "TypePull = 0"
definition TypePush :: int where "TypePush = 1"

lemmas sub_type_defs = TypePull_def TypePush_def

record subscription =
  s_ID :: string
  s_Topic :: string
  s_ConsumerGroup :: string
  s_Type :: int
  s_AckDeadline :: int
  s_MaxRetries :: int
  s_DeadLetterTopic :: string
  s_Filter :: string
  s_Config :: "string gomap"
  s_CreatedAt :: int
  s_UpdatedAt :: int
  s_Active :: bool
  s_LastMessageID :: string
  s_LastAckTime :: "int option"
  s_MessagesDelivered :: int
  s_MessagesAcked :: int
  s_MessagesNacked :: int
  s_MessagesDLQ :: int

definition zero_subscription :: subscription where
  "zero_subscription = \<lparr>s_ID = '''', s_Topic = '''', s_ConsumerGroup = '''', s_Type = 0,
     s_AckDeadline = 0, s_MaxRetries = 0, s_DeadLetterTopic = '''', s_Filter = '''', s_Config = [],
     s_CreatedAt = 0, s_UpdatedAt = 0, s_Active = False, s_LastMessageID = '''', s_LastAckTime = None,
     s_MessagesDelivered = 0, s_MessagesAcked = 0, s_MessagesNacked = 0, s_MessagesDLQ = 0\<rparr>"

definition NewSubscription ::
  "string \<Rightarrow> string \<Rightarrow> string \<Rightarrow> int \<Rightarrow> 'd world \<Rightarrow> subscription \<times> 'd world" where
  "NewSubscription sid topic consumerGroup subType w =
     (let (t1, w) = time_now w; (t2, w) = time_now w
      in (zero_subscription\<lparr>s_ID := sid, s_Topic := topic, s_ConsumerGroup := consumerGroup,
          s_Type := subType, s_AckDeadline := 30 * Second, s_MaxRetries := 3, s_Config := [],
          s_CreatedAt := t1, s_UpdatedAt := t2, s_Active := True\<rparr>, w))"

definition IncrementDelivered :: "subscription \<Rightarrow> 'd world \<Rightarrow> subscription \<times> 'd world" where
  "IncrementDelivered s w = (let (now, w) = time_now w in
     (s\<lparr>s_MessagesDelivered := wrap64 (s_MessagesDelivered s + 1), s_UpdatedAt := now\<rparr>, w))"

definition IncrementAcked :: "subscription \<Rightarrow> 'd world \<Rightarrow> subscription \<times> 'd world" where
  "IncrementAcked s w = (let (now, w) = time_now w in
     (s\<lparr>s_MessagesAcked := wrap64 (s_MessagesAcked s + 1), s_LastAckTime := Some now,
        s_UpdatedAt := now\<rparr>, w))"

definition IncrementNacked :: "subscription \<Rightarrow> 'd world \<Rightarrow> subscription \<times> 'd world" where
  "IncrementNacked s w = (let (now, w) = time_now w in
     (s\<lparr>s_MessagesNacked := wrap64 (s_MessagesNacked s + 1), s_UpdatedAt := now\<rparr>, w))"

definition IncrementDLQ :: "subscription \<Rightarrow> 'd world \<Rightarrow> subscription \<times> 'd world" where
  "IncrementDLQ s w = (let (now, w) = time_now w in
     (s\<lparr>s_MessagesDLQ := wrap64 (s_MessagesDLQ s + 1), s_UpdatedAt := now\<rparr>, w))"

definition IsActive :: "subscription \<Rightarrow> bool" where
  "IsActive s = s_Active s"

definition Deactivate :: "subscription \<Rightarrow> 'd world \<Rightarrow> subscription \<times> 'd world" where
  "Deactivate s w = (let (now, w) = time_now w in (s\<lparr>s_Active := False, s_UpdatedAt := now\<rparr>, w))"

definition subscription_fields :: "subscription \<Rightarrow> (string \<times> json option) list" where
  "subscription_fields s =
    [(''id'', Some (JStr (s_ID s))),
     (''topic'', Some (JStr (s_Topic s))),
     (''consumer_group'', Some (JStr (s_ConsumerGroup s))),
     (''type'', Some (JNum (s_Type s))),
     (''ack_deadline'', Some (JNum (s_AckDeadline s))),
     (''max_retries'', Some (JNum (s_MaxRetries s))),
     (''dead_letter_topic'', omitempty (s_DeadLetterTopic s = '''') (JStr (s_DeadLetterTopic s))),
     (''filter'', omitempty (s_Filter s = '''') (JStr (s_Filter s))),
     (''config'', Some (enc_map JStr (s_Config s))),
     (''created_at'', Some (JTime (s_CreatedAt s))),
     (''updated_at'', Some (JTime (s_UpdatedAt s))),
     (''active'', Some (JBool (s_Active s))),
     (''last_message_id'', omitempty (s_LastMessageID s = '''') (JStr (s_LastMessageID s))),
     (''last_ack_time'', enc_time_ptr (s_LastAckTime s)),
     (''messages_delivered'', Some (JNum (s_MessagesDelivered s))),
     (''messages_acked'', Some (JNum (s_MessagesAcked s))),
     (''messages_nacked'', Some (JNum (s_MessagesNacked s))),
     (''messages_dlq'', Some (JNum (s_MessagesDLQ s)))]"

definition subscription_json :: "subscription \<Rightarrow> json" where
  "subscription_json s = obj (subscription_fields s)"

fun subscription_of_json :: "json \<Rightarrow> subscription option" where
  "subscription_of_json (JObj kvs) = do {
     i \<leftarrow> dec_str (jfield ''id'' kvs);
     t \<leftarrow> dec_str (jfield ''topic'' kvs);
     cg \<leftarrow> dec_str (jfield ''consumer_group'' kvs);
     ty \<leftarrow> dec_int64 (jfield ''type'' kvs);
     ad \<leftarrow> dec_int64 (jfield ''ack_deadline'' kvs);
     mr \<leftarrow> dec_int64 (jfield ''max_retries'' kvs);
     dl \<leftarrow> dec_str (jfield ''dead_letter_topic'' kvs);
     fl \<leftarrow> dec_str (jfield ''filter'' kvs);
     cf \<leftarrow> dec_map dec_str (jfield ''config'' kvs);
     ca \<leftarrow> dec_time (jfield ''created_at'' kvs);
     ua \<leftarrow> dec_time (jfield ''updated_at'' kvs);
     ac \<leftarrow> dec_bool (jfield ''active'' kvs);
     lm \<leftarrow> dec_str (jfield ''last_message_id'' kvs);
     la \<leftarrow> dec_time_ptr (jfield ''last_ack_time'' kvs);
     md \<leftarrow> dec_int64 (jfield ''messages_delivered'' kvs);
     ma \<leftarrow> dec_int64 (jfield ''messages_acked'' kvs);
     mn \<leftarrow> dec_int64 (jfield ''messages_nacked'' kvs);
     mq \<leftarrow> dec_int64 (jfield ''messages_dlq'' kvs);
     Some \<lparr>s_ID = i, s_Topic = t, s_ConsumerGroup = cg, s_Type = ty, s_AckDeadline = ad,
       s_MaxRetries = mr, s_DeadLetterTopic = dl, s_Filter = fl, s_Config = cf, s_CreatedAt = ca,
       s_UpdatedAt = ua, s_Active = ac, s_LastMessageID = lm, s_LastAckTime = la,
       s_MessagesDelivered = md, s_MessagesAcked = ma, s_MessagesNacked = mn, s_MessagesDLQ = mq\<rparr> }"
| "subscription_of_json JNull = Some zero_subscription"
| "subscription_of_json _ = None"

definition subscription_wf :: "subscription \<Rightarrow> bool" where
  "subscription_wf s \<longleftrightarrow> in64 (s_Type s) \<and> in64 (s_AckDeadline s) \<and> in64 (s_MaxRetries s)
     \<and> in64 (s_MessagesDelivered s) \<and> in64 (s_MessagesAcked s) \<and> in64 (s_MessagesNacked s)
     \<and> in64 (s_MessagesDLQ s)"

lemma distinct_subscription_fields: "distinct (map fst (subscription_fields s))"
  by (simp add: subscription_fields_def)

lemma subscription_json_cases:
  "subscription_of_json (subscription_json s) = (if subscription_wf s then Some s else None)"
proof -
  note [simp] = dec_int_cases
  show ?thesis
    by (simp add: subscription_json_def obj_def jfield_present [OF distinct_subscription_fields])
      (simp add: subscription_fields_def json_simps subscription_wf_def)
qed

lemma subscription_roundtrip:
  "subscription_wf s \<Longrightarrow> subscription_of_json (subscription_json s) = Some s"
  by (simp add: subscription_json_cases)

section \<open>internal/core/consumer/consumer.go\<close>

definition ConsumerActive :: int where "ConsumerActive = 0"
definition ConsumerInactive :: int where "ConsumerInactive = 1"
definition ConsumerRebalancing :: int where "ConsumerRebalancing = 2"

lemmas consumer_status_defs = ConsumerActive_def ConsumerInactive_def ConsumerRebalancing_def

record consumer =
  c_ID :: string
  c_GroupID :: string
  c_Partitions :: "int list"
  c_LastHeartbeat :: int
  c_Status :: int
  c_Metadata :: "string gomap"

record consumer_group =
  cg_Name :: string
  cg_Topic :: string
  cg_Consumers :: "consumer gomap"
  cg_RebalanceMethod :: string
  cg_MaxConsumers :: int
  cg_CreatedAt :: int
  cg_UpdatedAt :: int

definition NewConsumerGroup :: "string \<Rightarrow> string \<Rightarrow> 'd world \<Rightarrow> consumer_group \<times> 'd world" where
  "NewConsumerGroup name topic w =
     (let (t1, w) = time_now w; (t2, w) = time_now w
      in (\<lparr>cg_Name = name, cg_Topic = topic, cg_Consumers = [], cg_RebalanceMethod = ''range'',
          cg_MaxConsumers = 100, cg_CreatedAt = t1, cg_UpdatedAt = t2\<rparr>, w))"

definition group_AddConsumer ::
  "consumer \<Rightarrow> consumer_group \<Rightarrow> 'd world \<Rightarrow> bool \<times> consumer_group \<times> 'd world" where
  "group_AddConsumer c cg w =
     (if int (length (cg_Consumers cg)) \<ge> cg_MaxConsumers cg then (False, cg, w)
      else (let (now, w) = time_now w
            in (True, cg\<lparr>cg_Consumers := mput (c_ID c) c (cg_Consumers cg), cg_UpdatedAt := now\<rparr>, w)))"

definition group_RemoveConsumer ::
  "string \<Rightarrow> consumer_group \<Rightarrow> 'd world \<Rightarrow> consumer_group \<times> 'd world" where
  "group_RemoveConsumer consumerID cg w =
     (let (now, w) = time_now w
      in (cg\<lparr>cg_Consumers := mdel consumerID (cg_Consumers cg), cg_UpdatedAt := now\<rparr>, w))"

definition group_GetActiveConsumers :: "consumer_group \<Rightarrow> consumer list" where
  "group_GetActiveConsumers cg =
     filter (\<lambda>c. c_Status c = ConsumerActive) (map snd (cg_Consumers cg))"

text \<open>
  \<open>NeedsRebalance\<close> ranges over the map and returns at the first rebalancing or dead consumer, so
  its answer depends on the order of the iteration: the list is the order of this call.
\<close>

fun NeedsRebalance :: "consumer list \<Rightarrow> 'd world \<Rightarrow> bool \<times> 'd world" where
  "NeedsRebalance [] w = (False, w)"
| "NeedsRebalance (c # cs) w =
     (if c_Status c = ConsumerRebalancing then (False, w)
      else (let (now, w) = time_now w
            in if now - c_LastHeartbeat c > 30 * Second then (True, w) else NeedsRebalance cs w))"

definition consumer_fields :: "consumer \<Rightarrow> (string \<times> json option) list" where
  "consumer_fields c =
    [(''id'', Some (JStr (c_ID c))),
     (''group_id'', Some (JStr (c_GroupID c))),
     (''partitions'', Some (enc_list JNum (c_Partitions c))),
     (''last_heartbeat'', Some (JTime (c_LastHeartbeat c))),
     (''status'', Some (JNum (c_Status c))),
     (''metadata'', Some (enc_map JStr (c_Metadata c)))]"

definition consumer_json :: "consumer \<Rightarrow> json" where
  "consumer_json c = obj (consumer_fields c)"

definition zero_consumer :: consumer where
  "zero_consumer = \<lparr>c_ID = '''', c_GroupID = '''', c_Partitions = [], c_LastHeartbeat = 0,
     c_Status = 0, c_Metadata = []\<rparr>"

fun consumer_of_json :: "json \<Rightarrow> consumer option" where
  "consumer_of_json (JObj kvs) = do {
     i \<leftarrow> dec_str (jfield ''id'' kvs);
     g \<leftarrow> dec_str (jfield ''group_id'' kvs);
     ps \<leftarrow> dec_list dec_int32 (jfield ''partitions'' kvs);
     lh \<leftarrow> dec_time (jfield ''last_heartbeat'' kvs);
     st \<leftarrow> dec_int64 (jfield ''status'' kvs);
     md \<leftarrow> dec_map dec_str (jfield ''metadata'' kvs);
     Some \<lparr>c_ID = i, c_GroupID = g, c_Partitions = ps, c_LastHeartbeat = lh, c_Status = st,
       c_Metadata = md\<rparr> }"
| "consumer_of_json JNull = Some zero_consumer"
| "consumer_of_json _ = None"

definition dec_consumer :: "json option \<Rightarrow> consumer option" where
  "dec_consumer j = (case j of None \<Rightarrow> Some zero_consumer | Some v \<Rightarrow> consumer_of_json v)"

definition group_fields :: "consumer_group \<Rightarrow> (string \<times> json option) list" where
  "group_fields g =
    [(''name'', Some (JStr (cg_Name g))),
     (''topic'', Some (JStr (cg_Topic g))),
     (''consumers'', Some (enc_map consumer_json (cg_Consumers g))),
     (''rebalance_method'', Some (JStr (cg_RebalanceMethod g))),
     (''max_consumers'', Some (JNum (cg_MaxConsumers g))),
     (''created_at'', Some (JTime (cg_CreatedAt g))),
     (''updated_at'', Some (JTime (cg_UpdatedAt g)))]"

definition group_json :: "consumer_group \<Rightarrow> json" where
  "group_json g = obj (group_fields g)"

fun group_of_json :: "json \<Rightarrow> consumer_group option" where
  "group_of_json (JObj kvs) = do {
     n \<leftarrow> dec_str (jfield ''name'' kvs);
     t \<leftarrow> dec_str (jfield ''topic'' kvs);
     cs \<leftarrow> dec_map dec_consumer (jfield ''consumers'' kvs);
     rm \<leftarrow> dec_str (jfield ''rebalance_method'' kvs);
     mc \<leftarrow> dec_int64 (jfield ''max_consumers'' kvs);
     ca \<leftarrow> dec_time (jfield ''created_at'' kvs);
     ua \<leftarrow> dec_time (jfield ''updated_at'' kvs);
     Some \<lparr>cg_Name = n, cg_Topic = t, cg_Consumers = cs, cg_RebalanceMethod = rm,
       cg_MaxConsumers = mc, cg_CreatedAt = ca, cg_UpdatedAt = ua\<rparr> }"
| "group_of_json JNull = Some \<lparr>cg_Name = '''', cg_Topic = '''', cg_Consumers = [],
     cg_RebalanceMethod = '''', cg_MaxConsumers = 0, cg_CreatedAt = 0, cg_UpdatedAt = 0\<rparr>"
| "group_of_json _ = None"

definition consumer_wf :: "consumer \<Rightarrow> bool" where
  "consumer_wf c \<longleftrightarrow> (\<forall>n \<in> set (c_Partitions c). in32 n) \<and> in64 (c_Status c)"

definition group_wf :: "consumer_group \<Rightarrow> bool" where
  "group_wf g \<longleftrightarrow> in64 (cg_MaxConsumers g) \<and> (\<forall>(k, c) \<in> set (cg_Consumers g). consumer_wf c)"

lemma distinct_consumer_fields: "distinct (map fst (consumer_fields c))"
  by (simp add: consumer_fields_def)

lemma distinct_group_fields: "distinct (map fst (group_fields g))"
  by (simp add: group_fields_def)

lemma consumer_roundtrip: "consumer_wf c \<Longrightarrow> consumer_of_json (consumer_json c) = Some c"
  by (simp add: consumer_json_def obj_def jfield_present [OF distinct_consumer_fields])
    (simp add: consumer_fields_def json_simps consumer_wf_def)

lemma group_roundtrip: "group_wf g \<Longrightarrow> group_of_json (group_json g) = Some g"
proof -
  assume wf: "group_wf g"
  then have "dec_map dec_consumer (Some (enc_map consumer_json (cg_Consumers g))) = Some (cg_Consumers g)"
    by (intro dec_map_enc) (auto simp: dec_consumer_def consumer_roundtrip group_wf_def)
  with wf show ?thesis
    by (simp add: group_json_def obj_def jfield_present [OF distinct_group_fields])
      (simp add: group_fields_def json_simps group_wf_def)
qed

lemma enum_distinct:
  "StatusPending \<noteq> StatusDelivered" "StatusPending \<noteq> StatusFailed" "StatusPending \<noteq> StatusDLQ"
  "StatusFailed \<noteq> StatusDLQ" "StatusDelivered \<noteq> StatusFailed" "StatusAcknowledged \<noteq> StatusFailed"
  by (simp_all add: status_defs)

end
