(* ===== verification/Ports.thy ===== *)
theory Ports
  imports Core
begin

text \<open>
  The interfaces under \<^verbatim>\<open>internal/ports/repository\<close>. A Go interface is a record of its methods: a
  service takes the record the way the Go service takes the interface value. A method takes and
  returns the world. \<open>None\<close> says that \<open>MR_GetForConsumerGroup\<close> never returns, and that \<open>TR_List\<close> or
  \<open>SR_List\<close> panics on a slice out of range. The locales are
  the contracts that the services rely on; \<open>stored d i m\<close> says that in the database state \<open>d\<close>
  the message \<open>m\<close> is what is kept under the identifier \<open>i\<close> (unless its expiry time has removed it).
\<close>

record 'd message_repository =
  MR_Store :: "message \<Rightarrow> 'd world \<Rightarrow> go_error option \<times> 'd world"
  MR_Get :: "string \<Rightarrow> 'd world \<Rightarrow> message res \<times> 'd world"
  MR_Delete :: "string \<Rightarrow> 'd world \<Rightarrow> go_error option \<times> 'd world"
  MR_StoreBatch :: "message list \<Rightarrow> 'd world \<Rightarrow> go_error option \<times> 'd world"
  MR_GetBatch :: "string list \<Rightarrow> 'd world \<Rightarrow> message list res \<times> 'd world"
  MR_GetByTopic :: "string \<Rightarrow> int \<Rightarrow> int \<Rightarrow> 'd world \<Rightarrow> message list res \<times> 'd world"
  MR_GetByTopicPartition :: "string \<Rightarrow> int \<Rightarrow> int \<Rightarrow> int \<Rightarrow> 'd world \<Rightarrow> message list res \<times> 'd world"
  MR_CountByTopic :: "string \<Rightarrow> 'd world \<Rightarrow> int res \<times> 'd world"
  MR_GetForConsumerGroup ::
    "string \<Rightarrow> string \<Rightarrow> int \<Rightarrow> 'd world \<Rightarrow> (message list res \<times> 'd world) option"
  MR_MarkDelivered :: "string \<Rightarrow> string \<Rightarrow> 'd world \<Rightarrow> go_error option \<times> 'd world"
  MR_Acknowledge :: "acknowledgment \<Rightarrow> 'd world \<Rightarrow> go_error option \<times> 'd world"
  MR_GetUnacknowledged :: "string \<Rightarrow> int \<Rightarrow> 'd world \<Rightarrow> message list res \<times> 'd world"
  MR_GetFailedMessages :: "string \<Rightarrow> int \<Rightarrow> 'd world \<Rightarrow> message list res \<times> 'd world"
  MR_MoveToDLQ :: "string \<Rightarrow> string \<Rightarrow> 'd world \<Rightarrow> go_error option \<times> 'd world"
  MR_DeleteExpired :: "'d world \<Rightarrow> int res \<times> 'd world"
  MR_DeleteOlderThan :: "string \<Rightarrow> int \<Rightarrow> 'd world \<Rightarrow> int res \<times> 'd world"

record 'd topic_repository =
  TR_Create :: "topic \<Rightarrow> 'd world \<Rightarrow> go_error option \<times> 'd world"
  TR_Get :: "string \<Rightarrow> 'd world \<Rightarrow> topic res \<times> 'd world"
  TR_Update :: "topic \<Rightarrow> 'd world \<Rightarrow> go_error option \<times> topic \<times> 'd world"
  TR_Delete :: "string \<Rightarrow> 'd world \<Rightarrow> go_error option \<times> 'd world"
  TR_List :: "int \<Rightarrow> int \<Rightarrow> 'd world \<Rightarrow> (topic list res \<times> 'd world) option"
  TR_Exists :: "string \<Rightarrow> 'd world \<Rightarrow> bool res \<times> 'd world"

record 'd subscription_repository =
  SR_Create :: "subscription \<Rightarrow> 'd world \<Rightarrow> go_error option \<times> 'd world"
  SR_Get :: "string \<Rightarrow> 'd world \<Rightarrow> subscription res \<times> 'd world"
  SR_Update :: "subscription \<Rightarrow> 'd world \<Rightarrow> go_error option \<times> subscription \<times> 'd world"
  SR_Delete :: "string \<Rightarrow> 'd world \<Rightarrow> go_error option \<times> 'd world"
  SR_GetByTopic :: "string \<Rightarrow> 'd world \<Rightarrow> subscription list res \<times> 'd world"
  SR_GetByConsumerGroup :: "string \<Rightarrow> 'd world \<Rightarrow> subscription list res \<times> 'd world"
  SR_GetActive :: "'d world \<Rightarrow> subscription list res \<times> 'd world"
  SR_List :: "int \<Rightarrow> int \<Rightarrow> 'd world \<Rightarrow> (subscription list res \<times> 'd world) option"

record 'd consumer_repository =
  CR_CreateGroup :: "consumer_group \<Rightarrow> 'd world \<Rightarrow> go_error option \<times> 'd world"
  CR_GetGroup :: "string \<Rightarrow> 'd world \<Rightarrow> consumer_group res \<times> 'd world"
  CR_UpdateGroup :: "consumer_group \<Rightarrow> 'd world \<Rightarrow> go_error option \<times> consumer_group \<times> 'd world"
  CR_DeleteGroup :: "string \<Rightarrow> 'd world \<Rightarrow> go_error option \<times> 'd world"
  CR_ListGroups :: "string \<Rightarrow> 'd world \<Rightarrow> consumer_group list res \<times> 'd world"
  CR_AddConsumer :: "string \<Rightarrow> consumer \<Rightarrow> 'd world \<Rightarrow> go_error option \<times> 'd world"
  CR_RemoveConsumer :: "string \<Rightarrow> string \<Rightarrow> 'd world \<Rightarrow> go_error option \<times> 'd world"
  CR_UpdateConsumerHeartbeat :: "string \<Rightarrow> string \<Rightarrow> 'd world \<Rightarrow> go_error option \<times> 'd world"
  CR_GetActiveConsumers :: "string \<Rightarrow> 'd world \<Rightarrow> consumer list res \<times> 'd world"

section \<open>Contracts\<close>

text \<open>What acknowledging at time \<open>t\<close> makes of a message.\<close>

definition acked :: "acknowledgment \<Rightarrow> int \<Rightarrow> message \<Rightarrow> message" where
  "acked a t m = (if a_Success a then m\<lparr>m_Status := StatusAcknowledged, m_AckedAt := Some t\<rparr>
     else m\<lparr>m_Status := StatusFailed, m_RetryCount := wrap64 (m_RetryCount m + 1)\<rparr>)"

locale message_store =
  fixes mr :: "'d message_repository" and stored :: "'d \<Rightarrow> string \<Rightarrow> message \<Rightarrow> bool"
  assumes store_ok: "MR_Store mr m w = (None, w') \<Longrightarrow> stored (db w') (m_ID m) m"
    and store_frame: "MR_Store mr m w = (e, w') \<Longrightarrow> stored (db w) i x \<Longrightarrow> i \<noteq> m_ID m \<Longrightarrow> stored (db w') i x"
    and batch_ok: "MR_StoreBatch mr ms w = (None, w') \<Longrightarrow> distinct (map m_ID ms) \<Longrightarrow> m \<in> set ms \<Longrightarrow>
        stored (db w') (m_ID m) m"
    and get_ok: "MR_Get mr i w = (Inr m, w') \<Longrightarrow> stored (db w) i x \<Longrightarrow> m = x"
    and get_frame: "MR_Get mr i w = (r, w') \<Longrightarrow> stored (db w) j x \<Longrightarrow> stored (db w') j x"
    and ack_any: "MR_Acknowledge mr a w = (e, w') \<Longrightarrow> stored (db w) (a_MessageID a) m \<Longrightarrow>
        stored (db w') (a_MessageID a) m \<or> (\<exists>t. stored (db w') (a_MessageID a) (acked a t m))"
    and ack_ok: "MR_Acknowledge mr a w = (None, w') \<Longrightarrow> stored (db w) (a_MessageID a) m \<Longrightarrow>
        \<exists>t. stored (db w') (a_MessageID a) (acked a t m)"
    and ack_frame: "MR_Acknowledge mr a w = (e, w') \<Longrightarrow> stored (db w) i x \<Longrightarrow> i \<noteq> a_MessageID a \<Longrightarrow>
        stored (db w') i x"

locale topic_store =
  fixes tr :: "'d topic_repository" and holds_topic :: "'d \<Rightarrow> string \<Rightarrow> topic \<Rightarrow> bool"
  assumes create_ok: "TR_Create tr t w = (None, w') \<Longrightarrow> holds_topic (db w') (t_Name t) t"
    and update_time: "TR_Update tr t w = (e, t', w') \<Longrightarrow> \<exists>now. t' = t\<lparr>t_UpdatedAt := now\<rparr>"
    and update_ok: "TR_Update tr t w = (None, t', w') \<Longrightarrow> holds_topic (db w') (t_Name t) t'"
    and update_any: "TR_Update tr t w = (e, t', w') \<Longrightarrow> holds_topic (db w) (t_Name t) x \<Longrightarrow>
        holds_topic (db w') (t_Name t) x \<or> holds_topic (db w') (t_Name t) t'"
    and topic_get_ok: "TR_Get tr n w = (Inr t, w') \<Longrightarrow> holds_topic (db w) n x \<Longrightarrow> t = x"
    and topic_get_frame: "TR_Get tr n w = (r, w') \<Longrightarrow> holds_topic (db w) k x \<Longrightarrow> holds_topic (db w') k x"
    and exists_ok: "TR_Exists tr n w = (Inr b, w') \<Longrightarrow> holds_topic (db w) n x \<Longrightarrow> b"

text \<open>Both stores on one database: neither disturbs the other.\<close>

locale broker_store = message_store mr stored + topic_store tr holds_topic
  for mr :: "'d message_repository" and stored and tr :: "'d topic_repository" and holds_topic +
  assumes store_topics: "MR_Store mr m w = (e, w') \<Longrightarrow> holds_topic (db w) n t \<Longrightarrow> holds_topic (db w') n t"
    and batch_topics: "MR_StoreBatch mr ms w = (e, w') \<Longrightarrow> holds_topic (db w) n t \<Longrightarrow> holds_topic (db w') n t"
    and update_messages: "TR_Update tr t w = (e, t', w') \<Longrightarrow> stored (db w) i m \<Longrightarrow> stored (db w') i m"
    and create_messages: "TR_Create tr t w = (e, w') \<Longrightarrow> stored (db w) i m \<Longrightarrow> stored (db w') i m"
    and get_topic_messages: "TR_Get tr n w = (r, w') \<Longrightarrow> stored (db w) i m \<Longrightarrow> stored (db w') i m"

end
