(* ===== verification/Config.thy ===== *)
theory Config
  imports Prelude Complex_Main
begin

text \<open>
  \<^verbatim>\<open>internal/config/config.go\<close>: the configuration records, the defaults, validation and loading.
  Reading the file and filling the records is the viper library, a parameter of \<open>Load\<close>.
\<close>

record tls_config =
  tls_Enabled :: bool
  tls_CertFile :: string
  tls_KeyFile :: string
  tls_CAFile :: string

record server_config =
  sv_Host :: string
  sv_Port :: int
  sv_ReadTimeout :: int
  sv_WriteTimeout :: int
  sv_IdleTimeout :: int
  sv_ShutdownTimeout :: int
  sv_MaxRequestSize :: int
  sv_EnableWebSocket :: bool
  sv_TLS :: tls_config

record storage_config =
  st_Type :: string
  st_MaxMessageSize :: int
  st_MaxQueueSize :: int
  st_RetentionTime :: int
  st_CleanupInterval :: int

record redis_config =
  rc_Addresses :: "string list"
  rc_Password :: string
  rc_DB :: int
  rc_MaxRetries :: int
  rc_PoolSize :: int
  rc_MinIdleConns :: int
  rc_DialTimeout :: int
  rc_ReadTimeout :: int
  rc_WriteTimeout :: int
  rc_PoolTimeout :: int
  rc_IdleTimeout :: int
  rc_IdleCheckFrequency :: int
  rc_EnableCluster :: bool

record broker_config =
  bc_DefaultPartitions :: int
  bc_DefaultReplication :: int
  bc_MaxMessageBatchSize :: int
  bc_BatchFlushInterval :: int
  bc_CompressionType :: string
  bc_CompressionLevel :: int
  bc_EnableDeduplication :: bool
  bc_DeduplicationWindow :: int
  bc_DefaultAckDeadline :: int
  bc_MaxRetries :: int
  bc_RetryBackoff :: int
  bc_EnableDLQ :: bool
  bc_DLQPrefix :: string

record metrics_config =
  mc_Enabled :: bool
  mc_Port :: int
  mc_Path :: string
  mc_CollectInterval :: int
  mc_Namespace :: string

record tracing_config =
  tc_Enabled :: bool
  tc_ServiceName :: string
  tc_OTLPEndpoint :: string
  tc_SamplingRate :: rat

record rate_limit_config =
  rl_Enabled :: bool
  rl_RequestsPerSecond :: int
  rl_BurstSize :: int
  rl_PerTopic :: bool
  rl_PerConsumer :: bool

record config =
  cfg_Server :: server_config
  cfg_Storage :: storage_config
  cfg_Redis :: redis_config
  cfg_Broker :: broker_config
  cfg_Metrics :: metrics_config
  cfg_Tracing :: tracing_config
  cfg_RateLimit :: rate_limit_config

datatype cval = CStr string | CInt int | CBool bool | CStrs "string list" | CRat rat

definition setDefaults :: "(string \<times> cval) list" where
  "setDefaults =
    [(''server.host'', CStr ''0.0.0.0''), (''server.port'', CInt 8080),
     (''server.read_timeout'', CStr ''30s''), (''server.write_timeout'', CStr ''30s''),
     (''server.idle_timeout'', CStr ''120s''), (''server.shutdown_timeout'', CStr ''30s''),
     (''server.max_request_size'', CInt (push_bit 20 8)), (''server.enable_websocket'', CBool True),
     (''storage.type'', CStr ''memory''), (''storage.max_message_size'', CInt (push_bit 20 1)),
     (''storage.max_queue_size'', CInt 10000), (''storage.retention_time'', CStr ''24h''),
     (''storage.cleanup_interval'', CStr ''1h''),
     (''redis.addresses'', CStrs [''localhost:6379'']), (''redis.max_retries'', CInt 3),
     (''redis.pool_size'', CInt 10), (''redis.min_idle_conns'', CInt 5),
     (''redis.dial_timeout'', CStr ''5s''), (''redis.read_timeout'', CStr ''3s''),
     (''redis.write_timeout'', CStr ''3s''), (''redis.pool_timeout'', CStr ''4s''),
     (''redis.idle_timeout'', CStr ''5m''), (''redis.idle_check_frequency'', CStr ''1m''),
     (''broker.default_partitions'', CInt 1), (''broker.default_replication'', CInt 1),
     (''broker.max_message_batch_size'', CInt 1000), (''broker.batch_flush_interval'', CStr ''1s''),
     (''broker.compression_type'', CStr ''none''), (''broker.compression_level'', CInt 6),
     (''broker.default_ack_deadline'', CStr ''30s''), (''broker.max_retries'', CInt 3),
     (''broker.retry_backoff'', CStr ''1s''), (''broker.enable_dlq'', CBool True),
     (''broker.dlq_prefix'', CStr ''dlq-''),
     (''metrics.enabled'', CBool True), (''metrics.port'', CInt 9091),
     (''metrics.path'', CStr ''/metrics''), (''metrics.collect_interval'', CStr ''10s''),
     (''metrics.namespace'', CStr ''pubsubgo''),
     (''tracing.enabled'', CBool False), (''tracing.service_name'', CStr ''pubsubgo''),
     (''tracing.sampling_rate'', CRat (1 / 10)),
     (''rate_limit.enabled'', CBool False), (''rate_limit.requests_per_second'', CInt 1000),
     (''rate_limit.burst_size'', CInt 100)]"

definition Validate :: "config \<Rightarrow> go_error option" where
  "Validate c =
     (if sv_Port (cfg_Server c) < 1 \<or> sv_Port (cfg_Server c) > 65535
      then Some (Errorf (''invalid server port: '' @ itoa (sv_Port (cfg_Server c))))
      else if st_Type (cfg_Storage c) \<noteq> ''memory'' \<and> st_Type (cfg_Storage c) \<noteq> ''redis''
              \<and> st_Type (cfg_Storage c) \<noteq> ''postgres''
      then Some (Errorf (''unsupported storage type: '' @ st_Type (cfg_Storage c)))
      else if st_MaxMessageSize (cfg_Storage c) \<le> 0
      then Some (Errorf ''max message size must be positive'')
      else if bc_DefaultPartitions (cfg_Broker c) \<le> 0
      then Some (Errorf ''default partitions must be positive'')
      else None)"

text \<open>What \<open>viper.ReadInConfig\<close> reports, and the library as a parameter.\<close>

datatype read_result = ReadOk | FileNotFound | ReadError go_error

record viper =
  v_ReadInConfig :: "string \<Rightarrow> read_result"
  v_Unmarshal :: "(string \<times> cval) list \<Rightarrow> string \<Rightarrow> config res"

definition Load :: "viper \<Rightarrow> string \<Rightarrow> config res" where
  "Load v configPath =
     (case v_ReadInConfig v configPath of
        ReadError e \<Rightarrow> Inl (Wrap ''failed to read config'' e)
      | _ \<Rightarrow>
         (case v_Unmarshal v setDefaults configPath of
            Inl e \<Rightarrow> Inl (Wrap ''failed to unmarshal config'' e)
          | Inr cfg \<Rightarrow>
              (case Validate cfg of
                 Some e \<Rightarrow> Inl (Wrap ''invalid config'' e)
               | None \<Rightarrow> Inr cfg)))"

definition config_ok :: "config \<Rightarrow> bool" where
  "config_ok c \<longleftrightarrow> 1 \<le> sv_Port (cfg_Server c) \<and> sv_Port (cfg_Server c) \<le> 65535
     \<and> st_Type (cfg_Storage c) \<in> {''memory'', ''redis'', ''postgres''}
     \<and> 0 < st_MaxMessageSize (cfg_Storage c) \<and> 0 < bc_DefaultPartitions (cfg_Broker c)"

lemma Validate_iff: "Validate c = None \<longleftrightarrow> config_ok c"
  by (auto simp: Validate_def config_ok_def)

lemma Load_config_ok: "Load v path = Inr c \<Longrightarrow> config_ok c"
  by (auto simp: Load_def Validate_iff [symmetric] split: read_result.splits sum.splits option.splits)

text \<open>The broker section that \<open>setDefaults\<close> describes.\<close>

definition default_broker :: broker_config where
  "default_broker = \<lparr>bc_DefaultPartitions = 1, bc_DefaultReplication = 1, bc_MaxMessageBatchSize = 1000,
     bc_BatchFlushInterval = Second, bc_CompressionType = ''none'', bc_CompressionLevel = 6,
     bc_EnableDeduplication = False, bc_DeduplicationWindow = 0, bc_DefaultAckDeadline = 30 * Second,
     bc_MaxRetries = 3, bc_RetryBackoff = Second, bc_EnableDLQ = True, bc_DLQPrefix = ''dlq-''\<rparr>"

section \<open>Properties\<close>

text \<open>
  \<open>Load\<close> returns exactly the valid configurations: it returns \<open>c\<close> when the file can be read
  (or is missing), viper fills in \<open>c\<close>, and \<open>c\<close> has a port from 1 to 65535, a known storage type,
  and positive message size and partition count; everything else is an error.
\<close>

theorem Load_returns_valid_configs:
  "Load v path = Inr c \<longleftrightarrow>
     (\<nexists>e. v_ReadInConfig v path = ReadError e) \<and> v_Unmarshal v setDefaults path = Inr c \<and> config_ok c"
  by (auto simp: Load_def Validate_iff [symmetric] split: read_result.splits sum.splits option.splits)

end
