(* ===== verification/Partition.thy ===== *)
theory Partition
  imports Core Config
begin

text \<open>
  The partition manager of the topic service, \<^verbatim>\<open>internal/services/topic/partition.go\<close>, with the
  response types that \<^verbatim>\<open>topic_manager.go\<close> declares for it. Every method holds the mutex of the
  manager from its first line to its last, so a method is one step. The rebalancing that
  \<open>AddConsumer\<close> and \<open>RemoveConsumer\<close> start in a goroutine is a job in \<open>pm_pending\<close>, run at any later
  time. \<open>None\<close> is a panic of the runtime (an index out of range, a division by zero, a slice of
  negative length). Go's order of \<open>range\<close> over a map is a parameter. Floating-point numbers are
  real: their rounding is not modelled.
\<close>

record partition =
  pt_ID :: int
  pt_TopicName :: string
  pt_MessageCount :: int
  pt_Size :: int
  pt_StartOffset :: int
  pt_EndOffset :: int
  pt_Consumers :: "string list"
  pt_LastActivity :: int
  pt_CreatedAt :: int

record partition_assignment =
  pa_TopicName :: string
  pa_Partitions :: "partition list"
  pa_ConsumerMap :: "int list gomap"
  pa_LastRebalance :: int
  pa_Rebalancing :: bool

record partition_manager =
  pm_assignments :: "partition_assignment gomap"
  pm_pending :: "string list"

record partition_stats =
  px_ID :: int
  px_MessageCount :: int
  px_Size :: int
  px_StartOffset :: int
  px_EndOffset :: int
  px_ActiveConsumers :: int
  px_LastActivity :: "int option"

record load_balance_info =
  lb_IsBalanced :: bool
  lb_ImbalanceRatio :: real
  lb_RecommendRebalance :: bool
  lb_Reason :: string

record partition_info =
  pi_TopicName :: string
  pi_TotalPartitions :: int
  pi_Partitions :: "partition_stats list"
  pi_LoadBalance :: load_balance_info

record partition_rebalance =
  pb_PartitionID :: int
  pb_FromConsumer :: string
  pb_ToConsumer :: string
  pb_MessagesMoved :: int
  pb_Status :: string

record rebalance_result =
  rr_TopicName :: string
  rr_Success :: bool
  rr_StartedAt :: int
  rr_CompletedAt :: "int option"
  rr_Status :: string
  rr_PartitionsMoved :: int
  rr_Details :: "partition_rebalance list"
  rr_Error :: string

definition NewPartitionManager :: partition_manager where
  "NewPartitionManager = \<lparr>pm_assignments = [], pm_pending = []\<rparr>"

definition put_assignment :: "string \<Rightarrow> partition_assignment \<Rightarrow> partition_manager \<Rightarrow> partition_manager" where
  "put_assignment n a pm = pm\<lparr>pm_assignments := mput n a (pm_assignments pm)\<rparr>"

definition not_found :: "string \<Rightarrow> go_error" where
  "not_found topicName = Errorf (''topic '' @ topicName @ '' not found'')"

section \<open>Creating partitions\<close>

definition new_partition :: "string \<Rightarrow> int \<Rightarrow> nat \<Rightarrow> partition" where
  "new_partition topicName now i =
     \<lparr>pt_ID = int i, pt_TopicName = topicName, pt_MessageCount = 0, pt_Size = 0, pt_StartOffset = 0,
      pt_EndOffset = 0, pt_Consumers = [], pt_LastActivity = now, pt_CreatedAt = now\<rparr>"

definition InitializePartitions ::
  "string \<Rightarrow> int \<Rightarrow> partition_manager \<Rightarrow> 'd world \<Rightarrow> (partition_manager \<times> 'd world) option" where
  "InitializePartitions topicName partitionCount pm w =
     (if partitionCount < 0 then None
      else (let (now, w) = time_now w
            in Some (put_assignment topicName
                 \<lparr>pa_TopicName = topicName,
                  pa_Partitions = map (new_partition topicName now) [0..<nat partitionCount],
                  pa_ConsumerMap = [], pa_LastRebalance = now, pa_Rebalancing = False\<rparr> pm, w)))"

definition CleanupPartitions :: "string \<Rightarrow> partition_manager \<Rightarrow> partition_manager" where
  "CleanupPartitions topicName pm = pm\<lparr>pm_assignments := mdel topicName (pm_assignments pm)\<rparr>"

section \<open>Choosing a partition for a message\<close>

text \<open>\<open>fnv.New32a\<close> of \<^verbatim>\<open>hash/fnv\<close>: the FNV-1a hash of 32 bits.\<close>

definition fnv32a :: "bytes \<Rightarrow> 32 word" where
  "fnv32a data = foldl (\<lambda>h b. (h XOR ucast b) * 16777619) 2166136261 data"

definition into_range :: "int \<Rightarrow> int \<Rightarrow> int" where
  "into_range x partitionCount =
     (let result = x smod partitionCount in if result < 0 then wrap32 (result + partitionCount) else result)"

definition AssignPartition ::
  "string \<Rightarrow> bytes \<Rightarrow> int \<Rightarrow> 'd world \<Rightarrow> (int \<times> 'd world) option" where
  "AssignPartition topicName key partitionCount w =
     (if key = []
      then (let (now, w) = time_now w
            in if partitionCount = 0 then None else Some (into_range (wrap32 now) partitionCount, w))
      else if partitionCount = 0 then None
      else Some (into_range (sint (fnv32a key)) partitionCount, w))"

section \<open>Load balance\<close>

text \<open>\<open>fmt.Sprintf("%.1f", x)\<close>: to nearest, ties to even.\<close>

definition one_decimal :: "real \<Rightarrow> string" where
  "one_decimal x =
     (let y = 10 * \<bar>x\<bar>; f = \<lfloor>y\<rfloor>; r = y - of_int f;
          n = (if r > 1 / 2 \<or> (r = 1 / 2 \<and> odd f) then f + 1 else f)
      in (if x < 0 then ''-'' else '''') @ itoa (n div 10) @ ''.'' @ itoa (n mod 10))"

definition load_of :: "partition \<Rightarrow> real" where
  "load_of p = of_int (pt_MessageCount p) + of_int (pt_Size p) / 1024"

definition balanced_info :: load_balance_info where
  "balanced_info = \<lparr>lb_IsBalanced = True, lb_ImbalanceRatio = 0, lb_RecommendRebalance = False, lb_Reason = ''''\<rparr>"

definition imbalance_ratio :: "real list \<Rightarrow> real" where
  "imbalance_ratio loads =
     (let avgLoad = sum_list loads / of_nat (length loads);
          variance = sum_list (map (\<lambda>load. (load - avgLoad) * (load - avgLoad)) loads);
          stdDev = sqrt (variance / of_nat (length loads))
      in stdDev / avgLoad)"

definition calculateLoadBalance :: "partition_assignment \<Rightarrow> load_balance_info" where
  "calculateLoadBalance assignment =
     (if pa_Partitions assignment = [] then balanced_info
      else (let loads = map load_of (pa_Partitions assignment)
            in if sum_list loads = 0 then balanced_info
               else (let imbalanceRatio = imbalance_ratio loads;
                         isBalanced = (imbalanceRatio \<le> 1 / 10);
                         recommendRebalance = (imbalanceRatio \<ge> 3 / 10);
                         reason = (if \<not> isBalanced
                                   then (if recommendRebalance
                                         then ''High load imbalance detected ('' @ one_decimal (imbalanceRatio * 100)
                                              @ ''%). Rebalancing recommended.''
                                         else ''Moderate load imbalance detected ('' @ one_decimal (imbalanceRatio * 100)
                                              @ ''%).'')
                                   else '''')
                     in \<lparr>lb_IsBalanced = isBalanced, lb_ImbalanceRatio = imbalanceRatio,
                         lb_RecommendRebalance = recommendRebalance, lb_Reason = reason\<rparr>)))"

definition stats_of :: "partition \<Rightarrow> partition_stats" where
  "stats_of p =
     \<lparr>px_ID = pt_ID p, px_MessageCount = pt_MessageCount p, px_Size = pt_Size p,
      px_StartOffset = pt_StartOffset p, px_EndOffset = pt_EndOffset p,
      px_ActiveConsumers = int (length (pt_Consumers p)), px_LastActivity = Some (pt_LastActivity p)\<rparr>"

definition GetPartitionInfo :: "string \<Rightarrow> partition_manager \<Rightarrow> partition_info res" where
  "GetPartitionInfo topicName pm =
     (case map_of (pm_assignments pm) topicName of
        None \<Rightarrow> Inl (not_found topicName)
      | Some a \<Rightarrow>
          Inr \<lparr>pi_TopicName = topicName, pi_TotalPartitions = wrap32 (int (length (pa_Partitions a))),
               pi_Partitions = map stats_of (pa_Partitions a), pi_LoadBalance = calculateLoadBalance a\<rparr>)"

definition count_messages :: "int \<Rightarrow> int \<Rightarrow> int \<Rightarrow> partition \<Rightarrow> partition" where
  "count_messages messageCount bytes now p =
     (let p = p\<lparr>pt_MessageCount := wrap64 (pt_MessageCount p + messageCount),
                 pt_Size := wrap64 (pt_Size p + bytes), pt_LastActivity := now\<rparr>
      in if messageCount > 0 then p\<lparr>pt_EndOffset := wrap64 (pt_EndOffset p + messageCount)\<rparr> else p)"

definition UpdatePartitionStats ::
  "string \<Rightarrow> int \<Rightarrow> int \<Rightarrow> int \<Rightarrow> partition_manager \<Rightarrow> 'd world \<Rightarrow> (partition_manager \<times> 'd world) option" where
  "UpdatePartitionStats topicName partitionID messageCount bytes pm w =
     (case map_of (pm_assignments pm) topicName of
        None \<Rightarrow> Some (pm, w)
      | Some a \<Rightarrow>
          if partitionID \<ge> int (length (pa_Partitions a)) then Some (pm, w)
          else if partitionID < 0 then None
          else (let (now, w) = time_now w;
                    p = count_messages messageCount bytes now (pa_Partitions a ! nat partitionID)
                in Some (put_assignment topicName
                     (a\<lparr>pa_Partitions := (pa_Partitions a)[nat partitionID := p]\<rparr>) pm, w)))"

section \<open>Rebalancing\<close>

text \<open>\<open>m[c]\<close> of a map of slices: the empty slice when the key is missing.\<close>

definition owned :: "int list gomap \<Rightarrow> string \<Rightarrow> int list" where
  "owned m c = (case map_of m c of None \<Rightarrow> [] | Some ps \<Rightarrow> ps)"

text \<open>Round robin: the \<open>i\<close>-th partition goes to the consumer of index \<open>i % len(consumers)\<close>.\<close>

definition append_to :: "string \<Rightarrow> int \<Rightarrow> int list gomap \<Rightarrow> int list gomap" where
  "append_to c p m = mput c (owned m c @ [p]) m"

definition calculateOptimalAssignment :: "partition list \<Rightarrow> string list \<Rightarrow> int list gomap" where
  "calculateOptimalAssignment partitions consumers =
     (if consumers = [] then []
      else fold (\<lambda>(i, p). append_to (consumers ! (i mod length consumers)) (pt_ID p))
             (enumerate 0 partitions) (fold (\<lambda>c. mput c []) consumers []))"

text \<open>
  The search for the previous consumer visits the whole map (its \<open>break\<close> leaves only the inner loop):
  the last match counts.
\<close>

fun previous_consumer :: "int \<Rightarrow> string \<Rightarrow> int list gomap \<Rightarrow> string list \<Rightarrow> string \<Rightarrow> string" where
  "previous_consumer p c m [] from = from"
| "previous_consumer p c m (k # ks) from =
     previous_consumer p c m ks
       (if p \<in> set (owned m k) \<and> k \<noteq> c then k else from)"

fun moved_details ::
  "(int \<Rightarrow> string list) \<Rightarrow> string \<Rightarrow> int list \<Rightarrow> partition_assignment \<Rightarrow> int list \<Rightarrow> partition_rebalance list option"
where
  "moved_details order c old a [] = Some []"
| "moved_details order c old a (p # ps) =
     (if p \<in> set old then moved_details order c old a ps
      else if p < 0 \<or> p \<ge> int (length (pa_Partitions a)) then None
      else map_option ((#)
             \<lparr>pb_PartitionID = p, pb_FromConsumer = previous_consumer p c (pa_ConsumerMap a) (order p) '''',
              pb_ToConsumer = c, pb_MessagesMoved = pt_MessageCount (pa_Partitions a ! nat p),
              pb_Status = ''completed''\<rparr>) (moved_details order c old a ps))"

fun set_owner :: "string \<Rightarrow> int list \<Rightarrow> partition list \<Rightarrow> partition list option" where
  "set_owner c [] pts = Some pts"
| "set_owner c (p # ps) pts =
     (if p < int (length pts)
      then (if p < 0 then None else set_owner c ps (pts[nat p := (pts ! nat p)\<lparr>pt_Consumers := [c]\<rparr>]))
      else set_owner c ps pts)"

text \<open>
  The loop over the new assignment, in the order \<open>cs\<close>; \<open>order p\<close> is the order in which the map is
  searched for the previous consumer of \<open>p\<close>. Each detail is one partition moved.
\<close>

fun apply_assignment ::
  "(int \<Rightarrow> string list) \<Rightarrow> int list gomap \<Rightarrow> string list \<Rightarrow> partition_assignment
    \<Rightarrow> (partition_rebalance list \<times> partition_assignment) option" where
  "apply_assignment order new [] a = Some ([], a)"
| "apply_assignment order new (c # cs) a =
     (let ids = owned new c; old = owned (pa_ConsumerMap a) c
      in (case moved_details order c old a ids of
            None \<Rightarrow> None
          | Some ds \<Rightarrow>
              (case set_owner c ids (pa_Partitions a) of
                 None \<Rightarrow> None
               | Some pts \<Rightarrow>
                   map_option (\<lambda>(ds', a). (ds @ ds', a))
                     (apply_assignment order new cs
                        (a\<lparr>pa_ConsumerMap := mput c ids (pa_ConsumerMap a), pa_Partitions := pts\<rparr>)))))"

text \<open>
  \<open>consumers\<close> is the order in which the consumers are collected, \<open>cs\<close> the order of the loop over the
  new assignment. The deferred function resets the flag and stamps the times.
\<close>

definition RebalancePartitions ::
  "string list \<Rightarrow> string list \<Rightarrow> (int \<Rightarrow> string list) \<Rightarrow> string \<Rightarrow> partition_manager \<Rightarrow> 'd world
    \<Rightarrow> (rebalance_result res \<times> partition_manager \<times> 'd world) option" where
  "RebalancePartitions consumers cs order topicName pm w =
     (case map_of (pm_assignments pm) topicName of
        None \<Rightarrow> Some (Inl (not_found topicName), pm, w)
      | Some a \<Rightarrow>
          if pa_Rebalancing a
          then Some (Inl (Errorf (''rebalancing already in progress for topic '' @ topicName)), pm, w)
          else (let (startTime, w) = time_now w;
                    a = a\<lparr>pa_Rebalancing := True\<rparr>;
                    result = \<lparr>rr_TopicName = topicName, rr_Success = False, rr_StartedAt = startTime,
                              rr_CompletedAt = None, rr_Status = ''in_progress'', rr_PartitionsMoved = 0,
                              rr_Details = [], rr_Error = ''''\<rparr>
                in (case (if consumers = [] then Some ([], a)
                          else apply_assignment order (calculateOptimalAssignment (pa_Partitions a) consumers) cs a) of
                      None \<Rightarrow> None
                    | Some (ds, a) \<Rightarrow>
                        (let (last, w) = time_now w;
                             a = a\<lparr>pa_Rebalancing := False, pa_LastRebalance := last\<rparr>;
                             (endTime, w) = time_now w
                         in Some (Inr (result\<lparr>rr_Status := ''completed'', rr_Success := True,
                                              rr_PartitionsMoved := int (length ds), rr_Details := ds,
                                              rr_CompletedAt := Some endTime\<rparr>),
                                  put_assignment topicName a pm, w)))))"

section \<open>Consumers\<close>

definition go_rebalance :: "string \<Rightarrow> partition_manager \<Rightarrow> partition_manager" where
  "go_rebalance topicName pm = pm\<lparr>pm_pending := pm_pending pm @ [topicName]\<rparr>"

definition pm_AddConsumer :: "string \<Rightarrow> string \<Rightarrow> partition_manager \<Rightarrow> go_error option \<times> partition_manager" where
  "pm_AddConsumer topicName consumerID pm =
     (case map_of (pm_assignments pm) topicName of
        None \<Rightarrow> (Some (not_found topicName), pm)
      | Some a \<Rightarrow>
          if map_of (pa_ConsumerMap a) consumerID \<noteq> None then (None, pm)
          else (None, go_rebalance topicName (put_assignment topicName
                  (a\<lparr>pa_ConsumerMap := mput consumerID [] (pa_ConsumerMap a)\<rparr>) pm)))"

definition drop_consumer :: "string \<Rightarrow> partition \<Rightarrow> partition" where
  "drop_consumer consumerID p = p\<lparr>pt_Consumers := filter (\<lambda>c. c \<noteq> consumerID) (pt_Consumers p)\<rparr>"

definition pm_RemoveConsumer :: "string \<Rightarrow> string \<Rightarrow> partition_manager \<Rightarrow> go_error option \<times> partition_manager" where
  "pm_RemoveConsumer topicName consumerID pm =
     (case map_of (pm_assignments pm) topicName of
        None \<Rightarrow> (Some (not_found topicName), pm)
      | Some a \<Rightarrow>
          (let a = a\<lparr>pa_ConsumerMap := mdel consumerID (pa_ConsumerMap a)\<rparr>;
               a = a\<lparr>pa_Partitions := map (drop_consumer consumerID) (pa_Partitions a)\<rparr>;
               pm = put_assignment topicName a pm
           in (None, if length (pa_ConsumerMap a) > 0 then go_rebalance topicName pm else pm)))"

definition GetConsumerPartitions :: "string \<Rightarrow> string \<Rightarrow> partition_manager \<Rightarrow> int list res" where
  "GetConsumerPartitions topicName consumerID pm =
     (case map_of (pm_assignments pm) topicName of
        None \<Rightarrow> Inl (not_found topicName)
      | Some a \<Rightarrow> Inr (owned (pa_ConsumerMap a) consumerID))"

end
