(* ===== verification/Stats.thy ===== *)
theory Stats
  imports Core Partition
begin

text \<open>
  The statistics and health collector of the topic service, \<^verbatim>\<open>internal/services/topic/stats.go\<close>, with the
  response types that \<^verbatim>\<open>topic_manager.go\<close> declares for it. Floating-point numbers are real: their
  rounding is not modelled. The values of the \<open>details\<close> of a check are kept by their Go type;
  \<open>DDuration\<close> is the text that \<open>String()\<close> of a duration gives.
\<close>

record topic_statistics =
  ts_Name :: string
  ts_MessageCount :: int
  ts_BytesIn :: int
  ts_BytesOut :: int
  ts_MessagesPerSecond :: real
  ts_BytesPerSecond :: real
  ts_AvgMessageSize :: real
  ts_Partitions :: int
  ts_ActiveConsumers :: int
  ts_PendingMessages :: int
  ts_FailedMessages :: int
  ts_LastActivity :: "int option"
  ts_CollectedAt :: int

datatype detail = DInt int | DReal real | DBool bool | DTime int | DDuration int

record health_check =
  hc_Name :: string
  hc_Status :: string
  hc_Score :: real
  hc_Message :: string
  hc_Details :: "detail gomap"

record topic_health =
  th_Name :: string
  th_Status :: string
  th_Health :: string
  th_Issues :: "string list"
  th_Checks :: "health_check list"
  th_Score :: real
  th_LastChecked :: int

record stats_collector =
  sc_statsCache :: "topic_statistics gomap"
  sc_healthCache :: "topic_health gomap"

definition NewStatsCollector :: stats_collector where
  "NewStatsCollector = \<lparr>sc_statsCache = [], sc_healthCache = []\<rparr>"

section \<open>Statistics\<close>

definition CollectTopicStats ::
  "topic \<Rightarrow> stats_collector \<Rightarrow> 'd world \<Rightarrow> topic_statistics \<times> stats_collector \<times> 'd world" where
  "CollectTopicStats t sc w =
     (let (now, w) = time_now w;
          (messageCount, bytesIn, bytesOut) = GetStats t;
          (messagesPerSecond, bytesPerSecond) =
            (case map_of (sc_statsCache sc) (t_Name t) of
               None \<Rightarrow> (0, 0)
             | Some prev \<Rightarrow>
                 (let timeDiff = (of_int (now - ts_CollectedAt prev) :: real) / of_int Second
                  in if timeDiff > 0
                     then (of_int (wrap64 (messageCount - ts_MessageCount prev)) / timeDiff,
                           of_int (wrap64 (wrap64 (bytesIn + bytesOut)
                             - wrap64 (ts_BytesIn prev + ts_BytesOut prev))) / timeDiff)
                     else (0, 0)));
          avgMessageSize = (if messageCount > 0 then of_int bytesIn / of_int messageCount else 0);
          stats = \<lparr>ts_Name = t_Name t, ts_MessageCount = messageCount, ts_BytesIn = bytesIn,
                   ts_BytesOut = bytesOut, ts_MessagesPerSecond = messagesPerSecond,
                   ts_BytesPerSecond = bytesPerSecond, ts_AvgMessageSize = avgMessageSize,
                   ts_Partitions = t_Partitions t, ts_ActiveConsumers = 0, ts_PendingMessages = 0,
                   ts_FailedMessages = 0, ts_LastActivity = Some now, ts_CollectedAt = now\<rparr>
      in (stats, sc\<lparr>sc_statsCache := mput (t_Name t) stats (sc_statsCache sc)\<rparr>, w))"

definition GetCachedStats ::
  "string \<Rightarrow> stats_collector \<Rightarrow> 'd world \<Rightarrow> topic_statistics option \<times> 'd world" where
  "GetCachedStats topicName sc w =
     (case map_of (sc_statsCache sc) topicName of
        None \<Rightarrow> (None, w)
      | Some stats \<Rightarrow>
          (let (now, w) = time_now w
           in (if now - ts_CollectedAt stats > Minute then None else Some stats, w)))"

definition GetCachedHealth ::
  "string \<Rightarrow> stats_collector \<Rightarrow> 'd world \<Rightarrow> topic_health option \<times> 'd world" where
  "GetCachedHealth topicName sc w =
     (case map_of (sc_healthCache sc) topicName of
        None \<Rightarrow> (None, w)
      | Some health \<Rightarrow>
          (let (now, w) = time_now w
           in (if now - th_LastChecked health > 5 * Minute then None else Some health, w)))"

section \<open>Health checks\<close>

definition checkTopicConfiguration :: "topic \<Rightarrow> health_check" where
  "checkTopicConfiguration t =
     (let (score, status, msg) = (100, ''healthy'', ''Topic configuration is optimal'');
          (score, status, msg) =
            (if t_Partitions t \<le> 0 then (score - 50, ''unhealthy'', ''Invalid partition count'')
             else if t_Partitions t > 100
             then (score - 20, ''degraded'', ''High partition count may impact performance'')
             else (score, status, msg));
          (score, status, msg) =
            (if t_RetentionTime t \<le> 0 then (score - 30, ''unhealthy'', ''Invalid retention time'')
             else if t_RetentionTime t < Hour
             then (if status = ''healthy'' then (score - 10, ''degraded'', ''Short retention time'')
                   else (score - 10, status, msg))
             else (score, status, msg));
          (score, status, msg) =
            (if t_MaxSize t \<le> 0 then (score - 20, ''unhealthy'', ''Invalid max size'') else (score, status, msg));
          score = (if score < 0 then 0 else score)
      in \<lparr>hc_Name = ''Configuration'', hc_Status = status, hc_Score = score, hc_Message = msg,
          hc_Details = [(''partitions'', DInt (t_Partitions t)),
            (''retention_time'', DDuration (t_RetentionTime t)), (''max_size'', DInt (t_MaxSize t))]\<rparr>)"

text \<open>\<open>GetPartitionInfo\<close> always fills in the load balance: the test for nil is not modelled.\<close>

definition checkPartitionBalance :: "partition_info \<Rightarrow> health_check" where
  "checkPartitionBalance info =
     (let lb = pi_LoadBalance info;
          (score, status, msg) = (100, ''healthy'', ''Partitions are well balanced'');
          (score, status, msg) =
            (if \<not> lb_IsBalanced lb
             then (if lb_RecommendRebalance lb
                   then (score - 40, ''unhealthy'', ''Severe partition imbalance detected'')
                   else (score - 20, ''degraded'', ''Moderate partition imbalance''))
             else (score, status, msg));
          msg = (if lb_Reason lb \<noteq> '''' then lb_Reason lb else msg)
      in \<lparr>hc_Name = ''Partition Balance'', hc_Status = status, hc_Score = score, hc_Message = msg,
          hc_Details = [(''is_balanced'', DBool (lb_IsBalanced lb)),
            (''imbalance_ratio'', DReal (lb_ImbalanceRatio lb)),
            (''total_partitions'', DInt (pi_TotalPartitions info))]\<rparr>)"

definition checkTopicActivity :: "topic \<Rightarrow> 'd world \<Rightarrow> health_check \<times> 'd world" where
  "checkTopicActivity t w =
     (let (score, status, msg) = (100, ''healthy'', ''Topic activity is normal'');
          (now, w) = time_now w;
          timeSinceUpdate = now - t_UpdatedAt t;
          (score, status, msg) =
            (if timeSinceUpdate > 24 * Hour
             then (score - 30, ''degraded'', ''No recent activity detected'')
             else if timeSinceUpdate > 7 * 24 * Hour
             then (score - 50, ''unhealthy'', ''Topic appears inactive'')
             else (score, status, msg));
          (score, status, msg) =
            (if t_MessageCount t = 0
             then (if status = ''healthy'' then (score - 10, ''degraded'', ''No messages in topic'')
                   else (score - 10, status, msg))
             else (score, status, msg))
      in (\<lparr>hc_Name = ''Activity Level'', hc_Status = status, hc_Score = score, hc_Message = msg,
           hc_Details = [(''last_updated'', DTime (t_UpdatedAt t)),
             (''time_since_update'', DDuration timeSinceUpdate),
             (''message_count'', DInt (t_MessageCount t))]\<rparr>, w))"

definition checkResourceUsage :: "topic \<Rightarrow> health_check" where
  "checkResourceUsage t =
     (let (score, status, msg) = (100, ''healthy'', ''Resource usage is within limits'');
          currentSize = wrap64 (t_BytesIn t - t_BytesOut t);
          currentSize = (if currentSize < 0 then t_BytesIn t else currentSize);
          details = [(''current_size'', DInt currentSize), (''max_size'', DInt (t_MaxSize t)),
                     (''bytes_in'', DInt (t_BytesIn t)), (''bytes_out'', DInt (t_BytesOut t))];
          usageRatio = (of_int currentSize :: real) / of_int (t_MaxSize t);
          details = (if t_MaxSize t > 0 then details @ [(''usage_ratio'', DReal usageRatio)] else details);
          (score, status, msg) =
            (if t_MaxSize t > 0
             then (if usageRatio > 9 / 10 then (score - 40, ''unhealthy'', ''Topic size approaching limit'')
                   else if usageRatio > 7 / 10 then (score - 20, ''degraded'', ''Topic size usage is high'')
                   else (score, status, msg))
             else (score, status, msg));
          messagesPerPartition = t_MessageCount t sdiv t_Partitions t;
          details = (if t_Partitions t > 0
                     then details @ [(''messages_per_partition'', DInt messagesPerPartition)] else details);
          (score, status, msg) =
            (if t_Partitions t > 0 \<and> messagesPerPartition > 1000000
             then (if status = ''healthy'' then (score - 15, ''degraded'', ''High message density per partition'')
                   else (score - 15, status, msg))
             else (score, status, msg))
      in \<lparr>hc_Name = ''Resource Usage'', hc_Status = status, hc_Score = score, hc_Message = msg,
          hc_Details = details\<rparr>)"

definition calculateOverallHealth :: "real \<Rightarrow> nat \<Rightarrow> string \<times> string" where
  "calculateOverallHealth avgScore issueCount =
     (if avgScore \<ge> 80 \<and> issueCount = 0 then (''green'', ''healthy'')
      else if avgScore \<ge> 60 then (''yellow'', ''degraded'')
      else (''red'', ''unhealthy''))"

text \<open>The checks are appended one after the other; an unhealthy one adds its message to the issues.\<close>

definition health_checks :: "topic \<Rightarrow> partition_info option \<Rightarrow> 'd world \<Rightarrow> health_check list \<times> 'd world" where
  "health_checks t info w =
     (let (activity, w) = checkTopicActivity t w
      in ([checkTopicConfiguration t] @ (case info of None \<Rightarrow> [] | Some info \<Rightarrow> [checkPartitionBalance info])
          @ [activity, checkResourceUsage t], w))"

definition CollectTopicHealth ::
  "topic \<Rightarrow> partition_info option \<Rightarrow> stats_collector \<Rightarrow> 'd world
    \<Rightarrow> topic_health \<times> stats_collector \<times> 'd world" where
  "CollectTopicHealth t info sc w =
     (let (now, w) = time_now w;
          (checks, w) = health_checks t info w;
          issues = map hc_Message (filter (\<lambda>c. hc_Status c = ''unhealthy'') checks);
          totalScore = sum_list (map hc_Score checks);
          avgScore = totalScore / of_nat (length checks);
          (health, status) = calculateOverallHealth avgScore (length issues);
          th = \<lparr>th_Name = t_Name t, th_Status = status, th_Health = health, th_Issues = issues,
                th_Checks = checks, th_Score = avgScore, th_LastChecked = now\<rparr>
      in (th, sc\<lparr>sc_healthCache := mput (t_Name t) th (sc_healthCache sc)\<rparr>, w))"

section \<open>The caches and the filter\<close>

definition ClearCache :: "stats_collector \<Rightarrow> stats_collector" where
  "ClearCache sc = sc\<lparr>sc_statsCache := [], sc_healthCache := []\<rparr>"

definition GetAllCachedStats :: "stats_collector \<Rightarrow> topic_statistics gomap" where
  "GetAllCachedStats sc = sc_statsCache sc"

definition FilterTopics :: "topic list \<Rightarrow> string \<Rightarrow> topic list" where
  "FilterTopics topics f =
     (if f = '''' then topics
      else (let f = ToLower f in filter (\<lambda>t. contains_str (ToLower (t_Name t)) f) topics))"

end
