(* ===== verification/TopicManager.thy ===== *)
theory TopicManager
  imports Ports Stats
begin

text \<open>
  The topic management service, \<^verbatim>\<open>internal/services/topic/topic_manager.go\<close>, over the topic repository, the
  partition manager and the statistics collector. \<open>None\<close> is a panic of the runtime. A background
  worker is modelled by one tick of its ticker; \<open>tm_workers\<close> are the names of the workers that run.
  The logger is left out, and so is the message repository, which the service only hands on to
  \<open>CollectTopicStats\<close>, which does not use it.
\<close>

section \<open>Requests, responses and state\<close>

record create_request =
  xq_Name :: string
  xq_Partitions :: int
  xq_Replication :: int
  xq_RetentionTime :: int
  xq_MaxSize :: int
  xq_Config :: "json gomap option"

record create_response =
  xr_Name :: string
  xr_Partitions :: int
  xr_Replication :: int
  xr_RetentionTime :: int
  xr_MaxSize :: int
  xr_CreatedAt :: int

record update_request =
  yq_RetentionTime :: "int option"
  yq_MaxSize :: "int option"
  yq_Config :: "json gomap option"

record managed_topic_info =
  mi_Name :: string
  mi_Partitions :: int
  mi_Replication :: int
  mi_RetentionTime :: int
  mi_MaxSize :: int
  mi_Config :: "json gomap"
  mi_CreatedAt :: int
  mi_UpdatedAt :: int
  mi_Status :: string
  mi_Health :: string
  mi_Stats :: "topic_statistics option"

record list_request =
  lq_Offset :: int
  lq_Limit :: int
  lq_Filter :: string

record list_response =
  lr_Topics :: "managed_topic_info list"
  lr_Total :: int
  lr_Offset :: int
  lr_Limit :: int
  lr_HasMore :: bool

record active_topic =
  at_topic :: topic
  at_lastAccess :: int
  at_subscribers :: int
  at_publishers :: int

record 'd topic_service =
  tm_topicRepo :: "'d topic_repository"
  tm_config :: broker_config

record topic_state =
  tm_active :: "active_topic gomap"
  tm_partitions :: partition_manager
  tm_stats :: stats_collector
  tm_workers :: "unit gomap"

definition NewTopicService :: "'d topic_repository \<Rightarrow> broker_config \<Rightarrow> 'd topic_service \<times> topic_state" where
  "NewTopicService tr cfg =
     (\<lparr>tm_topicRepo = tr, tm_config = cfg\<rparr>,
      \<lparr>tm_active = [], tm_partitions = NewPartitionManager, tm_stats = NewStatsCollector, tm_workers = []\<rparr>)"

section \<open>Helpers\<close>

definition validateCreateTopicRequest :: "create_request \<Rightarrow> go_error option" where
  "validateCreateTopicRequest req =
     (if xq_Name req = '''' then Some (Errorf ''topic name cannot be empty'')
      else if xq_Partitions req < 0 then Some (Errorf ''partitions cannot be negative'')
      else if xq_Replication req < 0 then Some (Errorf ''replication cannot be negative'')
      else if xq_RetentionTime req < 0 then Some (Errorf ''retention time cannot be negative'')
      else if xq_MaxSize req < 0 then Some (Errorf ''max size cannot be negative'')
      else None)"

definition addToActiveTopics :: "topic \<Rightarrow> topic_state \<Rightarrow> 'd world \<Rightarrow> topic_state \<times> 'd world" where
  "addToActiveTopics t st w =
     (let (now, w) = time_now w
      in (st\<lparr>tm_active := mput (t_Name t)
            \<lparr>at_topic = t, at_lastAccess = now, at_subscribers = 0, at_publishers = 0\<rparr> (tm_active st)\<rparr>, w))"

definition updateActiveTopics :: "topic \<Rightarrow> topic_state \<Rightarrow> 'd world \<Rightarrow> topic_state \<times> 'd world" where
  "updateActiveTopics t st w =
     (case map_of (tm_active st) (t_Name t) of
        None \<Rightarrow> (st, w)
      | Some a \<Rightarrow>
          (let (now, w) = time_now w
           in (st\<lparr>tm_active := mput (t_Name t) (a\<lparr>at_topic := t, at_lastAccess := now\<rparr>) (tm_active st)\<rparr>, w)))"

definition removeFromActiveTopics :: "string \<Rightarrow> topic_state \<Rightarrow> topic_state" where
  "removeFromActiveTopics name st = st\<lparr>tm_active := mdel name (tm_active st)\<rparr>"

definition getTopicStatus :: "topic \<Rightarrow> string" where
  "getTopicStatus t = ''active''"

section \<open>Creating a topic\<close>

text \<open>The topic that a request asks for, with the defaults of the service.\<close>

definition topic_of_request :: "'d topic_service \<Rightarrow> create_request \<Rightarrow> 'd world \<Rightarrow> topic \<times> 'd world" where
  "topic_of_request s req w =
     (let partitions = (if xq_Partitions req \<le> 0 then bc_DefaultPartitions (tm_config s) else xq_Partitions req);
          replication = (if xq_Replication req \<le> 0 then bc_DefaultReplication (tm_config s) else xq_Replication req);
          retentionTime = (if xq_RetentionTime req = 0 then 24 * Hour else xq_RetentionTime req);
          maxSize = (if xq_MaxSize req \<le> 0 then push_bit 30 1 else xq_MaxSize req);
          (t, w) = NewTopic (xq_Name req) partitions w;
          t = t\<lparr>t_Replication := replication, t_RetentionTime := retentionTime, t_MaxSize := maxSize\<rparr>
      in (case xq_Config req of None \<Rightarrow> t | Some c \<Rightarrow> t\<lparr>t_Config := c\<rparr>, w))"

definition manager_CreateTopic ::
  "'d topic_service \<Rightarrow> create_request \<Rightarrow> topic_state \<Rightarrow> 'd world
    \<Rightarrow> (create_response res \<times> topic_state \<times> 'd world) option" where
  "manager_CreateTopic s req st w =
     (case validateCreateTopicRequest req of
        Some e \<Rightarrow> Some (Inl (Wrap ''invalid create topic request'' e), st, w)
      | None \<Rightarrow>
          (case TR_Exists (tm_topicRepo s) (xq_Name req) w of
             (Inl e, w) \<Rightarrow> Some (Inl (Wrap ''failed to check topic existence'' e), st, w)
           | (Inr True, w) \<Rightarrow> Some (Inl (Errorf (''topic '' @ xq_Name req @ '' already exists'')), st, w)
           | (Inr False, w) \<Rightarrow>
               (let (t, w) = topic_of_request s req w
                in (case TR_Create (tm_topicRepo s) t w of
                      (Some e, w) \<Rightarrow> Some (Inl (Wrap ''failed to create topic'' e), st, w)
                    | (None, w) \<Rightarrow>
                        (case InitializePartitions (xq_Name req) (t_Partitions t) (tm_partitions st) w of
                           None \<Rightarrow> None
                         | Some (pm, w) \<Rightarrow>
                             (let (st, w) = addToActiveTopics t (st\<lparr>tm_partitions := pm\<rparr>) w
                              in Some (Inr \<lparr>xr_Name = t_Name t, xr_Partitions = t_Partitions t,
                                   xr_Replication = t_Replication t, xr_RetentionTime = t_RetentionTime t,
                                   xr_MaxSize = t_MaxSize t, xr_CreatedAt = t_CreatedAt t\<rparr>, st, w)))))))"

section \<open>Statistics and health\<close>

definition manager_GetTopicStats ::
  "'d topic_service \<Rightarrow> string \<Rightarrow> topic_state \<Rightarrow> 'd world \<Rightarrow> topic_statistics res \<times> topic_state \<times> 'd world" where
  "manager_GetTopicStats s name st w =
     (case GetCachedStats name (tm_stats st) w of
        (Some stats, w) \<Rightarrow> (Inr stats, st, w)
      | (None, w) \<Rightarrow>
          (case TR_Get (tm_topicRepo s) name w of
             (Inl e, w) \<Rightarrow> (Inl (Wrap ''failed to get topic'' e), st, w)
           | (Inr t, w) \<Rightarrow>
               (let (stats, sc, w) = CollectTopicStats t (tm_stats st) w
                in (Inr stats, st\<lparr>tm_stats := sc\<rparr>, w))))"

definition manager_GetPartitionInfo :: "string \<Rightarrow> topic_state \<Rightarrow> partition_info res" where
  "manager_GetPartitionInfo name st = GetPartitionInfo name (tm_partitions st)"

definition manager_RebalancePartitions ::
  "string list \<Rightarrow> string list \<Rightarrow> (int \<Rightarrow> string list) \<Rightarrow> string \<Rightarrow> topic_state \<Rightarrow> 'd world
    \<Rightarrow> (rebalance_result res \<times> topic_state \<times> 'd world) option" where
  "manager_RebalancePartitions consumers cs order name st w =
     map_option (\<lambda>(r, pm, w). (r, st\<lparr>tm_partitions := pm\<rparr>, w))
       (RebalancePartitions consumers cs order name (tm_partitions st) w)"

definition partition_info_of :: "string \<Rightarrow> topic_state \<Rightarrow> partition_info option" where
  "partition_info_of name st = (case manager_GetPartitionInfo name st of Inl e \<Rightarrow> None | Inr info \<Rightarrow> Some info)"

definition GetTopicHealth ::
  "'d topic_service \<Rightarrow> string \<Rightarrow> topic_state \<Rightarrow> 'd world \<Rightarrow> topic_health res \<times> topic_state \<times> 'd world" where
  "GetTopicHealth s name st w =
     (case GetCachedHealth name (tm_stats st) w of
        (Some health, w) \<Rightarrow> (Inr health, st, w)
      | (None, w) \<Rightarrow>
          (case TR_Get (tm_topicRepo s) name w of
             (Inl e, w) \<Rightarrow> (Inl (Wrap ''failed to get topic'' e), st, w)
           | (Inr t, w) \<Rightarrow>
               (let (health, sc, w) = CollectTopicHealth t (partition_info_of name st) (tm_stats st) w
                in (Inr health, st\<lparr>tm_stats := sc\<rparr>, w))))"

section \<open>Reading, updating and deleting a topic\<close>

definition info_of_topic :: "topic \<Rightarrow> string \<Rightarrow> topic_statistics option \<Rightarrow> managed_topic_info" where
  "info_of_topic t health stats =
     \<lparr>mi_Name = t_Name t, mi_Partitions = t_Partitions t, mi_Replication = t_Replication t,
      mi_RetentionTime = t_RetentionTime t, mi_MaxSize = t_MaxSize t, mi_Config = t_Config t,
      mi_CreatedAt = t_CreatedAt t, mi_UpdatedAt = t_UpdatedAt t, mi_Status = getTopicStatus t,
      mi_Health = health, mi_Stats = stats\<rparr>"

definition GetTopic ::
  "'d topic_service \<Rightarrow> string \<Rightarrow> topic_state \<Rightarrow> 'd world \<Rightarrow> managed_topic_info res \<times> topic_state \<times> 'd world" where
  "GetTopic s name st w =
     (case TR_Get (tm_topicRepo s) name w of
        (Inl e, w) \<Rightarrow> (Inl (Wrap ''failed to get topic'' e), st, w)
      | (Inr t, w) \<Rightarrow>
          (let (hr, st, w) = GetTopicHealth s name st w;
               health = (case hr of Inl e \<Rightarrow> ''unknown'' | Inr h \<Rightarrow> th_Health h);
               (sr, st, w) = manager_GetTopicStats s name st w;
               stats = (case sr of Inl e \<Rightarrow> None | Inr stats \<Rightarrow> Some stats)
           in (Inr (info_of_topic t health stats), st, w)))"

text \<open>The entries of the request, written over the configuration one by one.\<close>

definition set_config :: "json gomap \<Rightarrow> json gomap \<Rightarrow> json gomap" where
  "set_config new old = fold (\<lambda>(k, v). mput k v) new old"

definition update_fields :: "update_request \<Rightarrow> topic \<Rightarrow> topic" where
  "update_fields req t =
     (let t = (case yq_RetentionTime req of None \<Rightarrow> t | Some d \<Rightarrow> t\<lparr>t_RetentionTime := d\<rparr>);
          t = (case yq_MaxSize req of None \<Rightarrow> t | Some n \<Rightarrow> t\<lparr>t_MaxSize := n\<rparr>)
      in (case yq_Config req of None \<Rightarrow> t | Some c \<Rightarrow> t\<lparr>t_Config := set_config c (t_Config t)\<rparr>))"

definition UpdateTopic ::
  "'d topic_service \<Rightarrow> string \<Rightarrow> update_request \<Rightarrow> topic_state \<Rightarrow> 'd world
    \<Rightarrow> managed_topic_info res \<times> topic_state \<times> 'd world" where
  "UpdateTopic s name req st w =
     (case TR_Get (tm_topicRepo s) name w of
        (Inl e, w) \<Rightarrow> (Inl (Wrap ''failed to get topic'' e), st, w)
      | (Inr t, w) \<Rightarrow>
          if yq_RetentionTime req = None \<and> yq_MaxSize req = None \<and> yq_Config req = None
          then (Inl (Errorf ''no updates provided''), st, w)
          else (let t = update_fields req t;
                    (now, w) = time_now w;
                    t = t\<lparr>t_UpdatedAt := now\<rparr>
                in (case TR_Update (tm_topicRepo s) t w of
                      (Some e, t, w) \<Rightarrow> (Inl (Wrap ''failed to update topic'' e), st, w)
                    | (None, t, w) \<Rightarrow>
                        (let (st, w) = updateActiveTopics t st w in GetTopic s name st w))))"

definition manager_DeleteTopic ::
  "'d topic_service \<Rightarrow> string \<Rightarrow> topic_state \<Rightarrow> 'd world \<Rightarrow> go_error option \<times> topic_state \<times> 'd world" where
  "manager_DeleteTopic s name st w =
     (case TR_Exists (tm_topicRepo s) name w of
        (Inl e, w) \<Rightarrow> (Some (Wrap ''failed to check topic existence'' e), st, w)
      | (Inr False, w) \<Rightarrow> (Some (Errorf (''topic '' @ name @ '' does not exist'')), st, w)
      | (Inr True, w) \<Rightarrow>
          (case TR_Delete (tm_topicRepo s) name w of
             (Some e, w) \<Rightarrow> (Some (Wrap ''failed to delete topic'' e), st, w)
           | (None, w) \<Rightarrow>
               (None, removeFromActiveTopics name
                  (st\<lparr>tm_partitions := CleanupPartitions name (tm_partitions st)\<rparr>), w)))"

section \<open>Listing\<close>

definition manager_ListTopics ::
  "'d topic_service \<Rightarrow> list_request \<Rightarrow> 'd world \<Rightarrow> (list_response res \<times> 'd world) option" where
  "manager_ListTopics s req w =
     (let offset = (if lq_Offset req < 0 then 0 else lq_Offset req);
          limit = (if lq_Limit req \<le> 0 then 50 else if lq_Limit req > 1000 then 1000 else lq_Limit req)
      in (case TR_List (tm_topicRepo s) offset (limit + 1) w of
            None \<Rightarrow> None
          | Some (Inl e, w) \<Rightarrow> Some (Inl (Wrap ''failed to list topics'' e), w)
          | Some (Inr topics, w) \<Rightarrow>
              (let topics = (if lq_Filter req \<noteq> '''' then FilterTopics topics (lq_Filter req) else topics);
                   hasMore = (int (length topics) > limit);
                   topics = (if hasMore then take (nat limit) topics else topics);
                   infos = map (\<lambda>t. info_of_topic t ''unknown'' None) topics
               in Some (Inr \<lparr>lr_Topics = infos, lr_Total = int (length infos), lr_Offset = offset,
                             lr_Limit = limit, lr_HasMore = hasMore\<rparr>, w))))"

section \<open>Background workers\<close>

definition start_topic_worker :: "string \<Rightarrow> topic_state \<Rightarrow> topic_state" where
  "start_topic_worker name st =
     (if map_of (tm_workers st) name = None then st\<lparr>tm_workers := mput name () (tm_workers st)\<rparr> else st)"

definition StartTopicWorkers :: "topic_state \<Rightarrow> topic_state" where
  "StartTopicWorkers st =
     start_topic_worker ''cleanup'' (start_topic_worker ''health_monitor'' (start_topic_worker ''stats_collector'' st))"

definition StopTopicWorkers :: "topic_state \<Rightarrow> topic_state" where
  "StopTopicWorkers st = fold (\<lambda>n st. st\<lparr>tm_workers := mdel n (tm_workers st)\<rparr>) (map fst (tm_workers st)) st"

fun collect_stats_loop :: "topic list \<Rightarrow> stats_collector \<Rightarrow> 'd world \<Rightarrow> stats_collector \<times> 'd world" where
  "collect_stats_loop [] sc w = (sc, w)"
| "collect_stats_loop (t # ts) sc w =
     (let (stats, sc, w) = CollectTopicStats t sc w in collect_stats_loop ts sc w)"

definition collectStatsForActiveTopics :: "topic_state \<Rightarrow> 'd world \<Rightarrow> topic_state \<times> 'd world" where
  "collectStatsForActiveTopics st w =
     (let (sc, w) = collect_stats_loop (map (at_topic \<circ> snd) (tm_active st)) (tm_stats st) w
      in (st\<lparr>tm_stats := sc\<rparr>, w))"

fun check_health_loop :: "topic list \<Rightarrow> topic_state \<Rightarrow> 'd world \<Rightarrow> topic_state \<times> 'd world" where
  "check_health_loop [] st w = (st, w)"
| "check_health_loop (t # ts) st w =
     (let (th, sc, w) = CollectTopicHealth t (partition_info_of (t_Name t) st) (tm_stats st) w
      in check_health_loop ts (st\<lparr>tm_stats := sc\<rparr>) w)"

definition checkHealthForActiveTopics :: "topic_state \<Rightarrow> 'd world \<Rightarrow> topic_state \<times> 'd world" where
  "checkHealthForActiveTopics st w = check_health_loop (map (at_topic \<circ> snd) (tm_active st)) st w"

text \<open>\<open>hour\<close> reads the hour of the day off an instant, in the time zone of the machine.\<close>

definition performCleanupTasks :: "(int \<Rightarrow> int) \<Rightarrow> topic_state \<Rightarrow> 'd world \<Rightarrow> topic_state \<times> 'd world" where
  "performCleanupTasks hour st w =
     (let (now, w) = time_now w;
          st = st\<lparr>tm_active := filter (\<lambda>(n, a). \<not> now - at_lastAccess a > 24 * Hour) (tm_active st)\<rparr>
      in (if hour now = 0 then st\<lparr>tm_stats := ClearCache (tm_stats st)\<rparr> else st, w))"

text \<open>One tick of each worker; only a worker that was started and not stopped ticks.\<close>

definition runs :: "string \<Rightarrow> topic_state \<Rightarrow> bool" where
  "runs name st \<longleftrightarrow> map_of (tm_workers st) name \<noteq> None"

definition statsCollectionWorker :: "topic_state \<Rightarrow> 'd world \<Rightarrow> topic_state \<times> 'd world" where
  "statsCollectionWorker st w =
     (if runs ''stats_collector'' st then collectStatsForActiveTopics st w else (st, w))"

definition healthMonitoringWorker :: "topic_state \<Rightarrow> 'd world \<Rightarrow> topic_state \<times> 'd world" where
  "healthMonitoringWorker st w =
     (if runs ''health_monitor'' st then checkHealthForActiveTopics st w else (st, w))"

definition cleanupWorker :: "(int \<Rightarrow> int) \<Rightarrow> topic_state \<Rightarrow> 'd world \<Rightarrow> topic_state \<times> 'd world" where
  "cleanupWorker hour st w = (if runs ''cleanup'' st then performCleanupTasks hour st w else (st, w))"

end
