(* ===== verification/PartitionSpec.thy ===== *)
theory PartitionSpec
  imports Partition
begin

text \<open>
  What the partition manager guarantees: the partition chosen for a message lies within the topic, a
  rebalance gives each partition to one consumer and deals them evenly, the two views of the
  assignment (by consumer and by partition) agree in every reachable state, and the balance test is a
  comparison of moments.
\<close>

section \<open>Round robin\<close>

lemma length_mod_class:
  "j < k \<Longrightarrow> length (filter (\<lambda>i. i mod k = j) [0..<n]) = n div k + (if j < n mod k then 1 else 0)"
proof (induction n)
  case (Suc n)
  then show ?case
    by (cases "Suc (n mod k) = k") (auto simp: div_Suc mod_Suc)
qed simp

lemma owned_append_to: "owned (append_to c p m) d = (if d = c then owned m c @ [p] else owned m d)"
  by (simp add: owned_def append_to_def)

lemma owned_deal:
  "owned (fold (\<lambda>(i, p). append_to (f i) (pt_ID p)) (enumerate k ps) m) c =
     owned m c @ map (pt_ID \<circ> snd) (filter (\<lambda>(i, p). f i = c) (enumerate k ps))"
  by (induction ps arbitrary: k m) (auto simp: owned_append_to)

lemma dom_deal:
  "(\<And>i. f i \<in> dom (map_of m)) \<Longrightarrow>
     dom (map_of (fold (\<lambda>(i, p). append_to (f i) (pt_ID p)) (enumerate k ps) m)) = dom (map_of m)"
proof (induction ps arbitrary: k m)
  case (Cons p ps)
  have "dom (map_of (append_to (f k) (pt_ID p) m)) = dom (map_of m)"
    using Cons.prems [of k] by (auto simp: append_to_def)
  then show ?case using Cons.IH [of "append_to (f k) (pt_ID p) m" "Suc k"] Cons.prems by simp
qed simp

lemma fold_mput_empty:
  "map_of (fold (\<lambda>c. mput c []) cs m) c = (if c \<in> set cs then Some [] else map_of m c)"
  by (induction cs arbitrary: m) auto

lemma owned_empty [simp]: "owned (fold (\<lambda>c. mput c []) cs []) c = []"
  by (simp add: owned_def fold_mput_empty)

definition indexed :: "partition list \<Rightarrow> bool" where
  "indexed ps \<longleftrightarrow> (\<forall>i < length ps. pt_ID (ps ! i) = int i)"

lemma filter_enumerate_ids:
  "indexed ps \<Longrightarrow> map (pt_ID \<circ> snd) (filter (\<lambda>(i, p). P i) (enumerate 0 ps)) = map int (filter P [0..<length ps])"
proof (induction ps rule: rev_induct)
  case (snoc p ps)
  then have "indexed ps" and "pt_ID p = int (length ps)"
    by (auto simp: indexed_def nth_append split: if_splits)
  with snoc.IH show ?case by (simp add: enumerate_append_eq)
qed simp

lemma optimal_owned:
  assumes "indexed ps" "distinct cs" "j < length cs"
  shows "owned (calculateOptimalAssignment ps cs) (cs ! j) = map int (filter (\<lambda>i. i mod length cs = j) [0..<length ps])"
proof -
  from assms have ne: "cs \<noteq> []" by auto
  have "\<And>i. cs ! (i mod length cs) = cs ! j \<longleftrightarrow> i mod length cs = j"
    using assms ne by (auto simp: nth_eq_iff_index_eq)
  then show ?thesis
    using ne filter_enumerate_ids [OF assms(1), of "\<lambda>i. i mod length cs = j"]
    by (simp add: calculateOptimalAssignment_def owned_deal)
qed

lemma optimal_dom: "cs \<noteq> [] \<Longrightarrow> dom (map_of (calculateOptimalAssignment ps cs)) = set cs"
  by (simp add: calculateOptimalAssignment_def) (subst dom_deal, auto simp: fold_mput_empty split: if_splits)

text \<open>What the new assignment gives: every consumer some partitions of the topic, no partition twice.\<close>

definition deals :: "nat \<Rightarrow> int list gomap \<Rightarrow> string list \<Rightarrow> bool" where
  "deals n new cs \<longleftrightarrow>
     (\<forall>j < length cs. owned new (cs ! j) = map int (filter (\<lambda>i. i mod length cs = j) [0..<n]))"

lemma optimal_deals: "indexed ps \<Longrightarrow> distinct cs \<Longrightarrow> deals (length ps) (calculateOptimalAssignment ps cs) cs"
  by (simp add: deals_def optimal_owned)

lemma dealt_range: "deals n new cs \<Longrightarrow> c \<in> set cs \<Longrightarrow> set (owned new c) \<subseteq> int ` {0..<n}"
  by (auto simp: deals_def in_set_conv_nth)

lemma dealt_distinct: "deals n new cs \<Longrightarrow> c \<in> set cs \<Longrightarrow> distinct (owned new c)"
  by (auto simp: deals_def in_set_conv_nth distinct_map)

lemma dealt_owner:
  assumes "deals n new cs" "distinct cs" "c \<in> set cs" "i < n"
  shows "int i \<in> set (owned new c) \<longleftrightarrow> c = cs ! (i mod length cs)"
proof -
  obtain j where "j < length cs" "c = cs ! j" using assms(3) by (metis in_set_conv_nth)
  moreover from this have "0 < length cs" by auto
  ultimately show ?thesis using assms by (auto simp: deals_def nth_eq_iff_index_eq)
qed

lemma dealt_disjoint:
  assumes "deals n new cs" "distinct cs" "c \<in> set cs" "d \<in> set cs" "set (owned new c) \<inter> set (owned new d) \<noteq> {}"
  shows "c = d"
proof -
  obtain i where "i < n" "int i \<in> set (owned new c)" "int i \<in> set (owned new d)"
    using assms(5) dealt_range [OF assms(1,3)] by fastforce
  with dealt_owner [OF assms(1,2,3)] dealt_owner [OF assms(1,2,4)] show ?thesis by simp
qed

lemma dealt_evenly:
  "deals n new cs \<Longrightarrow> c \<in> set cs \<Longrightarrow> length (owned new c) \<in> {n div length cs, n div length cs + 1}"
  by (auto simp: deals_def in_set_conv_nth length_mod_class)

section \<open>Applying an assignment\<close>

lemma moved_details_total:
  "set ps \<subseteq> int ` {0..<length (pa_Partitions a)} \<Longrightarrow>
     \<exists>ds. moved_details order c old a ps = Some ds \<and>
       map pb_PartitionID ds = filter (\<lambda>p. p \<notin> set old) ps \<and> (\<forall>d \<in> set ds. pb_ToConsumer d = c)"
  by (induction ps) auto

lemma set_owner_total:
  "set ps \<subseteq> int ` {0..<length pts} \<Longrightarrow>
     \<exists>pts'. set_owner c ps pts = Some pts' \<and> length pts' = length pts \<and>
       (\<forall>i < length pts. pts' ! i = (if int i \<in> set ps then (pts ! i)\<lparr>pt_Consumers := [c]\<rparr> else pts ! i))"
proof (induction ps arbitrary: pts)
  case (Cons p ps)
  let ?pts = "pts[nat p := (pts ! nat p)\<lparr>pt_Consumers := [c]\<rparr>]"
  from Cons.prems obtain k where k: "p = int k" "k < length pts" by auto
  from Cons.prems have "set ps \<subseteq> int ` {0..<length ?pts}" by auto
  from Cons.IH [OF this] k show ?case by (auto simp: nth_list_update)
qed simp

text \<open>The record that the loop over the consumers \<open>cs\<close> leaves behind.\<close>

definition applied :: "int list gomap \<Rightarrow> string list \<Rightarrow> partition_assignment \<Rightarrow> partition_assignment \<Rightarrow> bool" where
  "applied new cs a b \<longleftrightarrow>
     pa_TopicName b = pa_TopicName a \<and> pa_Rebalancing b = pa_Rebalancing a \<and>
     length (pa_Partitions b) = length (pa_Partitions a) \<and>
     (\<forall>c. map_of (pa_ConsumerMap b) c = (if c \<in> set cs then Some (owned new c) else map_of (pa_ConsumerMap a) c)) \<and>
     (wf_map (pa_ConsumerMap a) \<longrightarrow> wf_map (pa_ConsumerMap b)) \<and>
     (\<forall>i < length (pa_Partitions a). \<forall>c \<in> set cs. int i \<in> set (owned new c) \<longrightarrow>
        pa_Partitions b ! i = (pa_Partitions a ! i)\<lparr>pt_Consumers := [c]\<rparr>) \<and>
     (\<forall>i < length (pa_Partitions a). (\<forall>c \<in> set cs. int i \<notin> set (owned new c)) \<longrightarrow>
        pa_Partitions b ! i = pa_Partitions a ! i)"

lemma apply_assignment_total:
  assumes "\<forall>c \<in> set cs. set (owned new c) \<subseteq> int ` {0..<length (pa_Partitions a)}"
    and "\<forall>c \<in> set cs. \<forall>d \<in> set cs. set (owned new c) \<inter> set (owned new d) \<noteq> {} \<longrightarrow> c = d" and "distinct cs"
  shows "\<exists>ds b. apply_assignment order new cs a = Some (ds, b) \<and> applied new cs a b \<and>
    map (\<lambda>d. (pb_PartitionID d, pb_ToConsumer d)) ds =
      concat (map (\<lambda>c. map (\<lambda>p. (p, c)) (filter (\<lambda>p. p \<notin> set (owned (pa_ConsumerMap a) c)) (owned new c))) cs)"
  using assms
proof (induction cs arbitrary: a)
  case Nil
  then show ?case by (simp add: applied_def)
next
  case (Cons c cs)
  let ?ids = "owned new c"
  have ids: "set ?ids \<subseteq> int ` {0..<length (pa_Partitions a)}" using Cons.prems by simp
  obtain ds where ds: "moved_details order c (owned (pa_ConsumerMap a) c) a ?ids = Some ds"
    "map pb_PartitionID ds = filter (\<lambda>p. p \<notin> set (owned (pa_ConsumerMap a) c)) ?ids"
    "\<forall>d \<in> set ds. pb_ToConsumer d = c"
    using moved_details_total [OF ids] by blast
  obtain pts where pts: "set_owner c ?ids (pa_Partitions a) = Some pts" "length pts = length (pa_Partitions a)"
    "\<forall>i < length (pa_Partitions a). pts ! i =
       (if int i \<in> set ?ids then (pa_Partitions a ! i)\<lparr>pt_Consumers := [c]\<rparr> else pa_Partitions a ! i)"
    using set_owner_total [OF ids] by blast
  let ?a = "a\<lparr>pa_ConsumerMap := mput c ?ids (pa_ConsumerMap a), pa_Partitions := pts\<rparr>"
  obtain ds' b where rest: "apply_assignment order new cs ?a = Some (ds', b)" "applied new cs ?a b"
    "map (\<lambda>d. (pb_PartitionID d, pb_ToConsumer d)) ds' =
      concat (map (\<lambda>c. map (\<lambda>p. (p, c)) (filter (\<lambda>p. p \<notin> set (owned (pa_ConsumerMap ?a) c)) (owned new c))) cs)"
    using Cons.IH [of ?a] Cons.prems pts(2) by auto
  have other: "c \<notin> set cs" using Cons.prems by simp
  have "map (\<lambda>d. (pb_PartitionID d, pb_ToConsumer d)) ds = map (\<lambda>p. (p, c)) (map pb_PartitionID ds)"
    using ds(3) by simp
  moreover have "owned (pa_ConsumerMap ?a) d = owned (pa_ConsumerMap a) d" if "d \<in> set cs" for d
    using that other by (auto simp: owned_def)
  ultimately have "map (\<lambda>d. (pb_PartitionID d, pb_ToConsumer d)) (ds @ ds') =
      concat (map (\<lambda>c. map (\<lambda>p. (p, c)) (filter (\<lambda>p. p \<notin> set (owned (pa_ConsumerMap a) c)) (owned new c))) (c # cs))"
    using ds(2) rest(3) by (simp cong: map_cong)
  moreover have "applied new (c # cs) a b"
    using rest(2) other pts Cons.prems(2) by (auto simp: applied_def split: if_splits)
  ultimately show ?case using ds(1) pts(1) rest(1) by (auto simp: Let_def)
qed

section \<open>Consistent assignments\<close>

text \<open>
  A partition lists at most one consumer, and it is the one whose entry of the map lists the
  partition. An assignment is settled when its consumers hold the partitions dealt round robin.
\<close>

definition assignment_ok :: "partition_assignment \<Rightarrow> bool" where
  "assignment_ok a \<longleftrightarrow> indexed (pa_Partitions a) \<and> \<not> pa_Rebalancing a \<and>
     (\<forall>c. set (owned (pa_ConsumerMap a) c) \<subseteq> int ` {0..<length (pa_Partitions a)}) \<and>
     (\<forall>i < length (pa_Partitions a). length (pt_Consumers (pa_Partitions a ! i)) \<le> 1 \<and>
        (\<forall>c. c \<in> set (pt_Consumers (pa_Partitions a ! i)) \<longleftrightarrow> int i \<in> set (owned (pa_ConsumerMap a) c)))"

definition settled_on :: "string list \<Rightarrow> partition_assignment \<Rightarrow> bool" where
  "settled_on cs a \<longleftrightarrow> distinct cs \<and> set cs = dom (map_of (pa_ConsumerMap a)) \<and>
     deals (length (pa_Partitions a)) (pa_ConsumerMap a) cs"

text \<open>The orders in which Go may visit the consumers of a map.\<close>

definition visits :: "string list \<Rightarrow> 'v gomap \<Rightarrow> bool" where
  "visits cs m \<longleftrightarrow> distinct cs \<and> set cs = dom (map_of m)"

lemma short_list: "length xs \<le> 1 \<Longrightarrow> xs = [c] \<longleftrightarrow> c \<in> set xs"
  by (cases xs) auto

lemma owned_None: "map_of m c = None \<Longrightarrow> owned m c = []"
  by (simp add: owned_def)

lemma applied_settles:
  assumes ok: "assignment_ok a" and cs0: "visits cs0 (pa_ConsumerMap a)" and cs: "distinct cs" "set cs = set cs0"
    and deals: "deals (length (pa_Partitions a)) new cs0" and b: "applied new cs a b"
  shows "settled_on cs0 b" and "assignment_ok b"
    and "\<And>i. i < length (pa_Partitions a) \<Longrightarrow> cs0 \<noteq> [] \<Longrightarrow>
      pa_Partitions b ! i = (pa_Partitions a ! i)\<lparr>pt_Consumers := [cs0 ! (i mod length cs0)]\<rparr>"
proof -
  have d0: "distinct cs0" "set cs0 = dom (map_of (pa_ConsumerMap a))" using cs0 by (auto simp: visits_def)
  have map: "map_of (pa_ConsumerMap b) c = (if c \<in> set cs0 then Some (owned new c) else None)" for c
    using b d0 cs by (auto simp: applied_def dom_def)
  then have own: "owned (pa_ConsumerMap b) c = (if c \<in> set cs0 then owned new c else [])" for c
    by (simp add: owned_def)
  have len: "length (pa_Partitions b) = length (pa_Partitions a)" using b by (simp add: applied_def)
  have "deals (length (pa_Partitions b)) (pa_ConsumerMap b) cs0"
    using deals by (simp add: deals_def own len)
  moreover have "set cs0 = dom (map_of (pa_ConsumerMap b))" by (auto simp: dom_def map split: if_splits)
  ultimately show "settled_on cs0 b" using d0 by (simp add: settled_on_def)
  show part: "pa_Partitions b ! i = (pa_Partitions a ! i)\<lparr>pt_Consumers := [cs0 ! (i mod length cs0)]\<rparr>"
    if "i < length (pa_Partitions a)" "cs0 \<noteq> []" for i
  proof -
    have c: "cs0 ! (i mod length cs0) \<in> set cs0" using that by simp
    with dealt_owner [OF deals d0(1) c that(1)] that b cs show ?thesis by (simp add: applied_def)
  qed
  have none: "pa_Partitions b ! i = pa_Partitions a ! i" if "i < length (pa_Partitions a)" "cs0 = []" for i
    using b cs that by (simp add: applied_def)
  have "indexed (pa_Partitions b)"
    using ok part none len by (cases "cs0 = []") (auto simp: assignment_ok_def indexed_def)
  moreover have "\<not> pa_Rebalancing b" using ok b by (simp add: assignment_ok_def applied_def)
  moreover have "set (owned (pa_ConsumerMap b) c) \<subseteq> int ` {0..<length (pa_Partitions b)}" for c
    using dealt_range [OF deals] by (auto simp: own len)
  moreover have "length (pt_Consumers (pa_Partitions b ! i)) \<le> 1 \<and>
      (\<forall>c. c \<in> set (pt_Consumers (pa_Partitions b ! i)) \<longleftrightarrow> int i \<in> set (owned (pa_ConsumerMap b) c))"
    if "i < length (pa_Partitions b)" for i
  proof (cases "cs0 = []")
    case True
    then have "owned (pa_ConsumerMap a) c = []" for c using d0 owned_None by (auto simp: dom_def)
    then show ?thesis using ok none [of i] that True len by (auto simp: assignment_ok_def own)
  next
    case False
    then have "cs0 ! (i mod length cs0) \<in> set cs0" by simp
    then show ?thesis using part [of i] that False len dealt_owner [OF deals d0(1)] by (auto simp: own)
  qed
  ultimately show "assignment_ok b" by (simp add: assignment_ok_def)
qed

lemma moved_count:
  assumes ok: "assignment_ok a" and cs0: "visits cs0 (pa_ConsumerMap a)" and cs: "distinct cs" "set cs = set cs0"
    and deals: "deals (length (pa_Partitions a)) new cs0" and b: "applied new cs a b"
    and ds: "map (\<lambda>d. (pb_PartitionID d, pb_ToConsumer d)) ds =
      concat (map (\<lambda>c. map (\<lambda>p. (p, c)) (filter (\<lambda>p. p \<notin> set (owned (pa_ConsumerMap a) c)) (owned new c))) cs)"
    and ne: "cs0 \<noteq> []"
  shows "length ds = card {i. i < length (pa_Partitions a) \<and>
    pt_Consumers (pa_Partitions b ! i) \<noteq> pt_Consumers (pa_Partitions a ! i)}"
proof -
  let ?n = "length (pa_Partitions a)" and ?c = "\<lambda>i. cs0 ! (i mod length cs0)"
  let ?keep = "\<lambda>c p. p \<notin> set (owned (pa_ConsumerMap a) c)"
  let ?moved = "\<lambda>c. {i. i < ?n \<and> ?c i = c \<and> ?keep c (int i)}"
  have d0: "distinct cs0" using cs0 by (simp add: visits_def)
  have each: "length (filter (?keep c) (owned new c)) = card (?moved c)" if "c \<in> set cs" for c
  proof -
    have c: "c \<in> set cs0" using that cs by simp
    have "set (filter (?keep c) (owned new c)) = int ` ?moved c"
      using dealt_range [OF deals c] dealt_owner [OF deals d0 c] by (auto simp: image_iff)
    moreover have "distinct (filter (?keep c) (owned new c))" using dealt_distinct [OF deals c] by simp
    from distinct_card [OF this] have "length (filter (?keep c) (owned new c)) = card (set (filter (?keep c) (owned new c)))"
      by simp
    ultimately show ?thesis by (simp only: card_image [OF inj_on_of_nat])
  qed
  have "length ds = length (concat (map (\<lambda>c. map (\<lambda>p. (p, c)) (filter (?keep c) (owned new c))) cs))"
    using arg_cong [OF ds, of length] by simp
  also have "\<dots> = (\<Sum>c \<in> set cs. length (filter (?keep c) (owned new c)))"
    by (simp add: length_concat comp_def sum_list_distinct_conv_sum_set [OF cs(1)])
  also have "\<dots> = (\<Sum>c \<in> set cs. card (?moved c))" using each by simp
  also have "\<dots> = card (\<Union>c \<in> set cs. ?moved c)" by (rule card_UN_disjoint [symmetric]) auto
  also have "(\<Union>c \<in> set cs. ?moved c) =
      {i. i < ?n \<and> pt_Consumers (pa_Partitions b ! i) \<noteq> pt_Consumers (pa_Partitions a ! i)}"
  proof -
    have "?c i \<in> set cs" for i using ne cs by simp
    moreover have "?keep (?c i) (int i) \<longleftrightarrow> pt_Consumers (pa_Partitions a ! i) \<noteq> [?c i]" if "i < ?n" for i
      using ok that by (simp add: assignment_ok_def short_list)
    moreover have "pt_Consumers (pa_Partitions b ! i) = [?c i]" if "i < ?n" for i
      using applied_settles(3) [OF ok cs0 cs deals b that ne] by simp
    ultimately show ?thesis by auto
  qed
  finally show ?thesis .
qed

text \<open>The whole method, from a consistent assignment.\<close>

definition rebalanced :: "string list \<Rightarrow> partition_assignment \<Rightarrow> partition_assignment \<Rightarrow> nat \<Rightarrow> bool" where
  "rebalanced cs a b moved \<longleftrightarrow> settled_on cs b \<and> assignment_ok b \<and>
     length (pa_Partitions b) = length (pa_Partitions a) \<and>
     dom (map_of (pa_ConsumerMap b)) = dom (map_of (pa_ConsumerMap a)) \<and>
     (\<forall>i < length (pa_Partitions a). \<exists>os. pa_Partitions b ! i = (pa_Partitions a ! i)\<lparr>pt_Consumers := os\<rparr>) \<and>
     moved = card {i. i < length (pa_Partitions a) \<and>
       pt_Consumers (pa_Partitions b ! i) \<noteq> pt_Consumers (pa_Partitions a ! i)}"

lemma stamp_simps:
  "settled_on cs (b\<lparr>pa_Rebalancing := r, pa_LastRebalance := now\<rparr>) = settled_on cs (b\<lparr>pa_Rebalancing := r\<rparr>)"
  "assignment_ok (b\<lparr>pa_Rebalancing := r, pa_LastRebalance := now\<rparr>) = assignment_ok (b\<lparr>pa_Rebalancing := r\<rparr>)"
  by (simp_all add: settled_on_def assignment_ok_def)

lemma rebalanced_stamp:
  "rebalanced cs a (b\<lparr>pa_Rebalancing := False\<rparr>) k \<Longrightarrow>
     rebalanced cs a (b\<lparr>pa_Rebalancing := False, pa_LastRebalance := now\<rparr>) k"
  by (simp add: rebalanced_def stamp_simps)

lemma rebalanced_nothing: "assignment_ok a \<Longrightarrow> visits [] (pa_ConsumerMap a) \<Longrightarrow> rebalanced [] a (a\<lparr>pa_Rebalancing := False\<rparr>) 0"
  by (auto simp: rebalanced_def settled_on_def visits_def deals_def assignment_ok_def)
    (metis partition.surjective partition.update_convs(7))

lemma apply_rebalances:
  assumes ok: "assignment_ok a" and cs0: "visits cs0 (pa_ConsumerMap a)" and cs: "distinct cs" "set cs = set cs0"
    and ne: "cs0 \<noteq> []"
  shows "\<exists>ds b. apply_assignment order (calculateOptimalAssignment (pa_Partitions a) cs0) cs
      (a\<lparr>pa_Rebalancing := True\<rparr>) = Some (ds, b) \<and> rebalanced cs0 a (b\<lparr>pa_Rebalancing := False\<rparr>) (length ds)"
proof -
  let ?a = "a\<lparr>pa_Rebalancing := True\<rparr>" and ?new = "calculateOptimalAssignment (pa_Partitions a) cs0"
  have d0: "distinct cs0" "set cs0 = dom (map_of (pa_ConsumerMap a))" using cs0 by (auto simp: visits_def)
  have deals: "deals (length (pa_Partitions a)) ?new cs0"
    using ok d0 by (simp add: assignment_ok_def optimal_deals)
  have "\<forall>c \<in> set cs. \<forall>d \<in> set cs. set (owned ?new c) \<inter> set (owned ?new d) \<noteq> {} \<longrightarrow> c = d"
    using dealt_disjoint [OF deals d0(1)] cs by blast
  then obtain ds b where run: "apply_assignment order ?new cs ?a = Some (ds, b)" "applied ?new cs ?a b"
    "map (\<lambda>d. (pb_PartitionID d, pb_ToConsumer d)) ds =
      concat (map (\<lambda>c. map (\<lambda>p. (p, c)) (filter (\<lambda>p. p \<notin> set (owned (pa_ConsumerMap ?a) c)) (owned ?new c))) cs)"
    using apply_assignment_total [of cs ?new ?a order] dealt_range [OF deals] cs by auto
  let ?b = "b\<lparr>pa_Rebalancing := False\<rparr>"
  have b: "applied ?new cs a ?b" using run(2) ok by (auto simp: applied_def assignment_ok_def)
  note facts = applied_settles [OF ok cs0 cs deals b]
  have "length ds = card {i. i < length (pa_Partitions a) \<and>
      pt_Consumers (pa_Partitions ?b ! i) \<noteq> pt_Consumers (pa_Partitions a ! i)}"
    using moved_count [OF ok cs0 cs deals b _ ne] run(3) by simp
  moreover have "dom (map_of (pa_ConsumerMap ?b)) = dom (map_of (pa_ConsumerMap a))"
    using facts(1) d0 by (simp add: settled_on_def)
  moreover have "\<forall>i < length (pa_Partitions a). \<exists>os. pa_Partitions ?b ! i = (pa_Partitions a ! i)\<lparr>pt_Consumers := os\<rparr>"
    using facts(3) ne by blast
  moreover have "length (pa_Partitions ?b) = length (pa_Partitions a)" using b by (simp add: applied_def)
  ultimately have "rebalanced cs0 a ?b (length ds)" using facts(1,2) unfolding rebalanced_def by blast
  with run(1) show ?thesis by blast
qed

lemma rebalance_facts:
  assumes a: "map_of (pm_assignments pm) t = Some a" and ok: "assignment_ok a"
    and cs0: "visits cs0 (pa_ConsumerMap a)" and cs: "distinct cs" "set cs = set cs0"
  shows "\<exists>r b w' k. RebalancePartitions cs0 cs order t pm w = Some (Inr r, put_assignment t b pm, w') \<and>
    rr_Success r \<and> rr_Status r = ''completed'' \<and> rr_PartitionsMoved r = int k \<and> rebalanced cs0 a b k"
proof -
  obtain ds b where run: "(if cs0 = [] then Some ([], a\<lparr>pa_Rebalancing := True\<rparr>)
      else apply_assignment order (calculateOptimalAssignment (pa_Partitions a) cs0) cs
        (a\<lparr>pa_Rebalancing := True\<rparr>)) = Some (ds, b)" and
    b: "rebalanced cs0 a (b\<lparr>pa_Rebalancing := False\<rparr>) (length ds)"
  proof (cases "cs0 = []")
    case True
    then have "rebalanced cs0 a (a\<lparr>pa_Rebalancing := True, pa_Rebalancing := False\<rparr>) (length [])"
      using rebalanced_nothing ok cs0 by simp
    with True that show thesis by simp
  next
    case False
    then show thesis using apply_rebalances [OF ok cs0 cs False, of order] that by auto
  qed
  have "\<not> pa_Rebalancing a" using ok by (simp add: assignment_ok_def)
  with a run have "\<exists>r now w'. RebalancePartitions cs0 cs order t pm w =
      Some (Inr r, put_assignment t (b\<lparr>pa_Rebalancing := False, pa_LastRebalance := now\<rparr>) pm, w') \<and>
      rr_Success r \<and> rr_Status r = ''completed'' \<and> rr_PartitionsMoved r = int (length ds)"
    by (cases "cs0 = []") (auto simp: RebalancePartitions_def time_now_def Let_def)
  with rebalanced_stamp [OF b] show ?thesis by metis
qed

section \<open>Calls and background jobs as a step relation\<close>

definition go_orders :: "string list \<Rightarrow> string list \<Rightarrow> string \<Rightarrow> partition_manager \<Rightarrow> bool" where
  "go_orders cs0 cs t pm \<longleftrightarrow> (\<forall>a. map_of (pm_assignments pm) t = Some a \<longrightarrow>
     visits cs0 (pa_ConsumerMap a) \<and> distinct cs \<and> set cs = set cs0)"

inductive pm_step :: "partition_manager \<times> 'd world \<Rightarrow> partition_manager \<times> 'd world \<Rightarrow> bool" where
  do_initialize: "InitializePartitions t n pm w = Some (pm', w') \<Longrightarrow> pm_step (pm, w) (pm', w')"
| do_add: "pm_AddConsumer t c pm = (e, pm') \<Longrightarrow> pm_step (pm, w) (pm', w)"
| do_remove: "pm_RemoveConsumer t c pm = (e, pm') \<Longrightarrow> pm_step (pm, w) (pm', w)"
| do_update: "UpdatePartitionStats t p k b pm w = Some (pm', w') \<Longrightarrow> pm_step (pm, w) (pm', w')"
| do_cleanup: "pm_step (pm, w) (CleanupPartitions t pm, w)"
| do_rebalance: "go_orders cs0 cs t pm \<Longrightarrow>
    RebalancePartitions cs0 cs order t pm w = Some (r, pm', w') \<Longrightarrow> pm_step (pm, w) (pm', w')"
| do_job: "pm_pending pm = js @ t # ks \<Longrightarrow> go_orders cs0 cs t pm \<Longrightarrow>
    RebalancePartitions cs0 cs order t (pm\<lparr>pm_pending := js @ ks\<rparr>) w = Some (r, pm', w') \<Longrightarrow>
    pm_step (pm, w) (pm', w')"
| do_else: "pm_step (pm, w) (pm, w')"

inductive pm_reachable :: "partition_manager \<Rightarrow> 'd world \<Rightarrow> bool" where
  pm_new: "pm_reachable NewPartitionManager w"
| pm_next: "pm_reachable pm w \<Longrightarrow> pm_step (pm, w) (pm', w') \<Longrightarrow> pm_reachable pm' w'"

definition pm_inv :: "partition_manager \<Rightarrow> bool" where
  "pm_inv pm \<longleftrightarrow> (\<forall>t a. map_of (pm_assignments pm) t = Some a \<longrightarrow>
     assignment_ok a \<and> (t \<in> set (pm_pending pm) \<or> (\<exists>cs. settled_on cs a)))"

lemma pm_invD:
  "pm_inv pm \<Longrightarrow> map_of (pm_assignments pm) t = Some a \<Longrightarrow>
     assignment_ok a \<and> (t \<in> set (pm_pending pm) \<or> (\<exists>cs. settled_on cs a))"
  by (simp add: pm_inv_def)

lemma put_inv:
  assumes "pm_inv pm" "assignment_ok a" "t \<in> set js \<or> (\<exists>cs. settled_on cs a)" "set (pm_pending pm) - {t} \<subseteq> set js"
  shows "pm_inv (put_assignment t a (pm\<lparr>pm_pending := js\<rparr>))"
  using assms by (fastforce simp: pm_inv_def put_assignment_def)

lemma fresh_ok:
  "assignment_ok \<lparr>pa_TopicName = t, pa_Partitions = map (new_partition t now) [0..<n], pa_ConsumerMap = [],
     pa_LastRebalance = now, pa_Rebalancing = False\<rparr>"
  by (simp add: assignment_ok_def indexed_def new_partition_def owned_def)

lemma fresh_settled:
  "settled_on [] \<lparr>pa_TopicName = t, pa_Partitions = ps, pa_ConsumerMap = [], pa_LastRebalance = now,
     pa_Rebalancing = False\<rparr>"
  by (simp add: settled_on_def deals_def)

lemma settled_empty: "dom (map_of (pa_ConsumerMap a)) = {} \<Longrightarrow> settled_on [] a"
  by (simp add: settled_on_def deals_def)

lemma owned_new: "map_of m c = None \<Longrightarrow> owned (mput c [] m) d = owned m d"
  by (auto simp: owned_def)

lemma owned_removed: "owned (mdel c m) d = (if d = c then [] else owned m d)"
  by (simp add: owned_def)

lemma add_ok:
  "assignment_ok a \<Longrightarrow> map_of (pa_ConsumerMap a) c = None \<Longrightarrow>
     assignment_ok (a\<lparr>pa_ConsumerMap := mput c [] (pa_ConsumerMap a)\<rparr>)"
  by (simp add: assignment_ok_def owned_new)

lemma remove_ok:
  "assignment_ok a \<Longrightarrow> assignment_ok (a\<lparr>pa_ConsumerMap := mdel c (pa_ConsumerMap a),
     pa_Partitions := map (drop_consumer c) (pa_Partitions a)\<rparr>)"
  by (auto simp: assignment_ok_def indexed_def drop_consumer_def owned_removed
      intro: le_trans [OF length_filter_le])

lemma nth_update_same: "f p = f (xs ! k) \<Longrightarrow> f (xs[k := p] ! i) = f (xs ! i)"
  by (cases "k < length xs") (auto simp: nth_list_update list_update_beyond)

lemma count_messages_same [simp]:
  "pt_ID (count_messages k b now p) = pt_ID p" "pt_Consumers (count_messages k b now p) = pt_Consumers p"
  by (simp_all add: count_messages_def Let_def)

lemma update_ok:
  assumes "pt_ID p = pt_ID (pa_Partitions a ! k)" "pt_Consumers p = pt_Consumers (pa_Partitions a ! k)"
  shows "assignment_ok a \<Longrightarrow> assignment_ok (a\<lparr>pa_Partitions := (pa_Partitions a)[k := p]\<rparr>)"
    and "settled_on cs a \<Longrightarrow> settled_on cs (a\<lparr>pa_Partitions := (pa_Partitions a)[k := p]\<rparr>)"
  using nth_update_same [where f = pt_ID, OF assms(1)] nth_update_same [where f = pt_Consumers, OF assms(2)]
  by (simp_all add: assignment_ok_def indexed_def settled_on_def)

lemma pending_self [simp]: "pm\<lparr>pm_pending := pm_pending pm\<rparr> = pm"
  by simp

lemma rebalance_inv:
  assumes inv: "pm_inv pm" and orders: "go_orders cs0 cs t pm" and sub: "set (pm_pending pm) - {t} \<subseteq> set js"
    and run: "RebalancePartitions cs0 cs order t (pm\<lparr>pm_pending := js\<rparr>) w = Some (r, pm', w')"
  shows "pm_inv pm'"
proof (cases "map_of (pm_assignments pm) t")
  case None
  with run have "pm' = pm\<lparr>pm_pending := js\<rparr>" by (simp add: RebalancePartitions_def)
  then show ?thesis using inv sub None by (fastforce simp: pm_inv_def)
next
  case (Some a)
  with inv orders have facts: "assignment_ok a" "visits cs0 (pa_ConsumerMap a)" "distinct cs" "set cs = set cs0"
    by (auto simp: pm_inv_def go_orders_def)
  obtain r' b w'' k where
    "RebalancePartitions cs0 cs order t (pm\<lparr>pm_pending := js\<rparr>) w = Some (Inr r', put_assignment t b (pm\<lparr>pm_pending := js\<rparr>), w'')"
    and b: "rebalanced cs0 a b k"
    using rebalance_facts [OF _ facts, of "pm\<lparr>pm_pending := js\<rparr>" t order w] Some by auto
  with run have "pm' = put_assignment t b (pm\<lparr>pm_pending := js\<rparr>)" by simp
  with put_inv [OF inv _ _ sub] b show ?thesis by (auto simp: rebalanced_def)
qed

lemma pm_step_inv: "pm_step s s' \<Longrightarrow> pm_inv (fst s) \<Longrightarrow> pm_inv (fst s')"
proof (induction rule: pm_step.induct)
  case (do_initialize t n pm w pm' w')
  then have inv: "pm_inv pm" by simp
  from do_initialize obtain now where "pm' = put_assignment t
      \<lparr>pa_TopicName = t, pa_Partitions = map (new_partition t now) [0..<nat n], pa_ConsumerMap = [],
       pa_LastRebalance = now, pa_Rebalancing = False\<rparr> (pm\<lparr>pm_pending := pm_pending pm\<rparr>)"
    by (auto simp: InitializePartitions_def time_now_def Let_def split: if_splits)
  with put_inv [OF inv fresh_ok [of t now "nat n"], of t "pm_pending pm"] show ?case
    using fresh_settled by auto
next
  case (do_add t c pm e pm' w)
  then have inv: "pm_inv pm" by simp
  show ?case
  proof (cases "pm' = pm")
    case False
    with do_add obtain a where a: "map_of (pm_assignments pm) t = Some a" "map_of (pa_ConsumerMap a) c = None"
      "pm' = put_assignment t (a\<lparr>pa_ConsumerMap := mput c [] (pa_ConsumerMap a)\<rparr>) (pm\<lparr>pm_pending := pm_pending pm @ [t]\<rparr>)"
      by (auto simp: pm_AddConsumer_def go_rebalance_def put_assignment_def split: option.splits if_splits)
    have "assignment_ok a" using pm_invD [OF inv a(1)] by simp
    from put_inv [OF inv add_ok [OF this a(2)], of t "pm_pending pm @ [t]"] a(3) show ?thesis by auto
  qed (use do_add in simp)
next
  case (do_remove t c pm e pm' w)
  then have inv: "pm_inv pm" by simp
  show ?case
  proof (cases "map_of (pm_assignments pm) t")
    case None
    with do_remove show ?thesis by (auto simp: pm_RemoveConsumer_def)
  next
    case (Some a)
    let ?a = "a\<lparr>pa_ConsumerMap := mdel c (pa_ConsumerMap a), pa_Partitions := map (drop_consumer c) (pa_Partitions a)\<rparr>"
    have ok: "assignment_ok ?a" using pm_invD [OF inv Some] remove_ok by blast
    show ?thesis
    proof (cases "mdel c (pa_ConsumerMap a) = []")
      case True
      with do_remove Some have "pm' = put_assignment t ?a (pm\<lparr>pm_pending := pm_pending pm\<rparr>)"
        by (simp add: pm_RemoveConsumer_def)
      moreover have "settled_on [] ?a" using True by (intro settled_empty) simp
      ultimately show ?thesis using put_inv [OF inv ok, of t "pm_pending pm"] by auto
    next
      case False
      with do_remove Some have "pm' = put_assignment t ?a (pm\<lparr>pm_pending := pm_pending pm @ [t]\<rparr>)"
        by (auto simp: pm_RemoveConsumer_def go_rebalance_def put_assignment_def)
      then show ?thesis using put_inv [OF inv ok, of t "pm_pending pm @ [t]"] by auto
    qed
  qed
next
  case (do_update t p k b pm w pm' w')
  then have inv: "pm_inv pm" by simp
  show ?case
  proof (cases "pm' = pm")
    case False
    with do_update obtain a q where a: "map_of (pm_assignments pm) t = Some a"
      "pt_ID q = pt_ID (pa_Partitions a ! nat p)" "pt_Consumers q = pt_Consumers (pa_Partitions a ! nat p)"
      "pm' = put_assignment t (a\<lparr>pa_Partitions := (pa_Partitions a)[nat p := q]\<rparr>) (pm\<lparr>pm_pending := pm_pending pm\<rparr>)"
      by (auto simp: UpdatePartitionStats_def time_now_def Let_def split: option.splits if_splits)
        (metis count_messages_same)
    then show ?thesis
      using put_inv [OF inv, of _ t "pm_pending pm"] update_ok [OF a(2,3)] pm_invD [OF inv a(1)]
      unfolding fst_conv a(4) by blast
  qed (use do_update in simp)
next
  case (do_cleanup pm w t)
  then show ?case by (auto simp: pm_inv_def CleanupPartitions_def split: if_splits)
next
  case (do_rebalance cs0 cs t pm order w r pm' w')
  then show ?case using rebalance_inv [of pm cs0 cs t "pm_pending pm"] by simp
next
  case (do_job pm js t ks cs0 cs order w r pm' w')
  then show ?case using rebalance_inv [of pm cs0 cs t "js @ ks"] by auto
qed simp

lemma pm_reachable_inv: "pm_reachable pm w \<Longrightarrow> pm_inv pm"
proof (induction rule: pm_reachable.induct)
  case (pm_next pm w pm' w')
  with pm_step_inv [of "(pm, w)" "(pm', w')"] show ?case by simp
qed (simp add: pm_inv_def NewPartitionManager_def)

lemma settled_owner:
  assumes "settled_on cs b" "assignment_ok b" "i < length (pa_Partitions b)" "cs \<noteq> []"
  shows "\<exists>c \<in> set cs. pt_Consumers (pa_Partitions b ! i) = [c] \<and> int i \<in> set (owned (pa_ConsumerMap b) c)"
proof -
  from assms have d: "distinct cs" "deals (length (pa_Partitions b)) (pa_ConsumerMap b) cs"
    by (simp_all add: settled_on_def)
  let ?c = "cs ! (i mod length cs)"
  have c: "?c \<in> set cs" using assms(4) by simp
  then have "int i \<in> set (owned (pa_ConsumerMap b) ?c)" using dealt_owner [OF d(2,1) c assms(3)] by simp
  moreover from this have "pt_Consumers (pa_Partitions b ! i) = [?c]"
    using assms(2,3) by (simp add: assignment_ok_def short_list)
  ultimately show ?thesis using c by blast
qed

section \<open>Choosing a partition\<close>

lemma into_range_bounds: "0 < n \<Longrightarrow> n < 2 ^ 31 \<Longrightarrow> 0 \<le> into_range x n \<and> into_range x n < n"
  using smod_bounds [of n x] by (auto simp: into_range_def Let_def wrap32_def)

section \<open>Load balance without roots\<close>

lemma sum_list_const: "sum_list (map (\<lambda>_. c) xs) = of_nat (length xs) * c" for c :: real
  by (induction xs) (auto simp: algebra_simps)

lemma variance:
  fixes a :: real
  shows "sum_list (map (\<lambda>l. (l - a) * (l - a)) ls) =
    sum_list (map (\<lambda>l. l * l) ls) - 2 * a * sum_list ls + of_nat (length ls) * (a * a)"
  by (induction ls) (auto simp: algebra_simps)

lemma sum_squares_nonneg: "0 \<le> sum_list (map (\<lambda>l. (l - a) * (l - a)) ls)" for a :: real
  by (induction ls) auto

lemma imbalance_ratio_square:
  assumes pos: "0 < sum_list ls"
  shows "0 \<le> imbalance_ratio ls" and "imbalance_ratio ls * imbalance_ratio ls =
    of_nat (length ls) * sum_list (map (\<lambda>l. l * l) ls) / (sum_list ls * sum_list ls) - 1"
proof -
  let ?n = "of_nat (length ls) :: real" and ?s = "sum_list ls" and ?q = "sum_list (map (\<lambda>l. l * l) ls)"
  let ?v = "sum_list (map (\<lambda>l. (l - ?s / ?n) * (l - ?s / ?n)) ls)"
  have n: "0 < ?n" using pos by (cases ls) auto
  have v: "?v = ?q - ?s * ?s / ?n" using n variance [of "?s / ?n" ls] by (simp add: field_simps)
  have nonneg: "0 \<le> ?v / ?n" using n sum_squares_nonneg by simp
  then show "0 \<le> imbalance_ratio ls" using n pos by (simp add: imbalance_ratio_def Let_def)
  have "imbalance_ratio ls = sqrt (?v / ?n) / (?s / ?n)" by (simp add: imbalance_ratio_def Let_def)
  then have "imbalance_ratio ls * imbalance_ratio ls = (sqrt (?v / ?n) * sqrt (?v / ?n)) / ((?s / ?n) * (?s / ?n))"
    by (simp only: times_divide_times_eq)
  also have "\<dots> = (?v / ?n) / ((?s / ?n) * (?s / ?n))"
    using nonneg by (simp only: real_sqrt_mult_self abs_of_nonneg)
  also have "\<dots> = ?n * ?q / (?s * ?s) - 1" using n pos unfolding v by (simp add: field_simps)
  finally show "imbalance_ratio ls * imbalance_ratio ls = ?n * ?q / (?s * ?s) - 1" .
qed

lemma imbalance_ratio_compare:
  assumes pos: "0 < sum_list ls" and t: "0 \<le> t"
  shows "imbalance_ratio ls \<le> t \<longleftrightarrow>
      of_nat (length ls) * sum_list (map (\<lambda>l. l * l) ls) \<le> (1 + t * t) * (sum_list ls * sum_list ls)"
    and "t \<le> imbalance_ratio ls \<longleftrightarrow>
      (1 + t * t) * (sum_list ls * sum_list ls) \<le> of_nat (length ls) * sum_list (map (\<lambda>l. l * l) ls)"
proof -
  have s: "0 < sum_list ls * sum_list ls" using pos by simp
  note sq = imbalance_ratio_square [OF pos]
  have "imbalance_ratio ls \<le> t \<longleftrightarrow> imbalance_ratio ls * imbalance_ratio ls \<le> t * t"
    using abs_le_square_iff [of "imbalance_ratio ls" t] sq(1) t by (simp add: power2_eq_square)
  then show "imbalance_ratio ls \<le> t \<longleftrightarrow>
      of_nat (length ls) * sum_list (map (\<lambda>l. l * l) ls) \<le> (1 + t * t) * (sum_list ls * sum_list ls)"
    using s unfolding sq(2) by (simp add: diff_le_eq pos_divide_le_eq add.commute)
  have "t \<le> imbalance_ratio ls \<longleftrightarrow> t * t \<le> imbalance_ratio ls * imbalance_ratio ls"
    using abs_le_square_iff [of t "imbalance_ratio ls"] sq(1) t by (simp add: power2_eq_square)
  then show "t \<le> imbalance_ratio ls \<longleftrightarrow>
      (1 + t * t) * (sum_list ls * sum_list ls) \<le> of_nat (length ls) * sum_list (map (\<lambda>l. l * l) ls)"
    using s unfolding sq(2) by (simp add: le_diff_eq pos_le_divide_eq add.commute)
qed

lemma imbalance_ratio_neg: "sum_list ls < 0 \<Longrightarrow> imbalance_ratio ls \<le> 0"
  using sum_squares_nonneg [of "sum_list ls / of_nat (length ls)" ls]
  by (cases ls) (auto simp: imbalance_ratio_def Let_def divide_nonneg_neg divide_nonneg_nonpos divide_le_0_iff)

section \<open>Properties\<close>

text \<open>
  C23. In every reachable state of the partition manager, under calls and background rebalances in any
  order, the assignment of a topic is consistent: the rebalancing flag is clear, so that a rebalance
  is never refused as already in progress, every partition lists at most one consumer, and a partition
  lists a consumer just when the entry of that consumer lists the partition. When no background
  rebalance of the topic is pending and it has consumers, every partition has one, and no two
  consumers differ by more than one partition.
\<close>

theorem partitions_stay_consistent:
  assumes "pm_reachable pm w" and "map_of (pm_assignments pm) t = Some a"
  shows "\<not> pa_Rebalancing a \<and>
    (\<forall>i < length (pa_Partitions a). length (pt_Consumers (pa_Partitions a ! i)) \<le> 1 \<and>
       (\<forall>c. c \<in> set (pt_Consumers (pa_Partitions a ! i)) \<longleftrightarrow> int i \<in> set (owned (pa_ConsumerMap a) c))) \<and>
    (t \<notin> set (pm_pending pm) \<and> dom (map_of (pa_ConsumerMap a)) \<noteq> {} \<longrightarrow>
       (\<forall>i < length (pa_Partitions a). pt_Consumers (pa_Partitions a ! i) \<noteq> []) \<and>
       (\<forall>c \<in> dom (map_of (pa_ConsumerMap a)). \<forall>d \<in> dom (map_of (pa_ConsumerMap a)).
          length (owned (pa_ConsumerMap a) c) \<le> length (owned (pa_ConsumerMap a) d) + 1))"
proof -
  note inv = pm_invD [OF pm_reachable_inv [OF assms(1)] assms(2)]
  have "(\<forall>i < length (pa_Partitions a). pt_Consumers (pa_Partitions a ! i) \<noteq> []) \<and>
      (\<forall>c \<in> set cs. \<forall>d \<in> set cs. length (owned (pa_ConsumerMap a) c) \<le> length (owned (pa_ConsumerMap a) d) + 1)"
    if settled: "settled_on cs a" and ne: "cs \<noteq> []" for cs
  proof (intro conjI allI ballI impI)
    fix i assume i: "i < length (pa_Partitions a)"
    with settled_owner [OF settled _ i ne] inv show "pt_Consumers (pa_Partitions a ! i) \<noteq> []" by auto
  next
    from settled have d: "deals (length (pa_Partitions a)) (pa_ConsumerMap a) cs" by (simp add: settled_on_def)
    fix c c' assume "c \<in> set cs" "c' \<in> set cs"
    with dealt_evenly [OF d, of c] dealt_evenly [OF d, of c']
    show "length (owned (pa_ConsumerMap a) c) \<le> length (owned (pa_ConsumerMap a) c') + 1" by auto
  qed
  then show ?thesis using inv unfolding assignment_ok_def settled_on_def by (metis set_empty)
qed

definition example_world :: "unit world" where
  "example_world = \<lparr>db = (), clock = (\<lambda>_. 0), ticks = 0, uuids = (\<lambda>_. ''''), minted = 0\<rparr>"

text \<open>A topic with two partitions, to which the consumer \<open>a\<close> has just been added.\<close>

definition example_assignment :: partition_assignment where
  "example_assignment = \<lparr>pa_TopicName = ''t'', pa_Partitions = map (new_partition ''t'' 0) [0..<2],
     pa_ConsumerMap = [(''a'', [])], pa_LastRebalance = 0, pa_Rebalancing = False\<rparr>"

definition example_manager :: partition_manager where
  "example_manager = \<lparr>pm_assignments = [(''t'', example_assignment)], pm_pending = [''t'']\<rparr>"

lemma example_manager_reachable: "pm_reachable example_manager (snd (time_now example_world))"
proof -
  let ?w = "snd (time_now example_world)"
  let ?pm = "\<lparr>pm_assignments = [(''t'', example_assignment\<lparr>pa_ConsumerMap := []\<rparr>)], pm_pending = []\<rparr>"
  have "InitializePartitions ''t'' 2 NewPartitionManager example_world = Some (?pm, ?w)"
    by (simp add: InitializePartitions_def NewPartitionManager_def put_assignment_def time_now_def
        example_world_def example_assignment_def)
  from pm_next [OF pm_new do_initialize [OF this]] have "pm_reachable ?pm ?w" .
  moreover have "pm_AddConsumer ''t'' ''a'' ?pm = (None, example_manager)"
    by (simp add: pm_AddConsumer_def go_rebalance_def put_assignment_def example_manager_def example_assignment_def)
  ultimately show ?thesis using pm_next do_add by blast
qed

lemma example_orders: "go_orders [''a''] [''a''] ''t'' example_manager"
  by (simp add: go_orders_def visits_def example_manager_def example_assignment_def)

theorem partitions_stay_consistent_witness:
  "\<not> pa_Rebalancing example_assignment \<and> pt_Consumers (pa_Partitions example_assignment ! 1) = []"
  using partitions_stay_consistent [OF example_manager_reachable, of "''t''" example_assignment]
  by (simp add: example_manager_def example_assignment_def new_partition_def numeral_2_eq_2)

text \<open>
  C24. A rebalance of a topic in a reachable state never fails and never panics, in whatever order Go
  visits the maps: it reports success, leaves everything of a partition but its consumer alone, gives
  each partition to one of the consumers, which stay the same, and counts as moved exactly the
  partitions whose consumer has changed.
\<close>

theorem rebalance_reports_what_it_moves:
  assumes "pm_reachable pm w" and "map_of (pm_assignments pm) t = Some a" and "go_orders cs0 cs t pm"
  shows "\<exists>r b w'. RebalancePartitions cs0 cs order t pm w = Some (Inr r, put_assignment t b pm, w') \<and>
    rr_Success r \<and> rr_Status r = ''completed'' \<and> length (pa_Partitions b) = length (pa_Partitions a) \<and>
    dom (map_of (pa_ConsumerMap b)) = dom (map_of (pa_ConsumerMap a)) \<and>
    (\<forall>i < length (pa_Partitions a). \<exists>os. pa_Partitions b ! i = (pa_Partitions a ! i)\<lparr>pt_Consumers := os\<rparr> \<and>
       (cs0 \<noteq> [] \<longrightarrow> (\<exists>c \<in> set cs0. os = [c] \<and> int i \<in> set (owned (pa_ConsumerMap b) c)))) \<and>
    rr_PartitionsMoved r = int (card {i. i < length (pa_Partitions a) \<and>
      pt_Consumers (pa_Partitions b ! i) \<noteq> pt_Consumers (pa_Partitions a ! i)})"
proof -
  have a_ok: "assignment_ok a" and v: "visits cs0 (pa_ConsumerMap a)" "distinct cs" "set cs = set cs0"
    using pm_invD [OF pm_reachable_inv [OF assms(1)] assms(2)] assms(2,3) by (auto simp: go_orders_def)
  obtain r b w' k where run: "RebalancePartitions cs0 cs order t pm w = Some (Inr r, put_assignment t b pm, w')"
    "rr_Success r" "rr_Status r = ''completed''" "rr_PartitionsMoved r = int k" and b: "rebalanced cs0 a b k"
    using rebalance_facts [OF assms(2) a_ok v] by blast
  have "\<exists>c \<in> set cs0. os = [c] \<and> int i \<in> set (owned (pa_ConsumerMap b) c)"
    if "i < length (pa_Partitions a)" "pa_Partitions b ! i = (pa_Partitions a ! i)\<lparr>pt_Consumers := os\<rparr>" "cs0 \<noteq> []"
    for i os
  proof -
    have "settled_on cs0 b" "assignment_ok b" "length (pa_Partitions b) = length (pa_Partitions a)"
      using b by (simp_all add: rebalanced_def)
    with that settled_owner show ?thesis by (metis partition.select_convs(7) partition.surjective partition.update_convs(7))
  qed
  with b have "\<forall>i < length (pa_Partitions a). \<exists>os. pa_Partitions b ! i = (pa_Partitions a ! i)\<lparr>pt_Consumers := os\<rparr> \<and>
      (cs0 \<noteq> [] \<longrightarrow> (\<exists>c \<in> set cs0. os = [c] \<and> int i \<in> set (owned (pa_ConsumerMap b) c)))"
    unfolding rebalanced_def by meson
  with run b show ?thesis unfolding rebalanced_def by blast
qed

theorem rebalance_reports_what_it_moves_witness:
  "\<exists>r b w'. RebalancePartitions [''a''] [''a''] (\<lambda>_. []) ''t'' example_manager (snd (time_now example_world)) =
     Some (Inr r, put_assignment ''t'' b example_manager, w') \<and> rr_Success r \<and>
     (\<exists>os. pa_Partitions b ! 1 = (pa_Partitions example_assignment ! 1)\<lparr>pt_Consumers := os\<rparr> \<and> os = [''a''])"
proof -
  have "map_of (pm_assignments example_manager) ''t'' = Some example_assignment"
    by (simp add: example_manager_def)
  note facts = rebalance_reports_what_it_moves [OF example_manager_reachable this example_orders]
  have "1 < length (pa_Partitions example_assignment)" by (simp add: example_assignment_def)
  with facts [of "\<lambda>_. []"] show ?thesis by fastforce
qed

text \<open>
  The partition chosen for a message lies within the topic, with or without a key; with a key it
  depends on the key alone. A topic without partitions makes the call panic.
\<close>

theorem assigned_partition_in_range:
  "(0 < n \<and> n < 2 ^ 31 \<longrightarrow> (\<exists>p w'. AssignPartition t key n w = Some (p, w') \<and> 0 \<le> p \<and> p < n \<and>
      (key \<noteq> [] \<longrightarrow> AssignPartition t' key n w2 = Some (p, w2)))) \<and>
   AssignPartition t key 0 w = None"
  by (auto simp: AssignPartition_def into_range_bounds Let_def time_now_def)

theorem assigned_partition_in_range_witness:
  "\<exists>p w'. AssignPartition ''t'' [97] 3 example_world = Some (p, w') \<and> 0 \<le> p \<and> p < 3"
  using assigned_partition_in_range [of 3 "''t''" "[97]" example_world "''t''" example_world] by auto

text \<open>
  The balance test needs no square root: for a topic with a positive load, it is balanced when the
  number of partitions times the sum of the squared loads is at most 1.01 times the square of the
  total, and rebalancing is recommended when it is at least 1.09 times it. A topic whose counters sum
  to nothing or less counts as balanced, however its partitions differ.
\<close>

theorem load_balance_without_roots:
  assumes "loads = map load_of (pa_Partitions a)"
  shows "(0 < sum_list loads \<longrightarrow>
      (lb_IsBalanced (calculateLoadBalance a) \<longleftrightarrow>
         100 * of_nat (length loads) * sum_list (map (\<lambda>l. l * l) loads) \<le> 101 * (sum_list loads * sum_list loads)) \<and>
      (lb_RecommendRebalance (calculateLoadBalance a) \<longleftrightarrow>
         109 * (sum_list loads * sum_list loads) \<le> 100 * of_nat (length loads) * sum_list (map (\<lambda>l. l * l) loads))) \<and>
    (sum_list loads \<le> 0 \<longrightarrow>
      lb_IsBalanced (calculateLoadBalance a) \<and> \<not> lb_RecommendRebalance (calculateLoadBalance a))"
proof (cases "pa_Partitions a = [] \<or> sum_list loads = 0")
  case True
  then show ?thesis using assms by (auto simp: calculateLoadBalance_def balanced_info_def)
next
  case False
  then have "lb_IsBalanced (calculateLoadBalance a) \<longleftrightarrow> imbalance_ratio loads \<le> 1 / 10"
    "lb_RecommendRebalance (calculateLoadBalance a) \<longleftrightarrow> 3 / 10 \<le> imbalance_ratio loads"
    using assms by (simp_all add: calculateLoadBalance_def Let_def)
  then show ?thesis
    using imbalance_ratio_compare(1) [of loads "1 / 10"] imbalance_ratio_compare(2) [of loads "3 / 10"]
      imbalance_ratio_neg [of loads] False
    by (auto simp: algebra_simps)
qed

theorem load_balance_without_roots_witness:
  "let a = example_assignment\<lparr>pa_Partitions :=
       map (\<lambda>k. (new_partition ''t'' 0 0)\<lparr>pt_MessageCount := k\<rparr>) [1, 3]\<rparr>
   in \<not> lb_IsBalanced (calculateLoadBalance a) \<and> lb_RecommendRebalance (calculateLoadBalance a)"
  using load_balance_without_roots [OF refl, of "example_assignment\<lparr>pa_Partitions :=
       map (\<lambda>k. (new_partition ''t'' 0 0)\<lparr>pt_MessageCount := k\<rparr>) [1, 3]\<rparr>"]
  by (simp add: load_of_def new_partition_def)

end
