(* ===== verification/MapStore.thy ===== *)
theory MapStore
  imports Ports
begin

text \<open>
  The simplest stores that keep the contracts of \<^verbatim>\<open>Ports\<close>: maps in memory, which never fail. They
  model no code of the program; the concrete runs that show hypotheses to hold together use them.
\<close>

record map_db =
  md_messages :: "message gomap"
  md_topics :: "topic gomap"
  md_subscriptions :: "subscription gomap"
  md_groups :: "consumer_group gomap"

definition set_messages :: "(message gomap \<Rightarrow> message gomap) \<Rightarrow> map_db world \<Rightarrow> map_db world" where
  "set_messages f w = w\<lparr>db := (db w)\<lparr>md_messages := f (md_messages (db w))\<rparr>\<rparr>"

definition set_topics :: "(topic gomap \<Rightarrow> topic gomap) \<Rightarrow> map_db world \<Rightarrow> map_db world" where
  "set_topics f w = w\<lparr>db := (db w)\<lparr>md_topics := f (md_topics (db w))\<rparr>\<rparr>"

definition set_subscriptions ::
  "(subscription gomap \<Rightarrow> subscription gomap) \<Rightarrow> map_db world \<Rightarrow> map_db world" where
  "set_subscriptions f w = w\<lparr>db := (db w)\<lparr>md_subscriptions := f (md_subscriptions (db w))\<rparr>\<rparr>"

definition set_groups :: "(consumer_group gomap \<Rightarrow> consumer_group gomap) \<Rightarrow> map_db world \<Rightarrow> map_db world" where
  "set_groups f w = w\<lparr>db := (db w)\<lparr>md_groups := f (md_groups (db w))\<rparr>\<rparr>"

definition found :: "string \<Rightarrow> 'a option \<Rightarrow> 'a res" where
  "found s x = (case x of None \<Rightarrow> Inl (Errorf s) | Some y \<Rightarrow> Inr y)"

definition map_Acknowledge :: "acknowledgment \<Rightarrow> map_db world \<Rightarrow> go_error option \<times> map_db world" where
  "map_Acknowledge a w =
     (case map_of (md_messages (db w)) (a_MessageID a) of
        None \<Rightarrow> (Some (Errorf ''message not found''), w)
      | Some m \<Rightarrow> (let (now, w) = time_now w in (None, set_messages (mput (a_MessageID a) (acked a now m)) w)))"

definition map_messages :: "map_db message_repository" where
  "map_messages =
     \<lparr>MR_Store = (\<lambda>m w. (None, set_messages (mput (m_ID m) m) w)),
      MR_Get = (\<lambda>i w. (found ''message not found'' (map_of (md_messages (db w)) i), w)),
      MR_Delete = (\<lambda>i w. (None, set_messages (mdel i) w)),
      MR_StoreBatch = (\<lambda>ms w. (None, set_messages (\<lambda>d. fold (\<lambda>m. mput (m_ID m) m) ms d) w)),
      MR_GetBatch = (\<lambda>is w. (Inr (List.map_filter (map_of (md_messages (db w))) is), w)),
      MR_GetByTopic = (\<lambda>t l n w. (Inr (filter (\<lambda>m. m_Topic m = t) (map snd (md_messages (db w)))), w)),
      MR_GetByTopicPartition =
        (\<lambda>t p n l w. (Inr (filter (\<lambda>m. m_Topic m = t \<and> m_Partition m = p) (map snd (md_messages (db w)))), w)),
      MR_CountByTopic = (\<lambda>t w. (Inr (int (length (filter (\<lambda>m. m_Topic m = t) (map snd (md_messages (db w)))))), w)),
      MR_GetForConsumerGroup =
        (\<lambda>t g l w. Some (Inr (filter (\<lambda>m. m_Topic m = t) (map snd (md_messages (db w)))), w)),
      MR_MarkDelivered = (\<lambda>i c w. (None, w)), MR_Acknowledge = map_Acknowledge,
      MR_GetUnacknowledged = (\<lambda>t d w. (Inr [], w)), MR_GetFailedMessages = (\<lambda>t n w. (Inr [], w)),
      MR_MoveToDLQ = (\<lambda>i t w. (None, w)), MR_DeleteExpired = (\<lambda>w. (Inr 0, w)),
      MR_DeleteOlderThan = (\<lambda>t b w. (Inr 0, w))\<rparr>"

definition map_topics :: "map_db topic_repository" where
  "map_topics =
     \<lparr>TR_Create = (\<lambda>t w. (None, set_topics (mput (t_Name t) t) w)),
      TR_Get = (\<lambda>n w. (found ''topic not found'' (map_of (md_topics (db w)) n), w)),
      TR_Update = (\<lambda>t w. let (now, w) = time_now w; t = t\<lparr>t_UpdatedAt := now\<rparr>
                         in (None, t, set_topics (mput (t_Name t) t) w)),
      TR_Delete = (\<lambda>n w. (None, set_topics (mdel n) w)),
      TR_List = (\<lambda>l n w. Some (Inr (map snd (md_topics (db w))), w)),
      TR_Exists = (\<lambda>n w. (Inr (map_of (md_topics (db w)) n \<noteq> None), w))\<rparr>"

definition map_subscriptions :: "map_db subscription_repository" where
  "map_subscriptions =
     \<lparr>SR_Create = (\<lambda>s w. (None, set_subscriptions (mput (s_ID s) s) w)),
      SR_Get = (\<lambda>i w. (found ''subscription not found'' (map_of (md_subscriptions (db w)) i), w)),
      SR_Update = (\<lambda>s w. (None, s, set_subscriptions (mput (s_ID s) s) w)),
      SR_Delete = (\<lambda>i w. (None, set_subscriptions (mdel i) w)),
      SR_GetByTopic = (\<lambda>t w. (Inr (filter (\<lambda>s. s_Topic s = t) (map snd (md_subscriptions (db w)))), w)),
      SR_GetByConsumerGroup =
        (\<lambda>g w. (Inr (filter (\<lambda>s. s_ConsumerGroup s = g) (map snd (md_subscriptions (db w)))), w)),
      SR_GetActive = (\<lambda>w. (Inr (filter IsActive (map snd (md_subscriptions (db w)))), w)),
      SR_List = (\<lambda>n l w. Some (Inr (map snd (md_subscriptions (db w))), w))\<rparr>"

definition map_groups :: "map_db consumer_repository" where
  "map_groups =
     \<lparr>CR_CreateGroup = (\<lambda>g w. (None, set_groups (mput (cg_Name g) g) w)),
      CR_GetGroup = (\<lambda>n w. (found ''consumer group not found'' (map_of (md_groups (db w)) n), w)),
      CR_UpdateGroup = (\<lambda>g w. (None, g, set_groups (mput (cg_Name g) g) w)),
      CR_DeleteGroup = (\<lambda>n w. (None, set_groups (mdel n) w)),
      CR_ListGroups = (\<lambda>t w. (Inr (map snd (md_groups (db w))), w)),
      CR_AddConsumer = (\<lambda>n c w. (None, w)), CR_RemoveConsumer = (\<lambda>n c w. (None, w)),
      CR_UpdateConsumerHeartbeat = (\<lambda>n c w. (None, w)), CR_GetActiveConsumers = (\<lambda>n w. (Inr [], w))\<rparr>"

lemmas map_stores = set_messages_def set_topics_def set_subscriptions_def set_groups_def found_def
  map_Acknowledge_def map_messages_def map_topics_def map_subscriptions_def map_groups_def

lemma map_of_fold_mput:
  "map_of (fold (\<lambda>m. mput (m_ID m) m) ms d) i = (case map_of (rev (map (\<lambda>m. (m_ID m, m)) ms)) i of
     None \<Rightarrow> map_of d i | Some m \<Rightarrow> Some m)"
  by (induction ms arbitrary: d) (auto split: option.splits)

interpretation map_store: message_store map_messages "\<lambda>d i m. map_of (md_messages d) i = Some m"
proof
  fix ms m and w w' :: "map_db world"
  assume *: "MR_StoreBatch map_messages ms w = (None, w')" "distinct (map m_ID ms)" "m \<in> set ms"
  have "distinct (map fst (rev (map (\<lambda>m. (m_ID m, m)) ms)))"
    using *(2) by (simp add: rev_map [symmetric] comp_def)
  then have "map_of (rev (map (\<lambda>m. (m_ID m, m)) ms)) (m_ID m) = Some m"
    using *(3) by (intro map_of_is_SomeI) auto
  with *(1) show "map_of (md_messages (db w')) (m_ID m) = Some m"
    by (auto simp: map_stores map_of_fold_mput)
qed (auto simp: map_stores time_now_def Let_def split: option.splits)

interpretation map_topic_store: topic_store map_topics "\<lambda>d n t. map_of (md_topics d) n = Some t"
  by unfold_locales (auto simp: map_stores time_now_def Let_def split: option.splits)

interpretation map_broker: broker_store map_messages "\<lambda>d i m. map_of (md_messages d) i = Some m"
  map_topics "\<lambda>d n t. map_of (md_topics d) n = Some t"
  by unfold_locales (auto simp: map_stores time_now_def Let_def split: option.splits)

definition map_world :: "map_db world" where
  "map_world = \<lparr>db = \<lparr>md_messages = [], md_topics = [], md_subscriptions = [], md_groups = []\<rparr>,
     clock = (\<lambda>n. 1000 + int n), ticks = 0, uuids = (\<lambda>n. replicate (Suc n) CHR ''u''), minted = 0\<rparr>"

end
