(* ===== verification/TopicSpec.thy ===== *)
theory TopicSpec
  imports TopicManager PartitionSpec MapStore
begin

text \<open>
  What the topic service guarantees: the topic it creates, the health score, and the two places where
  it shows less than it means to: the counters that the statistics worker freezes and the pages of a
  filtered list.
\<close>

section \<open>Calls and ticks as a step relation\<close>

inductive tm_step :: "'d topic_service \<Rightarrow> topic_state \<times> 'd world \<Rightarrow> topic_state \<times> 'd world \<Rightarrow> bool"
  for s :: "'d topic_service" where
  tm_create: "manager_CreateTopic s req st w = Some (r, st', w') \<Longrightarrow> tm_step s (st, w) (st', w')"
| tm_get: "GetTopic s n st w = (i, st', w') \<Longrightarrow> tm_step s (st, w) (st', w')"
| tm_update: "UpdateTopic s n ureq st w = (i, st', w') \<Longrightarrow> tm_step s (st, w) (st', w')"
| tm_delete: "manager_DeleteTopic s n st w = (e, st', w') \<Longrightarrow> tm_step s (st, w) (st', w')"
| tm_getstats: "manager_GetTopicStats s n st w = (x, st', w') \<Longrightarrow> tm_step s (st, w) (st', w')"
| tm_health: "GetTopicHealth s n st w = (h, st', w') \<Longrightarrow> tm_step s (st, w) (st', w')"
| tm_rebalance: "manager_RebalancePartitions cs0 cs order n st w = Some (y, st', w') \<Longrightarrow> tm_step s (st, w) (st', w')"
| tm_start: "tm_step s (st, w) (StartTopicWorkers st, w)"
| tm_stop: "tm_step s (st, w) (StopTopicWorkers st, w)"
| tm_tick_stats: "statsCollectionWorker st w = (st', w') \<Longrightarrow> tm_step s (st, w) (st', w')"
| tm_tick_health: "healthMonitoringWorker st w = (st', w') \<Longrightarrow> tm_step s (st, w) (st', w')"
| tm_tick_cleanup: "cleanupWorker hour st w = (st', w') \<Longrightarrow> tm_step s (st, w) (st', w')"
| tm_else: "tm_step s (st, w) (st, w')"

inductive tm_reachable :: "'d topic_service \<Rightarrow> topic_state \<Rightarrow> 'd world \<Rightarrow> bool" for s :: "'d topic_service" where
  tm_new: "NewTopicService tr cfg = (s, st) \<Longrightarrow> tm_reachable s st w"
| tm_next: "tm_reachable s st w \<Longrightarrow> tm_step s (st, w) (st', w') \<Longrightarrow> tm_reachable s st' w'"

section \<open>The registry of active topics\<close>

text \<open>Every entry is kept under the name of its topic, once.\<close>

definition active_ok :: "active_topic gomap \<Rightarrow> bool" where
  "active_ok m \<longleftrightarrow> wf_map m \<and> (\<forall>(n, a) \<in> set m. t_Name (at_topic a) = n)"

lemma active_okD: "active_ok m \<Longrightarrow> map_of m n = Some a \<Longrightarrow> t_Name (at_topic a) = n"
  by (auto simp: active_ok_def dest: map_of_SomeD)

lemma set_mput: "set (mput k v m) \<subseteq> insert (k, v) (set m)"
  by (induction m) auto

lemma active_ok_put: "active_ok m \<Longrightarrow> t_Name (at_topic a) = n \<Longrightarrow> active_ok (mput n a m)"
  using set_mput [of n a m] by (fastforce simp: active_ok_def)

lemma active_ok_del: "active_ok m \<Longrightarrow> active_ok (mdel n m)"
proof -
  have "set (mdel n m) \<subseteq> set m" by (auto simp: AList.delete_eq)
  then show "active_ok m \<Longrightarrow> active_ok (mdel n m)" by (auto simp: active_ok_def)
qed

lemma active_ok_filter: "active_ok m \<Longrightarrow> active_ok (filter P m)"
  by (auto simp: active_ok_def wf_map_def distinct_map_filter)

lemma stats_active: "manager_GetTopicStats s n st w = (x, st', w') \<Longrightarrow> tm_active st' = tm_active st"
  by (auto simp: manager_GetTopicStats_def Let_def split: prod.splits option.splits sum.splits)

lemma health_active: "GetTopicHealth s n st w = (h, st', w') \<Longrightarrow> tm_active st' = tm_active st"
  by (auto simp: GetTopicHealth_def Let_def split: prod.splits option.splits sum.splits)

lemma get_active: "GetTopic s n st w = (i, st', w') \<Longrightarrow> tm_active st' = tm_active st"
  by (auto simp: GetTopic_def Let_def split: prod.splits sum.splits dest!: stats_active health_active)

lemma GetTopic_info:
  "GetTopic s n st w = (Inr i, st', w') \<Longrightarrow> \<exists>t w1 h x. TR_Get (tm_topicRepo s) n w = (Inr t, w1) \<and> i = info_of_topic t h x"
  by (auto simp: GetTopic_def Let_def split: prod.splits sum.splits)

lemma check_health_active: "check_health_loop ts st w = (st', w') \<Longrightarrow> tm_active st' = tm_active st"
  by (induction ts arbitrary: st w) (auto simp: Let_def split: prod.splits)

lemma stop_active: "tm_active (StopTopicWorkers st) = tm_active st"
proof -
  have "tm_active (fold (\<lambda>n st. st\<lparr>tm_workers := mdel n (tm_workers st)\<rparr>) ns st) = tm_active st" for ns
    by (induction ns arbitrary: st) simp_all
  then show ?thesis by (simp add: StopTopicWorkers_def)
qed

lemma topic_of_request_name: "topic_of_request s req w = (t, w') \<Longrightarrow> t_Name t = xq_Name req"
  by (auto simp: topic_of_request_def NewTopic_def time_now_def Let_def split: option.splits)

lemma create_cases:
  assumes "manager_CreateTopic s req st w = Some (r, st', w')"
  obtains (failed) e where "r = Inl e" "st' = st"
  | (created) t w1 w2 w3 w4 pm where "topic_of_request s req w1 = (t, w2)"
      "TR_Create (tm_topicRepo s) t w2 = (None, w3)"
      "InitializePartitions (xq_Name req) (t_Partitions t) (tm_partitions st) w3 = Some (pm, w4)"
      "addToActiveTopics t (st\<lparr>tm_partitions := pm\<rparr>) w4 = (st', w')"
      "r = Inr \<lparr>xr_Name = t_Name t, xr_Partitions = t_Partitions t, xr_Replication = t_Replication t,
         xr_RetentionTime = t_RetentionTime t, xr_MaxSize = t_MaxSize t, xr_CreatedAt = t_CreatedAt t\<rparr>"
  using assms by (auto simp: manager_CreateTopic_def split: option.splits prod.splits sum.splits bool.splits)

lemma tm_step_active: "tm_step s x y \<Longrightarrow> active_ok (tm_active (fst x)) \<Longrightarrow> active_ok (tm_active (fst y))"
proof (induction rule: tm_step.induct)
  case (tm_create req st w r st' w')
  from tm_create(1) show ?case
  proof (cases rule: create_cases)
    case (created t w1 w2 w3 w4 pm)
    then show ?thesis using tm_create(2) by (auto simp: addToActiveTopics_def time_now_def Let_def intro!: active_ok_put)
  qed (use tm_create in simp)
next
  case (tm_update n ureq st w i st' w')
  have keep: "active_ok (tm_active st1)"
    if "updateActiveTopics t st w1 = (st1, w2)" for t st1 and w1 w2 :: "'a world"
    using that tm_update(2) by (auto simp: updateActiveTopics_def time_now_def Let_def split: option.splits
        intro!: active_ok_put)
  from tm_update show ?case
    by (auto simp: UpdateTopic_def Let_def split: prod.splits sum.splits option.splits if_splits
        dest!: get_active dest: keep)
next
  case (tm_tick_cleanup hour st w st' w')
  then show ?case by (auto simp: cleanupWorker_def performCleanupTasks_def time_now_def Let_def active_ok_filter
        split: if_splits)
qed (auto simp: manager_DeleteTopic_def removeFromActiveTopics_def manager_RebalancePartitions_def StartTopicWorkers_def
    start_topic_worker_def stop_active statsCollectionWorker_def collectStatsForActiveTopics_def
    healthMonitoringWorker_def checkHealthForActiveTopics_def Let_def active_ok_del
    split: prod.splits sum.splits bool.splits option.splits if_splits
    dest: get_active stats_active health_active check_health_active)

lemma tm_reachable_active: "tm_reachable s st w \<Longrightarrow> active_ok (tm_active st)"
proof (induction rule: tm_reachable.induct)
  case (tm_next st w st' w')
  with tm_step_active [of s "(st, w)" "(st', w')"] show ?case by simp
qed (auto simp: NewTopicService_def active_ok_def)

section \<open>Frozen counters\<close>

lemma collect_stats_other:
  assumes "collect_stats_loop ts sc w = (sc', w')" "\<forall>t \<in> set ts. t_Name t \<noteq> n"
  shows "map_of (sc_statsCache sc') n = map_of (sc_statsCache sc) n"
  using assms
proof (induction ts arbitrary: sc w)
  case (Cons t ts)
  obtain x sc1 w1 where 1: "CollectTopicStats t sc w = (x, sc1, w1)" by (metis surj_pair)
  with Cons have "map_of (sc_statsCache sc') n = map_of (sc_statsCache sc1) n" by simp
  also have "\<dots> = map_of (sc_statsCache sc) n"
    using 1 Cons.prems(2) by (auto simp: CollectTopicStats_def Let_def split: prod.splits option.splits if_splits)
  finally show ?case .
qed simp

lemma collect_stats_entry:
  assumes "collect_stats_loop ts sc w = (sc', w')" "t \<in> set ts" "distinct (map t_Name ts)"
  shows "\<exists>x. map_of (sc_statsCache sc') (t_Name t) = Some x \<and> ts_MessageCount x = t_MessageCount t \<and>
    ts_BytesIn x = t_BytesIn t \<and> ts_BytesOut x = t_BytesOut t"
  using assms
proof (induction ts arbitrary: sc w)
  case (Cons u ts)
  obtain x sc1 w1 where 1: "CollectTopicStats u sc w = (x, sc1, w1)" by (metis surj_pair)
  with Cons.prems have rest: "collect_stats_loop ts sc1 w1 = (sc', w')" by simp
  show ?case
  proof (cases "t \<in> set ts")
    case False
    with Cons.prems(2,3) have "t = u" "\<forall>v \<in> set ts. t_Name v \<noteq> t_Name u" by (auto simp: image_iff)
    moreover have "map_of (sc_statsCache sc1) (t_Name u) = Some x" "ts_MessageCount x = t_MessageCount u"
      "ts_BytesIn x = t_BytesIn u" "ts_BytesOut x = t_BytesOut u"
      using 1 by (auto simp: CollectTopicStats_def GetStats_def Let_def split: prod.splits option.splits if_splits)
    ultimately show ?thesis using collect_stats_other [OF rest] by simp
  qed (use Cons rest in simp)
qed simp

section \<open>Health checks\<close>

lemma config_score: "0 \<le> hc_Score (checkTopicConfiguration t)" "hc_Score (checkTopicConfiguration t) \<le> 100"
  by (auto simp: checkTopicConfiguration_def Let_def)

lemma balance_score: "60 \<le> hc_Score (checkPartitionBalance info)" "hc_Score (checkPartitionBalance info) \<le> 100"
  by (auto simp: checkPartitionBalance_def Let_def)

lemma activity_check:
  "checkTopicActivity t w = (c, w') \<Longrightarrow> 60 \<le> hc_Score c \<and> hc_Score c \<le> 100 \<and> hc_Status c \<in> {''healthy'', ''degraded''}"
  by (auto simp: checkTopicActivity_def time_now_def Let_def durations split: if_splits)

lemma resource_score: "45 \<le> hc_Score (checkResourceUsage t)" "hc_Score (checkResourceUsage t) \<le> 100"
  by (auto simp: checkResourceUsage_def Let_def)

lemma check_names: "hc_Name (checkTopicConfiguration t) = ''Configuration''"
  "hc_Name (checkPartitionBalance info) = ''Partition Balance''" "hc_Name (checkResourceUsage t) = ''Resource Usage''"
  by (simp_all add: checkTopicConfiguration_def checkPartitionBalance_def checkResourceUsage_def Let_def)

text \<open>The average of at least one score between 0 and 100.\<close>

lemma average_bounds:
  assumes "xs \<noteq> []" "\<forall>x \<in> set xs. 0 \<le> x \<and> x \<le> (100 :: real)"
  shows "0 \<le> sum_list xs / of_nat (length xs)" "sum_list xs / of_nat (length xs) \<le> 100"
proof -
  have "0 \<le> sum_list xs \<and> sum_list xs \<le> 100 * of_nat (length xs)"
    using assms(2) by (induction xs) auto
  then show "0 \<le> sum_list xs / of_nat (length xs)" "sum_list xs / of_nat (length xs) \<le> 100"
    using assms(1) by (simp_all add: pos_divide_le_eq)
qed

lemma overall_health:
  "calculateOverallHealth a n = (c, st) \<Longrightarrow> (c = ''green'' \<longleftrightarrow> 80 \<le> a \<and> n = 0) \<and> (c = ''red'' \<longleftrightarrow> a < 60) \<and>
     (c, st) \<in> {(''green'', ''healthy''), (''yellow'', ''degraded''), (''red'', ''unhealthy'')}"
  by (auto simp: calculateOverallHealth_def split: if_splits)

lemma health_checks_facts:
  assumes "health_checks t info w = (cs, w')"
  shows "cs \<noteq> []" and "\<forall>c \<in> set cs. 0 \<le> hc_Score c \<and> hc_Score c \<le> 100"
    and "\<forall>c \<in> set cs. hc_Name c = ''Activity Level'' \<longrightarrow> hc_Status c \<noteq> ''unhealthy''"
proof -
  obtain a w1 where a: "checkTopicActivity t w = (a, w1)" by fastforce
  with assms have cs: "cs = [checkTopicConfiguration t] @
      (case info of None \<Rightarrow> [] | Some i \<Rightarrow> [checkPartitionBalance i]) @ [a, checkResourceUsage t]"
    by (simp add: health_checks_def)
  show "cs \<noteq> []" by (simp add: cs)
  show "\<forall>c \<in> set cs. 0 \<le> hc_Score c \<and> hc_Score c \<le> 100"
    using activity_check [OF a] config_score [of t] resource_score [of t]
      order_trans [OF _ balance_score(1)] balance_score(2)
    by (auto simp: cs split: option.splits)
  show "\<forall>c \<in> set cs. hc_Name c = ''Activity Level'' \<longrightarrow> hc_Status c \<noteq> ''unhealthy''"
    using activity_check [OF a] by (auto simp: cs check_names split: option.splits)
qed

section \<open>Properties\<close>

text \<open>
  C22. The topic a successful \<open>CreateTopic\<close> answers with is the one requested, the defaults of the
  configuration filled in, and it is the one that \<open>GetTopic\<close> describes from then on, at whatever time
  it is asked, as long as no other call changes the database.
\<close>

theorem created_topic_is_described:
  assumes "topic_store tr holds_topic" and "NewTopicService tr cfg = (s, st0)"
    and "manager_CreateTopic s req st w = Some (Inr r, st', w')"
    and "db w2 = db w'" and "GetTopic s (xq_Name req) st2 w2 = (Inr i, st3, w3)"
  shows "xr_Name r = xq_Name req \<and> mi_Name i = xq_Name req \<and>
    xr_Partitions r = (if xq_Partitions req = 0 then bc_DefaultPartitions cfg else xq_Partitions req) \<and>
    xr_Replication r = (if xq_Replication req = 0 then bc_DefaultReplication cfg else xq_Replication req) \<and>
    xr_RetentionTime r = (if xq_RetentionTime req = 0 then 24 * Hour else xq_RetentionTime req) \<and>
    xr_MaxSize r = (if xq_MaxSize req = 0 then 2 ^ 30 else xq_MaxSize req) \<and>
    (mi_Partitions i, mi_Replication i, mi_RetentionTime i, mi_MaxSize i, mi_CreatedAt i) =
      (xr_Partitions r, xr_Replication r, xr_RetentionTime r, xr_MaxSize r, xr_CreatedAt r) \<and>
    mi_Config i = (case xq_Config req of None \<Rightarrow> [] | Some c \<Rightarrow> c)"
proof -
  have valid: "validateCreateTopicRequest req = None"
    using assms(3) by (auto simp: manager_CreateTopic_def split: option.splits)
  have s: "tm_topicRepo s = tr" "tm_config s = cfg" using assms(2) by (auto simp: NewTopicService_def)
  from assms(3) show ?thesis
  proof (cases rule: create_cases)
    case (created t w1 w2' w3' w4 pm)
    have "holds_topic (db w') (t_Name t) t"
      using topic_store.create_ok [OF assms(1)] created(2-4) s
      by (auto simp: InitializePartitions_def addToActiveTopics_def time_now_def Let_def split: if_splits)
    then have "holds_topic (db w2) (xq_Name req) t" using topic_of_request_name [OF created(1)] assms(4) by simp
    with GetTopic_info [OF assms(5)] s have "\<exists>h x. i = info_of_topic t h x"
      by (metis topic_store.topic_get_ok [OF assms(1)])
    then show ?thesis using created(1,5) valid s
      by (auto simp: info_of_topic_def topic_of_request_def NewTopic_def time_now_def Let_def
          validateCreateTopicRequest_def push_bit_of_1 split: option.splits if_splits)
  qed simp
qed

definition example_create :: create_request where
  "example_create = \<lparr>xq_Name = ''t'', xq_Partitions = 3, xq_Replication = 0, xq_RetentionTime = 0, xq_MaxSize = 0,
     xq_Config = None\<rparr>"

definition example_topics :: "map_db topic_service" where
  "example_topics = \<lparr>tm_topicRepo = map_topics, tm_config = default_broker\<rparr>"

definition topics_state0 :: topic_state where
  "topics_state0 = \<lparr>tm_active = [], tm_partitions = NewPartitionManager, tm_stats = NewStatsCollector, tm_workers = []\<rparr>"

lemma example_NewTopicService: "NewTopicService map_topics default_broker = (example_topics, topics_state0)"
  by (simp add: NewTopicService_def example_topics_def topics_state0_def)

lemma example_created:
  "\<exists>r st w. manager_CreateTopic example_topics example_create topics_state0 map_world = Some (Inr r, st, w) \<and>
     map_of (tm_active st) ''t'' \<noteq> None \<and> (\<exists>a. tm_active st = [(''t'', a)] \<and> t_MessageCount (at_topic a) = 0)"
  by (simp add: manager_CreateTopic_def example_topics_def example_create_def validateCreateTopicRequest_def
      topic_of_request_def NewTopic_def InitializePartitions_def addToActiveTopics_def topics_state0_def map_stores
      map_world_def time_now_def default_broker_def put_assignment_def Let_def)

theorem created_topic_is_described_witness:
  "\<exists>r st' w' i st3 w3. manager_CreateTopic example_topics example_create topics_state0 map_world = Some (Inr r, st', w') \<and>
     GetTopic example_topics ''t'' st' w' = (Inr i, st3, w3) \<and> mi_Partitions i = 3 \<and> mi_RetentionTime i = 24 * Hour"
proof -
  obtain r st' w' where c: "manager_CreateTopic example_topics example_create topics_state0 map_world = Some (Inr r, st', w')"
    using example_created by blast
  obtain x st3 w3 where g: "GetTopic example_topics (xq_Name example_create) st' w' = (x, st3, w3)" by (metis surj_pair)
  have "map_of (md_topics (db w')) ''t'' \<noteq> None"
    using c by (auto simp: manager_CreateTopic_def example_topics_def example_create_def validateCreateTopicRequest_def
      topic_of_request_def NewTopic_def InitializePartitions_def addToActiveTopics_def topics_state0_def map_stores
      map_world_def time_now_def default_broker_def put_assignment_def Let_def)
  with g obtain i where "x = Inr i"
    by (auto simp: GetTopic_def example_topics_def map_stores example_create_def Let_def split: prod.splits)
  with created_topic_is_described [OF map_topic_store.topic_store_axioms example_NewTopicService c refl] c g
  show ?thesis by (auto simp: example_create_def)
qed

text \<open>
  Once the statistics worker runs, the counters it reports for a topic are those the topic had
  when it was created or last updated through this service, not those of the repository: after a tick,
  for a minute, \<open>GetTopicStats\<close> answers with the counters of the registry entry whatever the database
  holds. The registry takes no notice of publishes, so a created topic is reported empty.
\<close>

theorem worker_serves_frozen_counters:
  assumes "tm_reachable s st w" and "map_of (tm_active st) n = Some a" and "runs ''stats_collector'' st"
    and "statsCollectionWorker st w = (st1, w1)" and "tm_stats st2 = tm_stats st1"
    and "\<forall>x. map_of (sc_statsCache (tm_stats st1)) n = Some x \<longrightarrow> fst (time_now w2) - ts_CollectedAt x \<le> Minute"
  shows "\<exists>x w3. manager_GetTopicStats s n st2 w2 = (Inr x, st2, w3) \<and> ts_MessageCount x = t_MessageCount (at_topic a) \<and>
    ts_BytesIn x = t_BytesIn (at_topic a) \<and> ts_BytesOut x = t_BytesOut (at_topic a)"
proof -
  have ok: "active_ok (tm_active st)" using tm_reachable_active [OF assms(1)] .
  let ?ts = "map (at_topic \<circ> snd) (tm_active st)"
  obtain sc where loop: "collect_stats_loop ?ts (tm_stats st) w = (sc, w1)" "st1 = st\<lparr>tm_stats := sc\<rparr>"
    using assms(3,4) by (auto simp: statsCollectionWorker_def collectStatsForActiveTopics_def Let_def split: prod.splits)
  have "map t_Name ?ts = map fst (tm_active st)" using ok by (auto simp: active_ok_def)
  moreover have "distinct (map fst (tm_active st))" using ok by (simp add: active_ok_def wf_map_def)
  ultimately have "distinct (map t_Name ?ts)" by (simp only:)
  moreover have "at_topic a \<in> set ?ts" using map_of_SomeD [OF assms(2)] by force
  ultimately obtain x where "map_of (sc_statsCache sc) n = Some x" "ts_MessageCount x = t_MessageCount (at_topic a)"
    "ts_BytesIn x = t_BytesIn (at_topic a)" "ts_BytesOut x = t_BytesOut (at_topic a)"
    using collect_stats_entry [OF loop(1)] active_okD [OF ok assms(2)] by metis
  then show ?thesis using assms(5,6) loop(2)
    by (auto simp: manager_GetTopicStats_def GetCachedStats_def time_now_def Let_def)
qed

theorem worker_serves_frozen_counters_witness:
  "\<exists>st w st1 w1 x w3. tm_reachable example_topics st w \<and> statsCollectionWorker st w = (st1, w1) \<and>
     manager_GetTopicStats example_topics ''t'' st1 (w1\<lparr>clock := \<lambda>_. 0\<rparr>) = (Inr x, st1, w3) \<and> ts_MessageCount x = 0"
proof -
  obtain r st w a where c: "manager_CreateTopic example_topics example_create topics_state0 map_world = Some (Inr r, st, w)"
    "map_of (tm_active st) ''t'' = Some a" "tm_active st = [(''t'', a)]" "t_MessageCount (at_topic a) = 0"
    using example_created by fastforce
  let ?st = "StartTopicWorkers st" and ?w = "w\<lparr>clock := \<lambda>_. 0\<rparr>"
  have "tm_reachable example_topics st w"
    using tm_next [OF tm_new [OF example_NewTopicService] tm_create [OF c(1)]] .
  from tm_next [OF tm_next [OF this tm_start] tm_else] have reach: "tm_reachable example_topics ?st ?w" .
  have st: "tm_active ?st = tm_active st" "runs ''stats_collector'' ?st"
    by (auto simp: StartTopicWorkers_def start_topic_worker_def runs_def)
  obtain st1 w1 where t: "statsCollectionWorker ?st ?w = (st1, w1)" by fastforce
  have "\<forall>x. map_of (sc_statsCache (tm_stats st1)) ''t'' = Some x \<longrightarrow>
      fst (time_now (w1\<lparr>clock := \<lambda>_. 0\<rparr>)) - ts_CollectedAt x \<le> Minute"
    using t st c(3) active_okD [OF tm_reachable_active [OF reach]]
    by (auto simp: statsCollectionWorker_def collectStatsForActiveTopics_def CollectTopicStats_def time_now_def
        Let_def durations GetStats_def split: prod.splits)
  from worker_serves_frozen_counters [OF reach _ st(2) t refl this] c(2,4) st(1) t reach show ?thesis by metis
qed

text \<open>
  C25. The health score lies between 0 and 100 and decides the colour together with the issues: green
  needs 80 points and no unhealthy check, red is below 60. The activity check never counts as
  unhealthy, however long a topic has been idle: the branch for seven days comes after the one for a
  day, which covers it.
\<close>

theorem health_score_decides:
  assumes "CollectTopicHealth t info sc w = (h, sc', w')"
  shows "0 \<le> th_Score h \<and> th_Score h \<le> 100 \<and>
    (th_Health h = ''green'' \<longleftrightarrow> 80 \<le> th_Score h \<and> (\<forall>c \<in> set (th_Checks h). hc_Status c \<noteq> ''unhealthy'')) \<and>
    (th_Health h = ''red'' \<longleftrightarrow> th_Score h < 60) \<and>
    (th_Health h, th_Status h) \<in> {(''green'', ''healthy''), (''yellow'', ''degraded''), (''red'', ''unhealthy'')} \<and>
    (\<forall>c \<in> set (th_Checks h). hc_Name c = ''Activity Level'' \<longrightarrow> hc_Status c \<noteq> ''unhealthy'')"
proof -
  obtain now w1 where now: "time_now w = (now, w1)" by fastforce
  obtain cs w2 where cs: "health_checks t info w1 = (cs, w2)" by fastforce
  obtain c st where o: "calculateOverallHealth (sum_list (map hc_Score cs) / of_nat (length cs))
      (length (filter (\<lambda>c. hc_Status c = ''unhealthy'') cs)) = (c, st)" by fastforce
  from assms now cs o have h: "th_Score h = sum_list (map hc_Score cs) / of_nat (length cs)" "th_Health h = c"
    "th_Status h = st" "th_Checks h = cs" by (auto simp: CollectTopicHealth_def Let_def)
  have "0 \<le> th_Score h \<and> th_Score h \<le> 100"
    using average_bounds [of "map hc_Score cs"] health_checks_facts(1,2) [OF cs] by (simp add: h)
  then show ?thesis using overall_health [OF o] health_checks_facts(3) [OF cs] unfolding h by (auto simp: filter_empty_conv)
qed

definition idle_topic :: topic where
  "idle_topic = \<lparr>t_Name = ''t'', t_Partitions = 3, t_Replication = 1, t_RetentionTime = 24 * Hour, t_MaxSize = 100,
     t_Config = [], t_CreatedAt = - 10000 * Hour, t_UpdatedAt = - 10000 * Hour, t_MessageCount = 1, t_BytesIn = 10,
     t_BytesOut = 0\<rparr>"

theorem health_score_decides_witness:
  "\<exists>h sc w. CollectTopicHealth idle_topic None NewStatsCollector example_world = (h, sc, w) \<and>
     0 \<le> th_Score h \<and> th_Score h \<le> 100"
proof -
  obtain h sc w where r: "CollectTopicHealth idle_topic None NewStatsCollector example_world = (h, sc, w)"
    by (metis surj_pair)
  with health_score_decides [OF r] show ?thesis by blast
qed

text \<open>
  A page of a filtered list is filtered after it was cut from the list: when the page has one topic
  that does not match, the response says that there is no more, although topics remain beyond the page.
\<close>

theorem filtered_page_hides_rest:
  assumes "TR_List (tm_topicRepo s) (lq_Offset req) (lq_Limit req + 1) w = Some (Inr ts, w')"
    and "0 \<le> lq_Offset req" "0 < lq_Limit req" "lq_Limit req \<le> 1000" "lq_Filter req \<noteq> ''''"
    and "int (length ts) = lq_Limit req + 1" "t \<in> set ts"
    and "\<not> contains_str (ToLower (t_Name t)) (ToLower (lq_Filter req))"
  shows "\<exists>r. manager_ListTopics s req w = Some (Inr r, w') \<and> \<not> lr_HasMore r \<and> lr_Total r < lq_Limit req + 1 \<and>
    map mi_Name (lr_Topics r) = map t_Name (filter (\<lambda>t. contains_str (ToLower (t_Name t)) (ToLower (lq_Filter req))) ts)"
proof -
  let ?p = "\<lambda>t. contains_str (ToLower (t_Name t)) (ToLower (lq_Filter req))"
  have "length (filter ?p ts) < length ts" using assms(7,8) by (rule length_filter_less)
  then have few: "int (length (filter ?p ts)) < lq_Limit req + 1" using assms(6) by linarith
  then show ?thesis using assms(1-5)
    by (simp add: manager_ListTopics_def FilterTopics_def Let_def info_of_topic_def comp_def)
qed

definition listed :: "map_db topic_service" where
  "listed = \<lparr>tm_topicRepo = map_topics\<lparr>TR_List := \<lambda>n l w. Some (Inr (take (nat l) (drop (nat n)
     [idle_topic, idle_topic\<lparr>t_Name := ''u''\<rparr>, idle_topic])), w)\<rparr>, tm_config = default_broker\<rparr>"

theorem filtered_page_hides_rest_witness:
  "\<exists>r. manager_ListTopics listed \<lparr>lq_Offset = 0, lq_Limit = 1, lq_Filter = ''t''\<rparr> map_world = Some (Inr r, map_world) \<and>
     \<not> lr_HasMore r"
proof -
  have "\<not> contains_str (ToLower (t_Name (idle_topic\<lparr>t_Name := ''u''\<rparr>))) (ToLower ''t'')"
    by (simp add: contains_str_def ToLower_def to_lower_char_def sublist_code)
  from filtered_page_hides_rest [of listed "\<lparr>lq_Offset = 0, lq_Limit = 1, lq_Filter = ''t''\<rparr>" map_world
      "[idle_topic, idle_topic\<lparr>t_Name := ''u''\<rparr>]" map_world "idle_topic\<lparr>t_Name := ''u''\<rparr>"] this
  show ?thesis by (auto simp: listed_def)
qed

end
