(* ===== verification/Retry.thy ===== *)
theory Retry
  imports Ports Config
begin

text \<open>
  The retry and dead-letter strategies of \<^verbatim>\<open>internal/services/acknowledgment\<close> (\<^verbatim>\<open>retry.go\<close>,
  \<^verbatim>\<open>dlq.go\<close>) and their interfaces. A strategy that reads the clock takes and returns the world.
  The floating-point arithmetic of the exponential backoff is that of the rationals: rounding and
  the overflow of \<open>math.Pow\<close> beyond \<open>2 ^ 1023\<close> are not modelled.
\<close>

section \<open>Interfaces\<close>

record 'd retry_strategy =
  rs_ShouldRetry :: "message \<Rightarrow> int \<Rightarrow> bool"
  rs_GetRetryDelay :: "message \<Rightarrow> int \<Rightarrow> 'd world \<Rightarrow> int \<times> 'd world"
  rs_GetMaxRetries :: "message \<Rightarrow> int"

record 'd dlq_strategy =
  ds_ShouldMoveToDLQ :: "message \<Rightarrow> bool"
  ds_GetDLQTopic :: "string \<Rightarrow> string"
  ds_EnrichDLQMessage :: "message \<Rightarrow> string \<Rightarrow> 'd world \<Rightarrow> message \<times> 'd world"

text \<open>The bound all three retry strategies share: the message's own one if set, or the default.\<close>

definition max_retries_of :: "int \<Rightarrow> message \<Rightarrow> int" where
  "max_retries_of dflt m = (if m_MaxRetries m > 0 then m_MaxRetries m else dflt)"

section \<open>Exponential backoff\<close>

record exponential_backoff =
  eb_baseDelay :: int
  eb_maxDelay :: int
  eb_maxRetries :: int
  eb_multiplier :: rat
  eb_jitterFactor :: rat

definition exponential_config :: "broker_config \<Rightarrow> exponential_backoff" where
  "exponential_config cfg =
     \<lparr>eb_baseDelay = bc_RetryBackoff cfg, eb_maxDelay = wrap64 (bc_RetryBackoff cfg * 60),
      eb_maxRetries = bc_MaxRetries cfg, eb_multiplier = 2, eb_jitterFactor = 1 / 10\<rparr>"

definition exp_GetMaxRetries :: "exponential_backoff \<Rightarrow> message \<Rightarrow> int" where
  "exp_GetMaxRetries r m = max_retries_of (eb_maxRetries r) m"

definition exp_ShouldRetry :: "exponential_backoff \<Rightarrow> message \<Rightarrow> int \<Rightarrow> bool" where
  "exp_ShouldRetry r m attempt \<longleftrightarrow> attempt \<le> exp_GetMaxRetries r m"

text \<open>\<open>time.Duration(delay)\<close> of a float truncates towards zero.\<close>

definition truncate_rat :: "rat \<Rightarrow> int" where
  "truncate_rat x = (if x < 0 then \<lceil>x\<rceil> else \<lfloor>x\<rfloor>)"

definition exp_GetRetryDelay :: "exponential_backoff \<Rightarrow> message \<Rightarrow> int \<Rightarrow> 'd world \<Rightarrow> int \<times> 'd world" where
  "exp_GetRetryDelay r m attempt w =
     (if attempt \<le> 0 then (eb_baseDelay r, w)
      else (let delay = of_int (eb_baseDelay r) * eb_multiplier r ^ nat (attempt - 1);
                (now, w) = time_now w;
                jitter = delay * eb_jitterFactor r * (2 * of_int (now smod 1000) / 1000 - 1);
                delay = delay + jitter;
                delay = (if delay > of_int (eb_maxDelay r) then of_int (eb_maxDelay r) else delay)
            in (truncate_rat delay, w)))"

definition NewExponentialBackoffRetry :: "broker_config \<Rightarrow> 'd retry_strategy" where
  "NewExponentialBackoffRetry cfg = (let r = exponential_config cfg in
     \<lparr>rs_ShouldRetry = exp_ShouldRetry r, rs_GetRetryDelay = exp_GetRetryDelay r,
      rs_GetMaxRetries = exp_GetMaxRetries r\<rparr>)"

section \<open>Linear backoff and fixed delay\<close>

record linear_backoff =
  lb_baseDelay :: int
  lb_increment :: int
  lb_maxDelay :: int
  lb_maxRetries :: int

definition linear_config :: "broker_config \<Rightarrow> linear_backoff" where
  "linear_config cfg =
     \<lparr>lb_baseDelay = bc_RetryBackoff cfg, lb_increment = bc_RetryBackoff cfg,
      lb_maxDelay = wrap64 (bc_RetryBackoff cfg * 10), lb_maxRetries = bc_MaxRetries cfg\<rparr>"

definition lin_GetMaxRetries :: "linear_backoff \<Rightarrow> message \<Rightarrow> int" where
  "lin_GetMaxRetries r m = max_retries_of (lb_maxRetries r) m"

definition lin_ShouldRetry :: "linear_backoff \<Rightarrow> message \<Rightarrow> int \<Rightarrow> bool" where
  "lin_ShouldRetry r m attempt \<longleftrightarrow> attempt \<le> lin_GetMaxRetries r m"

definition lin_GetRetryDelay :: "linear_backoff \<Rightarrow> message \<Rightarrow> int \<Rightarrow> int" where
  "lin_GetRetryDelay r m attempt =
     (let delay = wrap64 (lb_baseDelay r + wrap64 (wrap64 (attempt - 1) * lb_increment r))
      in if delay > lb_maxDelay r then lb_maxDelay r else delay)"

definition NewLinearBackoffRetry :: "broker_config \<Rightarrow> 'd retry_strategy" where
  "NewLinearBackoffRetry cfg = (let r = linear_config cfg in
     \<lparr>rs_ShouldRetry = lin_ShouldRetry r, rs_GetRetryDelay = (\<lambda>m a w. (lin_GetRetryDelay r m a, w)),
      rs_GetMaxRetries = lin_GetMaxRetries r\<rparr>)"

record fixed_delay =
  fd_delay :: int
  fd_maxRetries :: int

definition fixed_GetMaxRetries :: "fixed_delay \<Rightarrow> message \<Rightarrow> int" where
  "fixed_GetMaxRetries r m = max_retries_of (fd_maxRetries r) m"

definition fixed_ShouldRetry :: "fixed_delay \<Rightarrow> message \<Rightarrow> int \<Rightarrow> bool" where
  "fixed_ShouldRetry r m attempt \<longleftrightarrow> attempt \<le> fixed_GetMaxRetries r m"

definition NewFixedDelayRetry :: "broker_config \<Rightarrow> 'd retry_strategy" where
  "NewFixedDelayRetry cfg =
     (let r = \<lparr>fd_delay = bc_RetryBackoff cfg, fd_maxRetries = bc_MaxRetries cfg\<rparr> in
      \<lparr>rs_ShouldRetry = fixed_ShouldRetry r, rs_GetRetryDelay = (\<lambda>m a w. (fd_delay r, w)),
       rs_GetMaxRetries = fixed_GetMaxRetries r\<rparr>)"

section \<open>Dead letter queues\<close>

record default_dlq =
  dq_dlqPrefix :: string
  dq_enableDLQ :: bool
  dq_dlqRetryLimit :: int
  dq_dlqTTL :: int
  dq_preserveHeaders :: bool

definition dlq_config :: "broker_config \<Rightarrow> default_dlq" where
  "dlq_config cfg =
     \<lparr>dq_dlqPrefix = bc_DLQPrefix cfg, dq_enableDLQ = bc_EnableDLQ cfg,
      dq_dlqRetryLimit = bc_MaxRetries cfg, dq_dlqTTL = 7 * 24 * Hour, dq_preserveHeaders = True\<rparr>"

definition ShouldMoveToDLQ :: "default_dlq \<Rightarrow> message \<Rightarrow> bool" where
  "ShouldMoveToDLQ d m =
     (if \<not> dq_enableDLQ d then False
      else if HasPrefix (m_Topic m) (dq_dlqPrefix d) then False
      else m_RetryCount m \<ge> dq_dlqRetryLimit d)"

definition GetDLQTopic :: "default_dlq \<Rightarrow> string \<Rightarrow> string" where
  "GetDLQTopic d originalTopic = dq_dlqPrefix d @ originalTopic"

fun mput_all :: "(string \<times> 'v) list \<Rightarrow> 'v gomap \<Rightarrow> 'v gomap" where
  "mput_all [] m = m"
| "mput_all ((k, v) # kvs) m = mput_all kvs (mput k v m)"

definition EnrichDLQMessage :: "default_dlq \<Rightarrow> message \<Rightarrow> string \<Rightarrow> 'd world \<Rightarrow> message \<times> 'd world" where
  "EnrichDLQMessage d m reason w =
     (let (now, w) = time_now w;
          (mid, w) = uuid_new w;
          hs = (if dq_preserveHeaders d then mput_all (m_Headers m) [] else []);
          hs = mput_all
            [(''dlq_reason'', reason), (''dlq_timestamp'', RFC3339 now), (''original_topic'', m_Topic m),
             (''original_message_id'', m_ID m), (''original_retry_count'', itoa (m_RetryCount m)),
             (''original_created_at'', RFC3339 (m_CreatedAt m))] hs;
          hs = (if m_ConsumerID m \<noteq> '''' then mput ''original_consumer_id'' (m_ConsumerID m) hs else hs);
          hs = (if m_ConsumerGroup m \<noteq> '''' then mput ''original_consumer_group'' (m_ConsumerGroup m) hs else hs);
          hs = (case m_DeliveredAt m of None \<Rightarrow> hs | Some t \<Rightarrow> mput ''original_delivered_at'' (RFC3339 t) hs)
      in (zero_message\<lparr>m_ID := mid, m_Topic := GetDLQTopic d (m_Topic m), m_Partition := m_Partition m,
            m_Key := m_Key m, m_Payload := m_Payload m, m_Priority := PriorityHigh,
            m_DeliveryMode := DeliveryAtMostOnce, m_Status := StatusDLQ, m_RetryCount := 0,
            m_MaxRetries := 0, m_CreatedAt := now, m_ExpiresAt := Some (now + dq_dlqTTL d),
            m_Headers := hs\<rparr>, w))"

definition NewDefaultDLQStrategy :: "broker_config \<Rightarrow> 'd dlq_strategy" where
  "NewDefaultDLQStrategy cfg = (let d = dlq_config cfg in
     \<lparr>ds_ShouldMoveToDLQ = ShouldMoveToDLQ d, ds_GetDLQTopic = GetDLQTopic d,
      ds_EnrichDLQMessage = EnrichDLQMessage d\<rparr>)"

text \<open>The strategy with exceptions by topic.\<close>

record 'd topic_dlq =
  td_defaultStrategy :: "'d dlq_strategy"
  td_topicStrategies :: "'d dlq_strategy gomap"

definition NewTopicBasedDLQStrategy :: "'d dlq_strategy \<Rightarrow> 'd topic_dlq" where
  "NewTopicBasedDLQStrategy s = \<lparr>td_defaultStrategy = s, td_topicStrategies = []\<rparr>"

definition AddTopicStrategy :: "string \<Rightarrow> 'd dlq_strategy \<Rightarrow> 'd topic_dlq \<Rightarrow> 'd topic_dlq" where
  "AddTopicStrategy topic s t = t\<lparr>td_topicStrategies := mput topic s (td_topicStrategies t)\<rparr>"

definition topic_ShouldMoveToDLQ :: "'d topic_dlq \<Rightarrow> message \<Rightarrow> bool" where
  "topic_ShouldMoveToDLQ t m =
     (case map_of (td_topicStrategies t) (m_Topic m) of
        Some s \<Rightarrow> ds_ShouldMoveToDLQ s m | None \<Rightarrow> ds_ShouldMoveToDLQ (td_defaultStrategy t) m)"

definition topic_GetDLQTopic :: "'d topic_dlq \<Rightarrow> string \<Rightarrow> string" where
  "topic_GetDLQTopic t originalTopic =
     (case map_of (td_topicStrategies t) originalTopic of
        Some s \<Rightarrow> ds_GetDLQTopic s originalTopic | None \<Rightarrow> ds_GetDLQTopic (td_defaultStrategy t) originalTopic)"

definition topic_EnrichDLQMessage ::
  "'d topic_dlq \<Rightarrow> message \<Rightarrow> string \<Rightarrow> 'd world \<Rightarrow> message \<times> 'd world" where
  "topic_EnrichDLQMessage t m reason w =
     (case map_of (td_topicStrategies t) (m_Topic m) of
        Some s \<Rightarrow> ds_EnrichDLQMessage s m reason w
      | None \<Rightarrow> ds_EnrichDLQMessage (td_defaultStrategy t) m reason w)"

section \<open>What the strategies promise\<close>

text \<open>
  The contract of a retry strategy: a bound on the attempts, and a delay that is computed without
  the database; for a bounded one the delays lie between 0 and a cap.
\<close>

locale retry_policy =
  fixes rs :: "'d retry_strategy"
  assumes should_iff: "rs_ShouldRetry rs m a \<longleftrightarrow> a \<le> rs_GetMaxRetries rs m"
    and delay_db: "rs_GetRetryDelay rs m a w = (d, w') \<Longrightarrow> db w' = db w"
begin

lemma should_antimono: "rs_ShouldRetry rs m a \<Longrightarrow> b \<le> a \<Longrightarrow> rs_ShouldRetry rs m b"
  by (simp add: should_iff)

end

interpretation exponential_policy: retry_policy "NewExponentialBackoffRetry cfg"
  by unfold_locales
    (auto simp: NewExponentialBackoffRetry_def Let_def exp_ShouldRetry_def exp_GetRetryDelay_def time_now_def
      split: if_splits)

interpretation linear_policy: retry_policy "NewLinearBackoffRetry cfg"
  by unfold_locales (auto simp: NewLinearBackoffRetry_def Let_def lin_ShouldRetry_def)

interpretation fixed_policy: retry_policy "NewFixedDelayRetry cfg"
  by unfold_locales (auto simp: NewFixedDelayRetry_def Let_def fixed_ShouldRetry_def)

locale bounded_retry = retry_policy rs for rs :: "'d retry_strategy" +
  fixes cap :: int
  assumes delay_range:
    "rs_GetRetryDelay rs m a w = (d, w') \<Longrightarrow> 1 \<le> a \<Longrightarrow> \<forall>n. 0 \<le> clock w n \<Longrightarrow> 0 \<le> d \<and> d \<le> cap"

locale valid_backoff =
  fixes cfg :: broker_config
  assumes backoff: "0 \<le> bc_RetryBackoff cfg" "bc_RetryBackoff cfg * 60 < 2 ^ 63"

interpretation default_backoff: valid_backoff default_broker
  by unfold_locales (simp_all add: default_broker_def durations)

lemma jitter_factor: "0 \<le> (t :: int) \<Longrightarrow>
    9 / 10 \<le> 1 + 1 / 10 * (2 * of_int (t smod 1000) / 1000 - 1 :: rat) \<and>
    1 + 1 / 10 * (2 * of_int (t smod 1000) / 1000 - 1 :: rat) \<le> 11 / 10"
proof -
  assume "0 \<le> t"
  then have "0 \<le> t smod 1000" "t smod 1000 \<le> 1000"
    using smod_bounds [of 1000 t] by (simp_all add: smod_nonneg)
  then have "(0 :: rat) \<le> of_int (t smod 1000)" "(of_int (t smod 1000) :: rat) \<le> 1000"
    by (simp_all only: of_int_0_le_iff of_int_le_numeral_iff)
  then show ?thesis by (auto simp: field_simps)
qed

lemma exp_delay:
  fixes m :: message and w :: "'d world"
  assumes "0 \<le> bc_RetryBackoff cfg" "bc_RetryBackoff cfg * 60 < 2 ^ 63" "1 \<le> a" "0 \<le> clock w (ticks w)"
  defines "ideal \<equiv> of_int (bc_RetryBackoff cfg) * 2 ^ nat (a - 1) :: rat"
    and "d \<equiv> fst (exp_GetRetryDelay (exponential_config cfg) m a w)"
  shows "0 \<le> d" "d \<le> 60 * bc_RetryBackoff cfg" "of_int d \<le> 11 / 10 * ideal"
    "d = 60 * bc_RetryBackoff cfg \<or> 9 / 10 * ideal - 1 < of_int d"
proof -
  let ?b = "bc_RetryBackoff cfg"
  define f :: rat where "f = 1 + 1 / 10 * (2 * of_int (clock w (ticks w) smod 1000) / 1000 - 1)"
  have f: "9 / 10 \<le> f" "f \<le> 11 / 10" using jitter_factor [OF assms(4)] by (simp_all add: f_def)
  have ideal: "0 \<le> ideal" using assms(1) by (simp add: ideal_def)
  have lo: "9 / 10 * ideal \<le> ideal * f" and hi: "ideal * f \<le> 11 / 10 * ideal"
    using mult_left_mono [OF f(1) ideal] mult_left_mono [OF f(2) ideal] by (simp_all add: mult.commute)
  have max: "wrap64 (?b * 60) = 60 * ?b" using assms(1,2) by (simp add: wrap64_id mult.commute)
  have "ideal + ideal * (1 / 10) * (2 * of_int (clock w (ticks w) smod 1000) / 1000 - 1) = ideal * f"
    by (simp add: f_def algebra_simps)
  then have d: "d = truncate_rat (if ideal * f > of_int (60 * ?b) then of_int (60 * ?b) else ideal * f)"
    using assms(3) max
    by (simp add: d_def exp_GetRetryDelay_def exponential_config_def time_now_def ideal_def)
  have nonneg: "0 \<le> ideal * f" using f ideal by simp
  have "0 \<le> d \<and> d \<le> 60 * ?b \<and> of_int d \<le> 11 / 10 * ideal \<and> (d = 60 * ?b \<or> 9 / 10 * ideal - 1 < of_int d)"
  proof (cases "ideal * f > of_int (60 * ?b)")
    case True
    then have "d = truncate_rat (of_int (60 * ?b))" using d True by (simp only: if_True)
    then have "d = 60 * ?b" by (simp only: truncate_rat_def floor_of_int ceiling_of_int if_cancel)
    then show ?thesis using True hi assms(1) by auto
  next
    case False
    then have "d = \<lfloor>ideal * f\<rfloor>" using d nonneg by (simp add: truncate_rat_def)
    then have "of_int d \<le> ideal * f" "ideal * f < of_int d + 1" "0 \<le> d" using nonneg by simp_all linarith
    moreover have "d \<le> 60 * ?b" using \<open>of_int d \<le> ideal * f\<close> False
      by (metis linorder_not_less of_int_le_iff order_trans)
    ultimately show ?thesis using lo hi by auto
  qed
  then show "0 \<le> d" "d \<le> 60 * ?b" "of_int d \<le> 11 / 10 * ideal" "d = 60 * ?b \<or> 9 / 10 * ideal - 1 < of_int d"
    by simp_all
qed

sublocale valid_backoff \<subseteq> exponential: bounded_retry "NewExponentialBackoffRetry cfg" "60 * bc_RetryBackoff cfg"
proof
  fix m a and w w' :: "'a world" and d
  assume get: "rs_GetRetryDelay (NewExponentialBackoffRetry cfg) m a w = (d, w')"
  then have d: "d = fst (exp_GetRetryDelay (exponential_config cfg) m a w)"
    by (simp add: NewExponentialBackoffRetry_def Let_def)
  show "1 \<le> a \<Longrightarrow> \<forall>n. 0 \<le> clock w n \<Longrightarrow> 0 \<le> d \<and> d \<le> 60 * bc_RetryBackoff cfg"
    using exp_delay [OF backoff, of a w m] d by blast
qed

text \<open>The contract of a dead-letter strategy: what it enriches is never moved again.\<close>

locale terminal_dlq =
  fixes ds :: "'d dlq_strategy"
  assumes enrich_terminal: "ds_EnrichDLQMessage ds m reason w = (m', w') \<Longrightarrow> \<not> ds_ShouldMoveToDLQ ds m'"
    and enrich_db: "ds_EnrichDLQMessage ds m reason w = (m', w') \<Longrightarrow> db w' = db w"
    and enrich_topic: "ds_EnrichDLQMessage ds m reason w = (m', w') \<Longrightarrow> m_Topic m' = ds_GetDLQTopic ds (m_Topic m)"

lemma map_of_mput_all: "map_of (mput_all kvs hs) = map_of hs ++ map_of (rev kvs)"
  by (induction kvs hs rule: mput_all.induct) (auto simp: map_add_def fun_eq_iff split: option.splits)

interpretation default_dlq: terminal_dlq "NewDefaultDLQStrategy cfg"
  by unfold_locales
    (auto simp: NewDefaultDLQStrategy_def Let_def EnrichDLQMessage_def ShouldMoveToDLQ_def GetDLQTopic_def
      HasPrefix_def zero_message_def time_now_def uuid_new_def)

text \<open>The headers that enriching sets.\<close>

definition dlq_headers :: "string list" where
  "dlq_headers = [''dlq_reason'', ''dlq_timestamp'', ''original_topic'', ''original_message_id'',
     ''original_retry_count'', ''original_created_at'', ''original_consumer_id'',
     ''original_consumer_group'', ''original_delivered_at'']"

lemma map_of_rev_wf: "wf_map m \<Longrightarrow> map_of (rev m) = map_of m"
  by (simp add: map_of_inject_set wf_map_def rev_map [symmetric])

lemma enrich_fields:
  "EnrichDLQMessage d m reason w = (m', w') \<Longrightarrow>
   m_Payload m' = m_Payload m \<and> m_Key m' = m_Key m \<and> m_Partition m' = m_Partition m \<and>
   m_RetryCount m' = 0 \<and> m_MaxRetries m' = 0 \<and> m_Status m' = StatusDLQ"
  by (auto simp: EnrichDLQMessage_def Let_def time_now_def uuid_new_def zero_message_def)

lemma enrich_headers:
  assumes "EnrichDLQMessage d m reason w = (m', w')"
  shows "map_of (m_Headers m') ''dlq_reason'' = Some reason"
    "map_of (m_Headers m') ''original_topic'' = Some (m_Topic m)"
    "map_of (m_Headers m') ''original_message_id'' = Some (m_ID m)"
    "dq_preserveHeaders d \<Longrightarrow> wf_map (m_Headers m) \<Longrightarrow> k \<notin> set dlq_headers \<Longrightarrow>
      map_of (m_Headers m') k = map_of (m_Headers m) k"
proof -
  define hs where "hs = (if dq_preserveHeaders d then mput_all (m_Headers m) [] else [])"
  have hs: "dq_preserveHeaders d \<Longrightarrow> wf_map (m_Headers m) \<Longrightarrow> map_of hs = map_of (m_Headers m)"
    by (simp add: hs_def map_of_mput_all map_of_rev_wf)
  have m': "m_Headers m' = (let hs = mput_all [(''dlq_reason'', reason),
       (''dlq_timestamp'', RFC3339 (clock w (ticks w))), (''original_topic'', m_Topic m),
       (''original_message_id'', m_ID m), (''original_retry_count'', itoa (m_RetryCount m)),
       (''original_created_at'', RFC3339 (m_CreatedAt m))] hs;
     hs = (if m_ConsumerID m \<noteq> '''' then mput ''original_consumer_id'' (m_ConsumerID m) hs else hs);
     hs = (if m_ConsumerGroup m \<noteq> '''' then mput ''original_consumer_group'' (m_ConsumerGroup m) hs else hs)
    in case m_DeliveredAt m of None \<Rightarrow> hs | Some t \<Rightarrow> mput ''original_delivered_at'' (RFC3339 t) hs)"
    using assms(1) unfolding hs_def by (auto simp: EnrichDLQMessage_def Let_def time_now_def uuid_new_def)
  show "map_of (m_Headers m') ''dlq_reason'' = Some reason"
    "map_of (m_Headers m') ''original_topic'' = Some (m_Topic m)"
    "map_of (m_Headers m') ''original_message_id'' = Some (m_ID m)"
    unfolding m' by (simp_all add: Let_def split: option.split)
  show "dq_preserveHeaders d \<Longrightarrow> wf_map (m_Headers m) \<Longrightarrow> k \<notin> set dlq_headers \<Longrightarrow>
      map_of (m_Headers m') k = map_of (m_Headers m) k"
    unfolding m' by (simp add: hs Let_def dlq_headers_def split: option.split)
qed

lemma dlq_config_preserves [simp]: "dq_preserveHeaders (dlq_config cfg)"
  by (simp add: dlq_config_def)

section \<open>Properties\<close>


definition early_world :: "unit world" where
  "early_world = \<lparr>db = (), clock = (\<lambda>n. 1250 + int n), ticks = 0, uuids = (\<lambda>n. replicate (Suc n) CHR ''u''),
     minted = 0\<rparr>"


text \<open>
  The delays of the linear strategy: for a backoff \<open>b\<close> with \<open>10 * b\<close> and \<open>a * b\<close> within an \<open>int64\<close>,
  the delay before attempt \<open>a\<close> is \<open>a * b\<close>, capped at \<open>10 * b\<close>.
\<close>

lemma linear_delay_is_capped:
  assumes "0 \<le> bc_RetryBackoff cfg" "bc_RetryBackoff cfg * 10 < 2 ^ 63" "1 \<le> a" "a < 2 ^ 63"
    "a * bc_RetryBackoff cfg < 2 ^ 63"
  shows "rs_GetRetryDelay (NewLinearBackoffRetry cfg) m a w
    = (min (a * bc_RetryBackoff cfg) (10 * bc_RetryBackoff cfg), w)"
proof -
  let ?b = "bc_RetryBackoff cfg"
  have "0 \<le> (a - 1) * ?b" "(a - 1) * ?b \<le> a * ?b"
    using assms(1,3) by (simp_all add: mult_right_mono)
  then have "wrap64 ((a - 1) * ?b) = (a - 1) * ?b" using assms(5) by (simp add: wrap64_id)
  moreover have "?b + (a - 1) * ?b = a * ?b" by (simp add: algebra_simps)
  moreover have "wrap64 (a * ?b) = a * ?b"
    by (rule wrap64_id) (use assms(5) \<open>0 \<le> (a - 1) * ?b\<close> \<open>(a - 1) * ?b \<le> a * ?b\<close> in linarith)+
  moreover have "wrap64 (?b * 10) = ?b * 10" "wrap64 (a - 1) = a - 1" using assms by (simp_all add: wrap64_id)
  ultimately show ?thesis
    by (simp add: NewLinearBackoffRetry_def lin_GetRetryDelay_def linear_config_def min_def
        mult.commute [of _ 10] Let_def)
qed

text \<open>
  What a dead-letter message is. Enriching a message gives one that goes to the dead-letter
  topic, is never moved to a dead-letter topic again, carries the payload, key and partition of the
  original, its topic, identifier and the reason as headers, and every header of the original that
  the enrichment does not reserve. But its \<open>MaxRetries\<close> of 0, commented as \<open>No more retries\<close>, is read by the
  retry strategy as the default: it is retried whenever the configuration allows one attempt.
\<close>

theorem dlq_message_is_final_but_retried:
  assumes "ds_EnrichDLQMessage (NewDefaultDLQStrategy cfg) m reason w = (m', w')" "wf_map (m_Headers m)"
    "k \<notin> set dlq_headers"
  shows "m_Topic m' = bc_DLQPrefix cfg @ m_Topic m \<and> \<not> ds_ShouldMoveToDLQ (NewDefaultDLQStrategy cfg) m'
    \<and> m_Payload m' = m_Payload m \<and> m_Key m' = m_Key m \<and> m_Partition m' = m_Partition m
    \<and> map_of (m_Headers m') ''dlq_reason'' = Some reason
    \<and> map_of (m_Headers m') ''original_topic'' = Some (m_Topic m)
    \<and> map_of (m_Headers m') ''original_message_id'' = Some (m_ID m)
    \<and> map_of (m_Headers m') k = map_of (m_Headers m) k
    \<and> rs_ShouldRetry (NewExponentialBackoffRetry cfg) m' (m_RetryCount m' + 1) = (1 \<le> bc_MaxRetries cfg)"
proof -
  have "m_Topic m' = bc_DLQPrefix cfg @ m_Topic m" "\<not> ds_ShouldMoveToDLQ (NewDefaultDLQStrategy cfg) m'"
    using default_dlq.enrich_topic [OF assms(1)] default_dlq.enrich_terminal [OF assms(1)]
    by (simp_all add: NewDefaultDLQStrategy_def dlq_config_def GetDLQTopic_def Let_def)
  moreover have "EnrichDLQMessage (dlq_config cfg) m reason w = (m', w')"
    using assms(1) by (simp add: NewDefaultDLQStrategy_def Let_def)
  note enrich_fields [OF this] enrich_headers [OF this]
  ultimately show ?thesis using assms(2,3)
    by (simp add: dlq_headers_def NewExponentialBackoffRetry_def exponential_config_def exp_ShouldRetry_def
        exp_GetMaxRetries_def max_retries_of_def Let_def)
qed

theorem dlq_message_is_final_but_retried_witness:
  "\<exists>m' w'. ds_EnrichDLQMessage (NewDefaultDLQStrategy default_broker)
       (zero_message\<lparr>m_Topic := ''o'', m_Headers := [(''k'', ''v'')]\<rparr>) ''bad'' early_world = (m', w')
     \<and> m_Topic m' = ''dlq-o'' \<and> map_of (m_Headers m') ''k'' = Some ''v''
     \<and> rs_ShouldRetry (NewExponentialBackoffRetry default_broker) m' (m_RetryCount m' + 1)"
proof -
  let ?m = "zero_message\<lparr>m_Topic := ''o'', m_Headers := [(''k'', ''v'')]\<rparr>"
  obtain m' w' where e: "ds_EnrichDLQMessage (NewDefaultDLQStrategy default_broker) ?m ''bad'' early_world = (m', w')"
    by fastforce
  from dlq_message_is_final_but_retried [OF e, of "''k''"] e show ?thesis
    by (auto simp: wf_map_def dlq_headers_def default_broker_def)
qed

end
