(* ===== verification/Acknowledgment.thy ===== *)
theory Acknowledgment
  imports Retry
begin

text \<open>
  The acknowledgment service of \<^verbatim>\<open>internal/services/acknowledgment\<close>: \<^verbatim>\<open>ack_handler.go\<close> and the
  service methods of \<^verbatim>\<open>retry.go\<close> and \<^verbatim>\<open>dlq.go\<close>. What is fixed when the service is built is a record
  \<open>ack_service\<close>, what its methods change a record \<open>ack_state\<close>, next to the world; the logger is left
  out. The three background loops are modelled by what one tick of their tickers does.
\<close>

section \<open>Requests, responses and state\<close>

record ack_request =
  ar_MessageID :: string
  ar_ConsumerID :: string
  ar_ConsumerGroup :: string
  ar_Success :: bool
  ar_ProcessingTime :: int
  ar_Metadata :: "string gomap"

record nack_request =
  nr_MessageID :: string
  nr_ConsumerID :: string
  nr_ConsumerGroup :: string
  nr_Reason :: string
  nr_Retry :: bool
  nr_RetryDelay :: int
  nr_Metadata :: "string gomap"

record ack_response =
  ap_MessageID :: string
  ap_Status :: string
  ap_RetryCount :: int
  ap_NextRetryAt :: "int option"
  ap_DLQTopic :: string
  ap_ProcessedAt :: int

record requeue_request =
  rq_MessageID :: string
  rq_Reason :: string
  rq_RetryDelay :: int
  rq_MaxRetries :: int

record dlq_request =
  dr_MessageID :: string
  dr_Reason :: string
  dr_OriginalTopic :: string
  dr_DLQTopic :: string

record expired_message_info =
  ei_MessageID :: string
  ei_Topic :: string
  ei_ConsumerID :: string
  ei_DeliveredAt :: int
  ei_AckDeadline :: int
  ei_Action :: string

record expiration_report =
  xr_ExpiredCount :: int
  xr_RequeuedCount :: int
  xr_DLQCount :: int
  xr_ProcessedAt :: int
  xr_ExpiredMessages :: "expired_message_info list"

record ack_stats =
  at_TotalAcknowledged :: int
  at_TotalNacked :: int
  at_TotalRequeued :: int
  at_TotalDLQ :: int
  at_TotalExpired :: int
  at_AvgProcessingTime :: int
  at_AckRate :: rat
  at_GeneratedAt :: int

record pending_ack =
  pa_MessageID :: string
  pa_ConsumerID :: string
  pa_ConsumerGroup :: string
  pa_DeliveredAt :: int
  pa_AckDeadline :: int
  pa_RetryCount :: int
  pa_Topic :: string

record service_stats =
  ss_Acknowledged :: int
  ss_Nacked :: int
  ss_Requeued :: int
  ss_DLQ :: int
  ss_Expired :: int
  ss_ProcessingTimes :: "int list"
  ss_LastReset :: int

record 'd ack_service =
  ak_messageRepo :: "'d message_repository"
  ak_config :: broker_config
  ak_retryStrategy :: "'d retry_strategy"
  ak_dlqStrategy :: "'d dlq_strategy"

text \<open>A running worker is a name in \<open>as_workers\<close>, the map of the cancel functions.\<close>

record ack_state =
  as_pendingAcks :: "pending_ack gomap"
  as_workers :: "unit gomap"
  as_stats :: service_stats

definition NewService ::
  "'d message_repository \<Rightarrow> broker_config \<Rightarrow> 'd world \<Rightarrow> ('d ack_service \<times> ack_state) \<times> 'd world" where
  "NewService mr cfg w =
     (let (now, w) = time_now w
      in ((\<lparr>ak_messageRepo = mr, ak_config = cfg, ak_retryStrategy = NewExponentialBackoffRetry cfg,
            ak_dlqStrategy = NewDefaultDLQStrategy cfg\<rparr>,
           \<lparr>as_pendingAcks = [], as_workers = [],
            as_stats = \<lparr>ss_Acknowledged = 0, ss_Nacked = 0, ss_Requeued = 0, ss_DLQ = 0, ss_Expired = 0,
              ss_ProcessingTimes = [], ss_LastReset = now\<rparr>\<rparr>), w))"

section \<open>Helpers\<close>

definition validateAckRequest :: "ack_request \<Rightarrow> go_error option" where
  "validateAckRequest req =
     (if ar_MessageID req = '''' then Some (Errorf ''message ID cannot be empty'')
      else if ar_ConsumerID req = '''' then Some (Errorf ''consumer ID cannot be empty'')
      else None)"

definition validateNackRequest :: "nack_request \<Rightarrow> go_error option" where
  "validateNackRequest req =
     (if nr_MessageID req = '''' then Some (Errorf ''message ID cannot be empty'')
      else if nr_ConsumerID req = '''' then Some (Errorf ''consumer ID cannot be empty'')
      else None)"

definition removePendingAck :: "string \<Rightarrow> ack_state \<Rightarrow> ack_state" where
  "removePendingAck i st = st\<lparr>as_pendingAcks := mdel i (as_pendingAcks st)\<rparr>"

definition updateStats :: "string \<Rightarrow> int \<Rightarrow> ack_state \<Rightarrow> ack_state" where
  "updateStats operation processingTime st =
     (let s = as_stats st;
          s = (if operation = ''acknowledged'' then s\<lparr>ss_Acknowledged := wrap64 (ss_Acknowledged s + 1)\<rparr>
               else if operation = ''nacked'' then s\<lparr>ss_Nacked := wrap64 (ss_Nacked s + 1)\<rparr>
               else if operation = ''requeued'' then s\<lparr>ss_Requeued := wrap64 (ss_Requeued s + 1)\<rparr>
               else if operation = ''dlq'' then s\<lparr>ss_DLQ := wrap64 (ss_DLQ s + 1)\<rparr>
               else if operation = ''expired'' then s\<lparr>ss_Expired := wrap64 (ss_Expired s + 1)\<rparr>
               else s);
          s = (if processingTime > 0
               then let ts = ss_ProcessingTimes s @ [processingTime]
                    in s\<lparr>ss_ProcessingTimes := (if length ts > 1000 then tl ts else ts)\<rparr>
               else s)
      in st\<lparr>as_stats := s\<rparr>)"

section \<open>Requeueing, dead letters and failures\<close>

text \<open>What \<open>RequeueMessage\<close> and \<open>requeueMessageForRetry\<close> do to the message, and when it is retried.\<close>

definition requeued_message ::
  "'d ack_service \<Rightarrow> message \<Rightarrow> string \<Rightarrow> int \<Rightarrow> 'd world \<Rightarrow> (message \<times> int) \<times> 'd world" where
  "requeued_message s m reason delay w =
     (let m = m\<lparr>m_RetryCount := wrap64 (m_RetryCount m + 1), m_Status := StatusPending,
                m_ConsumerID := '''', m_DeliveredAt := None, m_AckedAt := None\<rparr>;
          (retryDelay, w) = (if delay = 0 then rs_GetRetryDelay (ak_retryStrategy s) m (m_RetryCount m) w
                             else (delay, w));
          (now, w) = time_now w;
          nextRetryAt = now + retryDelay;
          m = m\<lparr>m_Headers := mput_all
                 [(''retry_count'', itoa (m_RetryCount m)), (''retry_reason'', reason),
                  (''next_retry_at'', RFC3339 nextRetryAt)] (m_Headers m)\<rparr>
      in ((m, nextRetryAt), w))"

definition RequeueMessage :: "'d ack_service \<Rightarrow> requeue_request \<Rightarrow> 'd world \<Rightarrow> go_error option \<times> 'd world" where
  "RequeueMessage s req w =
     (case MR_Get (ak_messageRepo s) (rq_MessageID req) w of
        (Inl e, w) \<Rightarrow> (Some (Wrap ''failed to get message for requeue'' e), w)
      | (Inr m, w) \<Rightarrow>
          (let ((m, next), w) = requeued_message s m (rq_Reason req) (rq_RetryDelay req) w
           in (case MR_Store (ak_messageRepo s) m w of
                 (Some e, w) \<Rightarrow> (Some (Wrap ''failed to store requeued message'' e), w)
               | (None, w) \<Rightarrow> (None, w))))"

definition requeueMessageForRetry ::
  "'d ack_service \<Rightarrow> message \<Rightarrow> string \<Rightarrow> int \<Rightarrow> ack_state \<Rightarrow> 'd world
    \<Rightarrow> ack_response res \<times> ack_state \<times> 'd world" where
  "requeueMessageForRetry s m reason customDelay st w =
     (let ((m, next), w) = requeued_message s m reason customDelay w
      in (case MR_Store (ak_messageRepo s) m w of
            (Some e, w) \<Rightarrow> (Inl (Wrap ''failed to store requeued message'' e), st, w)
          | (None, w) \<Rightarrow>
              (let st = updateStats ''requeued'' 0 st; (now, w) = time_now w
               in (Inr \<lparr>ap_MessageID = m_ID m, ap_Status = ''requeued'', ap_RetryCount = m_RetryCount m,
                        ap_NextRetryAt = Some next, ap_DLQTopic = '''', ap_ProcessedAt = now\<rparr>, st, w))))"

definition markMessageFailed ::
  "'d ack_service \<Rightarrow> message \<Rightarrow> string \<Rightarrow> ack_state \<Rightarrow> 'd world
    \<Rightarrow> ack_response res \<times> ack_state \<times> 'd world" where
  "markMessageFailed s m reason st w =
     (let (now, w) = time_now w;
          m = m\<lparr>m_Status := StatusFailed, m_ConsumerID := '''',
                m_Headers := mput_all
                  [(''failure_reason'', reason), (''failed_at'', RFC3339 now),
                   (''final_retry_count'', itoa (m_RetryCount m))] (m_Headers m)\<rparr>
      in (case MR_Store (ak_messageRepo s) m w of
            (Some e, w) \<Rightarrow> (Inl (Wrap ''failed to store failed message'' e), st, w)
          | (None, w) \<Rightarrow>
              (let ack = \<lparr>a_MessageID = m_ID m, a_ConsumerID = m_ConsumerID m, a_ConsumerGroup = '''',
                          a_Success = False, a_Reason = ''permanently failed: '' @ reason, a_Timestamp = now\<rparr>;
                   (e, w) = MR_Acknowledge (ak_messageRepo s) ack w
               in (Inr \<lparr>ap_MessageID = m_ID m, ap_Status = ''failed'', ap_RetryCount = m_RetryCount m,
                        ap_NextRetryAt = None, ap_DLQTopic = '''', ap_ProcessedAt = now\<rparr>, st, w))))"

text \<open>The original of a dead-letter message: marked, with the metadata of the move.\<close>

definition moved_message :: "message \<Rightarrow> string \<Rightarrow> string \<Rightarrow> string \<Rightarrow> 'd world \<Rightarrow> message \<times> 'd world" where
  "moved_message m dlqTopic dlqID reason w =
     (let (now, w) = time_now w
      in (m\<lparr>m_Status := StatusDLQ, m_ConsumerID := '''',
            m_Headers := mput_all
              [(''dlq_moved_at'', RFC3339 now), (''dlq_topic'', dlqTopic), (''dlq_message_id'', dlqID),
               (''dlq_reason'', reason)] (m_Headers m)\<rparr>, w))"

definition MoveToDLQ :: "'d ack_service \<Rightarrow> dlq_request \<Rightarrow> 'd world \<Rightarrow> go_error option \<times> 'd world" where
  "MoveToDLQ s req w =
     (case MR_Get (ak_messageRepo s) (dr_MessageID req) w of
        (Inl e, w) \<Rightarrow> (Some (Wrap ''failed to get message for DLQ'' e), w)
      | (Inr m, w) \<Rightarrow>
          (let dlqTopic = (if dr_DLQTopic req = '''' then ds_GetDLQTopic (ak_dlqStrategy s) (m_Topic m)
                           else dr_DLQTopic req);
               (dm, w) = ds_EnrichDLQMessage (ak_dlqStrategy s) m (dr_Reason req) w;
               dm = dm\<lparr>m_Topic := dlqTopic\<rparr>
           in (case MR_Store (ak_messageRepo s) dm w of
                 (Some e, w) \<Rightarrow> (Some (Wrap ''failed to store DLQ message'' e), w)
               | (None, w) \<Rightarrow>
                   (let (m, w) = moved_message m dlqTopic (m_ID dm) (dr_Reason req) w
                    in (case MR_Store (ak_messageRepo s) m w of
                          (Some e, w) \<Rightarrow> (Some (Wrap ''failed to update original message'' e), w)
                        | (None, w) \<Rightarrow> (None, w))))))"

definition moveMessageToDLQ ::
  "'d ack_service \<Rightarrow> message \<Rightarrow> string \<Rightarrow> ack_state \<Rightarrow> 'd world
    \<Rightarrow> ack_response res \<times> ack_state \<times> 'd world" where
  "moveMessageToDLQ s m reason st w =
     (let dlqTopic = ds_GetDLQTopic (ak_dlqStrategy s) (m_Topic m);
          (dm, w) = ds_EnrichDLQMessage (ak_dlqStrategy s) m reason w
      in (case MR_Store (ak_messageRepo s) dm w of
            (Some e, w) \<Rightarrow> (Inl (Wrap ''failed to store DLQ message'' e), st, w)
          | (None, w) \<Rightarrow>
              (let (m, w) = moved_message m dlqTopic (m_ID dm) reason w
               in (case MR_Store (ak_messageRepo s) m w of
                     (Some e, w) \<Rightarrow> (Inl (Wrap ''failed to update original message'' e), st, w)
                   | (None, w) \<Rightarrow>
                       (let st = updateStats ''dlq'' 0 st; (now, w) = time_now w
                        in (Inr \<lparr>ap_MessageID = m_ID m, ap_Status = ''dlq'', ap_RetryCount = m_RetryCount m,
                                 ap_NextRetryAt = None, ap_DLQTopic = dlqTopic, ap_ProcessedAt = now\<rparr>,
                            st, w))))))"

definition GetDLQMessages ::
  "'d ack_service \<Rightarrow> string \<Rightarrow> int \<Rightarrow> int \<Rightarrow> 'd world \<Rightarrow> message list res \<times> 'd world" where
  "GetDLQMessages s dlqTopic limit offset w = MR_GetByTopic (ak_messageRepo s) dlqTopic limit offset w"

definition ReprocessDLQMessage :: "'d ack_service \<Rightarrow> string \<Rightarrow> 'd world \<Rightarrow> go_error option \<times> 'd world" where
  "ReprocessDLQMessage s dlqMessageID w =
     (case MR_Get (ak_messageRepo s) dlqMessageID w of
        (Inl e, w) \<Rightarrow> (Some (Wrap ''failed to get DLQ message'' e), w)
      | (Inr dm, w) \<Rightarrow>
          if m_Status dm \<noteq> StatusDLQ
          then (Some (Errorf (''message '' @ dlqMessageID @ '' is not a DLQ message'')), w)
          else (case map_of (m_Headers dm) ''original_topic'' of
                  None \<Rightarrow> (Some (Errorf ''DLQ message missing original topic information''), w)
                | Some originalTopic \<Rightarrow>
                    (let (mid, w) = uuid_new w;
                         (created, w) = time_now w;
                         hs = mput_all (filter (\<lambda>(k, v). \<not> HasPrefix k ''dlq_'' \<and> \<not> HasPrefix k ''original_'')
                                (m_Headers dm)) [];
                         (now, w) = time_now w;
                         hs = mput_all [(''reprocessed_from_dlq'', ''true''), (''reprocessed_at'', RFC3339 now),
                                (''original_dlq_message_id'', dlqMessageID)] hs;
                         hs = (case map_of (m_Headers dm) ''dlq_reason'' of
                                 None \<Rightarrow> hs | Some r \<Rightarrow> mput ''original_dlq_reason'' r hs);
                         m = zero_message\<lparr>m_ID := mid, m_Topic := originalTopic, m_Partition := m_Partition dm,
                               m_Key := m_Key dm, m_Payload := m_Payload dm, m_Priority := PriorityNormal,
                               m_DeliveryMode := DeliveryAtLeastOnce, m_Status := StatusPending,
                               m_RetryCount := 0, m_MaxRetries := bc_MaxRetries (ak_config s),
                               m_CreatedAt := created, m_Headers := hs\<rparr>
                     in (case MR_Store (ak_messageRepo s) m w of
                           (Some e, w) \<Rightarrow> (Some (Wrap ''failed to store reprocessed message'' e), w)
                         | (None, w) \<Rightarrow>
                             (let (now, w) = time_now w;
                                  dm = dm\<lparr>m_Headers := mput_all
                                        [(''reprocessed'', ''true''), (''reprocessed_at'', RFC3339 now),
                                         (''reprocessed_message_id'', mid)] (m_Headers dm)\<rparr>;
                                  (e, w) = MR_Store (ak_messageRepo s) dm w
                              in (None, w))))))"

section \<open>Acknowledgments\<close>

definition processFailedAcknowledgment ::
  "'d ack_service \<Rightarrow> message \<Rightarrow> ack_request \<Rightarrow> ack_state \<Rightarrow> 'd world
    \<Rightarrow> ack_response res \<times> ack_state \<times> 'd world" where
  "processFailedAcknowledgment s m req st w =
     (let st = removePendingAck (ar_MessageID req) st;
          reason = (case map_of (ar_Metadata req) ''reason'' of None \<Rightarrow> ''processing failed'' | Some r \<Rightarrow> r)
      in if rs_ShouldRetry (ak_retryStrategy s) m (wrap64 (m_RetryCount m + 1))
         then requeueMessageForRetry s m reason 0 st w
         else if ds_ShouldMoveToDLQ (ak_dlqStrategy s) m then moveMessageToDLQ s m reason st w
         else markMessageFailed s m reason st w)"

definition ProcessAcknowledgment ::
  "'d ack_service \<Rightarrow> ack_request \<Rightarrow> ack_state \<Rightarrow> 'd world \<Rightarrow> ack_response res \<times> ack_state \<times> 'd world" where
  "ProcessAcknowledgment s req st w =
     (case validateAckRequest req of
        Some e \<Rightarrow> (Inl (Wrap ''invalid acknowledgment request'' e), st, w)
      | None \<Rightarrow>
          (case MR_Get (ak_messageRepo s) (ar_MessageID req) w of
             (Inl e, w) \<Rightarrow> (Inl (Wrap ''failed to get message'' e), st, w)
           | (Inr m, w) \<Rightarrow>
               if m_ConsumerID m \<noteq> ar_ConsumerID req
               then (Inl (Errorf (''consumer '' @ ar_ConsumerID req
                       @ '' cannot acknowledge message assigned to '' @ m_ConsumerID m)), st, w)
               else (let (now, w) = time_now w
                     in if ar_Success req
                        then (let m = m\<lparr>m_Status := StatusAcknowledged, m_AckedAt := Some now\<rparr>;
                                  st = removePendingAck (ar_MessageID req) st;
                                  st = updateStats ''acknowledged'' (ar_ProcessingTime req) st
                              in (case MR_Store (ak_messageRepo s) m w of
                                    (Some e, w) \<Rightarrow> (Inl (Wrap ''failed to store acknowledged message'' e), st, w)
                                  | (None, w) \<Rightarrow>
                                      (let ack = \<lparr>a_MessageID = ar_MessageID req, a_ConsumerID = ar_ConsumerID req,
                                             a_ConsumerGroup = ar_ConsumerGroup req, a_Success = True,
                                             a_Reason = '''', a_Timestamp = now\<rparr>;
                                           (e, w) = MR_Acknowledge (ak_messageRepo s) ack w
                                       in (Inr \<lparr>ap_MessageID = ar_MessageID req, ap_Status = ''acknowledged'',
                                             ap_RetryCount = 0, ap_NextRetryAt = None, ap_DLQTopic = '''',
                                             ap_ProcessedAt = now\<rparr>, st, w))))
                        else processFailedAcknowledgment s m req st w)))"

definition ProcessNegativeAcknowledgment ::
  "'d ack_service \<Rightarrow> nack_request \<Rightarrow> ack_state \<Rightarrow> 'd world \<Rightarrow> ack_response res \<times> ack_state \<times> 'd world" where
  "ProcessNegativeAcknowledgment s req st w =
     (case validateNackRequest req of
        Some e \<Rightarrow> (Inl (Wrap ''invalid negative acknowledgment request'' e), st, w)
      | None \<Rightarrow>
          (case MR_Get (ak_messageRepo s) (nr_MessageID req) w of
             (Inl e, w) \<Rightarrow> (Inl (Wrap ''failed to get message'' e), st, w)
           | (Inr m, w) \<Rightarrow>
               if m_ConsumerID m \<noteq> nr_ConsumerID req
               then (Inl (Errorf (''consumer '' @ nr_ConsumerID req
                       @ '' cannot nack message assigned to '' @ m_ConsumerID m)), st, w)
               else (let st = removePendingAck (nr_MessageID req) st
                     in if nr_Retry req \<and> rs_ShouldRetry (ak_retryStrategy s) m (wrap64 (m_RetryCount m + 1))
                        then requeueMessageForRetry s m (nr_Reason req) (nr_RetryDelay req) st w
                        else if ds_ShouldMoveToDLQ (ak_dlqStrategy s) m
                        then moveMessageToDLQ s m (nr_Reason req) st w
                        else markMessageFailed s m (nr_Reason req) st w)))"

section \<open>Expired acknowledgments\<close>

text \<open>The action on an expired message and what it returned.\<close>

definition expire_message ::
  "'d ack_service \<Rightarrow> message \<Rightarrow> ack_state \<Rightarrow> 'd world \<Rightarrow> string \<times> ack_response res \<times> ack_state \<times> 'd world" where
  "expire_message s m st w =
     (if rs_ShouldRetry (ak_retryStrategy s) m (wrap64 (m_RetryCount m + 1))
      then (''requeued'', requeueMessageForRetry s m ''ack timeout'' 0 st w)
      else if ds_ShouldMoveToDLQ (ak_dlqStrategy s) m then (''dlq'', moveMessageToDLQ s m ''ack timeout'' st w)
      else (''failed'', markMessageFailed s m ''ack timeout'' st w))"

definition report_expired :: "expired_message_info \<Rightarrow> expiration_report \<Rightarrow> expiration_report" where
  "report_expired info r =
     (let r = (if ei_Action info = ''requeued'' then r\<lparr>xr_RequeuedCount := xr_RequeuedCount r + 1\<rparr>
               else if ei_Action info = ''dlq'' then r\<lparr>xr_DLQCount := xr_DLQCount r + 1\<rparr> else r)
      in r\<lparr>xr_ExpiredMessages := xr_ExpiredMessages r @ [info], xr_ExpiredCount := xr_ExpiredCount r + 1\<rparr>)"

fun expire_loop ::
  "'d ack_service \<Rightarrow> int \<Rightarrow> int \<Rightarrow> message list \<Rightarrow> expiration_report \<Rightarrow> ack_state \<Rightarrow> 'd world
    \<Rightarrow> expiration_report \<times> ack_state \<times> 'd world" where
  "expire_loop s now deadline [] r st w = (r, st, w)"
| "expire_loop s now deadline (m # ms) r st w =
     (case m_DeliveredAt m of
        None \<Rightarrow> expire_loop s now deadline ms r st w
      | Some delivered \<Rightarrow>
          if now > delivered + deadline
          then (case expire_message s m st w of
                  (action, Inl e, st, w) \<Rightarrow> expire_loop s now deadline ms r st w
                | (action, Inr _, st, w) \<Rightarrow>
                    expire_loop s now deadline ms
                      (report_expired \<lparr>ei_MessageID = m_ID m, ei_Topic = m_Topic m, ei_ConsumerID = m_ConsumerID m,
                         ei_DeliveredAt = delivered, ei_AckDeadline = deadline, ei_Action = action\<rparr> r)
                      (updateStats ''expired'' 0 (removePendingAck (m_ID m) st)) w)
          else expire_loop s now deadline ms r st w)"

definition CheckExpiredAcknowledgments ::
  "'d ack_service \<Rightarrow> ack_state \<Rightarrow> 'd world \<Rightarrow> expiration_report res \<times> ack_state \<times> 'd world" where
  "CheckExpiredAcknowledgments s st w =
     (let (now, w) = time_now w;
          report = \<lparr>xr_ExpiredCount = 0, xr_RequeuedCount = 0, xr_DLQCount = 0, xr_ProcessedAt = now,
                    xr_ExpiredMessages = []\<rparr>;
          deadline = bc_DefaultAckDeadline (ak_config s)
      in (case MR_GetUnacknowledged (ak_messageRepo s) '''' deadline w of
            (Inl e, w) \<Rightarrow> (Inl (Wrap ''failed to get unacknowledged messages'' e), st, w)
          | (Inr ms, w) \<Rightarrow>
              (let (report, st, w) = expire_loop s now deadline ms report st w in (Inr report, st, w))))"

section \<open>Statistics\<close>

definition GetAcknowledgmentStats :: "ack_state \<Rightarrow> 'd world \<Rightarrow> ack_stats \<times> 'd world" where
  "GetAcknowledgmentStats st w =
     (let s = as_stats st;
          (now, w) = time_now w;
          ts = ss_ProcessingTimes s;
          avg = (if ts \<noteq> [] then wrap64 (foldl (\<lambda>total t. wrap64 (total + t)) 0 ts sdiv int (length ts)) else 0);
          totalMessages = wrap64 (ss_Acknowledged s + ss_Nacked s)
      in (\<lparr>at_TotalAcknowledged = ss_Acknowledged s, at_TotalNacked = ss_Nacked s,
           at_TotalRequeued = ss_Requeued s, at_TotalDLQ = ss_DLQ s, at_TotalExpired = ss_Expired s,
           at_AvgProcessingTime = avg,
           at_AckRate = (if totalMessages > 0 then of_int (ss_Acknowledged s) / of_int totalMessages else 0),
           at_GeneratedAt = now\<rparr>, w))"

section \<open>Workers\<close>

definition start_worker :: "string \<Rightarrow> ack_state \<Rightarrow> ack_state" where
  "start_worker name st =
     (if map_of (as_workers st) name = None then st\<lparr>as_workers := mput name () (as_workers st)\<rparr> else st)"

definition StartAcknowledgmentWorker :: "ack_state \<Rightarrow> ack_state" where
  "StartAcknowledgmentWorker st =
     start_worker ''pending_cleaner'' (start_worker ''retry_processor'' (start_worker ''expiration_checker'' st))"

fun stop_workers :: "string list \<Rightarrow> ack_state \<Rightarrow> ack_state" where
  "stop_workers [] st = st"
| "stop_workers (name # names) st = stop_workers names (st\<lparr>as_workers := mdel name (as_workers st)\<rparr>)"

definition StopAcknowledgmentWorker :: "ack_state \<Rightarrow> ack_state" where
  "StopAcknowledgmentWorker st = stop_workers (map fst (as_workers st)) st"

text \<open>One tick of \<open>expirationWorker\<close>: an error is only logged.\<close>

definition expirationWorker :: "'d ack_service \<Rightarrow> ack_state \<Rightarrow> 'd world \<Rightarrow> ack_state \<times> 'd world" where
  "expirationWorker s st w = snd (CheckExpiredAcknowledgments s st w)"

text \<open>One tick of \<open>retryWorker\<close>, over the messages that the repository calls failed.\<close>

fun retry_loop :: "'d ack_service \<Rightarrow> message list \<Rightarrow> 'd world \<Rightarrow> 'd world" where
  "retry_loop s [] w = w"
| "retry_loop s (m # ms) w =
     (case map_of (m_Headers m) ''next_retry_at'' of
        None \<Rightarrow> retry_loop s ms w
      | Some str \<Rightarrow>
          (case ParseRFC3339 str of
             None \<Rightarrow> retry_loop s ms w
           | Some next \<Rightarrow>
               (let (now, w) = time_now w
                in if now > next
                   then (let m = m\<lparr>m_Status := StatusPending, m_ConsumerID := '''', m_DeliveredAt := None\<rparr>;
                             (e, w) = MR_Store (ak_messageRepo s) m w
                         in retry_loop s ms w)
                   else retry_loop s ms w)))"

definition retryWorker :: "'d ack_service \<Rightarrow> 'd world \<Rightarrow> 'd world" where
  "retryWorker s w =
     (case MR_GetFailedMessages (ak_messageRepo s) '''' (bc_MaxRetries (ak_config s)) w of
        (Inl e, w) \<Rightarrow> w
      | (Inr ms, w) \<Rightarrow> retry_loop s ms w)"

text \<open>One tick of \<open>pendingAckCleanupWorker\<close>. \<open>Sub\<close> saturates far beyond the 24 hours.\<close>

definition cleanupStalePendingAcks :: "ack_state \<Rightarrow> 'd world \<Rightarrow> ack_state \<times> 'd world" where
  "cleanupStalePendingAcks st w =
     (let (now, w) = time_now w
      in (st\<lparr>as_pendingAcks := filter (\<lambda>(i, p). \<not> now - pa_DeliveredAt p > 24 * Hour) (as_pendingAcks st)\<rparr>, w))"

end
