(* ===== verification/RedisServer.thy ===== *)
theory RedisServer
  imports Json "HOL-Library.List_Lexorder" "HOL-Library.Char_ord"
begin

text \<open>
  The Redis server behind \<^verbatim>\<open>internal/adapters/storage/redis\<close>. Server and client library are not
  part of the repository: every adapter takes \<open>exec\<close>, which runs one command on a server state.
  The locale \<open>redis_server\<close> states the documented behaviour the adapters rely on: a command either
  has its documented effect and reply, or fails, and then the effect may or may not have happened;
  keys with a time to live may disappear before any command. \<open>mem_exec\<close> is a server in memory that
  satisfies it.
\<close>

section \<open>Values, commands, replies\<close>

text \<open>A stored string: the text of a document, a decimal number, or any other text.\<close>

datatype blob = Doc json | Dec int | Raw string

text \<open>A member of a sorted set: Redis orders them by score, then by member.\<close>

datatype zentry = Z (score: int) (zmember: string)

instantiation zentry :: linorder
begin

definition less_eq_zentry :: "zentry \<Rightarrow> zentry \<Rightarrow> bool" where
  "less_eq_zentry x y \<longleftrightarrow> score x < score y \<or> score x = score y \<and> zmember x \<le> zmember y"

definition less_zentry :: "zentry \<Rightarrow> zentry \<Rightarrow> bool" where
  "less_zentry x y \<longleftrightarrow> score x < score y \<or> score x = score y \<and> zmember x < zmember y"

instance
  by standard (auto simp: less_eq_zentry_def less_zentry_def intro: zentry.expand)

end

type_synonym entry = "string \<times> (string \<times> string) list"

datatype rvalue =
    VStr blob
  | VZSet "zentry list"
  | VList "string list"
  | VHash "(string \<times> int) list"
  | VSet "string list"
  | VStream "entry list" "(string \<times> nat) list"

text \<open>A key has a value and perhaps a time to live (in nanoseconds, as it was set).\<close>

type_synonym keyspace = "string \<Rightarrow> (rvalue \<times> int option) option"

datatype rcmd =
    SET string blob int
  | GET string
  | DEL "string list"
  | EXISTS string
  | EXPIRE string int
  | INCRBY string int
  | ZADD string int string
  | ZRANGE string int int
  | ZCARD string
  | ZREMRANGEBYSCORE string int
  | RPUSH string string
  | LRANGE string int int
  | HINCRBY string string int
  | SADD string string
  | SREM string string
  | SMEMBERS string
  | SCAN string
  | XGROUPCREATE string string
  | XREADGROUP string string string int

datatype rreply =
    ROk
  | RNil
  | RErr string
  | RBlob blob
  | RInt int
  | RKeys "string list"
  | REntries "entry list"
  | RBlocked

section \<open>The documented behaviour\<close>

definition wrongtype :: rreply where
  "wrongtype = RErr ''WRONGTYPE Operation against a key holding the wrong kind of value''"

text \<open>\<open>start\<close> and \<open>stop\<close> of a range count from the end when negative; \<open>stop\<close> is included.\<close>

definition range_slice :: "int \<Rightarrow> int \<Rightarrow> 'a list \<Rightarrow> 'a list" where
  "range_slice start stop xs =
     (let n = int (length xs);
          s = (if start < 0 then max 0 (n + start) else start);
          e = (if stop < 0 then n + stop else stop)
      in if e < s then [] else take (nat (e - s + 1)) (drop (nat s) xs))"

fun glob :: "string \<Rightarrow> string \<Rightarrow> bool" where
  "glob [] s \<longleftrightarrow> s = []"
| "glob (p # ps) s \<longleftrightarrow>
     (if p = CHR ''*'' then glob ps s \<or> (case s of [] \<Rightarrow> False | c # cs \<Rightarrow> glob (p # ps) cs)
      else (case s of [] \<Rightarrow> False | c # cs \<Rightarrow> (p = CHR ''?'' \<or> p = c) \<and> glob ps cs))"

definition put_value :: "string \<Rightarrow> rvalue \<Rightarrow> keyspace \<Rightarrow> keyspace" where
  "put_value k v ks = ks(k \<mapsto> (v, case ks k of None \<Rightarrow> None | Some (_, ttl) \<Rightarrow> ttl))"

text \<open>A collection that becomes empty is removed with its key.\<close>

definition put_coll :: "string \<Rightarrow> bool \<Rightarrow> rvalue \<Rightarrow> keyspace \<Rightarrow> keyspace" where
  "put_coll k z v ks = (if z then ks(k := None) else put_value k v ks)"

fun redis_step :: "keyspace \<Rightarrow> rcmd \<Rightarrow> rreply \<times> keyspace" where
  "redis_step ks (SET k b ttl) = (ROk, ks(k \<mapsto> (VStr b, if ttl > 0 then Some ttl else None)))"
| "redis_step ks (GET k) =
     (case ks k of None \<Rightarrow> (RNil, ks) | Some (VStr b, _) \<Rightarrow> (RBlob b, ks) | _ \<Rightarrow> (wrongtype, ks))"
| "redis_step ks (DEL keys) =
     (RInt (int (length (filter (\<lambda>k. ks k \<noteq> None) (remdups keys)))),
      \<lambda>k. if k \<in> set keys then None else ks k)"
| "redis_step ks (EXISTS k) = (RInt (if ks k = None then 0 else 1), ks)"
| "redis_step ks (EXPIRE k ttl) =
     (case ks k of
        None \<Rightarrow> (RInt 0, ks)
      | Some (v, _) \<Rightarrow> (RInt 1, if ttl > 0 then ks(k \<mapsto> (v, Some ttl)) else ks(k := None)))"
| "redis_step ks (INCRBY k n) =
     (case ks k of
        None \<Rightarrow> (RInt n, ks(k \<mapsto> (VStr (Dec n), None)))
      | Some (VStr (Dec m), _) \<Rightarrow>
          (if in64 (m + n) then (RInt (m + n), put_value k (VStr (Dec (m + n))) ks)
           else (RErr ''ERR increment or decrement would overflow'', ks))
      | Some (VStr _, _) \<Rightarrow> (RErr ''ERR value is not an integer or out of range'', ks)
      | _ \<Rightarrow> (wrongtype, ks))"
| "redis_step ks (ZADD k s m) =
     (case ks k of
        None \<Rightarrow> (RInt 1, put_value k (VZSet [Z s m]) ks)
      | Some (VZSet zs, _) \<Rightarrow>
          (RInt (if m \<in> zmember ` set zs then 0 else 1),
           put_value k (VZSet (insort (Z s m) (filter (\<lambda>z. zmember z \<noteq> m) zs))) ks)
      | _ \<Rightarrow> (wrongtype, ks))"
| "redis_step ks (ZRANGE k start stop) =
     (case ks k of
        None \<Rightarrow> (RKeys [], ks)
      | Some (VZSet zs, _) \<Rightarrow> (RKeys (map zmember (range_slice start stop zs)), ks)
      | _ \<Rightarrow> (wrongtype, ks))"
| "redis_step ks (ZCARD k) =
     (case ks k of
        None \<Rightarrow> (RInt 0, ks) | Some (VZSet zs, _) \<Rightarrow> (RInt (int (length zs)), ks)
      | _ \<Rightarrow> (wrongtype, ks))"
| "redis_step ks (ZREMRANGEBYSCORE k hi) =
     (case ks k of
        None \<Rightarrow> (RInt 0, ks)
      | Some (VZSet zs, _) \<Rightarrow>
          (let zs' = filter (\<lambda>z. \<not> score z \<le> hi) zs
           in (RInt (int (length zs) - int (length zs')), put_coll k (zs' = []) (VZSet zs') ks))
      | _ \<Rightarrow> (wrongtype, ks))"
| "redis_step ks (RPUSH k x) =
     (case ks k of
        None \<Rightarrow> (RInt 1, put_value k (VList [x]) ks)
      | Some (VList xs, _) \<Rightarrow> (RInt (int (length xs) + 1), put_value k (VList (xs @ [x])) ks)
      | _ \<Rightarrow> (wrongtype, ks))"
| "redis_step ks (LRANGE k start stop) =
     (case ks k of
        None \<Rightarrow> (RKeys [], ks) | Some (VList xs, _) \<Rightarrow> (RKeys (range_slice start stop xs), ks)
      | _ \<Rightarrow> (wrongtype, ks))"
| "redis_step ks (HINCRBY k f n) =
     (case ks k of
        None \<Rightarrow> (RInt n, put_value k (VHash [(f, n)]) ks)
      | Some (VHash h, _) \<Rightarrow>
          (let v = (case map_of h f of None \<Rightarrow> 0 | Some v \<Rightarrow> v) + n
           in if in64 v then (RInt v, put_value k (VHash (mput f v h)) ks)
              else (RErr ''ERR increment or decrement would overflow'', ks))
      | _ \<Rightarrow> (wrongtype, ks))"
| "redis_step ks (SADD k x) =
     (case ks k of
        None \<Rightarrow> (RInt 1, put_value k (VSet [x]) ks)
      | Some (VSet xs, _) \<Rightarrow>
          (if x \<in> set xs then (RInt 0, ks) else (RInt 1, put_value k (VSet (xs @ [x])) ks))
      | _ \<Rightarrow> (wrongtype, ks))"
| "redis_step ks (SREM k x) =
     (case ks k of
        None \<Rightarrow> (RInt 0, ks)
      | Some (VSet xs, _) \<Rightarrow>
          (let xs' = filter (\<lambda>y. y \<noteq> x) xs
           in (RInt (if x \<in> set xs then 1 else 0), put_coll k (xs' = []) (VSet xs') ks))
      | _ \<Rightarrow> (wrongtype, ks))"
| "redis_step ks (SMEMBERS k) =
     (case ks k of
        None \<Rightarrow> (RKeys [], ks) | Some (VSet xs, _) \<Rightarrow> (RKeys xs, ks) | _ \<Rightarrow> (wrongtype, ks))"
| "redis_step ks (SCAN pat) = (RKeys [], ks)"
| "redis_step ks (XGROUPCREATE k g) =
     (case ks k of
        None \<Rightarrow> (ROk, put_value k (VStream [] [(g, 0)]) ks)
      | Some (VStream es gs, _) \<Rightarrow>
          (if map_of gs g \<noteq> None then (RErr ''BUSYGROUP Consumer Group name already exists'', ks)
           else (ROk, put_value k (VStream es ((g, 0) # gs)) ks))
      | _ \<Rightarrow> (wrongtype, ks))"
| "redis_step ks (XREADGROUP k g consumer count) =
     (case ks k of
        Some (VStream es gs, _) \<Rightarrow>
          (case map_of gs g of
             None \<Rightarrow> (RErr ''NOGROUP No such key or consumer group'', ks)
           | Some n \<Rightarrow>
               (let new = drop n es; got = (if count > 0 then take (nat count) new else new)
                in if new = [] then (RBlocked, ks)
                   else (REntries got, put_value k (VStream es (mput g (n + length got) gs)) ks)))
      | None \<Rightarrow> (RErr ''NOGROUP No such key or consumer group'', ks)
      | _ \<Rightarrow> (wrongtype, ks))"

text \<open>
  The members of a set and the keys that \<open>SCAN\<close> finds come in any order (\<open>SCAN\<close> stands for the
  whole iteration with the cursor).
\<close>

definition redis_ok :: "keyspace \<Rightarrow> rcmd \<Rightarrow> rreply \<Rightarrow> keyspace \<Rightarrow> bool" where
  "redis_ok ks c r ks' =
     (case c of
        SCAN pat \<Rightarrow> ks' = ks \<and> (\<exists>xs. r = RKeys xs \<and> distinct xs \<and> set xs = {k. ks k \<noteq> None \<and> glob pat k})
      | SMEMBERS k \<Rightarrow> ks' = ks \<and>
          (case fst (redis_step ks c) of
             RKeys xs \<Rightarrow> (\<exists>ys. r = RKeys ys \<and> distinct ys \<and> set ys = set xs) | r0 \<Rightarrow> r = r0)
      | _ \<Rightarrow> (r, ks') = redis_step ks c)"

text \<open>Keys that have a time to live may have expired.\<close>

definition expires :: "keyspace \<Rightarrow> keyspace \<Rightarrow> bool" where
  "expires ks ks' \<longleftrightarrow> (\<forall>k. ks' k = ks k \<or> (ks' k = None \<and> (\<exists>v t. ks k = Some (v, Some t))))"

lemma expires_refl [simp]: "expires ks ks"
  by (simp add: expires_def)

text \<open>A failed command has been applied or not; \<open>XREADGROUP\<close> never fails by blocking.\<close>

definition redis_result :: "keyspace \<Rightarrow> rcmd \<Rightarrow> rreply \<Rightarrow> keyspace \<Rightarrow> bool" where
  "redis_result ks c r ks' \<longleftrightarrow>
     (\<exists>ks1. expires ks ks1 \<and>
        (redis_ok ks1 c r ks' \<or> (\<exists>e. r = RErr e) \<and> (ks' = ks1 \<or> (\<exists>r1. redis_ok ks1 c r1 ks'))))"

locale redis_server =
  fixes exec :: "rcmd \<Rightarrow> 'd \<Rightarrow> rreply \<times> 'd" and abs :: "'d \<Rightarrow> keyspace"
  assumes exec_result: "exec c d = (r, d') \<Longrightarrow> redis_result (abs d) c r (abs d')"

section \<open>What a command leaves alone\<close>

fun writes :: "rcmd \<Rightarrow> string list" where
  "writes (SET k b ttl) = [k]"
| "writes (DEL ks) = ks"
| "writes (EXPIRE k ttl) = [k]"
| "writes (INCRBY k n) = [k]"
| "writes (ZADD k s m) = [k]"
| "writes (ZREMRANGEBYSCORE k hi) = [k]"
| "writes (RPUSH k x) = [k]"
| "writes (HINCRBY k f n) = [k]"
| "writes (SADD k x) = [k]"
| "writes (SREM k x) = [k]"
| "writes (XGROUPCREATE k g) = [k]"
| "writes (XREADGROUP k g c n) = [k]"
| "writes _ = []"

text \<open>Only these can change a stored document: the others answer \<open>WRONGTYPE\<close>.\<close>

fun doc_writes :: "rcmd \<Rightarrow> string list" where
  "doc_writes (SET k b ttl) = [k]"
| "doc_writes (DEL ks) = ks"
| "doc_writes (EXPIRE k ttl) = [k]"
| "doc_writes _ = []"

definition kept :: "string \<Rightarrow> keyspace \<Rightarrow> keyspace \<Rightarrow> bool" where
  "kept k ks ks' \<longleftrightarrow> ks' k = ks k \<or> (ks' k = None \<and> (\<exists>v t. ks k = Some (v, Some t)))"

lemma kept_refl [simp]: "kept k ks ks"
  by (simp add: kept_def)

lemma kept_trans [trans]: "kept k a b \<Longrightarrow> kept k b c \<Longrightarrow> kept k a c"
  by (cases "a k"; cases "b k") (auto simp: kept_def)

lemma expires_kept: "expires ks ks' \<Longrightarrow> kept k ks ks'"
  by (simp add: expires_def kept_def)

lemma expires_fixed: "expires ks ks' \<Longrightarrow> ks k = Some (v, None) \<Longrightarrow> ks' k = Some (v, None)"
  unfolding expires_def by (metis option.inject prod.inject option.distinct(1))

lemma redis_step_frame: "k \<notin> set (writes c) \<Longrightarrow> snd (redis_step ks c) k = ks k"
  by (induction ks c rule: redis_step.induct)
    (auto simp: put_value_def put_coll_def Let_def split: option.splits rvalue.splits blob.splits)

lemma redis_ok_frame: "redis_ok ks c r ks' \<Longrightarrow> k \<notin> set (writes c) \<Longrightarrow> ks' k = ks k"
  using redis_step_frame [of k c ks] by (cases c) (auto simp: redis_ok_def dest: sym)

lemma redis_step_doc_frame:
  "ks k = Some (VStr (Doc j), t) \<Longrightarrow> k \<notin> set (doc_writes c) \<Longrightarrow> snd (redis_step ks c) k = ks k"
  by (induction ks c rule: redis_step.induct)
    (auto simp: put_value_def put_coll_def Let_def split: option.splits rvalue.splits blob.splits)

lemma redis_ok_doc_frame:
  "redis_ok ks c r ks' \<Longrightarrow> ks k = Some (VStr (Doc j), t) \<Longrightarrow> k \<notin> set (doc_writes c) \<Longrightarrow> ks' k = ks k"
  using redis_step_doc_frame [of ks k j t c] by (cases c) (auto simp: redis_ok_def dest: sym)

lemma redis_result_kept:
  assumes "redis_result ks c r ks'" "k \<notin> set (writes c)"
  shows "kept k ks ks'"
proof -
  from assms(1) obtain ks1 where "expires ks ks1" and "ks' = ks1 \<or> (\<exists>r. redis_ok ks1 c r ks')"
    by (auto simp: redis_result_def)
  then have "kept k ks ks1" "ks' k = ks1 k" using redis_ok_frame [OF _ assms(2)] by (auto intro: expires_kept)
  then show ?thesis by (simp add: kept_def)
qed

lemma redis_result_doc_kept:
  assumes "redis_result ks c r ks'" "ks k = Some (VStr (Doc j), None)" "k \<notin> set (doc_writes c)"
  shows "ks' k = ks k"
proof -
  from assms(1) obtain ks1 where "expires ks ks1" and *: "ks' = ks1 \<or> (\<exists>r. redis_ok ks1 c r ks')"
    by (auto simp: redis_result_def)
  with assms(2) have "ks1 k = ks k" by (auto dest: expires_fixed)
  with * assms(2,3) redis_ok_doc_frame [of ks1 c _ ks' k j None] show ?thesis by auto
qed

text \<open>A command that reports no error has had its effect.\<close>

lemma redis_result_ok:
  assumes "redis_result ks c r ks'" "\<And>e. r \<noteq> RErr e"
  obtains ks1 where "expires ks ks1" "redis_ok ks1 c r ks'"
  using assms by (auto simp: redis_result_def)

section \<open>A server in memory\<close>

type_synonym mem = "(rvalue \<times> int option) gomap"

definition mem_exec :: "rcmd \<Rightarrow> mem \<Rightarrow> rreply \<times> mem" where
  "mem_exec c d =
     (case c of
        SCAN pat \<Rightarrow> (RKeys (filter (glob pat) (remdups (map fst d))), d)
      | SMEMBERS k \<Rightarrow>
          (case fst (redis_step (map_of d) c) of RKeys xs \<Rightarrow> (RKeys (remdups xs), d) | r \<Rightarrow> (r, d))
      | _ \<Rightarrow>
          (let (r, ks) = redis_step (map_of d) c
           in (r, fold (\<lambda>k d. case ks k of None \<Rightarrow> mdel k d | Some v \<Rightarrow> mput k v d) (writes c) d)))"

lemma map_of_write_back:
  "map_of (fold (\<lambda>k d. case ks k of None \<Rightarrow> mdel k d | Some v \<Rightarrow> mput k v d) keys d) x
     = (if x \<in> set keys then ks x else map_of d x)"
  by (induction keys arbitrary: d) (auto split: option.splits)

lemma mem_write_back:
  "redis_step (map_of d) c = (r, ks) \<Longrightarrow>
   map_of (fold (\<lambda>k d. case ks k of None \<Rightarrow> mdel k d | Some v \<Rightarrow> mput k v d) (writes c) d) = ks"
  using redis_step_frame [of _ c "map_of d"] by (auto simp: fun_eq_iff map_of_write_back)

lemma mem_step_ok:
  "(let (r, ks) = redis_step (map_of d) c
    in (r, fold (\<lambda>k d. case ks k of None \<Rightarrow> mdel k d | Some v \<Rightarrow> mput k v d) (writes c) d)) = (r, d')
   \<Longrightarrow> (r, map_of d') = redis_step (map_of d) c"
  using mem_write_back [of d c] by (cases "redis_step (map_of d) c") auto

lemma mem_members:
  "(case x of RKeys xs \<Rightarrow> (RKeys (remdups xs), d) | r \<Rightarrow> (r, d)) = (r, d' :: mem) \<Longrightarrow>
   d' = d \<and> (case x of RKeys xs \<Rightarrow> (\<exists>ys. r = RKeys ys \<and> distinct ys \<and> set ys = set xs) | r0 \<Rightarrow> r = r0)"
  by (cases x) auto

lemma mem_exec_ok: "mem_exec c d = (r, d') \<Longrightarrow> redis_ok (map_of d) c r (map_of d')"
proof (cases c)
  case (SMEMBERS k)
  show "mem_exec c d = (r, d') \<Longrightarrow> redis_ok (map_of d) c r (map_of d')"
    unfolding mem_exec_def redis_ok_def SMEMBERS rcmd.case
    by (drule mem_members) (simp del: redis_step.simps)
next
  case (SCAN pat)
  then show "mem_exec c d = (r, d') \<Longrightarrow> redis_ok (map_of d) c r (map_of d')"
    by (auto simp: mem_exec_def redis_ok_def map_of_eq_None_iff)
qed (unfold mem_exec_def redis_ok_def, simp_all only: rcmd.case, (erule mem_step_ok)+)

interpretation mem_server: redis_server mem_exec map_of
proof
  fix c r and d d' :: mem
  assume "mem_exec c d = (r, d')"
  then show "redis_result (map_of d) c r (map_of d')"
    using mem_exec_ok expires_refl unfolding redis_result_def by blast
qed

end
