(* ===== verification/RedisMessages.thy ===== *)
theory RedisMessages
  imports RedisServer Ports
begin

text \<open>
  \<^verbatim>\<open>internal/adapters/storage/redis/message_repository.go\<close>: the message repository over a Redis
  server. The last sections show that it meets the contract \<open>message_store\<close> of the services on
  every server that behaves as documented.
\<close>

section \<open>The client\<close>

definition run :: "(rcmd \<Rightarrow> 'd \<Rightarrow> rreply \<times> 'd) \<Rightarrow> rcmd \<Rightarrow> 'd world \<Rightarrow> rreply \<times> 'd world" where
  "run exec c w = (let (r, d) = exec c (db w) in (r, w\<lparr>db := d\<rparr>))"

definition redis_Nil :: go_error where
  "redis_Nil = Errorf ''redis: nil''"

text \<open>\<open>cmd.Err()\<close>; an answer of a type the caller cannot read is an error as well.\<close>

fun Err :: "rreply \<Rightarrow> go_error option" where
  "Err (RErr e) = Some (Errorf e)"
| "Err RNil = Some redis_Nil"
| "Err _ = None"

definition unexpected :: go_error where
  "unexpected = Errorf ''redis: unexpected reply''"

fun reply_blob :: "rreply \<Rightarrow> blob res" where
  "reply_blob (RBlob b) = Inr b"
| "reply_blob r = Inl (case Err r of Some e \<Rightarrow> e | None \<Rightarrow> unexpected)"

fun reply_int :: "rreply \<Rightarrow> int res" where
  "reply_int (RInt n) = Inr n"
| "reply_int r = Inl (case Err r of Some e \<Rightarrow> e | None \<Rightarrow> unexpected)"

fun reply_keys :: "rreply \<Rightarrow> string list res" where
  "reply_keys (RKeys ks) = Inr ks"
| "reply_keys r = Inl (case Err r of Some e \<Rightarrow> e | None \<Rightarrow> unexpected)"

text \<open>A pipeline sends its commands in order; its error is the first one of a command.\<close>

fun pipeline :: "(rcmd \<Rightarrow> 'd \<Rightarrow> rreply \<times> 'd) \<Rightarrow> rcmd list \<Rightarrow> 'd world \<Rightarrow> rreply list \<times> 'd world" where
  "pipeline exec [] w = ([], w)"
| "pipeline exec (c # cs) w =
     (let (r, w) = run exec c w; (rs, w) = pipeline exec cs w in (r # rs, w))"

fun first_err :: "rreply list \<Rightarrow> go_error option" where
  "first_err [] = None"
| "first_err (r # rs) = (case Err r of Some e \<Rightarrow> Some e | None \<Rightarrow> first_err rs)"

text \<open>The document that a stored text denotes; a text that is no document does not parse.\<close>

fun doc_of :: "blob \<Rightarrow> json option" where
  "doc_of (Doc j) = Some j"
| "doc_of (Dec n) = Some (JNum n)"
| "doc_of (Raw s) = None"

definition Unmarshal :: "(json \<Rightarrow> 'a option) \<Rightarrow> blob \<Rightarrow> 'a res" where
  "Unmarshal f b = (case Option.bind (doc_of b) f of
     None \<Rightarrow> Inl (Errorf ''json: cannot unmarshal'') | Some x \<Rightarrow> Inr x)"

definition wrap_err :: "string \<Rightarrow> go_error option \<Rightarrow> go_error option" where
  "wrap_err s e = map_option (Wrap s) e"

section \<open>Keys\<close>

definition messageKey :: "string \<Rightarrow> string" where
  "messageKey i = ''msg:'' @ i"

definition topicMessagesKey :: "string \<Rightarrow> string" where
  "topicMessagesKey t = ''topic:'' @ t @ '':messages''"

definition partitionKey :: "string \<Rightarrow> int \<Rightarrow> string" where
  "partitionKey t p = ''topic:'' @ t @ '':partition:'' @ itoa p"

definition topicStatsKey :: "string \<Rightarrow> string" where
  "topicStatsKey t = ''topic:'' @ t @ '':stats''"

definition streamKey :: "string \<Rightarrow> string" where
  "streamKey t = ''stream:'' @ t"

definition deliveredKey :: "string \<Rightarrow> string" where
  "deliveredKey i = ''msg:'' @ i @ '':delivered''"

definition ackKey :: "string \<Rightarrow> string" where
  "ackKey i = ''ack:'' @ i"

definition groupStatsKey :: "string \<Rightarrow> string" where
  "groupStatsKey g = ''consumer:'' @ g @ '':stats''"

lemmas message_keys = messageKey_def topicMessagesKey_def partitionKey_def topicStatsKey_def
  streamKey_def deliveredKey_def ackKey_def groupStatsKey_def

section \<open>The operations\<close>

text \<open>The \<open>EXPIRE\<close> of a message whose expiry time lies ahead; the clock is read only for it.\<close>

definition expire_cmds :: "message \<Rightarrow> 'd world \<Rightarrow> rcmd list \<times> 'd world" where
  "expire_cmds m w = (case m_ExpiresAt m of
     None \<Rightarrow> ([], w)
   | Some t \<Rightarrow> (let (now, w) = time_now w; ttl = t - now
                in (if ttl > 0 then [EXPIRE (messageKey (m_ID m)) ttl] else [], w)))"

definition Store :: "(rcmd \<Rightarrow> 'd \<Rightarrow> rreply \<times> 'd) \<Rightarrow> message \<Rightarrow> 'd world \<Rightarrow> go_error option \<times> 'd world" where
  "Store exec m w =
     (let data = Doc (message_ToJSON m);
          (expire, w) = expire_cmds m w;
          (rs, w) = pipeline exec
            ([SET (messageKey (m_ID m)) data 0,
              ZADD (topicMessagesKey (m_Topic m)) (float64_of_int (m_CreatedAt m)) (m_ID m)]
             @ (if m_Partition m \<ge> 0 then [RPUSH (partitionKey (m_Topic m) (m_Partition m)) (m_ID m)] else [])
             @ expire
             @ [HINCRBY (topicStatsKey (m_Topic m)) ''message_count'' 1,
                HINCRBY (topicStatsKey (m_Topic m)) ''bytes_in'' (int (length (m_Payload m)))]) w
      in (first_err rs, w))"

definition Get :: "(rcmd \<Rightarrow> 'd \<Rightarrow> rreply \<times> 'd) \<Rightarrow> string \<Rightarrow> 'd world \<Rightarrow> message res \<times> 'd world" where
  "Get exec messageID w =
     (let (r, w) = run exec (GET (messageKey messageID)) w
      in (case reply_blob r of
            Inl e \<Rightarrow> (if e = redis_Nil then Inl (Errorf (''message not found: '' @ messageID)) else Inl e, w)
          | Inr data \<Rightarrow>
              (case Unmarshal message_of_json data of
                 Inl e \<Rightarrow> (Inl (Wrap ''failed to unmarshal message'' e), w)
               | Inr m \<Rightarrow> (Inr m, w))))"

definition Delete :: "(rcmd \<Rightarrow> 'd \<Rightarrow> rreply \<times> 'd) \<Rightarrow> string \<Rightarrow> 'd world \<Rightarrow> go_error option \<times> 'd world" where
  "Delete exec messageID w = (let (r, w) = run exec (DEL [messageKey messageID]) w in (Err r, w))"

fun batch_cmds :: "message list \<Rightarrow> 'd world \<Rightarrow> rcmd list \<times> 'd world" where
  "batch_cmds [] w = ([], w)"
| "batch_cmds (m # ms) w =
     (let (expire, w) = expire_cmds m w; (cs, w) = batch_cmds ms w
      in ([SET (messageKey (m_ID m)) (Doc (message_ToJSON m)) 0,
           ZADD (topicMessagesKey (m_Topic m)) (float64_of_int (m_CreatedAt m)) (m_ID m)] @ expire @ cs, w))"

definition StoreBatch ::
  "(rcmd \<Rightarrow> 'd \<Rightarrow> rreply \<times> 'd) \<Rightarrow> message list \<Rightarrow> 'd world \<Rightarrow> go_error option \<times> 'd world" where
  "StoreBatch exec ms w =
     (let (cs, w) = batch_cmds ms w; (rs, w) = pipeline exec cs w in (first_err rs, w))"

fun decode_all :: "rreply list \<Rightarrow> message list" where
  "decode_all [] = []"
| "decode_all (r # rs) =
     (case reply_blob r of
        Inl _ \<Rightarrow> decode_all rs
      | Inr data \<Rightarrow>
          (case Unmarshal message_of_json data of Inl _ \<Rightarrow> decode_all rs | Inr m \<Rightarrow> m # decode_all rs))"

definition GetBatch :: "(rcmd \<Rightarrow> 'd \<Rightarrow> rreply \<times> 'd) \<Rightarrow> string list \<Rightarrow> 'd world \<Rightarrow> message list res \<times> 'd world" where
  "GetBatch exec messageIDs w =
     (let (rs, w) = pipeline exec (map (\<lambda>i. GET (messageKey i)) messageIDs) w
      in (case first_err rs of
            Some e \<Rightarrow> if e \<noteq> redis_Nil then (Inl e, w) else (Inr (decode_all rs), w)
          | None \<Rightarrow> (Inr (decode_all rs), w)))"

definition GetByTopic ::
  "(rcmd \<Rightarrow> 'd \<Rightarrow> rreply \<times> 'd) \<Rightarrow> string \<Rightarrow> int \<Rightarrow> int \<Rightarrow> 'd world \<Rightarrow> message list res \<times> 'd world" where
  "GetByTopic exec topic limit offset w =
     (let (r, w) = run exec (ZRANGE (topicMessagesKey topic) offset (wrap64 (wrap64 (offset + limit) - 1))) w
      in (case reply_keys r of
            Inl e \<Rightarrow> (Inl e, w)
          | Inr ids \<Rightarrow> if ids = [] then (Inr [], w) else GetBatch exec ids w))"

definition GetByTopicPartition ::
  "(rcmd \<Rightarrow> 'd \<Rightarrow> rreply \<times> 'd) \<Rightarrow> string \<Rightarrow> int \<Rightarrow> int \<Rightarrow> int \<Rightarrow> 'd world \<Rightarrow> message list res \<times> 'd world" where
  "GetByTopicPartition exec topic part offset limit w =
     (let (r, w) = run exec (LRANGE (partitionKey topic part) offset
                              (wrap64 (wrap64 (offset + limit) - 1))) w
      in (case reply_keys r of
            Inl e \<Rightarrow> (Inl e, w)
          | Inr ids \<Rightarrow> if ids = [] then (Inr [], w) else GetBatch exec ids w))"

definition CountByTopic :: "(rcmd \<Rightarrow> 'd \<Rightarrow> rreply \<times> 'd) \<Rightarrow> string \<Rightarrow> 'd world \<Rightarrow> int res \<times> 'd world" where
  "CountByTopic exec topic w =
     (let (r, w) = run exec (ZCARD (topicMessagesKey topic)) w in (reply_int r, w))"

text \<open>The messages of the stream entries that name one; those that cannot be read are skipped.\<close>

fun get_entries :: "(rcmd \<Rightarrow> 'd \<Rightarrow> rreply \<times> 'd) \<Rightarrow> entry list \<Rightarrow> 'd world \<Rightarrow> message list \<times> 'd world" where
  "get_entries exec [] w = ([], w)"
| "get_entries exec ((eid, vals) # es) w =
     (case map_of vals ''message_id'' of
        None \<Rightarrow> get_entries exec es w
      | Some msgID \<Rightarrow>
          (let (r, w) = Get exec msgID w; (ms, w) = get_entries exec es w
           in (case r of Inl _ \<Rightarrow> (ms, w) | Inr m \<Rightarrow> (m # ms, w))))"

text \<open>\<open>Block: 0\<close> waits for ever for an entry: \<open>None\<close> when the stream has nothing new.\<close>

definition GetForConsumerGroup ::
  "(rcmd \<Rightarrow> 'd \<Rightarrow> rreply \<times> 'd) \<Rightarrow> string \<Rightarrow> string \<Rightarrow> int \<Rightarrow> 'd world
    \<Rightarrow> (message list res \<times> 'd world) option" where
  "GetForConsumerGroup exec topic consumerGroup limit w =
     (let (now, w) = time_now w;
          consumerKey = consumerGroup @ ''-'' @ itoa now;
          (r0, w) = run exec (XGROUPCREATE (streamKey topic) consumerGroup) w;
          (r, w) = run exec (XREADGROUP (streamKey topic) consumerGroup consumerKey limit) w
      in (case r of
            RBlocked \<Rightarrow> None
          | REntries es \<Rightarrow> (let (ms, w) = get_entries exec es w in Some (Inr ms, w))
          | _ \<Rightarrow> Some (Inl (case Err r of Some e \<Rightarrow> e | None \<Rightarrow> unexpected), w)))"

definition MarkDelivered ::
  "(rcmd \<Rightarrow> 'd \<Rightarrow> rreply \<times> 'd) \<Rightarrow> string \<Rightarrow> string \<Rightarrow> 'd world \<Rightarrow> go_error option \<times> 'd world" where
  "MarkDelivered exec messageID consumerID w =
     (let (r, w) = run exec (SET (deliveredKey messageID) (Raw consumerID) (24 * Hour)) w in (Err r, w))"

definition Acknowledge ::
  "(rcmd \<Rightarrow> 'd \<Rightarrow> rreply \<times> 'd) \<Rightarrow> acknowledgment \<Rightarrow> 'd world \<Rightarrow> go_error option \<times> 'd world" where
  "Acknowledge exec ack w =
     (case Get exec (a_MessageID ack) w of
        (Inl e, w) \<Rightarrow> (Some e, w)
      | (Inr m, w) \<Rightarrow>
          (let (now, w) = time_now w;
               m' = (if a_Success ack
                     then m\<lparr>m_Status := StatusAcknowledged, m_AckedAt := Some now\<rparr>
                     else m\<lparr>m_Status := StatusFailed, m_RetryCount := wrap64 (m_RetryCount m + 1)\<rparr>);
               (rs, w) = pipeline exec
                 ([SET (messageKey (a_MessageID ack)) (Doc (message_ToJSON m')) 0,
                   SET (ackKey (a_MessageID ack)) (Doc (acknowledgment_json ack)) (24 * Hour)]
                  @ (if a_ConsumerGroup ack \<noteq> ''''
                     then [HINCRBY (groupStatsKey (a_ConsumerGroup ack))
                             (if a_Success ack then ''acked'' else ''nacked'') 1]
                     else [])) w
           in (first_err rs, w)))"

text \<open>The filter reads the clock once for every delivered message.\<close>

fun filter_unacked :: "int \<Rightarrow> message list \<Rightarrow> 'd world \<Rightarrow> message list \<times> 'd world" where
  "filter_unacked deadline [] w = ([], w)"
| "filter_unacked deadline (m # ms) w =
     (case (m_Status m = StatusDelivered, m_DeliveredAt m) of
        (True, Some t) \<Rightarrow>
          (let (now, w) = time_now w; (r, w) = filter_unacked deadline ms w
           in (if now - t > deadline then m # r else r, w))
      | _ \<Rightarrow> filter_unacked deadline ms w)"

definition GetUnacknowledged ::
  "(rcmd \<Rightarrow> 'd \<Rightarrow> rreply \<times> 'd) \<Rightarrow> string \<Rightarrow> int \<Rightarrow> 'd world \<Rightarrow> message list res \<times> 'd world" where
  "GetUnacknowledged exec topic deadline w =
     (case GetByTopic exec topic 1000 0 w of
        (Inl e, w) \<Rightarrow> (Inl e, w)
      | (Inr ms, w) \<Rightarrow> (let (r, w) = filter_unacked deadline ms w in (Inr r, w)))"

definition GetFailedMessages ::
  "(rcmd \<Rightarrow> 'd \<Rightarrow> rreply \<times> 'd) \<Rightarrow> string \<Rightarrow> int \<Rightarrow> 'd world \<Rightarrow> message list res \<times> 'd world" where
  "GetFailedMessages exec topic maxRetries w =
     (case GetByTopic exec topic 1000 0 w of
        (Inl e, w) \<Rightarrow> (Inl e, w)
      | (Inr ms, w) \<Rightarrow>
          (Inr (filter (\<lambda>m. m_Status m = StatusFailed \<and> m_RetryCount m \<ge> maxRetries) ms), w))"

definition repo_MoveToDLQ ::
  "(rcmd \<Rightarrow> 'd \<Rightarrow> rreply \<times> 'd) \<Rightarrow> string \<Rightarrow> string \<Rightarrow> 'd world \<Rightarrow> go_error option \<times> 'd world" where
  "repo_MoveToDLQ exec messageID dlqTopic w =
     (case Get exec messageID w of
        (Inl e, w) \<Rightarrow> (Some e, w)
      | (Inr m, w) \<Rightarrow> Store exec (m\<lparr>m_Topic := dlqTopic, m_Status := StatusDLQ\<rparr>) w)"

definition DeleteExpired :: "'d world \<Rightarrow> int res \<times> 'd world" where
  "DeleteExpired w = (Inr 0, w)"

definition DeleteOlderThan ::
  "(rcmd \<Rightarrow> 'd \<Rightarrow> rreply \<times> 'd) \<Rightarrow> string \<Rightarrow> int \<Rightarrow> 'd world \<Rightarrow> int res \<times> 'd world" where
  "DeleteOlderThan exec topic before w =
     (let (r, w) = run exec (ZREMRANGEBYSCORE (topicMessagesKey topic) (float64_of_int before)) w
      in (reply_int r, w))"

definition NewMessageRepository :: "(rcmd \<Rightarrow> 'd \<Rightarrow> rreply \<times> 'd) \<Rightarrow> 'd message_repository" where
  "NewMessageRepository exec =
     \<lparr>MR_Store = Store exec, MR_Get = Get exec, MR_Delete = Delete exec,
      MR_StoreBatch = StoreBatch exec, MR_GetBatch = GetBatch exec, MR_GetByTopic = GetByTopic exec,
      MR_GetByTopicPartition = GetByTopicPartition exec, MR_CountByTopic = CountByTopic exec,
      MR_GetForConsumerGroup = GetForConsumerGroup exec, MR_MarkDelivered = MarkDelivered exec,
      MR_Acknowledge = Acknowledge exec, MR_GetUnacknowledged = GetUnacknowledged exec,
      MR_GetFailedMessages = GetFailedMessages exec, MR_MoveToDLQ = repo_MoveToDLQ exec,
      MR_DeleteExpired = DeleteExpired, MR_DeleteOlderThan = DeleteOlderThan exec\<rparr>"

section \<open>The contract\<close>

text \<open>
  The document of \<open>m\<close> is kept under the key of \<open>i\<close>, for ever; or \<open>m\<close> has an expiry time, and then
  the key may have a time to live or be gone.
\<close>

definition msg_at :: "keyspace \<Rightarrow> string \<Rightarrow> message \<Rightarrow> bool" where
  "msg_at ks i m \<longleftrightarrow>
     (let doc = VStr (Doc (message_ToJSON m)); k = messageKey i
      in ks k = Some (doc, None)
         \<or> m_ExpiresAt m \<noteq> None \<and> (ks k = None \<or> (\<exists>t. ks k = Some (doc, Some t))))"

lemma msg_at_kept: "msg_at ks i m \<Longrightarrow> kept (messageKey i) ks ks' \<Longrightarrow> msg_at ks' i m"
  by (auto simp: msg_at_def kept_def Let_def)

lemma messageKey_other [simp]:
  "messageKey i \<noteq> topicMessagesKey t" "messageKey i \<noteq> partitionKey t p" "messageKey i \<noteq> topicStatsKey t"
  "messageKey i \<noteq> streamKey t" "messageKey i \<noteq> ackKey j" "messageKey i \<noteq> groupStatsKey g"
  "messageKey i = messageKey j \<longleftrightarrow> i = j"
  by (simp_all add: message_keys)

text \<open>A command that does not write the key, or gives a time to live to a message that expires.\<close>

definition harmless :: "string \<Rightarrow> message \<Rightarrow> rcmd \<Rightarrow> bool" where
  "harmless i m c \<longleftrightarrow> messageKey i \<notin> set (writes c)
     \<or> (m_ExpiresAt m \<noteq> None \<and> (\<exists>ttl>0. c = EXPIRE (messageKey i) ttl))"

lemma redis_result_harmless:
  assumes "redis_result ks c r ks'" "harmless i m c" "msg_at ks i m"
  shows "msg_at ks' i m"
proof (cases "messageKey i \<in> set (writes c)")
  case False
  then show ?thesis using redis_result_kept [OF assms(1)] msg_at_kept [OF assms(3)] by blast
next
  case True
  then obtain ttl where c: "c = EXPIRE (messageKey i) ttl" "ttl > 0" and e: "m_ExpiresAt m \<noteq> None"
    using assms(2) by (auto simp: harmless_def)
  obtain ks1 where "expires ks ks1" and *: "ks' = ks1 \<or> (\<exists>r. redis_ok ks1 c r ks')"
    using assms(1) by (auto simp: redis_result_def)
  then have "msg_at ks1 i m" using assms(3) by (auto intro: msg_at_kept expires_kept)
  with * c e show ?thesis by (auto simp: msg_at_def redis_ok_def Let_def split: option.splits)
qed

lemma redis_ok_SET: "redis_ok ks (SET (messageKey i) (Doc (message_ToJSON m)) 0) r ks' \<Longrightarrow> msg_at ks' i m"
  by (simp add: redis_ok_def msg_at_def)

lemma first_err_Cons: "first_err (r # rs) = None \<longleftrightarrow> Err r = None \<and> first_err rs = None"
  by (simp split: option.splits)

lemma Err_None: "Err r = None \<Longrightarrow> r \<noteq> RErr e"
  by auto

lemma pipeline_append:
  "pipeline exec (as @ bs) w =
     (let (rs, w1) = pipeline exec as w; (qs, w2) = pipeline exec bs w1 in (rs @ qs, w2))"
  by (induction as arbitrary: w) (auto simp: Let_def split: prod.splits)

lemma first_err_append: "first_err (rs @ qs) = (case first_err rs of None \<Rightarrow> first_err qs | e \<Rightarrow> e)"
  by (induction rs) (auto split: option.splits)

lemma db_expire_cmds: "expire_cmds m w = (cs, w') \<Longrightarrow> db w' = db w"
  by (auto simp: expire_cmds_def Let_def time_now_db split: option.splits prod.splits if_splits
      dest!: time_now_db)

lemma set_expire_cmds: "expire_cmds m w = (cs, w') \<Longrightarrow> c \<in> set cs \<Longrightarrow>
    m_ExpiresAt m \<noteq> None \<and> (\<exists>ttl>0. c = EXPIRE (messageKey (m_ID m)) ttl)"
  by (auto simp: expire_cmds_def Let_def split: option.splits prod.splits if_splits)

lemma expire_harmless:
  "expire_cmds m w = (ex, w') \<Longrightarrow> c \<in> set ex \<Longrightarrow> i \<noteq> m_ID m \<or> x = m \<Longrightarrow> harmless i x c"
  using set_expire_cmds [of m w ex w' c] by (auto simp: harmless_def)

context redis_server
begin

lemma run_result: "run exec c w = (r, w') \<Longrightarrow> redis_result (abs (db w)) c r (abs (db w'))"
  using exec_result by (auto simp: run_def Let_def split: prod.splits)

lemma run_harmless: "run exec c w = (r, w') \<Longrightarrow> harmless i m c \<Longrightarrow> msg_at (abs (db w)) i m \<Longrightarrow>
    msg_at (abs (db w')) i m"
  using redis_result_harmless [OF run_result] by blast

lemma pipeline_harmless:
  "pipeline exec cs w = (rs, w') \<Longrightarrow> (\<And>c. c \<in> set cs \<Longrightarrow> harmless i m c) \<Longrightarrow> msg_at (abs (db w)) i m \<Longrightarrow>
   msg_at (abs (db w')) i m"
proof (induction cs arbitrary: w rs)
  case (Cons c cs)
  obtain r w1 where r: "run exec c w = (r, w1)" by fastforce
  then have "msg_at (abs (db w1)) i m" using run_harmless Cons.prems by simp
  with Cons r show ?case by (auto simp: Let_def split: prod.splits)
qed simp

lemma run_SET:
  "run exec (SET (messageKey i) (Doc (message_ToJSON m)) 0) w = (r, w') \<Longrightarrow> Err r = None \<Longrightarrow>
   msg_at (abs (db w')) i m"
  using redis_result_ok [OF run_result Err_None] redis_ok_SET by metis

lemma run_SET_any:
  assumes "run exec (SET (messageKey i) (Doc (message_ToJSON m')) 0) w = (r, w')" "msg_at (abs (db w)) i m"
  shows "msg_at (abs (db w')) i m \<or> msg_at (abs (db w')) i m'"
proof -
  from run_result [OF assms(1)] obtain ks1 where "expires (abs (db w)) ks1"
    and *: "abs (db w') = ks1 \<or> (\<exists>r. redis_ok ks1 (SET (messageKey i) (Doc (message_ToJSON m')) 0) r (abs (db w')))"
    by (auto simp: redis_result_def)
  then have "msg_at ks1 i m" using assms(2) by (auto intro: msg_at_kept expires_kept)
  with * show ?thesis by (auto dest: redis_ok_SET)
qed

text \<open>A pipeline that starts with the \<open>SET\<close> of a message and leaves it alone afterwards.\<close>

lemma pipeline_SET:
  assumes "pipeline exec (SET (messageKey i) (Doc (message_ToJSON m)) 0 # cs) w = (rs, w')"
    "first_err rs = None" "\<And>c. c \<in> set cs \<Longrightarrow> harmless i m c"
  shows "msg_at (abs (db w')) i m"
proof -
  obtain r w1 where r: "run exec (SET (messageKey i) (Doc (message_ToJSON m)) 0) w = (r, w1)" by fastforce
  with assms obtain rs' where rs': "pipeline exec cs w1 = (rs', w')" "rs = r # rs'"
    by (auto simp: Let_def split: prod.splits)
  with assms(2) have "Err r = None" by (simp split: option.splits)
  with r have "msg_at (abs (db w1)) i m" by (rule run_SET)
  with rs' assms(3) show ?thesis using pipeline_harmless by blast
qed

lemma Store_stored: "Store exec m w = (None, w') \<Longrightarrow> msg_at (abs (db w')) (m_ID m) m"
  by (auto simp: Store_def Let_def simp del: pipeline.simps split: prod.splits
      dest!: pipeline_SET dest: set_expire_cmds simp: harmless_def)

lemma Store_frame:
  "Store exec m w = (e, w') \<Longrightarrow> msg_at (abs (db w)) i x \<Longrightarrow> i \<noteq> m_ID m \<Longrightarrow> msg_at (abs (db w')) i x"
proof -
  assume *: "Store exec m w = (e, w')" and at: "msg_at (abs (db w)) i x" and i: "i \<noteq> m_ID m"
  obtain ex w1 where ex: "expire_cmds m w = (ex, w1)" by fastforce
  then have at1: "msg_at (abs (db w1)) i x" using at by (simp add: db_expire_cmds)
  from * ex obtain cs rs where p: "pipeline exec cs w1 = (rs, w')"
    and cs: "set cs \<subseteq> {SET (messageKey (m_ID m)) (Doc (message_ToJSON m)) 0,
        ZADD (topicMessagesKey (m_Topic m)) (float64_of_int (m_CreatedAt m)) (m_ID m),
        RPUSH (partitionKey (m_Topic m) (m_Partition m)) (m_ID m),
        HINCRBY (topicStatsKey (m_Topic m)) ''message_count'' 1,
        HINCRBY (topicStatsKey (m_Topic m)) ''bytes_in'' (int (length (m_Payload m)))} \<union> set ex"
    by (fastforce simp: Store_def Let_def simp del: pipeline.simps split: prod.splits if_splits)
  have "harmless i x c" if "c \<in> set cs" for c
  proof (cases "c \<in> set ex")
    case False
    with that cs i show ?thesis by (auto simp: harmless_def)
  qed (use expire_harmless [OF ex] i in blast)
  with p at1 show ?thesis using pipeline_harmless by blast
qed

lemma batch_cmds_harmless:
  "batch_cmds ms w = (cs, w') \<Longrightarrow> c \<in> set cs \<Longrightarrow> i \<notin> m_ID ` set ms \<Longrightarrow> harmless i x c"
proof (induction ms arbitrary: w cs)
  case (Cons m ms)
  obtain ex w1 where ex: "expire_cmds m w = (ex, w1)" by fastforce
  with Cons.prems obtain cs' where "batch_cmds ms w1 = (cs', w')"
    and "c = SET (messageKey (m_ID m)) (Doc (message_ToJSON m)) 0
       \<or> c = ZADD (topicMessagesKey (m_Topic m)) (float64_of_int (m_CreatedAt m)) (m_ID m)
       \<or> c \<in> set ex \<or> c \<in> set cs'"
    by (auto simp: Let_def split: prod.splits)
  with Cons.IH [of w1 cs'] Cons.prems(3) expire_harmless [OF ex, of c i x] show ?case
    by (auto simp: harmless_def)
qed simp

lemma batch_stored:
  "batch_cmds ms wa = (cs, wb) \<Longrightarrow> pipeline exec cs w = (rs, w') \<Longrightarrow> first_err rs = None \<Longrightarrow>
   distinct (map m_ID ms) \<Longrightarrow> m \<in> set ms \<Longrightarrow> msg_at (abs (db w')) (m_ID m) m"
proof (induction ms arbitrary: wa cs w rs)
  case (Cons m1 ms)
  obtain ex w1 where ex: "expire_cmds m1 wa = (ex, w1)" by fastforce
  obtain cs' where cs': "batch_cmds ms w1 = (cs', wb)" "cs = [SET (messageKey (m_ID m1)) (Doc (message_ToJSON m1)) 0,
      ZADD (topicMessagesKey (m_Topic m1)) (float64_of_int (m_CreatedAt m1)) (m_ID m1)] @ ex @ cs'"
    using Cons.prems(1) ex by (auto simp: Let_def split: prod.splits)
  show ?case
  proof (cases "m = m1")
    case True
    let ?cs = "ZADD (topicMessagesKey (m_Topic m1)) (float64_of_int (m_CreatedAt m1)) (m_ID m1) # ex @ cs'"
    have "harmless (m_ID m1) m1 c" if "c \<in> set ?cs" for c
      using that expire_harmless [OF ex] batch_cmds_harmless [OF cs'(1)] Cons.prems(4)
      by (auto simp: harmless_def [of _ _ "ZADD _ _ _"])
    moreover have "pipeline exec (SET (messageKey (m_ID m1)) (Doc (message_ToJSON m1)) 0 # ?cs) w = (rs, w')"
      using Cons.prems(2) unfolding cs'(2) by (simp del: pipeline.simps)
    ultimately show ?thesis using pipeline_SET Cons.prems(3) True by blast
  next
    case False
    obtain rs1 w2 rs2 where "pipeline exec ([SET (messageKey (m_ID m1)) (Doc (message_ToJSON m1)) 0,
      ZADD (topicMessagesKey (m_Topic m1)) (float64_of_int (m_CreatedAt m1)) (m_ID m1)] @ ex) w = (rs1, w2)"
      "pipeline exec cs' w2 = (rs2, w')" "rs = rs1 @ rs2"
      using Cons.prems(2) unfolding cs'(2) append_assoc [symmetric]
      by (subst (asm) pipeline_append) (auto simp: Let_def simp del: pipeline.simps split: prod.splits)
    with Cons.IH [OF cs'(1)] Cons.prems(3-5) False show ?thesis
      by (auto simp: first_err_append split: option.splits)
  qed
qed simp

lemma StoreBatch_stored:
  "StoreBatch exec ms w = (None, w') \<Longrightarrow> distinct (map m_ID ms) \<Longrightarrow> m \<in> set ms \<Longrightarrow>
   msg_at (abs (db w')) (m_ID m) m"
  by (auto simp: StoreBatch_def Let_def split: prod.splits dest: batch_stored)

lemma run_GET:
  assumes "run exec (GET k) w = (RBlob b, w')"
  shows "\<exists>t. abs (db w') k = Some (VStr b, t) \<and> abs (db w) k = Some (VStr b, t)"
proof -
  from run_result [OF assms] obtain ks1 where "expires (abs (db w)) ks1" and "redis_ok ks1 (GET k) (RBlob b) (abs (db w'))"
    by (elim redis_result_ok) simp_all
  then have "\<exists>t. abs (db w') k = Some (VStr b, t) \<and> ks1 k = Some (VStr b, t)"
    by (auto simp: redis_ok_def wrongtype_def split: option.splits rvalue.splits)
  with \<open>expires (abs (db w)) ks1\<close> show ?thesis unfolding expires_def by (metis option.distinct(1))
qed

lemma Get_blob:
  assumes "Get exec i w = (Inr m, w')"
  obtains b where "run exec (GET (messageKey i)) w = (RBlob b, w')" "Unmarshal message_of_json b = Inr m"
proof -
  obtain r w1 where r: "run exec (GET (messageKey i)) w = (r, w1)" by fastforce
  with assms show ?thesis
    by (cases r) (auto simp: Get_def Let_def split: sum.splits if_splits intro: that)
qed

lemma Get_stored: "Get exec i w = (Inr m, w') \<Longrightarrow> msg_at (abs (db w)) i x \<Longrightarrow> m = x"
  by (elim Get_blob) (auto dest!: run_GET simp: msg_at_def Let_def Unmarshal_def message_json_cases
      split: option.splits if_splits)

lemma Get_frame: "Get exec i w = (r, w') \<Longrightarrow> msg_at (abs (db w)) j x \<Longrightarrow> msg_at (abs (db w')) j x"
  using run_harmless [of "GET (messageKey i)" w _ _ j x]
  by (fastforce simp: Get_def Let_def harmless_def split: prod.splits sum.splits if_splits)

lemma Acknowledge_cases:
  assumes "Acknowledge exec a w = (e, w')"
  obtains (unread) e' where "Get exec (a_MessageID a) w = (Inl e', w')" "e = Some e'"
  | (written) m w1 t cs rs where "Get exec (a_MessageID a) w = (Inr m, w1)"
      "pipeline exec (SET (messageKey (a_MessageID a)) (Doc (message_ToJSON (acked a t m))) 0 # cs)
        (w1\<lparr>ticks := Suc (ticks w1)\<rparr>) = (rs, w')" "e = first_err rs"
      "\<And>c i x. c \<in> set cs \<Longrightarrow> harmless i x c"
proof (cases "Get exec (a_MessageID a) w")
  case (Pair r w1)
  show thesis
  proof (cases r)
    case (Inl e')
    then show ?thesis using assms Pair unread by (simp add: Acknowledge_def)
  next
    case (Inr m)
    let ?cs = "SET (ackKey (a_MessageID a)) (Doc (acknowledgment_json a)) (24 * Hour)
      # (if a_ConsumerGroup a \<noteq> '''' then [HINCRBY (groupStatsKey (a_ConsumerGroup a))
          (if a_Success a then ''acked'' else ''nacked'') 1] else [])"
    have 1: "harmless i x c" if "c \<in> set ?cs" for c i x
      using that by (auto simp: harmless_def split: if_splits)
    have "\<exists>rs. pipeline exec (SET (messageKey (a_MessageID a))
        (Doc (message_ToJSON (acked a (clock w1 (ticks w1)) m))) 0 # ?cs)
        (w1\<lparr>ticks := Suc (ticks w1)\<rparr>) = (rs, w') \<and> e = first_err rs"
      using assms Pair Inr
      by (auto simp: Acknowledge_def time_now_def acked_def Let_def simp del: pipeline.simps split: prod.splits)
    then obtain rs where rs: "pipeline exec (SET (messageKey (a_MessageID a))
        (Doc (message_ToJSON (acked a (clock w1 (ticks w1)) m))) 0 # ?cs)
        (w1\<lparr>ticks := Suc (ticks w1)\<rparr>) = (rs, w')" "e = first_err rs" by blast
    show ?thesis by (rule written [OF _ rs 1]) (use Pair Inr in simp_all)
  qed
qed

lemma Acknowledge_any:
  assumes "Acknowledge exec a w = (e, w')" "msg_at (abs (db w)) (a_MessageID a) m"
  shows "msg_at (abs (db w')) (a_MessageID a) m \<or> (\<exists>t. msg_at (abs (db w')) (a_MessageID a) (acked a t m))"
  using assms(1)
proof (cases rule: Acknowledge_cases)
  case (unread e')
  then show ?thesis using Get_frame assms(2) by blast
next
  case (written m0 w1 t cs rs)
  have "m0 = m" and at: "msg_at (abs (db w1)) (a_MessageID a) m"
    using written(1) assms(2) by (auto dest: Get_stored Get_frame)
  obtain r w2 rs' where r: "run exec (SET (messageKey (a_MessageID a)) (Doc (message_ToJSON (acked a t m))) 0)
      (w1\<lparr>ticks := Suc (ticks w1)\<rparr>) = (r, w2)" "pipeline exec cs w2 = (rs', w')"
    using written(2) \<open>m0 = m\<close> by (auto simp: Let_def split: prod.splits)
  then have "msg_at (abs (db w2)) (a_MessageID a) m \<or> msg_at (abs (db w2)) (a_MessageID a) (acked a t m)"
    using run_SET_any [OF r(1)] at by simp
  then show ?thesis using pipeline_harmless [OF r(2)] written(4) by blast
qed

lemma Acknowledge_ok:
  assumes "Acknowledge exec a w = (None, w')" "msg_at (abs (db w)) (a_MessageID a) m"
  shows "\<exists>t. msg_at (abs (db w')) (a_MessageID a) (acked a t m)"
  using assms(1)
proof (cases rule: Acknowledge_cases)
  case (written m0 w1 t cs rs)
  then have "m0 = m" using assms(2) by (auto dest: Get_stored)
  with written show ?thesis by (metis pipeline_SET)
qed simp

lemma Acknowledge_frame:
  assumes "Acknowledge exec a w = (e, w')" "msg_at (abs (db w)) i x" "i \<noteq> a_MessageID a"
  shows "msg_at (abs (db w')) i x"
  using assms(1)
proof (cases rule: Acknowledge_cases)
  case (unread e')
  then show ?thesis using Get_frame assms(2) by blast
next
  case (written m0 w1 t cs rs)
  have "msg_at (abs (db w1)) i x" using written(1) assms(2) by (rule Get_frame)
  moreover have "harmless i x c" if "c \<in> set (SET (messageKey (a_MessageID a))
      (Doc (message_ToJSON (acked a t m0))) 0 # cs)" for c
    using that written(4) assms(3) by (auto simp: harmless_def)
  ultimately show ?thesis using pipeline_harmless [OF written(2), of i x] by simp
qed

end

text \<open>The repository on any server of documented behaviour keeps the contract of the services.\<close>

sublocale redis_server \<subseteq> messages: message_store "NewMessageRepository exec" "\<lambda>d. msg_at (abs d)"
  by unfold_locales
    (auto simp: NewMessageRepository_def dest: Store_stored Store_frame StoreBatch_stored Get_stored
      Get_frame Acknowledge_any Acknowledge_ok Acknowledge_frame)

section \<open>Properties\<close>

text \<open>A world with an empty server in memory, for concrete runs.\<close>

definition mem_world :: "mem world" where
  "mem_world = \<lparr>db = [], clock = (\<lambda>n. 1000 + int n), ticks = 0, uuids = (\<lambda>n. replicate (Suc n) CHR ''u''),
     minted = 0\<rparr>"

lemmas mem_eval = run_def mem_exec_def mem_world_def Let_def put_value_def time_now_def uuid_new_def
  redis_Nil_def wrap_err_def Unmarshal_def message_json_cases message_keys expire_cmds_def

context redis_server
begin

lemma Store_Get:
  assumes "Store exec m w = (None, w1)" "m_ExpiresAt m = None" "message_wf m"
    "\<And>e. fst (run exec (GET (messageKey (m_ID m))) w1) \<noteq> RErr e"
  shows "fst (Get exec (m_ID m) w1) = Inr m"
proof -
  obtain r w2 where r: "run exec (GET (messageKey (m_ID m))) w1 = (r, w2)" by fastforce
  have at: "abs (db w1) (messageKey (m_ID m)) = Some (VStr (Doc (message_ToJSON m)), None)"
    using Store_stored [OF assms(1)] assms(2) by (simp add: msg_at_def)
  have "\<And>e. r \<noteq> RErr e" using assms(4) r by simp
  with run_result [OF r] obtain ks1 where e: "expires (abs (db w1)) ks1"
    and ok: "redis_ok ks1 (GET (messageKey (m_ID m))) r (abs (db w2))" by (rule redis_result_ok)
  from expires_fixed [OF e at] ok have "r = RBlob (Doc (message_ToJSON m))" by (simp add: redis_ok_def)
  with r assms(3) show ?thesis by (simp add: Get_def Unmarshal_def message_json_cases)
qed

lemma pipeline_kept:
  "pipeline exec cs w = (rs, w') \<Longrightarrow> (\<And>c. c \<in> set cs \<Longrightarrow> k \<notin> set (writes c)) \<Longrightarrow>
   kept k (abs (db w)) (abs (db w'))"
proof (induction cs arbitrary: w rs)
  case (Cons c cs)
  obtain r w1 where r: "run exec c w = (r, w1)" by fastforce
  then obtain rs' where "pipeline exec cs w1 = (rs', w')"
    using Cons.prems(1) by (auto simp: Let_def split: prod.splits)
  then have "kept k (abs (db w1)) (abs (db w'))" using Cons by simp
  moreover have "kept k (abs (db w)) (abs (db w1))"
    using redis_result_kept [OF run_result [OF r]] Cons.prems(2) by simp
  ultimately show ?case using kept_trans by blast
qed simp

lemma Acknowledge_fixed:
  assumes "Acknowledge exec a w = (None, w')"
  shows "\<exists>m. abs (db w') (messageKey (a_MessageID a)) = Some (VStr (Doc (message_ToJSON m)), None)"
  using assms
proof (cases rule: Acknowledge_cases)
  case (written m w1 t cs rs)
  define m' where "m' = m\<lparr>m_ExpiresAt := None\<rparr>"
  let ?k = "messageKey (a_MessageID a)" and ?d = "Doc (message_ToJSON (acked a t m))"
  obtain r w2 where r: "run exec (SET ?k ?d 0) (w1\<lparr>ticks := Suc (ticks w1)\<rparr>) = (r, w2)" by fastforce
  with written(2) obtain rs' where p: "pipeline exec cs w2 = (rs', w')" "rs = r # rs'"
    by (auto simp: Let_def split: prod.splits)
  have "Err r = None" using p(2) written(3) by (simp split: option.splits)
  then obtain ks1 where "redis_ok ks1 (SET ?k ?d 0) r (abs (db w2))"
    by (rule redis_result_ok [OF run_result [OF r] Err_None])
  then have at: "abs (db w2) ?k = Some (VStr ?d, None)" by (simp add: redis_ok_def)
  have "?k \<notin> set (writes c)" if "c \<in> set cs" for c
    using written(4) [OF that, of "a_MessageID a" m'] by (simp add: harmless_def m'_def)
  with p(1) have "kept ?k (abs (db w2)) (abs (db w'))" by (rule pipeline_kept)
  with at show ?thesis by (auto simp: kept_def)
qed simp

lemma consumer_group_blocks:
  assumes "abs (db w) (streamKey topic) = None"
  shows "GetForConsumerGroup exec topic g n w = None \<or> (\<exists>e w'. GetForConsumerGroup exec topic g n w = Some (Inl e, w'))"
proof -
  let ?k = "streamKey topic"
  obtain now w1 where t: "time_now w = (now, w1)" by fastforce
  obtain r0 w2 where r0: "run exec (XGROUPCREATE ?k g) w1 = (r0, w2)" by fastforce
  obtain r w3 where r: "run exec (XREADGROUP ?k g (g @ ''-'' @ itoa now) n) w2 = (r, w3)" by fastforce
  have empty: "ks ?k = None \<Longrightarrow> expires ks ks1 \<Longrightarrow> ks1 ?k = None" for ks ks1
    unfolding expires_def by (metis option.distinct(1))
  have "abs (db w1) ?k = None" using assms t by (simp add: time_now_db)
  with run_result [OF r0] obtain ks1 where ks1: "ks1 ?k = None"
    and 1: "abs (db w2) = ks1 \<or> (\<exists>r. redis_ok ks1 (XGROUPCREATE ?k g) r (abs (db w2)))"
    unfolding redis_result_def using empty by blast
  then have 2: "abs (db w2) ?k = None \<or> abs (db w2) ?k = Some (VStream [] [(g, 0)], None)"
    by (auto simp: redis_ok_def put_value_def)
  have "r \<noteq> REntries es" for es
  proof
    assume es: "r = REntries es"
    with run_result [OF r] obtain ks2 where "expires (abs (db w2)) ks2"
      and ok: "redis_ok ks2 (XREADGROUP ?k g (g @ ''-'' @ itoa now) n) (REntries es) (abs (db w3))"
      by (auto simp: redis_result_def)
    with 2 empty expires_fixed have "ks2 ?k = None \<or> ks2 ?k = Some (VStream [] [(g, 0)], None)" by metis
    with ok show False by (auto simp: redis_ok_def)
  qed
  with t r0 r show ?thesis by (cases r) (auto simp: GetForConsumerGroup_def)
qed

end


definition example_message :: message where
  "example_message = zero_message\<lparr>m_ID := ''u'', m_Topic := ''o'', m_Payload := [104, 105],
     m_Headers := [(''k'', ''v'')], m_Status := StatusDelivered, m_ConsumerID := ''c'',
     m_DeliveredAt := Some 5\<rparr>"

lemma example_message_wf: "message_wf example_message" "m_ExpiresAt example_message = None"
  by (simp_all add: example_message_def message_wf_def zero_message_def status_defs)

definition example_stored :: "mem world" where
  "example_stored = snd (Store mem_exec example_message mem_world)"

lemma example_Store: "Store mem_exec example_message mem_world = (None, example_stored)"
  unfolding example_stored_def
  by (simp add: Store_def mem_eval example_message_def zero_message_def)


text \<open>
  Acknowledging makes a message permanent: \<open>Acknowledge\<close> rewrites its document with a \<open>SET\<close>
  that has no expiration, which drops the time to live that \<open>Store\<close> gave it. After a successful
  acknowledgment the key never expires, whatever expiry time the message has.
\<close>

theorem acknowledged_message_never_expires:
  assumes "redis_server exec ks" "Acknowledge exec a w = (None, w')"
  shows "\<exists>m. ks (db w') (messageKey (a_MessageID a)) = Some (VStr (Doc (message_ToJSON m)), None)"
  using assms by (rule redis_server.Acknowledge_fixed)

definition example_ack :: acknowledgment where
  "example_ack = \<lparr>a_MessageID = ''u'', a_ConsumerID = ''c'', a_ConsumerGroup = '''', a_Success = True,
     a_Reason = '''', a_Timestamp = 9\<rparr>"

definition expiring_message :: message where
  "expiring_message = example_message\<lparr>m_ExpiresAt := Some 5000\<rparr>"

theorem acknowledged_message_never_expires_witness:
  "\<exists>w1 w2 t m. Store mem_exec expiring_message mem_world = (None, w1) \<and>
     map_of (db w1) (messageKey ''u'') = Some (VStr (Doc (message_ToJSON expiring_message)), Some t) \<and>
     Acknowledge mem_exec example_ack w1 = (None, w2) \<and>
     map_of (db w2) (messageKey ''u'') = Some (VStr (Doc (message_ToJSON m)), None)"
proof -
  define w1 where "w1 = snd (Store mem_exec expiring_message mem_world)"
  define w2 where "w2 = snd (Acknowledge mem_exec example_ack w1)"
  have 1: "Store mem_exec expiring_message mem_world = (None, w1)"
    "\<exists>t. map_of (db w1) (messageKey ''u'') = Some (VStr (Doc (message_ToJSON expiring_message)), Some t)"
    unfolding w1_def
    by (simp_all add: Store_def mem_eval expiring_message_def example_message_def zero_message_def)
  have "message_wf expiring_message" using example_message_wf by (simp add: message_wf_def expiring_message_def)
  moreover have "\<exists>d. db w1 = (messageKey ''u'', (VStr (Doc (message_ToJSON expiring_message)), Some 4000)) # d"
    unfolding w1_def
    by (simp add: Store_def mem_eval expiring_message_def example_message_def zero_message_def)
  ultimately have 2: "Acknowledge mem_exec example_ack w1 = (None, w2)"
    unfolding w2_def
    by (elim exE) (simp add: Acknowledge_def Get_def example_ack_def run_def mem_exec_def Let_def put_value_def
        time_now_def Unmarshal_def message_json_cases ackKey_def messageKey_def)
  from acknowledged_message_never_expires [OF mem_server.redis_server_axioms 2] 1 2
  show ?thesis by (auto simp: example_ack_def)
qed

text \<open>
  A pull for a consumer group returns no message: nothing in the program adds entries to the
  stream of a topic, and as long as the stream does not exist the read either fails or, because
  of \<open>BLOCK 0\<close>, waits for ever.
\<close>

theorem consumer_group_pull_never_delivers:
  assumes "redis_server exec ks" "ks (db w) (streamKey topic) = None"
  shows "GetForConsumerGroup exec topic g n w = None
    \<or> (\<exists>e w'. GetForConsumerGroup exec topic g n w = Some (Inl e, w'))"
  using assms by (rule redis_server.consumer_group_blocks)

theorem consumer_group_pull_never_delivers_witness:
  "GetForConsumerGroup mem_exec ''o'' ''g'' 10 mem_world = None"
  using consumer_group_pull_never_delivers [OF mem_server.redis_server_axioms, of mem_world "''o''" "''g''" 10]
  by (simp add: GetForConsumerGroup_def mem_eval)

end
