(* ===== verification/AckSpec.thy ===== *)
theory AckSpec
  imports Acknowledgment RedisMessages MapStore
begin

text \<open>
  What the acknowledgment service guarantees: how it settles messages on any store of the
  repository contract, its dead letters, the invariant of its state under calls and worker ticks,
  and what its background loops see on Redis.
\<close>

section \<open>The service on stores and strategies of its contracts\<close>

lemma getAck_stats [simp]: "as_pendingAcks (updateStats op t st) = as_pendingAcks st"
  "as_workers (updateStats op t st) = as_workers st"
  by (simp_all add: updateStats_def Let_def)

text \<open>What becomes of a message whose processing failed: the status reported and the one stored.\<close>

definition failure_outcome :: "'d ack_service \<Rightarrow> message \<Rightarrow> bool \<Rightarrow> string \<times> int" where
  "failure_outcome s m retry =
     (if retry \<and> rs_ShouldRetry (ak_retryStrategy s) m (wrap64 (m_RetryCount m + 1)) then (''requeued'', StatusPending)
      else if ds_ShouldMoveToDLQ (ak_dlqStrategy s) m then (''dlq'', StatusDLQ)
      else (''failed'', StatusFailed))"

text \<open>A copy of a message with a new status: the same identifier, topic and payload.\<close>

definition settled :: "message \<Rightarrow> int \<Rightarrow> message \<Rightarrow> bool" where
  "settled m status x \<longleftrightarrow> m_ID x = m_ID m \<and> m_Topic x = m_Topic m \<and> m_Payload x = m_Payload m \<and> m_Status x = status"

locale ack_store = message_store "ak_messageRepo s" stored + retry: retry_policy "ak_retryStrategy s"
    + dlq: terminal_dlq "ak_dlqStrategy s"
  for s :: "'d ack_service" and stored :: "'d \<Rightarrow> string \<Rightarrow> message \<Rightarrow> bool"
begin

lemma requeued_message_db: "requeued_message s m reason d w = ((x, t), w') \<Longrightarrow> db w' = db w"
  by (auto simp: requeued_message_def Let_def time_now_def split: prod.splits if_splits dest!: retry.delay_db)

lemma requeued_message_fields:
  "requeued_message s m reason d w = ((x, t), w') \<Longrightarrow> settled m StatusPending x \<and> m_ConsumerID x = '''' \<and>
   m_RetryCount x = wrap64 (m_RetryCount m + 1)"
  by (auto simp: requeued_message_def settled_def Let_def split: prod.splits)

lemma requeue_ok:
  assumes "requeueMessageForRetry s m reason d st w = (Inr r, st', w')"
  shows "ap_Status r = ''requeued'' \<and> (\<exists>x. stored (db w') (m_ID m) x \<and> settled m StatusPending x \<and> m_ConsumerID x = '''' \<and>
    m_RetryCount x = wrap64 (m_RetryCount m + 1))"
proof -
  obtain x t w1 where x: "requeued_message s m reason d w = ((x, t), w1)" by (metis surj_pair)
  with assms obtain w2 where "MR_Store (ak_messageRepo s) x w1 = (None, w2)" "db w' = db w2"
    "ap_Status r = ''requeued''"
    by (auto simp: requeueMessageForRetry_def Let_def time_now_def split: prod.splits option.splits)
  with requeued_message_fields [OF x] show ?thesis using store_ok [of x w1 w2] by (auto simp: settled_def)
qed

lemma mark_failed_ok:
  assumes "markMessageFailed s m reason st w = (Inr r, st', w')"
  shows "ap_Status r = ''failed'' \<and> (\<exists>x. stored (db w') (m_ID m) x \<and> settled m StatusFailed x \<and>
    m_RetryCount x \<in> {m_RetryCount m, wrap64 (m_RetryCount m + 1)})"
proof -
  obtain x w1 w2 a e where x: "MR_Store (ak_messageRepo s) x w1 = (None, w2)"
    "settled m StatusFailed x \<and> m_RetryCount x = m_RetryCount m"
    and a: "MR_Acknowledge (ak_messageRepo s) a w2 = (e, w')" "a_MessageID a = m_ID m" "\<not> a_Success a"
    and r: "ap_Status r = ''failed''"
    using assms
    by (auto simp: markMessageFailed_def settled_def Let_def time_now_def split: prod.splits option.splits)
  have "stored (db w2) (a_MessageID a) x" using store_ok [OF x(1)] x(2) a(2) by (simp add: settled_def)
  from ack_any [OF a(1) this] x(2) a(2,3) r show ?thesis by (fastforce simp: acked_def settled_def)
qed

lemma moved_message_fields:
  "moved_message m t i reason w = (x, w') \<Longrightarrow> settled m StatusDLQ x \<and> m_RetryCount x = m_RetryCount m \<and> db w' = db w"
  by (auto simp: moved_message_def settled_def Let_def time_now_def)

lemma move_ok:
  assumes "moveMessageToDLQ s m reason st w = (Inr r, st', w')"
  shows "ap_Status r = ''dlq'' \<and> (\<exists>x. stored (db w') (m_ID m) x \<and> settled m StatusDLQ x \<and> m_RetryCount x = m_RetryCount m)
    \<and> (\<exists>dm w1. ds_EnrichDLQMessage (ak_dlqStrategy s) m reason w = (dm, w1) \<and>
         (m_ID dm \<noteq> m_ID m \<longrightarrow> stored (db w') (m_ID dm) dm))"
proof -
  obtain dm w1 where dm: "ds_EnrichDLQMessage (ak_dlqStrategy s) m reason w = (dm, w1)" by fastforce
  with assms obtain w2 x w3 where st1: "MR_Store (ak_messageRepo s) dm w1 = (None, w2)"
    and x: "moved_message m (ds_GetDLQTopic (ak_dlqStrategy s) (m_Topic m)) (m_ID dm) reason w2 = (x, w3)"
    and r: "ap_Status r = ''dlq''" and "\<exists>w4. MR_Store (ak_messageRepo s) x w3 = (None, w4) \<and> db w' = db w4"
    by (auto simp: moveMessageToDLQ_def Let_def time_now_def split: prod.splits option.splits)
  then obtain w4 where st2: "MR_Store (ak_messageRepo s) x w3 = (None, w4)" and w4: "db w' = db w4" by blast
  note x = moved_message_fields [OF x]
  have "stored (db w4) (m_ID dm) dm" if "m_ID dm \<noteq> m_ID m"
    using store_frame [OF st2] store_ok [OF st1] x that by (simp add: settled_def)
  with store_ok [OF st2] x r dm w4 show ?thesis by (auto simp: settled_def)
qed

text \<open>The three ways to settle a failure, as the handlers choose between them.\<close>

lemma failure_settled:
  assumes "(if retry \<and> rs_ShouldRetry (ak_retryStrategy s) m (wrap64 (m_RetryCount m + 1))
      then requeueMessageForRetry s m reason d st w
      else if ds_ShouldMoveToDLQ (ak_dlqStrategy s) m then moveMessageToDLQ s m reason st w
      else markMessageFailed s m reason st w) = (Inr r, st', w')"
  shows "ap_Status r = fst (failure_outcome s m retry) \<and>
    (\<exists>x. stored (db w') (m_ID m) x \<and> settled m (snd (failure_outcome s m retry)) x)"
  using assms unfolding failure_outcome_def
  by (auto split: if_splits dest: requeue_ok mark_failed_ok move_ok)

lemma store_then_ack:
  assumes "MR_Store (ak_messageRepo s) x w1 = (None, w2)" "settled m StatusAcknowledged x"
    "MR_Acknowledge (ak_messageRepo s) a w2 = (e, w')" "a_MessageID a = m_ID m" "a_Success a"
  shows "\<exists>x. stored (db w') (m_ID m) x \<and> settled m StatusAcknowledged x"
proof -
  have "stored (db w2) (a_MessageID a) x" using store_ok [OF assms(1)] assms(2,4) by (simp add: settled_def)
  from ack_any [OF assms(3) this] assms(2,4,5) show ?thesis by (fastforce simp: acked_def settled_def)
qed

lemma ack_settles:
  assumes "ProcessAcknowledgment s req st w = (Inr r, st', w')" "stored (db w) (ar_MessageID req) m"
    "m_ID m = ar_MessageID req"
  shows "m_ConsumerID m = ar_ConsumerID req \<and> (\<exists>x. stored (db w') (m_ID m) x \<and>
    (ap_Status r, m_Status x) = (if ar_Success req then (''acknowledged'', StatusAcknowledged)
       else failure_outcome s m True) \<and> settled m (m_Status x) x)"
proof -
  obtain m' w1 where get: "MR_Get (ak_messageRepo s) (ar_MessageID req) w = (Inr m', w1)"
    using assms(1) by (auto simp: ProcessAcknowledgment_def split: option.splits prod.splits sum.splits)
  with assms(2) have [simp]: "m' = m" by (auto dest: get_ok)
  have c: "m_ConsumerID m = ar_ConsumerID req" "validateAckRequest req = None"
    using assms(1) get by (auto simp: ProcessAcknowledgment_def split: option.splits if_splits)
  let ?w = "w1\<lparr>ticks := Suc (ticks w1)\<rparr>" and ?now = "clock w1 (ticks w1)"
  show ?thesis
  proof (cases "ar_Success req")
    case True
    then obtain w2 a e where "MR_Store (ak_messageRepo s)
          (m\<lparr>m_Status := StatusAcknowledged, m_AckedAt := Some ?now\<rparr>) ?w = (None, w2)"
      "MR_Acknowledge (ak_messageRepo s) a w2 = (e, w')" "a_MessageID a = m_ID m" "a_Success a"
      "ap_Status r = ''acknowledged''"
      using assms(1,3) get c
      by (auto simp: ProcessAcknowledgment_def Let_def time_now_def split: option.splits prod.splits)
    then have "\<exists>x. stored (db w') (m_ID m) x \<and> settled m StatusAcknowledged x"
      by (intro store_then_ack [where a = a]) (assumption | simp add: settled_def)+
    with True c \<open>ap_Status r = _\<close> show ?thesis by (auto simp: settled_def)
  next
    case False
    then have "processFailedAcknowledgment s m req st ?w = (Inr r, st', w')"
      using assms(1) get c by (simp add: ProcessAcknowledgment_def Let_def time_now_def)
    then have "ap_Status r = fst (failure_outcome s m True) \<and>
        (\<exists>x. stored (db w') (m_ID m) x \<and> settled m (snd (failure_outcome s m True)) x)"
      by (intro failure_settled) (simp add: processFailedAcknowledgment_def Let_def)
    with False c show ?thesis by (auto simp: settled_def prod_eq_iff)
  qed
qed

lemma nack_settles:
  assumes "ProcessNegativeAcknowledgment s req st w = (Inr r, st', w')" "stored (db w) (nr_MessageID req) m"
    "m_ID m = nr_MessageID req"
  shows "m_ConsumerID m = nr_ConsumerID req \<and> (\<exists>x. stored (db w') (m_ID m) x \<and>
    (ap_Status r, m_Status x) = failure_outcome s m (nr_Retry req) \<and> settled m (m_Status x) x)"
proof -
  obtain m' w1 where get: "MR_Get (ak_messageRepo s) (nr_MessageID req) w = (Inr m', w1)"
    using assms(1) by (auto simp: ProcessNegativeAcknowledgment_def split: option.splits prod.splits sum.splits)
  with assms(2) have [simp]: "m' = m" by (auto dest: get_ok)
  have c: "m_ConsumerID m = nr_ConsumerID req" "validateNackRequest req = None"
    using assms(1) get by (auto simp: ProcessNegativeAcknowledgment_def split: option.splits if_splits)
  have "ap_Status r = fst (failure_outcome s m (nr_Retry req)) \<and>
      (\<exists>x. stored (db w') (m_ID m) x \<and> settled m (snd (failure_outcome s m (nr_Retry req))) x)"
    using assms(1) get c
    by (intro failure_settled) (simp add: ProcessNegativeAcknowledgment_def Let_def)
  with c show ?thesis by (auto simp: settled_def prod_eq_iff)
qed

text \<open>A dead letter is kept under its own identifier.\<close>

lemma MoveToDLQ_ok:
  assumes "MoveToDLQ s req w = (None, w')" "stored (db w) (dr_MessageID req) m" "m_ID m = dr_MessageID req"
  obtains dm w1 w2 t where "ds_EnrichDLQMessage (ak_dlqStrategy s) m (dr_Reason req) w1 = (dm, w2)"
    "m_ID dm \<noteq> m_ID m \<Longrightarrow> stored (db w') (m_ID dm) (dm\<lparr>m_Topic := t\<rparr>)"
    "\<exists>x. stored (db w') (m_ID m) x \<and> settled m StatusDLQ x"
proof -
  obtain m' w1 where get: "MR_Get (ak_messageRepo s) (dr_MessageID req) w = (Inr m', w1)"
    using assms(1) by (auto simp: MoveToDLQ_def split: prod.splits sum.splits)
  with assms(2) have [simp]: "m' = m" by (auto dest: get_ok)
  obtain dm w2 where dm: "ds_EnrichDLQMessage (ak_dlqStrategy s) m (dr_Reason req) w1 = (dm, w2)" by fastforce
  define t where "t = (if dr_DLQTopic req = '''' then ds_GetDLQTopic (ak_dlqStrategy s) (m_Topic m) else dr_DLQTopic req)"
  obtain w3 x w4 where st1: "MR_Store (ak_messageRepo s) (dm\<lparr>m_Topic := t\<rparr>) w2 = (None, w3)"
    and x: "moved_message m t (m_ID dm) (dr_Reason req) w3 = (x, w4)"
    and st2: "MR_Store (ak_messageRepo s) x w4 = (None, w')"
    using assms(1) get dm by (auto simp: MoveToDLQ_def Let_def t_def split: prod.splits option.splits if_splits)
  note x = moved_message_fields [OF x]
  have "stored (db w') (m_ID dm) (dm\<lparr>m_Topic := t\<rparr>)" if "m_ID dm \<noteq> m_ID m"
    using store_frame [OF st2] store_ok [OF st1] x that by (simp add: settled_def)
  moreover have "\<exists>x. stored (db w') (m_ID m) x \<and> settled m StatusDLQ x"
    using store_ok [OF st2] x by (auto simp: settled_def)
  ultimately show thesis using that dm by blast
qed

text \<open>Reprocessing a dead letter stores a fresh copy for the topic that its headers name.\<close>

lemma reprocess_ok:
  assumes "ReprocessDLQMessage s i w = (None, w')" "stored (db w) i dm" "m_ID dm = i"
    "map_of (m_Headers dm) ''original_topic'' = Some t"
  shows "\<exists>x. (m_ID x \<noteq> i \<longrightarrow> stored (db w') (m_ID x) x) \<and> m_Topic x = t \<and> m_Payload x = m_Payload dm \<and>
    m_Key x = m_Key dm \<and> m_Partition x = m_Partition dm \<and> m_Status x = StatusPending \<and> m_RetryCount x = 0 \<and>
    m_MaxRetries x = bc_MaxRetries (ak_config s)"
proof -
  obtain dm' w1 where get: "MR_Get (ak_messageRepo s) i w = (Inr dm', w1)"
    using assms(1) by (auto simp: ReprocessDLQMessage_def split: prod.splits sum.splits)
  with assms(2) have [simp]: "dm' = dm" by (auto dest: get_ok)
  obtain x w2 w3 e dm1 w4 where x: "MR_Store (ak_messageRepo s) x w2 = (None, w3)" "m_Topic x = t"
      "m_Payload x = m_Payload dm" "m_Key x = m_Key dm" "m_Partition x = m_Partition dm"
      "m_Status x = StatusPending" "m_RetryCount x = 0" "m_MaxRetries x = bc_MaxRetries (ak_config s)"
    and dm1: "MR_Store (ak_messageRepo s) dm1 w4 = (e, w')" "m_ID dm1 = i" "db w4 = db w3"
    using assms(1) get assms(3,4)
    by (auto simp: ReprocessDLQMessage_def Let_def time_now_def uuid_new_def zero_message_def
        split: prod.splits option.splits if_splits)
  have "m_ID x \<noteq> i \<Longrightarrow> stored (db w') (m_ID x) x"
    using store_frame [OF dm1(1)] store_ok [OF x(1)] dm1 by simp
  with x show ?thesis by blast
qed

text \<open>A consumer that does not hold the message changes nothing.\<close>

lemma ack_foreign:
  assumes "ProcessAcknowledgment s req st w = (r, st', w')" "stored (db w) (ar_MessageID req) m"
    "m_ConsumerID m \<noteq> ar_ConsumerID req"
  shows "(\<exists>e. r = Inl e) \<and> st' = st \<and> (stored (db w) i x \<longrightarrow> stored (db w') i x)"
  using assms get_ok [OF _ assms(2)] get_frame
  by (auto simp: ProcessAcknowledgment_def split: option.splits prod.splits sum.splits if_splits)

lemma nack_foreign:
  assumes "ProcessNegativeAcknowledgment s req st w = (r, st', w')" "stored (db w) (nr_MessageID req) m"
    "m_ConsumerID m \<noteq> nr_ConsumerID req"
  shows "(\<exists>e. r = Inl e) \<and> st' = st \<and> (stored (db w) i x \<longrightarrow> stored (db w') i x)"
  using assms get_ok [OF _ assms(2)] get_frame
  by (auto simp: ProcessNegativeAcknowledgment_def split: option.splits prod.splits sum.splits if_splits)

end

text \<open>The service that \<open>NewService\<close> builds on any store is one of these.\<close>

lemma NewService_fields:
  "NewService mr cfg w0 = ((s, st), w1) \<Longrightarrow>
   s = \<lparr>ak_messageRepo = mr, ak_config = cfg, ak_retryStrategy = NewExponentialBackoffRetry cfg,
        ak_dlqStrategy = NewDefaultDLQStrategy cfg\<rparr>"
  by (simp add: NewService_def Let_def split: prod.splits)

lemma new_service_ack_store:
  assumes "message_store mr stored" "NewService mr cfg w0 = ((s, st), w1)"
  shows "ack_store s stored"
  using assms(1) unfolding NewService_fields [OF assms(2)] ack_store_def
  by (simp add: exponential_policy.retry_policy_axioms default_dlq.terminal_dlq_axioms)

sublocale redis_server \<subseteq> acks: ack_store
  "\<lparr>ak_messageRepo = NewMessageRepository exec, ak_config = cfg,
    ak_retryStrategy = NewExponentialBackoffRetry cfg, ak_dlqStrategy = NewDefaultDLQStrategy cfg\<rparr>"
  "\<lambda>d. msg_at (abs d)" for cfg
  by (rule new_service_ack_store [OF messages.message_store_axioms]) (simp add: NewService_def time_now_def)

section \<open>The workers as a step relation\<close>

text \<open>
  What happens to the state of one service: calls, ticks of the workers that run, and anything
  that the rest of the system does to the world.
\<close>

inductive ack_step :: "'d ack_service \<Rightarrow> ack_state \<times> 'd world \<Rightarrow> ack_state \<times> 'd world \<Rightarrow> bool"
  for s :: "'d ack_service" where
  step_ack: "ProcessAcknowledgment s req st w = (r, st', w') \<Longrightarrow> ack_step s (st, w) (st', w')"
| step_nack: "ProcessNegativeAcknowledgment s nreq st w = (r, st', w') \<Longrightarrow> ack_step s (st, w) (st', w')"
| step_check: "CheckExpiredAcknowledgments s st w = (x, st', w') \<Longrightarrow> ack_step s (st, w) (st', w')"
| step_start: "ack_step s (st, w) (StartAcknowledgmentWorker st, w)"
| step_stop: "ack_step s (st, w) (StopAcknowledgmentWorker st, w)"
| step_expiration: "map_of (as_workers st) ''expiration_checker'' = Some () \<Longrightarrow>
    expirationWorker s st w = (st', w') \<Longrightarrow> ack_step s (st, w) (st', w')"
| step_retry: "map_of (as_workers st) ''retry_processor'' = Some () \<Longrightarrow>
    ack_step s (st, w) (st, retryWorker s w)"
| step_cleanup: "map_of (as_workers st) ''pending_cleaner'' = Some () \<Longrightarrow>
    cleanupStalePendingAcks st w = (st', w') \<Longrightarrow> ack_step s (st, w) (st', w')"
| step_world: "ack_step s (st, w) (st, w')"

text \<open>The states that a service can reach.\<close>

inductive ack_reachable :: "'d ack_service \<Rightarrow> ack_state \<Rightarrow> 'd world \<Rightarrow> bool" for s :: "'d ack_service" where
  reach_new: "NewService mr cfg w0 = ((s, st), w) \<Longrightarrow> ack_reachable s st w"
| reach_step: "ack_reachable s st w \<Longrightarrow> ack_step s (st, w) (st', w') \<Longrightarrow> ack_reachable s st' w'"

inductive_cases ack_stepE: "ack_step s (st, w) (st', w')"

text \<open>
  The invariant: no pending acknowledgment is ever recorded, no negative acknowledgment is ever
  counted, at most a thousand processing times are kept, all of them positive, and only the three
  workers run, each once.
\<close>

definition worker_names :: "string list" where
  "worker_names = [''pending_cleaner'', ''retry_processor'', ''expiration_checker'']"

definition ack_inv :: "ack_state \<Rightarrow> bool" where
  "ack_inv st \<longleftrightarrow> as_pendingAcks st = [] \<and> ss_Nacked (as_stats st) = 0 \<and> in64 (ss_Acknowledged (as_stats st)) \<and>
     length (ss_ProcessingTimes (as_stats st)) \<le> 1000 \<and> (\<forall>t \<in> set (ss_ProcessingTimes (as_stats st)). 0 < t) \<and>
     distinct (map fst (as_workers st)) \<and> fst ` set (as_workers st) \<subseteq> set worker_names"

lemma set_tl_snoc: "x \<in> set (tl (xs @ [t])) \<Longrightarrow> x = t \<or> x \<in> set xs"
  by (cases xs) auto

lemma updateStats_inv: "ack_inv st \<Longrightarrow> op \<noteq> ''nacked'' \<Longrightarrow> ack_inv (updateStats op t st)"
  by (auto simp: ack_inv_def updateStats_def Let_def dest: set_tl_snoc)

lemma removePendingAck_inv: "ack_inv st \<Longrightarrow> ack_inv (removePendingAck i st)"
  by (simp add: ack_inv_def removePendingAck_def)

lemma requeue_inv: "ack_inv st \<Longrightarrow> requeueMessageForRetry s m reason d st w = (r, st', w') \<Longrightarrow> ack_inv st'"
  by (auto simp: requeueMessageForRetry_def Let_def intro: updateStats_inv split: prod.splits option.splits)

lemma move_inv: "ack_inv st \<Longrightarrow> moveMessageToDLQ s m reason st w = (r, st', w') \<Longrightarrow> ack_inv st'"
  by (auto simp: moveMessageToDLQ_def Let_def intro: updateStats_inv split: prod.splits option.splits)

lemma mark_failed_inv: "ack_inv st \<Longrightarrow> markMessageFailed s m reason st w = (r, st', w') \<Longrightarrow> ack_inv st'"
  by (auto simp: markMessageFailed_def Let_def split: prod.splits option.splits)

lemmas settle_inv = requeue_inv move_inv mark_failed_inv updateStats_inv removePendingAck_inv

lemma ack_keeps_inv: "ack_inv st \<Longrightarrow> ProcessAcknowledgment s req st w = (r, st', w') \<Longrightarrow> ack_inv st'"
  by (auto simp: ProcessAcknowledgment_def processFailedAcknowledgment_def Let_def intro: settle_inv
      split: prod.splits option.splits sum.splits if_splits)

lemma nack_keeps_inv: "ack_inv st \<Longrightarrow> ProcessNegativeAcknowledgment s req st w = (r, st', w') \<Longrightarrow> ack_inv st'"
  by (auto simp: ProcessNegativeAcknowledgment_def Let_def intro: settle_inv
      split: prod.splits option.splits sum.splits if_splits)

lemma expire_message_inv: "ack_inv st \<Longrightarrow> expire_message s m st w = (a, r, st', w') \<Longrightarrow> ack_inv st'"
  by (auto simp: expire_message_def intro: settle_inv split: if_splits)

lemma expire_loop_inv: "ack_inv st \<Longrightarrow> expire_loop s now deadline ms r st w = (r', st', w') \<Longrightarrow> ack_inv st'"
proof (induction ms arbitrary: r st w)
  case (Cons m ms)
  obtain a x st1 w1 where e: "expire_message s m st w = (a, x, st1, w1)" by (metis surj_pair)
  then have "ack_inv st1" using Cons.prems(1) expire_message_inv by blast
  then have "ack_inv (updateStats ''expired'' 0 (removePendingAck (m_ID m) st1))"
    by (intro updateStats_inv removePendingAck_inv) simp_all
  with Cons e \<open>ack_inv st1\<close> show ?case by (auto split: option.splits if_splits sum.splits)
qed simp

lemma check_keeps_inv: "ack_inv st \<Longrightarrow> CheckExpiredAcknowledgments s st w = (x, st', w') \<Longrightarrow> ack_inv st'"
  by (auto simp: CheckExpiredAcknowledgments_def Let_def intro: expire_loop_inv split: prod.splits sum.splits)

lemma start_worker_inv: "ack_inv st \<Longrightarrow> name \<in> set worker_names \<Longrightarrow> ack_inv (start_worker name st)"
  by (simp add: ack_inv_def start_worker_def distinct_update dom_update)

lemma stop_worker_inv: "ack_inv st \<Longrightarrow> ack_inv (st\<lparr>as_workers := mdel name (as_workers st)\<rparr>)"
  by (simp add: ack_inv_def distinct_delete subset_trans [OF dom_delete_subset])

lemma stop_workers_inv: "ack_inv st \<Longrightarrow> ack_inv (stop_workers names st)"
  by (induction names st rule: stop_workers.induct) (simp_all add: stop_worker_inv)

lemma cleanup_inv: "ack_inv st \<Longrightarrow> ack_inv (st\<lparr>as_pendingAcks := filter P (as_pendingAcks st)\<rparr>)"
  by (simp add: ack_inv_def)

lemma start_inv: "ack_inv st \<Longrightarrow> ack_inv (StartAcknowledgmentWorker st)"
  by (simp add: StartAcknowledgmentWorker_def start_worker_inv worker_names_def)

lemma expiration_inv: "ack_inv st \<Longrightarrow> expirationWorker s st w = (st', w') \<Longrightarrow> ack_inv st'"
  using check_keeps_inv by (cases "CheckExpiredAcknowledgments s st w") (auto simp: expirationWorker_def)

lemma ack_step_inv: "ack_step s (st, w) (st', w') \<Longrightarrow> ack_inv st \<Longrightarrow> ack_inv st'"
  by (elim ack_stepE)
    (auto intro!: cleanup_inv intro: ack_keeps_inv nack_keeps_inv check_keeps_inv stop_workers_inv start_inv
       expiration_inv simp: StopAcknowledgmentWorker_def cleanupStalePendingAcks_def time_now_def Let_def)

lemma ack_reachable_inv: "ack_reachable s st w \<Longrightarrow> ack_inv st"
proof (induction rule: ack_reachable.induct)
  case (reach_new mr cfg w0 st w)
  then show ?case by (auto simp: NewService_def ack_inv_def Let_def split: prod.splits)
qed (rule ack_step_inv)

section \<open>What the background loops see\<close>

context redis_server
begin

text \<open>A range of a key that does not exist is empty.\<close>

lemma GetByTopic_missing:
  assumes "abs (db w) (topicMessagesKey t) = None" "GetByTopic exec t limit offset w = (r, w')"
  shows "(\<exists>e. r = Inl e) \<or> r = Inr []"
proof -
  obtain x w1 where x: "run exec (ZRANGE (topicMessagesKey t) offset (wrap64 (wrap64 (offset + limit) - 1))) w = (x, w1)"
    by fastforce
  have "(\<exists>e. x = RErr e) \<or> x = RKeys []"
  proof (cases "\<exists>e. x = RErr e")
    case False
    then obtain ks1 where e: "expires (abs (db w)) ks1"
      and ok: "redis_ok ks1 (ZRANGE (topicMessagesKey t) offset (wrap64 (wrap64 (offset + limit) - 1))) x (abs (db w1))"
      using redis_result_ok [OF run_result [OF x]] by blast
    from e assms(1) have "ks1 (topicMessagesKey t) = None"
      unfolding expires_def by (metis option.distinct(1))
    with ok show ?thesis by (simp add: redis_ok_def)
  qed simp
  with assms(2) x show ?thesis
    by (auto simp: GetByTopic_def Let_def split: if_splits)
qed

lemma pipeline_GETs_frame:
  "pipeline exec (map (\<lambda>i. GET (messageKey i)) is) w = (rs, w') \<Longrightarrow> msg_at (abs (db w)) j x \<Longrightarrow>
   msg_at (abs (db w')) j x"
  by (rule pipeline_harmless) (auto simp: harmless_def)

lemma GetByTopic_frame:
  assumes "GetByTopic exec t limit offset w = (r, w')" "msg_at (abs (db w)) j x"
  shows "msg_at (abs (db w')) j x"
proof -
  obtain y w1 where y: "run exec (ZRANGE (topicMessagesKey t) offset (wrap64 (wrap64 (offset + limit) - 1))) w = (y, w1)"
    by fastforce
  then have "msg_at (abs (db w1)) j x" using run_harmless assms(2) by (auto simp: harmless_def)
  with assms(1) y pipeline_GETs_frame show ?thesis
    by (fastforce simp: GetByTopic_def GetBatch_def Let_def split: sum.splits prod.splits if_splits option.splits)
qed

lemma CheckExpired_missing:
  assumes "ak_messageRepo s = NewMessageRepository exec" "abs (db w) (topicMessagesKey '''') = None"
    "CheckExpiredAcknowledgments s st w = (r, st', w')"
  shows "st' = st \<and> (\<forall>report. r = Inr report \<longrightarrow> xr_ExpiredCount report = 0) \<and>
    (msg_at (abs (db w)) i m \<longrightarrow> msg_at (abs (db w')) i m)"
proof -
  let ?w = "w\<lparr>ticks := Suc (ticks w)\<rparr>"
  obtain x w1 where x: "GetByTopic exec '''' 1000 0 ?w = (x, w1)" by fastforce
  with assms(2) have "(\<exists>e. x = Inl e) \<or> x = Inr []" by (intro GetByTopic_missing) simp_all
  moreover have "msg_at (abs (db w)) i m \<Longrightarrow> msg_at (abs (db w1)) i m" using GetByTopic_frame [OF x] by simp
  ultimately show ?thesis using assms(1,3) x
    by (auto simp: CheckExpiredAcknowledgments_def NewMessageRepository_def GetUnacknowledged_def time_now_def Let_def)
qed

lemma retryWorker_missing:
  assumes "ak_messageRepo s = NewMessageRepository exec" "abs (db w) (topicMessagesKey '''') = None"
    "msg_at (abs (db w)) i m"
  shows "msg_at (abs (db (retryWorker s w))) i m"
proof -
  obtain x w1 where x: "GetByTopic exec '''' 1000 0 w = (x, w1)" by fastforce
  from GetByTopic_missing [OF assms(2) x] GetByTopic_frame [OF x assms(3)] x assms(1) show ?thesis
    by (auto simp: retryWorker_def NewMessageRepository_def GetFailedMessages_def)
qed

end

section \<open>Properties\<close>

text \<open>
  C3. An acknowledgment settles its message. On every store that keeps the repository contract, when
  \<open>ProcessAcknowledgment\<close> returns a response for a stored message, the consumer of the request is the
  one the message was delivered to, and the message is stored again, same topic and payload, with
  the status that the response reports: acknowledged for a success; for a failure pending again
  (requeued) as long as the retry strategy allows one more attempt, else moved to the dead letters
  if their strategy takes it, else failed.
\<close>

theorem acknowledgment_settles_message:
  assumes "message_store mr stored" "NewService mr cfg w0 = ((s, st0), w1)"
    "ProcessAcknowledgment s req st w = (Inr r, st', w')" "stored (db w) (ar_MessageID req) m"
    "m_ID m = ar_MessageID req"
  shows "m_ConsumerID m = ar_ConsumerID req \<and> (\<exists>x. stored (db w') (m_ID m) x \<and>
    (ap_Status r, m_Status x) = (if ar_Success req then (''acknowledged'', StatusAcknowledged)
       else failure_outcome s m True) \<and> settled m (m_Status x) x)"
  using new_service_ack_store [OF assms(1,2)] assms(3-5) by (rule ack_store.ack_settles)

definition example_service :: "map_db ack_service" where
  "example_service = \<lparr>ak_messageRepo = map_messages, ak_config = default_broker,
     ak_retryStrategy = NewExponentialBackoffRetry default_broker,
     ak_dlqStrategy = NewDefaultDLQStrategy default_broker\<rparr>"

definition example_state :: ack_state where
  "example_state = snd (fst (NewService map_messages default_broker map_world))"

lemma example_NewService:
  "NewService map_messages default_broker map_world = ((example_service, example_state), map_world\<lparr>ticks := 1\<rparr>)"
  by (simp add: NewService_def example_state_def example_service_def time_now_def map_world_def)

definition delivered_world :: "map_db world" where
  "delivered_world = map_world\<lparr>db := (db map_world)\<lparr>md_messages := [(''m'', example_message\<lparr>m_ID := ''m''\<rparr>)]\<rparr>\<rparr>"

definition ack_of :: "string \<Rightarrow> bool \<Rightarrow> ack_request" where
  "ack_of c ok = \<lparr>ar_MessageID = ''m'', ar_ConsumerID = c, ar_ConsumerGroup = '''', ar_Success = ok,
     ar_ProcessingTime = 3, ar_Metadata = []\<rparr>"

definition nack_of :: "string \<Rightarrow> bool \<Rightarrow> nack_request" where
  "nack_of c retry = \<lparr>nr_MessageID = ''m'', nr_ConsumerID = c, nr_ConsumerGroup = '''', nr_Reason = ''bad'',
     nr_Retry = retry, nr_RetryDelay = 7, nr_Metadata = []\<rparr>"

lemmas ack_eval = example_service_def map_stores delivered_world_def map_world_def time_now_def uuid_new_def Let_def
  ack_of_def nack_of_def validateAckRequest_def validateNackRequest_def example_message_def zero_message_def
  NewExponentialBackoffRetry_def exp_ShouldRetry_def exp_GetMaxRetries_def max_retries_of_def
  exponential_config_def default_broker_def wrap64_def NewDefaultDLQStrategy_def dlq_config_def
  ShouldMoveToDLQ_def HasPrefix_def

lemma delivered_message: "map_of (md_messages (db delivered_world)) ''m'' = Some (example_message\<lparr>m_ID := ''m''\<rparr>)"
  by (simp add: delivered_world_def map_world_def)

lemma example_ack_runs:
  "\<exists>r st' w'. ProcessAcknowledgment example_service (ack_of ''c'' ok) example_state delivered_world = (Inr r, st', w')"
  by (simp add: ack_eval ProcessAcknowledgment_def processFailedAcknowledgment_def requeueMessageForRetry_def
      requeued_message_def exp_GetRetryDelay_def split: prod.split)

theorem acknowledgment_settles_message_witness:
  "\<exists>r st' w' x. ProcessAcknowledgment example_service (ack_of ''c'' True) example_state delivered_world = (Inr r, st', w')
     \<and> map_of (md_messages (db w')) ''m'' = Some x \<and> m_Status x = StatusAcknowledged"
proof -
  obtain r st' w' where r: "ProcessAcknowledgment example_service (ack_of ''c'' True) example_state delivered_world
      = (Inr r, st', w')"
    using example_ack_runs by blast
  from acknowledgment_settles_message [OF map_store.message_store_axioms example_NewService r] delivered_message r
  show ?thesis by (auto simp: ack_of_def)
qed

text \<open>
  C4. A negative acknowledgment settles its message the same way: requeued only if the request asks
  for a retry and the strategy allows one more attempt, else moved to the dead letters if their
  strategy takes it, else failed. With the strategies of the configuration, a request without
  \<open>Retry\<close> for a message that has been retried fewer times than \<open>MaxRetries\<close> ends as failed, not as a
  dead letter.
\<close>

theorem negative_acknowledgment_settles_message:
  assumes "message_store mr stored" "NewService mr cfg w0 = ((s, st0), w1)"
    "ProcessNegativeAcknowledgment s req st w = (Inr r, st', w')" "stored (db w) (nr_MessageID req) m"
    "m_ID m = nr_MessageID req"
  shows "m_ConsumerID m = nr_ConsumerID req \<and> (\<exists>x. stored (db w') (m_ID m) x \<and>
    (ap_Status r, m_Status x) = failure_outcome s m (nr_Retry req) \<and> settled m (m_Status x) x)
    \<and> (\<not> nr_Retry req \<and> m_RetryCount m < bc_MaxRetries cfg \<longrightarrow> ap_Status r = ''failed'')"
proof -
  have "m_RetryCount m < bc_MaxRetries cfg \<Longrightarrow> \<not> ds_ShouldMoveToDLQ (ak_dlqStrategy s) m"
    unfolding NewService_fields [OF assms(2)]
    by (simp add: NewDefaultDLQStrategy_def dlq_config_def ShouldMoveToDLQ_def Let_def)
  with ack_store.nack_settles [OF new_service_ack_store [OF assms(1,2)] assms(3-5)] show ?thesis
    by (auto simp: failure_outcome_def)
qed

theorem negative_acknowledgment_settles_message_witness:
  "\<exists>r st' w' x. ProcessNegativeAcknowledgment example_service (nack_of ''c'' False) example_state delivered_world
       = (Inr r, st', w') \<and> ap_Status r = ''failed''
     \<and> map_of (md_messages (db w')) ''m'' = Some x \<and> m_Status x = StatusFailed"
proof -
  obtain r st' w' where r: "ProcessNegativeAcknowledgment example_service (nack_of ''c'' False) example_state delivered_world
      = (Inr r, st', w')"
    by (simp add: ack_eval ProcessNegativeAcknowledgment_def markMessageFailed_def moveMessageToDLQ_def)
  from negative_acknowledgment_settles_message [OF map_store.message_store_axioms example_NewService r]
    delivered_message r
  show ?thesis
    by (auto simp: nack_of_def failure_outcome_def example_message_def zero_message_def default_broker_def
        split: if_splits)
qed

text \<open>
  C11. Only the consumer that a message was delivered to can settle it: for any other consumer both
  kinds of acknowledgment return an error, change nothing in the service and leave every stored
  message as it is.
\<close>

theorem foreign_consumer_is_rejected:
  assumes "message_store mr stored" "NewService mr cfg w0 = ((s, st0), w1)"
    "stored (db w) (ar_MessageID req) m" "m_ConsumerID m \<noteq> ar_ConsumerID req"
    "nr_MessageID nreq = ar_MessageID req" "nr_ConsumerID nreq = ar_ConsumerID req"
    "ProcessAcknowledgment s req st w = (r, st', w')" "ProcessNegativeAcknowledgment s nreq st w = (nr, nst', nw')"
    "stored (db w) i x"
  shows "(\<exists>e. r = Inl e) \<and> st' = st \<and> stored (db w') i x \<and> (\<exists>e. nr = Inl e) \<and> nst' = st \<and> stored (db nw') i x"
  using ack_store.ack_foreign [OF new_service_ack_store [OF assms(1,2)] assms(7)]
    ack_store.nack_foreign [OF new_service_ack_store [OF assms(1,2)] assms(8)] assms(3-6,9) by simp

theorem foreign_consumer_is_rejected_witness:
  "\<exists>r w' x. ProcessAcknowledgment example_service (ack_of ''z'' True) example_state delivered_world
     = (Inl r, example_state, w') \<and> map_of (md_messages (db w')) ''m'' = Some x"
proof -
  obtain r st' w' where r: "ProcessAcknowledgment example_service (ack_of ''z'' True) example_state delivered_world
      = (r, st', w')" by (metis surj_pair)
  obtain nr nst' nw' where nr: "ProcessNegativeAcknowledgment example_service (nack_of ''z'' True) example_state
      delivered_world = (nr, nst', nw')" by (metis surj_pair)
  from foreign_consumer_is_rejected [OF map_store.message_store_axioms example_NewService _ _ _ _ r nr]
    delivered_message r
  show ?thesis by (auto simp: ack_of_def nack_of_def example_message_def)
qed



text \<open>
  C38. The statistics that the service reports in any state that it can reach, whatever calls, worker
  ticks and outside changes led there: no negative acknowledgment is counted and none is pending,
  so that the acknowledgment rate is 1 as soon as one message was acknowledged (and its counter has
  not wrapped around); the processing times it averages are at most the last thousand.
\<close>

theorem ack_rate_is_blind:
  assumes "ack_reachable s st w"
  shows "at_TotalNacked (fst (GetAcknowledgmentStats st w)) = 0 \<and> as_pendingAcks st = [] \<and>
    at_AckRate (fst (GetAcknowledgmentStats st w)) = (if 0 < ss_Acknowledged (as_stats st) then 1 else 0) \<and>
    length (ss_ProcessingTimes (as_stats st)) \<le> 1000"
  using ack_reachable_inv [OF assms]
  by (auto simp: ack_inv_def GetAcknowledgmentStats_def time_now_def Let_def wrap64_id)

theorem ack_rate_is_blind_witness:
  "\<exists>st w. ack_reachable example_service st w \<and> at_TotalNacked (fst (GetAcknowledgmentStats st w)) = 0"
proof -
  obtain r st w where r: "ProcessNegativeAcknowledgment example_service (nack_of ''c'' True) example_state delivered_world
      = (r, st, w)" by (metis surj_pair)
  have "ack_reachable example_service example_state delivered_world"
    using ack_reachable.reach_step [OF ack_reachable.reach_new [OF example_NewService] ack_step.step_world] .
  from ack_reachable.reach_step [OF this ack_step.step_nack [OF r]] have "ack_reachable example_service st w" .
  with ack_rate_is_blind [OF this] show ?thesis by blast
qed

text \<open>
  C13. The background loops see no message. The expiration check and the retry worker ask the
  repository for the messages of the topic with the empty name; as long as no index of such a topic
  exists, the check reports no expired message and changes no statistics, and neither loop changes
  any stored message, however long messages have gone unacknowledged.
\<close>

theorem background_loops_see_nothing:
  assumes "redis_server exec ks" "NewService (NewMessageRepository exec) cfg w0 = ((s, st0), w1)"
    "ks (db w) (topicMessagesKey '''') = None" "CheckExpiredAcknowledgments s st w = (r, st', w')"
    "msg_at (ks (db w)) i m"
  shows "st' = st \<and> (\<forall>report. r = Inr report \<longrightarrow> xr_ExpiredCount report = 0) \<and> msg_at (ks (db w')) i m \<and>
    msg_at (ks (db (retryWorker s w))) i m"
proof -
  have s: "ak_messageRepo s = NewMessageRepository exec" using NewService_fields [OF assms(2)] by simp
  show ?thesis
    using redis_server.CheckExpired_missing [OF assms(1) s assms(3,4)]
      redis_server.retryWorker_missing [OF assms(1) s assms(3,5)] assms(5) by blast
qed

theorem background_loops_see_nothing_witness:
  "\<exists>s st0 w1 r w'. NewService (NewMessageRepository mem_exec) default_broker example_stored = ((s, st0), w1)
     \<and> CheckExpiredAcknowledgments s st0 example_stored = (r, st0, w')
     \<and> msg_at (map_of (db w')) ''u'' example_message"
proof -
  obtain s st0 w1 where n: "NewService (NewMessageRepository mem_exec) default_broker example_stored = ((s, st0), w1)"
    by (metis surj_pair)
  obtain r st' w' where c: "CheckExpiredAcknowledgments s st0 example_stored = (r, st', w')" by (metis surj_pair)
  have "map_of (db example_stored) (topicMessagesKey '''') = None"
    by (simp add: example_stored_def Store_def mem_eval example_message_def zero_message_def)
  moreover have "msg_at (map_of (db example_stored)) ''u'' example_message"
    using redis_server.Store_stored [OF mem_server.redis_server_axioms example_Store]
    by (simp add: example_message_def)
  ultimately show ?thesis
    using background_loops_see_nothing [OF mem_server.redis_server_axioms n _ c] n c by blast
qed

end
