(* ===== verification/Subscriber.thy ===== *)
theory Subscriber
  imports Ports Config
begin

text \<open>
  The subscriber service of \<^verbatim>\<open>internal/services/subscriber\<close>: \<^verbatim>\<open>subscriber.go\<close>, \<^verbatim>\<open>management.go\<close>
  and \<^verbatim>\<open>workers.go\<close>. An active subscription is an object that the registry of the service and the
  goroutine of its worker share: the state keeps the objects by identifier (\<open>st_objects\<close>) apart from
  the registry (\<open>st_subscriptions\<close>), because the code removes entries of the registry while workers
  still run. A goroutine that only stores a message is a job in \<open>st_async\<close>, which the environment runs
  at any later time. A buffered channel is the list of its messages. The loops of the workers are
  modelled by one tick of their tickers.
\<close>

section \<open>Requests and responses\<close>

record subscribe_request =
  sq_Topic :: string
  sq_ConsumerGroup :: string
  sq_ConsumerID :: string
  sq_Type :: int
  sq_AckDeadline :: int
  sq_MaxRetries :: int
  sq_DeadLetterTopic :: string
  sq_Filter :: string
  sq_Config :: "string gomap"

record subscribe_response =
  sp_SubscriptionID :: string
  sp_Topic :: string
  sp_ConsumerGroup :: string
  sp_ConsumerID :: string
  sp_Type :: string
  sp_MessageChan :: bool

record pull_request =
  pq_Topic :: string
  pq_Partition :: "int option"
  pq_Offset :: "int option"
  pq_Limit :: int
  pq_Timeout :: int
  pq_AckDeadline :: int

record group_pull_request =
  gq_Topic :: string
  gq_ConsumerGroup :: string
  gq_ConsumerID :: string
  gq_Limit :: int
  gq_Timeout :: int
  gq_AckDeadline :: int

record pull_response =
  pl_Messages :: "message list"
  pl_NextOffset :: "int option"
  pl_HasMore :: bool
  pl_ConsumerID :: string

record acknowledge_request =
  aq_MessageID :: string
  aq_ConsumerID :: string
  aq_ConsumerGroup :: string

record subscriber_nack_request =
  nq_MessageID :: string
  nq_ConsumerID :: string
  nq_ConsumerGroup :: string
  nq_Reason :: string
  nq_Retry :: bool

record join_group_request =
  jq_Topic :: string
  jq_ConsumerGroup :: string
  jq_ConsumerID :: string
  jq_Metadata :: "string gomap"

record join_group_response =
  jp_ConsumerID :: string
  jp_ConsumerGroup :: string
  jp_Partitions :: "int list"

record subscription_stats =
  ut_MessagesDelivered :: int
  ut_MessagesAcked :: int
  ut_MessagesNacked :: int
  ut_MessagesDLQ :: int
  ut_LastAckTime :: "int option"

record subscription_info =
  ui_ID :: string
  ui_Topic :: string
  ui_ConsumerGroup :: string
  ui_Type :: int
  ui_Active :: bool
  ui_AckDeadline :: int
  ui_MaxRetries :: int
  ui_DeadLetterTopic :: string
  ui_CreatedAt :: int
  ui_Stats :: subscription_stats

record consumer_info =
  ci_ID :: string
  ci_Status :: int
  ci_Partitions :: "int list"
  ci_LastHeartbeat :: int
  ci_Metadata :: "string gomap"

record consumer_group_info =
  gi_Name :: string
  gi_Topic :: string
  gi_Consumers :: "consumer_info list"
  gi_MaxConsumers :: int
  gi_CreatedAt :: int
  gi_UpdatedAt :: int

section \<open>State\<close>

text \<open>
  \<open>ab_messageChan = None\<close> is the nil channel of a pull subscription; a subscription with a channel has a
  worker, which runs until its context is cancelled (\<open>ab_running\<close>).
\<close>

record active_subscription =
  ab_subscription :: subscription
  ab_messageChan :: "message list option"
  ab_closed :: bool
  ab_running :: bool
  ab_lastActivity :: int

record active_consumer =
  ac_consumer :: consumer
  ac_closed :: bool
  ac_lastPull :: int

record active_group =
  ag_group :: consumer_group
  ag_consumers :: "active_consumer gomap"
  ag_rebalancing :: bool
  ag_lastRebalance :: int

datatype async = AStore message | AMarkDelivered string string

record subscriber_state =
  st_objects :: "active_subscription gomap"
  st_subscriptions :: "unit gomap"
  st_groups :: "active_group gomap"
  st_async :: "async list"

record 'd subscriber =
  sb_messageRepo :: "'d message_repository"
  sb_subscriptionRepo :: "'d subscription_repository"
  sb_consumerRepo :: "'d consumer_repository"
  sb_topicRepo :: "'d topic_repository"
  sb_config :: broker_config

definition NewSubscriber ::
  "'d message_repository \<Rightarrow> 'd subscription_repository \<Rightarrow> 'd consumer_repository \<Rightarrow> 'd topic_repository
    \<Rightarrow> broker_config \<Rightarrow> 'd subscriber \<times> subscriber_state" where
  "NewSubscriber mr sr cr tr cfg =
     (\<lparr>sb_messageRepo = mr, sb_subscriptionRepo = sr, sb_consumerRepo = cr, sb_topicRepo = tr, sb_config = cfg\<rparr>,
      \<lparr>st_objects = [], st_subscriptions = [], st_groups = [], st_async = []\<rparr>)"

definition go_async :: "async \<Rightarrow> subscriber_state \<Rightarrow> subscriber_state" where
  "go_async j st = st\<lparr>st_async := st_async st @ [j]\<rparr>"

definition put_object :: "string \<Rightarrow> active_subscription \<Rightarrow> subscriber_state \<Rightarrow> subscriber_state" where
  "put_object i a st = st\<lparr>st_objects := mput i a (st_objects st)\<rparr>"

definition put_group :: "string \<Rightarrow> active_group \<Rightarrow> subscriber_state \<Rightarrow> subscriber_state" where
  "put_group n g st = st\<lparr>st_groups := mput n g (st_groups st)\<rparr>"

text \<open>The zero \<open>time.Time\<close>, the first of January of the year 1.\<close>

definition zero_time :: int where
  "zero_time = - 62135596800 * Second"

section \<open>Helpers\<close>

definition validateSubscribeRequest :: "subscribe_request \<Rightarrow> go_error option" where
  "validateSubscribeRequest req =
     (if sq_Topic req = '''' then Some (Errorf ''topic cannot be empty'')
      else if sq_Type req \<noteq> TypePull \<and> sq_Type req \<noteq> TypePush then Some (Errorf ''invalid subscription type'')
      else None)"

definition validatePullRequest :: "pull_request \<Rightarrow> go_error option" where
  "validatePullRequest req =
     (if pq_Topic req = '''' then Some (Errorf ''topic cannot be empty'')
      else if pq_Limit req \<le> 0 \<or> pq_Limit req > 1000 then Some (Errorf ''limit must be between 1 and 1000'')
      else None)"

definition validateConsumerGroupPullRequest :: "group_pull_request \<Rightarrow> go_error option" where
  "validateConsumerGroupPullRequest req =
     (if gq_Topic req = '''' then Some (Errorf ''topic cannot be empty'')
      else if gq_ConsumerGroup req = '''' then Some (Errorf ''consumer group cannot be empty'')
      else if gq_ConsumerID req = '''' then Some (Errorf ''consumer ID cannot be empty'')
      else if gq_Limit req \<le> 0 \<or> gq_Limit req > 1000 then Some (Errorf ''limit must be between 1 and 1000'')
      else None)"

definition validateJoinGroupRequest :: "join_group_request \<Rightarrow> go_error option" where
  "validateJoinGroupRequest req =
     (if jq_Topic req = '''' then Some (Errorf ''topic cannot be empty'')
      else if jq_ConsumerGroup req = '''' then Some (Errorf ''consumer group cannot be empty'')
      else None)"

definition getTypeString :: "int \<Rightarrow> string" where
  "getTypeString t = (if t = TypePull then ''pull'' else if t = TypePush then ''push'' else ''unknown'')"

text \<open>The \<open>hash\<close> of this package, the same function as the publisher's.\<close>

definition consumer_hash :: "bytes \<Rightarrow> int" where
  "consumer_hash data =
     (let h = foldl (\<lambda>h b. wrap64 (h * 31 + uint b)) 0 data in if h < 0 then wrap64 (- h) else h)"

definition shouldAssignToConsumer :: "message \<Rightarrow> string \<Rightarrow> consumer_group \<Rightarrow> bool" where
  "shouldAssignToConsumer m consumerID g =
     (let n = int (length (cg_Consumers g))
      in if n = 0 then True else consumer_hash (bytes_of consumerID) smod n = m_Partition m smod n)"

definition ensureConsumerInGroup ::
  "'d subscriber \<Rightarrow> string \<Rightarrow> string \<Rightarrow> string \<Rightarrow> 'd world \<Rightarrow> consumer_group res \<times> 'd world" where
  "ensureConsumerInGroup s topic groupName consumerID w =
     (let (r, w) = (case CR_GetGroup (sb_consumerRepo s) groupName w of
                      (Inr g, w) \<Rightarrow> (Inr g, w)
                    | (Inl _, w) \<Rightarrow>
                        (let (g, w) = NewConsumerGroup groupName topic w
                         in (case CR_CreateGroup (sb_consumerRepo s) g w of
                               (Some e, w) \<Rightarrow> (Inl (Wrap ''failed to create consumer group'' e), w)
                             | (None, w) \<Rightarrow> (Inr g, w))))
      in (case r of
            Inl e \<Rightarrow> (Inl e, w)
          | Inr g \<Rightarrow>
              (let (now, w) = time_now w;
                   (e, w) = CR_AddConsumer (sb_consumerRepo s) groupName
                     \<lparr>c_ID = consumerID, c_GroupID = groupName, c_Partitions = [], c_LastHeartbeat = now,
                      c_Status = ConsumerActive, c_Metadata = []\<rparr> w
               in (Inr g, w))))"

definition updateConsumerHeartbeat ::
  "string \<Rightarrow> string \<Rightarrow> subscriber_state \<Rightarrow> 'd world \<Rightarrow> subscriber_state \<times> 'd world" where
  "updateConsumerHeartbeat groupName consumerID st w =
     (case map_of (st_groups st) groupName of
        None \<Rightarrow> (st, w)
      | Some g \<Rightarrow>
          (case map_of (ag_consumers g) consumerID of
             None \<Rightarrow> (st, w)
           | Some c \<Rightarrow>
               (let (now, w) = time_now w
                in (put_group groupName
                      (g\<lparr>ag_consumers := mput consumerID (c\<lparr>ac_lastPull := now\<rparr>) (ag_consumers g)\<rparr>) st, w))))"

definition updateSubscriptionStats :: "string \<Rightarrow> string \<Rightarrow> subscriber_state \<Rightarrow> subscriber_state" where
  "updateSubscriptionStats consumerGroup statType st = st"

section \<open>Subscriptions\<close>

definition Subscribe ::
  "'d subscriber \<Rightarrow> subscribe_request \<Rightarrow> subscriber_state \<Rightarrow> 'd world
    \<Rightarrow> subscribe_response res \<times> subscriber_state \<times> 'd world" where
  "Subscribe s req st w =
     (case validateSubscribeRequest req of
        Some e \<Rightarrow> (Inl (Wrap ''invalid subscribe request'' e), st, w)
      | None \<Rightarrow>
          (case TR_Exists (sb_topicRepo s) (sq_Topic req) w of
             (Inl e, w) \<Rightarrow> (Inl (Wrap ''failed to check topic existence'' e), st, w)
           | (Inr False, w) \<Rightarrow> (Inl (Errorf (''topic '' @ sq_Topic req @ '' does not exist'')), st, w)
           | (Inr True, w) \<Rightarrow>
               (let (sid, w) = uuid_new w;
                    ackDeadline = (if sq_AckDeadline req = 0 then bc_DefaultAckDeadline (sb_config s)
                                   else sq_AckDeadline req);
                    maxRetries = (if sq_MaxRetries req = 0 then bc_MaxRetries (sb_config s) else sq_MaxRetries req);
                    (sub, w) = NewSubscription sid (sq_Topic req) (sq_ConsumerGroup req) (sq_Type req) w;
                    sub = sub\<lparr>s_AckDeadline := ackDeadline, s_MaxRetries := maxRetries,
                              s_DeadLetterTopic := sq_DeadLetterTopic req, s_Filter := sq_Filter req,
                              s_Config := sq_Config req\<rparr>
                in (case SR_Create (sb_subscriptionRepo s) sub w of
                      (Some e, w) \<Rightarrow> (Inl (Wrap ''failed to create subscription'' e), st, w)
                    | (None, w) \<Rightarrow>
                        (let push = (sq_Type req = TypePush);
                             (now, w) = time_now w;
                             a = \<lparr>ab_subscription = sub, ab_messageChan = (if push then Some [] else None),
                                  ab_closed = False, ab_running = push, ab_lastActivity = now\<rparr>;
                             st = put_object sid a st;
                             st = st\<lparr>st_subscriptions := mput sid () (st_subscriptions st)\<rparr>
                         in (Inr \<lparr>sp_SubscriptionID = sid, sp_Topic = sq_Topic req,
                                  sp_ConsumerGroup = sq_ConsumerGroup req, sp_ConsumerID = sq_ConsumerID req,
                                  sp_Type = getTypeString (sq_Type req), sp_MessageChan = push\<rparr>, st, w))))))"

definition Unsubscribe ::
  "'d subscriber \<Rightarrow> string \<Rightarrow> subscriber_state \<Rightarrow> 'd world \<Rightarrow> go_error option \<times> subscriber_state \<times> 'd world" where
  "Unsubscribe s sid st w =
     (case (map_of (st_subscriptions st) sid, map_of (st_objects st) sid) of
        (Some _, Some a) \<Rightarrow>
          (let (sub, w) = Deactivate (ab_subscription a) w;
               (e, sub, w) = SR_Update (sb_subscriptionRepo s) sub w;
               a = a\<lparr>ab_running := False, ab_closed := (ab_messageChan a \<noteq> None), ab_subscription := sub\<rparr>;
               st = st\<lparr>st_subscriptions := mdel sid (st_subscriptions st)\<rparr>
           in (None, put_object sid a st, w))
      | _ \<Rightarrow> (Some (Errorf (''subscription '' @ sid @ '' not found'')), st, w))"

section \<open>Pulling\<close>

fun valid_messages :: "message list \<Rightarrow> 'd world \<Rightarrow> message list \<times> 'd world" where
  "valid_messages [] w = ([], w)"
| "valid_messages (m # ms) w =
     (let (expired, w) = IsExpired m w; (vs, w) = valid_messages ms w
      in (if expired then vs else m # vs, w))"

definition Pull ::
  "'d subscriber \<Rightarrow> pull_request \<Rightarrow> subscriber_state \<Rightarrow> 'd world
    \<Rightarrow> pull_response res \<times> subscriber_state \<times> 'd world" where
  "Pull s req st w =
     (case validatePullRequest req of
        Some e \<Rightarrow> (Inl (Wrap ''invalid pull request'' e), st, w)
      | None \<Rightarrow>
          (let offset = (case pq_Offset req of None \<Rightarrow> 0 | Some n \<Rightarrow> n)
           in (case (case pq_Partition req of
                       Some p \<Rightarrow> MR_GetByTopicPartition (sb_messageRepo s) (pq_Topic req) p offset (pq_Limit req) w
                     | None \<Rightarrow> MR_GetByTopic (sb_messageRepo s) (pq_Topic req) (pq_Limit req) offset w) of
                 (Inl e, w) \<Rightarrow> (Inl (Wrap ''failed to retrieve messages'' e), st, w)
               | (Inr ms, w) \<Rightarrow>
                   (let (vs, w) = valid_messages ms w;
                        (vs, st, w) =
                          (if pq_AckDeadline req > 0
                           then (let (consumerID, w) = uuid_new w;
                                     (now, w) = time_now w;
                                     vs = map (\<lambda>m. m\<lparr>m_Status := StatusDelivered, m_DeliveredAt := Some now,
                                                     m_ConsumerID := consumerID\<rparr>) vs
                                 in (vs, fold (\<lambda>m. go_async (AStore m)) vs st, w))
                           else (vs, st, w));
                        next = (if vs \<noteq> [] then Some (wrap64 (m_Offset (last vs) + 1)) else None)
                    in (Inr \<lparr>pl_Messages = vs, pl_NextOffset = next,
                             pl_HasMore = (int (length vs) = pq_Limit req), pl_ConsumerID = ''''\<rparr>, st, w)))))"

fun assign_messages ::
  "group_pull_request \<Rightarrow> consumer_group \<Rightarrow> int \<Rightarrow> message list \<Rightarrow> 'd world \<Rightarrow> message list \<times> 'd world" where
  "assign_messages req g now [] w = ([], w)"
| "assign_messages req g now (m # ms) w =
     (let (expired, w) = IsExpired m w;
          (vs, w) = assign_messages req g now ms w
      in (if \<not> expired \<and> shouldAssignToConsumer m (gq_ConsumerID req) g
          then m\<lparr>m_Status := StatusDelivered, m_DeliveredAt := Some now, m_ConsumerID := gq_ConsumerID req,
                 m_ConsumerGroup := gq_ConsumerGroup req\<rparr> # vs
          else vs, w))"

text \<open>\<open>None\<close>: the read of the stream of the topic blocks for ever.\<close>

definition PullWithConsumerGroup ::
  "'d subscriber \<Rightarrow> group_pull_request \<Rightarrow> subscriber_state \<Rightarrow> 'd world
    \<Rightarrow> (pull_response res \<times> subscriber_state \<times> 'd world) option" where
  "PullWithConsumerGroup s req st w =
     (case validateConsumerGroupPullRequest req of
        Some e \<Rightarrow> Some (Inl (Wrap ''invalid consumer group pull request'' e), st, w)
      | None \<Rightarrow>
          (case ensureConsumerInGroup s (gq_Topic req) (gq_ConsumerGroup req) (gq_ConsumerID req) w of
             (Inl e, w) \<Rightarrow> Some (Inl (Wrap ''failed to ensure consumer in group'' e), st, w)
           | (Inr g, w) \<Rightarrow>
               (case MR_GetForConsumerGroup (sb_messageRepo s) (gq_Topic req) (gq_ConsumerGroup req) (gq_Limit req) w of
                  None \<Rightarrow> None
                | Some (Inl e, w) \<Rightarrow> Some (Inl (Wrap ''failed to retrieve messages for consumer group'' e), st, w)
                | Some (Inr ms, w) \<Rightarrow>
                    (let (now, w) = time_now w;
                         (vs, w) = assign_messages req g now ms w;
                         st = fold (\<lambda>m. go_async (AMarkDelivered (m_ID m) (gq_ConsumerID req))) vs st;
                         (st, w) = updateConsumerHeartbeat (gq_ConsumerGroup req) (gq_ConsumerID req) st w
                     in Some (Inr \<lparr>pl_Messages = vs, pl_NextOffset = None,
                                   pl_HasMore = (int (length ms) = gq_Limit req),
                                   pl_ConsumerID = gq_ConsumerID req\<rparr>, st, w)))))"

section \<open>Acknowledging\<close>

definition subscriber_Acknowledge ::
  "'d subscriber \<Rightarrow> acknowledge_request \<Rightarrow> subscriber_state \<Rightarrow> 'd world
    \<Rightarrow> go_error option \<times> subscriber_state \<times> 'd world" where
  "subscriber_Acknowledge s req st w =
     (let (now, w) = time_now w;
          ack = \<lparr>a_MessageID = aq_MessageID req, a_ConsumerID = aq_ConsumerID req,
                 a_ConsumerGroup = aq_ConsumerGroup req, a_Success = True, a_Reason = '''', a_Timestamp = now\<rparr>
      in (case MR_Acknowledge (sb_messageRepo s) ack w of
            (Some e, w) \<Rightarrow> (Some (Wrap ''failed to acknowledge message'' e), st, w)
          | (None, w) \<Rightarrow>
              (None, if aq_ConsumerGroup req \<noteq> ''''
                     then updateSubscriptionStats (aq_ConsumerGroup req) ''acked'' st else st, w)))"

definition NegativeAcknowledge ::
  "'d subscriber \<Rightarrow> subscriber_nack_request \<Rightarrow> subscriber_state \<Rightarrow> 'd world
    \<Rightarrow> go_error option \<times> subscriber_state \<times> 'd world" where
  "NegativeAcknowledge s req st w =
     (let (now, w) = time_now w;
          ack = \<lparr>a_MessageID = nq_MessageID req, a_ConsumerID = nq_ConsumerID req,
                 a_ConsumerGroup = nq_ConsumerGroup req, a_Success = False, a_Reason = nq_Reason req,
                 a_Timestamp = now\<rparr>
      in (case MR_Acknowledge (sb_messageRepo s) ack w of
            (Some e, w) \<Rightarrow> (Some (Wrap ''failed to negative acknowledge message'' e), st, w)
          | (None, w) \<Rightarrow>
              (None, if nq_ConsumerGroup req \<noteq> ''''
                     then updateSubscriptionStats (nq_ConsumerGroup req) ''nacked'' st else st, w)))"

section \<open>Information\<close>

definition info_of :: "subscription \<Rightarrow> subscription_info" where
  "info_of sub =
     \<lparr>ui_ID = s_ID sub, ui_Topic = s_Topic sub, ui_ConsumerGroup = s_ConsumerGroup sub, ui_Type = s_Type sub,
      ui_Active = s_Active sub, ui_AckDeadline = s_AckDeadline sub, ui_MaxRetries = s_MaxRetries sub,
      ui_DeadLetterTopic = s_DeadLetterTopic sub, ui_CreatedAt = s_CreatedAt sub,
      ui_Stats = \<lparr>ut_MessagesDelivered = s_MessagesDelivered sub, ut_MessagesAcked = s_MessagesAcked sub,
        ut_MessagesNacked = s_MessagesNacked sub, ut_MessagesDLQ = s_MessagesDLQ sub,
        ut_LastAckTime = s_LastAckTime sub\<rparr>\<rparr>"

definition GetSubscription ::
  "'d subscriber \<Rightarrow> string \<Rightarrow> subscriber_state \<Rightarrow> 'd world \<Rightarrow> subscription_info res \<times> 'd world" where
  "GetSubscription s sid st w =
     (case (map_of (st_subscriptions st) sid, map_of (st_objects st) sid) of
        (Some _, Some a) \<Rightarrow> (Inr (info_of (ab_subscription a)), w)
      | _ \<Rightarrow>
          (case SR_Get (sb_subscriptionRepo s) sid w of
             (Inl e, w) \<Rightarrow> (Inl (Wrap ''subscription not found'' e), w)
           | (Inr sub, w) \<Rightarrow> (Inr (info_of sub), w)))"

definition ListSubscriptions ::
  "'d subscriber \<Rightarrow> string \<Rightarrow> 'd world \<Rightarrow> subscription_info list res \<times> 'd world" where
  "ListSubscriptions s topic w =
     (case SR_GetByTopic (sb_subscriptionRepo s) topic w of
        (Inl e, w) \<Rightarrow> (Inl (Wrap ''failed to get subscriptions for topic'' e), w)
      | (Inr subs, w) \<Rightarrow> (Inr (map info_of subs), w))"

definition GetConsumerGroupInfo ::
  "'d subscriber \<Rightarrow> string \<Rightarrow> 'd world \<Rightarrow> consumer_group_info res \<times> 'd world" where
  "GetConsumerGroupInfo s groupName w =
     (case CR_GetGroup (sb_consumerRepo s) groupName w of
        (Inl e, w) \<Rightarrow> (Inl (Wrap ''consumer group not found'' e), w)
      | (Inr g, w) \<Rightarrow>
          (case CR_GetActiveConsumers (sb_consumerRepo s) groupName w of
             (Inl e, w) \<Rightarrow> (Inl (Wrap ''failed to get active consumers'' e), w)
           | (Inr cs, w) \<Rightarrow>
               (Inr \<lparr>gi_Name = cg_Name g, gi_Topic = cg_Topic g,
                     gi_Consumers = map (\<lambda>c. \<lparr>ci_ID = c_ID c, ci_Status = c_Status c,
                       ci_Partitions = c_Partitions c, ci_LastHeartbeat = c_LastHeartbeat c,
                       ci_Metadata = c_Metadata c\<rparr>) cs,
                     gi_MaxConsumers = cg_MaxConsumers g, gi_CreatedAt = cg_CreatedAt g,
                     gi_UpdatedAt = cg_UpdatedAt g\<rparr>, w)))"

section \<open>Consumer groups\<close>

definition triggerRebalance :: "string \<Rightarrow> subscriber_state \<Rightarrow> subscriber_state" where
  "triggerRebalance n st =
     (case map_of (st_groups st) n of None \<Rightarrow> st | Some g \<Rightarrow> put_group n (g\<lparr>ag_rebalancing := True\<rparr>) st)"

definition JoinConsumerGroup ::
  "'d subscriber \<Rightarrow> join_group_request \<Rightarrow> subscriber_state \<Rightarrow> 'd world
    \<Rightarrow> join_group_response res \<times> subscriber_state \<times> 'd world" where
  "JoinConsumerGroup s req st w =
     (case validateJoinGroupRequest req of
        Some e \<Rightarrow> (Inl (Wrap ''invalid join group request'' e), st, w)
      | None \<Rightarrow>
          (let (consumerID, w) = (if jq_ConsumerID req = '''' then uuid_new w else (jq_ConsumerID req, w))
           in (case ensureConsumerInGroup s (jq_Topic req) (jq_ConsumerGroup req) consumerID w of
                 (Inl e, w) \<Rightarrow> (Inl (Wrap ''failed to join consumer group'' e), st, w)
               | (Inr g, w) \<Rightarrow>
                   (let (t1, w) = time_now w;
                        (t2, w) = time_now w;
                        c = \<lparr>ac_consumer = \<lparr>c_ID = consumerID, c_GroupID = jq_ConsumerGroup req, c_Partitions = [],
                               c_LastHeartbeat = t1, c_Status = ConsumerActive, c_Metadata = jq_Metadata req\<rparr>,
                             ac_closed = False, ac_lastPull = t2\<rparr>;
                        ag = (case map_of (st_groups st) (jq_ConsumerGroup req) of
                                Some ag \<Rightarrow> ag
                              | None \<Rightarrow> \<lparr>ag_group = g, ag_consumers = [], ag_rebalancing = True,
                                         ag_lastRebalance = zero_time\<rparr>);
                        ag = ag\<lparr>ag_consumers := mput consumerID c (ag_consumers ag)\<rparr>;
                        st = put_group (jq_ConsumerGroup req) ag st;
                        st = triggerRebalance (jq_ConsumerGroup req) st
                    in (Inr \<lparr>jp_ConsumerID = consumerID, jp_ConsumerGroup = jq_ConsumerGroup req,
                             jp_Partitions = c_Partitions (ac_consumer c)\<rparr>, st, w)))))"

text \<open>The channel of a consumer that leaves is closed; nothing else holds it.\<close>

definition LeaveConsumerGroup ::
  "'d subscriber \<Rightarrow> string \<Rightarrow> string \<Rightarrow> subscriber_state \<Rightarrow> 'd world \<Rightarrow> subscriber_state \<times> 'd world" where
  "LeaveConsumerGroup s groupName consumerID st w =
     (let (e, w) = CR_RemoveConsumer (sb_consumerRepo s) groupName consumerID w
      in (case map_of (st_groups st) groupName of
            None \<Rightarrow> (st, w)
          | Some g \<Rightarrow> (put_group groupName
              (g\<lparr>ag_consumers := mdel consumerID (ag_consumers g), ag_rebalancing := True\<rparr>) st, w)))"

section \<open>The push worker\<close>

definition matchesFilter :: "message \<Rightarrow> string \<Rightarrow> bool" where
  "matchesFilter m f = list_ex (\<lambda>(k, v). k = f \<or> v = f) (m_Headers m)"

text \<open>
  One message: skipped if it has expired, does not match the filter or finds the channel full. What
  is sent is the object that is marked as delivered next.
\<close>

definition channelCapacity :: nat where
  "channelCapacity = 100"

definition deliver_message ::
  "message \<Rightarrow> active_subscription \<Rightarrow> subscriber_state \<Rightarrow> 'd world
    \<Rightarrow> active_subscription \<times> subscriber_state \<times> 'd world" where
  "deliver_message m a st w =
     (let sub = ab_subscription a; (expired, w) = IsExpired m w
      in if expired then (a, st, w)
         else if s_Filter sub \<noteq> '''' \<and> \<not> matchesFilter m (s_Filter sub) then (a, st, w)
         else (case ab_messageChan a of
                 None \<Rightarrow> (a, st, w)
               | Some ch \<Rightarrow>
                   if length ch < channelCapacity
                   then (let (sub, w) = IncrementDelivered sub w;
                             (activity, w) = time_now w;
                             (now, w) = time_now w;
                             m = m\<lparr>m_Status := StatusDelivered, m_DeliveredAt := Some now,
                                   m_ConsumerGroup := s_ConsumerGroup sub\<rparr>
                         in (a\<lparr>ab_subscription := sub, ab_messageChan := Some (ch @ [m]),
                               ab_lastActivity := activity\<rparr>, go_async (AStore m) st, w))
                   else (a, st, w)))"

fun deliver_loop ::
  "message list \<Rightarrow> active_subscription \<Rightarrow> subscriber_state \<Rightarrow> 'd world
    \<Rightarrow> active_subscription \<times> subscriber_state \<times> 'd world" where
  "deliver_loop [] a st w = (a, st, w)"
| "deliver_loop (m # ms) a st w = (let (a, st, w) = deliver_message m a st w in deliver_loop ms a st w)"

text \<open>\<open>None\<close>: the fetch for a consumer group blocks for ever.\<close>

definition processSubscriptionMessages ::
  "'d subscriber \<Rightarrow> string \<Rightarrow> active_subscription \<Rightarrow> subscriber_state \<Rightarrow> 'd world
    \<Rightarrow> (subscriber_state \<times> 'd world) option" where
  "processSubscriptionMessages s sid a st w =
     (let sub = ab_subscription a
      in if \<not> IsActive sub then Some (st, w)
         else (case (if s_ConsumerGroup sub \<noteq> ''''
                     then MR_GetForConsumerGroup (sb_messageRepo s) (s_Topic sub) (s_ConsumerGroup sub) 10 w
                     else Some (MR_GetByTopic (sb_messageRepo s) (s_Topic sub) 10 0 w)) of
                 None \<Rightarrow> None
               | Some (Inl e, w) \<Rightarrow> Some (st, w)
               | Some (Inr ms, w) \<Rightarrow>
                   (let (a, st, w) = deliver_loop ms a st w in Some (put_object sid a st, w))))"

text \<open>One tick of \<open>subscriptionWorker\<close>: only a worker that was not cancelled ticks.\<close>

definition subscriptionWorker ::
  "'d subscriber \<Rightarrow> string \<Rightarrow> subscriber_state \<Rightarrow> 'd world \<Rightarrow> (subscriber_state \<times> 'd world) option" where
  "subscriptionWorker s sid st w =
     (case map_of (st_objects st) sid of
        Some a \<Rightarrow> if ab_running a then processSubscriptionMessages s sid a st w else Some (st, w)
      | None \<Rightarrow> Some (st, w))"

text \<open>The receiver takes the first message of the channel.\<close>

definition receive :: "string \<Rightarrow> subscriber_state \<Rightarrow> (message \<times> subscriber_state) option" where
  "receive sid st =
     (case map_of (st_objects st) sid of
        Some a \<Rightarrow> (case ab_messageChan a of
                     Some (m # ch) \<Rightarrow> Some (m, put_object sid (a\<lparr>ab_messageChan := Some ch\<rparr>) st)
                   | _ \<Rightarrow> None)
      | None \<Rightarrow> None)"

section \<open>Heartbeats\<close>

definition removeDeadConsumer ::
  "'d subscriber \<Rightarrow> string \<Rightarrow> string \<Rightarrow> subscriber_state \<Rightarrow> 'd world \<Rightarrow> subscriber_state \<times> 'd world" where
  "removeDeadConsumer s groupName consumerID st w =
     (let (e, w) = CR_RemoveConsumer (sb_consumerRepo s) groupName consumerID w
      in (case map_of (st_groups st) groupName of
            None \<Rightarrow> (st, w)
          | Some g \<Rightarrow> (put_group groupName (g\<lparr>ag_consumers := mdel consumerID (ag_consumers g)\<rparr>) st, w)))"

fun dead_consumers :: "(string \<times> active_consumer) list \<Rightarrow> 'd world \<Rightarrow> string list \<times> 'd world" where
  "dead_consumers [] w = ([], w)"
| "dead_consumers ((i, c) # cs) w =
     (let (now, w) = time_now w; (ds, w) = dead_consumers cs w
      in (if now - ac_lastPull c > 60 * Second then i # ds else ds, w))"

fun remove_dead ::
  "'d subscriber \<Rightarrow> string \<Rightarrow> string list \<Rightarrow> subscriber_state \<Rightarrow> 'd world \<Rightarrow> subscriber_state \<times> 'd world" where
  "remove_dead s groupName [] st w = (st, w)"
| "remove_dead s groupName (i # is) st w =
     (let (st, w) = removeDeadConsumer s groupName i st w in remove_dead s groupName is st w)"

fun heartbeat_loop ::
  "'d subscriber \<Rightarrow> string list \<Rightarrow> subscriber_state \<Rightarrow> 'd world \<Rightarrow> subscriber_state \<times> 'd world" where
  "heartbeat_loop s [] st w = (st, w)"
| "heartbeat_loop s (n # ns) st w =
     (case map_of (st_groups st) n of
        None \<Rightarrow> heartbeat_loop s ns st w
      | Some g \<Rightarrow>
          (let (dead, w) = dead_consumers (ag_consumers g) w;
               (st, w) = remove_dead s n dead st w;
               st = (if dead \<noteq> [] then triggerRebalance n st else st)
           in heartbeat_loop s ns st w))"

definition processConsumerHeartbeats ::
  "'d subscriber \<Rightarrow> subscriber_state \<Rightarrow> 'd world \<Rightarrow> subscriber_state \<times> 'd world" where
  "processConsumerHeartbeats s st w = heartbeat_loop s (map fst (st_groups st)) st w"

section \<open>Rebalancing\<close>

text \<open>
  The partitions dealt to \<open>n\<close> consumers from index \<open>i\<close> and partition \<open>p\<close> on: \<open>q\<close> each, one more
  for the first \<open>r\<close>.
\<close>

fun deal :: "int \<Rightarrow> int \<Rightarrow> int \<Rightarrow> int \<Rightarrow> nat \<Rightarrow> int list list" where
  "deal q r i p 0 = []"
| "deal q r i p (Suc n) =
     (let k = q + (if i < r then 1 else 0)
      in map (\<lambda>j. wrap32 (p + int j)) [0..<nat k] # deal q r (i + 1) (wrap32 (p + max 0 k)) n)"

text \<open>\<open>order\<close> is the order in which \<open>range\<close> visits the consumers.\<close>

fun set_partitions :: "string list \<Rightarrow> int list list \<Rightarrow> active_consumer gomap \<Rightarrow> active_consumer gomap" where
  "set_partitions (i # is) (ps # pss) cs =
     set_partitions is pss
       (case map_of cs i of
          None \<Rightarrow> cs
        | Some c \<Rightarrow> mput i (c\<lparr>ac_consumer := (ac_consumer c)\<lparr>c_Partitions := ps\<rparr>\<rparr>) cs)"
| "set_partitions _ _ cs = cs"

definition rebalanceConsumerGroup ::
  "'d subscriber \<Rightarrow> string list \<Rightarrow> active_group \<Rightarrow> 'd world \<Rightarrow> active_group \<times> 'd world" where
  "rebalanceConsumerGroup s order g w =
     (if order = [] then (g, w)
      else (case TR_Get (sb_topicRepo s) (cg_Topic (ag_group g)) w of
              (Inl e, w) \<Rightarrow> (g, w)
            | (Inr t, w) \<Rightarrow>
                (let n = int (length order);
                     q = t_Partitions t sdiv n;
                     r = t_Partitions t smod n
                 in (g\<lparr>ag_consumers := set_partitions order (deal q r 0 0 (length order)) (ag_consumers g)\<rparr>, w))))"

fun rebalance_loop ::
  "'d subscriber \<Rightarrow> (string \<Rightarrow> string list) \<Rightarrow> string list \<Rightarrow> subscriber_state \<Rightarrow> 'd world
    \<Rightarrow> subscriber_state \<times> 'd world" where
  "rebalance_loop s order [] st w = (st, w)"
| "rebalance_loop s order (n # ns) st w =
     (case map_of (st_groups st) n of
        None \<Rightarrow> rebalance_loop s order ns st w
      | Some g \<Rightarrow>
          if ag_rebalancing g
          then (let (now, w) = time_now w
                in if now - ag_lastRebalance g > 5 * Second
                   then (let (g, w) = rebalanceConsumerGroup s (order n) g w;
                             (now, w) = time_now w
                         in rebalance_loop s order ns
                              (put_group n (g\<lparr>ag_rebalancing := False, ag_lastRebalance := now\<rparr>) st) w)
                   else rebalance_loop s order ns st w)
          else rebalance_loop s order ns st w)"

definition processRebalancing ::
  "'d subscriber \<Rightarrow> (string \<Rightarrow> string list) \<Rightarrow> subscriber_state \<Rightarrow> 'd world \<Rightarrow> subscriber_state \<times> 'd world" where
  "processRebalancing s order st w = rebalance_loop s order (map fst (st_groups st)) st w"

section \<open>Cleaning up\<close>

fun inactive_subscriptions :: "string list \<Rightarrow> subscriber_state \<Rightarrow> 'd world \<Rightarrow> string list \<times> 'd world" where
  "inactive_subscriptions [] st w = ([], w)"
| "inactive_subscriptions (i # is) st w =
     (case map_of (st_objects st) i of
        None \<Rightarrow> inactive_subscriptions is st w
      | Some a \<Rightarrow>
          (let (now, w) = time_now w; (xs, w) = inactive_subscriptions is st w
           in (if now - ab_lastActivity a > Hour then i # xs else xs, w)))"

text \<open>The second loop looks each identifier up in the registry it was just deleted from.\<close>

definition cancel_registered :: "string \<Rightarrow> subscriber_state \<Rightarrow> subscriber_state" where
  "cancel_registered i st =
     (case (map_of (st_subscriptions st) i, map_of (st_objects st) i) of
        (Some _, Some a) \<Rightarrow> put_object i (a\<lparr>ab_running := False\<rparr>) st
      | _ \<Rightarrow> st)"

definition cleanupInactiveSubscriptions :: "subscriber_state \<Rightarrow> 'd world \<Rightarrow> subscriber_state \<times> 'd world" where
  "cleanupInactiveSubscriptions st w =
     (let (is, w) = inactive_subscriptions (map fst (st_subscriptions st)) st w;
          st = fold (\<lambda>i st. st\<lparr>st_subscriptions := mdel i (st_subscriptions st)\<rparr>) is st;
          st = fold cancel_registered is st
      in (st, w))"

definition cleanupExpiredMessages :: "'d subscriber \<Rightarrow> 'd world \<Rightarrow> 'd world" where
  "cleanupExpiredMessages s w = snd (MR_DeleteExpired (sb_messageRepo s) w)"

text \<open>A job of a goroutine; its error is only logged.\<close>

definition run_async :: "'d subscriber \<Rightarrow> async \<Rightarrow> 'd world \<Rightarrow> 'd world" where
  "run_async s j w =
     (case j of AStore m \<Rightarrow> snd (MR_Store (sb_messageRepo s) m w)
      | AMarkDelivered i c \<Rightarrow> snd (MR_MarkDelivered (sb_messageRepo s) i c w))"

end
