(* ===== verification/SubscriberSpec.thy ===== *)
theory SubscriberSpec
  imports Subscriber MapStore "HOL-Library.Multiset"
begin

text \<open>
  What the subscriber service guarantees: the invariant of its push subscriptions under calls,
  worker ticks and goroutines in any order, the dealing of partitions, the delivery of a push tick,
  and the places where it does not do what it means to.
\<close>

section \<open>Calls, ticks and goroutines as a step relation\<close>

inductive sub_step :: "'d subscriber \<Rightarrow> subscriber_state \<times> 'd world \<Rightarrow> subscriber_state \<times> 'd world \<Rightarrow> bool"
  for s :: "'d subscriber" where
  do_subscribe: "Subscribe s req st w = (r, st', w') \<Longrightarrow> sub_step s (st, w) (st', w')"
| do_unsubscribe: "Unsubscribe s sid st w = (e, st', w') \<Longrightarrow> sub_step s (st, w) (st', w')"
| do_pull: "Pull s preq st w = (p, st', w') \<Longrightarrow> sub_step s (st, w) (st', w')"
| do_group_pull: "PullWithConsumerGroup s greq st w = Some (p, st', w') \<Longrightarrow> sub_step s (st, w) (st', w')"
| do_acknowledge: "subscriber_Acknowledge s areq st w = (e, st', w') \<Longrightarrow> sub_step s (st, w) (st', w')"
| do_nack: "NegativeAcknowledge s nreq st w = (e, st', w') \<Longrightarrow> sub_step s (st, w) (st', w')"
| do_join: "JoinConsumerGroup s jreq st w = (j, st', w') \<Longrightarrow> sub_step s (st, w) (st', w')"
| do_leave: "LeaveConsumerGroup s g c st w = (st', w') \<Longrightarrow> sub_step s (st, w) (st', w')"
| do_push: "subscriptionWorker s sid st w = Some (st', w') \<Longrightarrow> sub_step s (st, w) (st', w')"
| do_receive: "receive sid st = Some (m, st') \<Longrightarrow> sub_step s (st, w) (st', w)"
| do_heartbeat: "processConsumerHeartbeats s st w = (st', w') \<Longrightarrow> sub_step s (st, w) (st', w')"
| do_rebalance: "processRebalancing s order st w = (st', w') \<Longrightarrow> sub_step s (st, w) (st', w')"
| do_cleanup: "cleanupInactiveSubscriptions st w = (st', w') \<Longrightarrow> sub_step s (st, w) (st', w')"
| do_async: "st_async st = js @ j # ks \<Longrightarrow>
    sub_step s (st, w) (st\<lparr>st_async := js @ ks\<rparr>, run_async s j w)"
| do_world: "sub_step s (st, w) (st, w')"

inductive sub_reachable :: "'d subscriber \<Rightarrow> subscriber_state \<Rightarrow> 'd world \<Rightarrow> bool" for s :: "'d subscriber" where
  sub_new: "NewSubscriber mr sr cr tr cfg = (s, st) \<Longrightarrow> sub_reachable s st w"
| sub_next: "sub_reachable s st w \<Longrightarrow> sub_step s (st, w) (st', w') \<Longrightarrow> sub_reachable s st' w'"

inductive_cases sub_stepE: "sub_step s (st, w) (st', w')"

section \<open>The invariant of the push subscriptions\<close>

text \<open>
  A channel never holds more than its capacity, a worker that runs has an open channel, and a
  subscription in the registry that has a channel has a worker.
\<close>

definition object_ok :: "active_subscription \<Rightarrow> bool" where
  "object_ok a \<longleftrightarrow> (\<forall>ch. ab_messageChan a = Some ch \<longrightarrow> length ch \<le> channelCapacity) \<and>
     (ab_running a \<longrightarrow> ab_messageChan a \<noteq> None \<and> \<not> ab_closed a)"

definition sub_inv :: "subscriber_state \<Rightarrow> bool" where
  "sub_inv st \<longleftrightarrow> (\<forall>i a. map_of (st_objects st) i = Some a \<longrightarrow> object_ok a) \<and>
     (\<forall>i. map_of (st_subscriptions st) i \<noteq> None \<longrightarrow>
        (\<exists>a. map_of (st_objects st) i = Some a \<and> (ab_messageChan a \<noteq> None \<longrightarrow> ab_running a)))"

text \<open>What an operation may do to an object: feed its channel, or stop it.\<close>

definition evolves :: "active_subscription \<Rightarrow> active_subscription \<Rightarrow> bool" where
  "evolves a b \<longleftrightarrow> ab_running b = ab_running a \<and> ab_closed b = ab_closed a \<and>
     (ab_messageChan b = None \<longleftrightarrow> ab_messageChan a = None) \<and> (object_ok a \<longrightarrow> object_ok b)"

lemma evolves_refl [simp]: "evolves a a"
  by (simp add: evolves_def)

lemma evolves_trans: "evolves a b \<Longrightarrow> evolves b c \<Longrightarrow> evolves a c"
  by (auto simp: evolves_def)

definition same_subs :: "subscriber_state \<Rightarrow> subscriber_state \<Rightarrow> bool" where
  "same_subs st st' \<longleftrightarrow> st_objects st' = st_objects st \<and> st_subscriptions st' = st_subscriptions st"

lemma same_subs_refl [simp]: "same_subs st st"
  by (simp add: same_subs_def)

lemma same_subs_trans: "same_subs a b \<Longrightarrow> same_subs b c \<Longrightarrow> same_subs a c"
  by (simp add: same_subs_def)

lemma same_subs_inv: "same_subs st st' \<Longrightarrow> sub_inv st \<Longrightarrow> sub_inv st'"
  by (simp add: same_subs_def sub_inv_def)

lemma same_subs_simps [simp]:
  "same_subs st (put_group n g st') = same_subs st st'" "same_subs st (go_async j st') = same_subs st st'"
  "same_subs st (triggerRebalance n st') = same_subs st st'" "same_subs st (st'\<lparr>st_async := js\<rparr>) = same_subs st st'"
  by (auto simp: same_subs_def put_group_def go_async_def triggerRebalance_def split: option.splits)

lemma same_subs_fold_async [simp]: "same_subs st (fold (\<lambda>m. go_async (f m)) ms st') = same_subs st st'"
  by (induction ms arbitrary: st') simp_all

lemma heartbeat_same: "updateConsumerHeartbeat g c st w = (st', w') \<Longrightarrow> same_subs st st'"
  by (auto simp: updateConsumerHeartbeat_def Let_def split: option.splits prod.splits)

lemma Pull_same: "Pull s req st w = (r, st', w') \<Longrightarrow> same_subs st st'"
  by (auto simp: Pull_def Let_def time_now_def uuid_new_def split: option.splits prod.splits sum.splits if_splits)

lemma PullWithConsumerGroup_same: "PullWithConsumerGroup s req st w = Some (r, st', w') \<Longrightarrow> same_subs st st'"
  by (auto simp: PullWithConsumerGroup_def Let_def time_now_def split: option.splits prod.splits sum.splits
      dest!: heartbeat_same) (simp add: same_subs_def, metis same_subs_def same_subs_fold_async same_subs_refl)+

lemma ack_same:
  "subscriber_Acknowledge s areq st w = (e, st', w') \<Longrightarrow> same_subs st st'"
  "NegativeAcknowledge s nreq st w = (e, st', w') \<Longrightarrow> same_subs st st'"
  by (auto simp: subscriber_Acknowledge_def NegativeAcknowledge_def updateSubscriptionStats_def Let_def time_now_def
      split: option.splits prod.splits)

lemma Join_same: "JoinConsumerGroup s req st w = (r, st', w') \<Longrightarrow> same_subs st st'"
  by (auto simp: JoinConsumerGroup_def Let_def time_now_def uuid_new_def
      split: option.splits prod.splits sum.splits if_splits)

lemma Leave_same: "LeaveConsumerGroup s g c st w = (st', w') \<Longrightarrow> same_subs st st'"
  by (auto simp: LeaveConsumerGroup_def Let_def split: option.splits prod.splits)

lemma remove_dead_same: "remove_dead s n is st w = (st', w') \<Longrightarrow> same_subs st st'"
proof (induction "is" arbitrary: st w)
  case (Cons i "is")
  obtain st1 w1 where 1: "removeDeadConsumer s n i st w = (st1, w1)" by fastforce
  then have "same_subs st st1"
    by (auto simp: removeDeadConsumer_def Let_def split: option.splits prod.splits)
  with Cons 1 show ?case using same_subs_trans by (auto simp: Let_def)
qed simp

lemma heartbeat_loop_same: "heartbeat_loop s ns st w = (st', w') \<Longrightarrow> same_subs st st'"
proof (induction ns arbitrary: st w)
  case (Cons n ns)
  show ?case
  proof (cases "map_of (st_groups st) n")
    case (Some g)
    obtain dead w1 where d: "dead_consumers (ag_consumers g) w = (dead, w1)" by fastforce
    obtain st1 w2 where r: "remove_dead s n dead st w1 = (st1, w2)" by fastforce
    have "same_subs (if dead \<noteq> [] then triggerRebalance n st1 else st1) st'"
      using Cons.prems Some d r by (intro Cons.IH [of _ w2]) (simp add: Let_def)
    moreover have "same_subs st (if dead \<noteq> [] then triggerRebalance n st1 else st1)"
      using remove_dead_same [OF r] by simp
    ultimately show ?thesis using same_subs_trans by blast
  qed (use Cons in simp)
qed simp

lemma rebalance_loop_same: "rebalance_loop s order ns st w = (st', w') \<Longrightarrow> same_subs st st'"
proof (induction ns arbitrary: st w)
  case (Cons n ns)
  show ?case
  proof (cases "map_of (st_groups st) n")
    case (Some g)
    show ?thesis
    proof (cases "ag_rebalancing g \<and> fst (time_now w) - ag_lastRebalance g > 5 * Second")
      case True
      with Cons.prems Some obtain g' w2 where "rebalance_loop s order ns (put_group n g' st) w2 = (st', w')"
        by (auto simp: Let_def split: prod.splits)
      from Cons.IH [OF this] show ?thesis by (simp add: same_subs_def put_group_def)
    next
      case False
      with Cons.prems Some obtain w2 where "rebalance_loop s order ns st w2 = (st', w')"
        by (auto simp: Let_def split: prod.splits if_splits)
      then show ?thesis by (rule Cons.IH)
    qed
  qed (use Cons in simp)
qed simp

lemmas same_subs_ops = Pull_same PullWithConsumerGroup_same ack_same Join_same Leave_same
  heartbeat_loop_same rebalance_loop_same

section \<open>The push worker\<close>

lemma deliver_message_evolves: "deliver_message m a st w = (b, st', w') \<Longrightarrow> evolves a b \<and> same_subs st st'"
  by (auto simp: deliver_message_def IncrementDelivered_def time_now_def Let_def evolves_def object_ok_def
      split: prod.splits option.splits if_splits)

lemma deliver_loop_evolves: "deliver_loop ms a st w = (b, st', w') \<Longrightarrow> evolves a b \<and> same_subs st st'"
proof (induction ms arbitrary: a st w)
  case (Cons m ms)
  obtain a1 st1 w1 where 1: "deliver_message m a st w = (a1, st1, w1)" by (metis surj_pair)
  with Cons.prems have "deliver_loop ms a1 st1 w1 = (b, st', w')" by (simp add: Let_def)
  from Cons.IH [OF this] deliver_message_evolves [OF 1] show ?case
    using evolves_trans same_subs_trans by blast
qed simp

text \<open>Replacing an object by one that it evolves to keeps the invariant.\<close>

lemma put_object_inv:
  "sub_inv st \<Longrightarrow> map_of (st_objects st) i = Some a \<Longrightarrow> evolves a b \<Longrightarrow> sub_inv (put_object i b st)"
  by (fastforce simp: sub_inv_def put_object_def evolves_def split: if_splits)

lemma worker_cases:
  assumes "subscriptionWorker s i st w = Some (st', w')"
  obtains (idle) "st' = st"
  | (ticked) a b st1 where "map_of (st_objects st) i = Some a" "ab_running a" "evolves a b" "same_subs st st1"
      "st' = put_object i b st1"
proof (cases "map_of (st_objects st) i")
  case (Some a)
  show thesis
  proof (cases "st' = st \<or> \<not> ab_running a")
    case True
    then show ?thesis using assms Some idle by (auto simp: subscriptionWorker_def)
  next
    case False
    with assms Some obtain ms w1 b st1 where "deliver_loop ms a st w1 = (b, st1, w')" "st' = put_object i b st1"
      by (auto simp: subscriptionWorker_def processSubscriptionMessages_def Let_def
          split: if_splits option.splits sum.splits prod.splits)
    with deliver_loop_evolves Some False ticked show ?thesis by metis
  qed
qed (use assms idle in \<open>auto simp: subscriptionWorker_def\<close>)

lemma worker_inv:
  assumes "subscriptionWorker s i st w = Some (st', w')" "sub_inv st"
  shows "sub_inv st'"
  using assms(1)
proof (cases rule: worker_cases)
  case (ticked a b st1)
  then have "sub_inv st1" "map_of (st_objects st1) i = Some a"
    using same_subs_inv assms(2) by (simp_all add: same_subs_def)
  with ticked show ?thesis by (simp add: put_object_inv)
qed (use assms in simp)

section \<open>The other operations\<close>

lemma Subscribe_inv: "Subscribe s req st w = (r, st', w') \<Longrightarrow> sub_inv st \<Longrightarrow> sub_inv st'"
  by (fastforce simp: Subscribe_def Let_def sub_inv_def put_object_def object_ok_def channelCapacity_def
      split: option.splits prod.splits sum.splits bool.splits if_splits)

lemma Unsubscribe_inv: "Unsubscribe s i st w = (e, st', w') \<Longrightarrow> sub_inv st \<Longrightarrow> sub_inv st'"
  by (fastforce simp: Unsubscribe_def Let_def sub_inv_def put_object_def object_ok_def
      split: option.splits prod.splits if_splits)

lemma receive_inv: "receive i st = Some (m, st') \<Longrightarrow> sub_inv st \<Longrightarrow> sub_inv st'"
  by (auto simp: receive_def evolves_def object_ok_def split: option.splits list.splits intro!: put_object_inv)

lemma unregister_inv: "sub_inv st \<Longrightarrow> sub_inv (st\<lparr>st_subscriptions := mdel i (st_subscriptions st)\<rparr>)"
  by (auto simp: sub_inv_def)

lemma fold_unregister:
  "sub_inv st \<Longrightarrow> sub_inv (fold (\<lambda>i st. st\<lparr>st_subscriptions := mdel i (st_subscriptions st)\<rparr>) is st)"
  by (induction "is" arbitrary: st) (simp_all add: unregister_inv)

text \<open>The second loop of the cleanup finds nothing to cancel.\<close>

lemma unregistered:
  "i \<in> set is \<Longrightarrow>
   map_of (st_subscriptions (fold (\<lambda>i st. st\<lparr>st_subscriptions := mdel i (st_subscriptions st)\<rparr>) is st)) i = None"
proof -
  have keep: "map_of (st_subscriptions st) i = None \<Longrightarrow>
      map_of (st_subscriptions (fold (\<lambda>i st. st\<lparr>st_subscriptions := mdel i (st_subscriptions st)\<rparr>) is st)) i = None"
    for st "is" by (induction "is" arbitrary: st) simp_all
  show "i \<in> set is \<Longrightarrow> ?thesis" by (induction "is" arbitrary: st) (auto simp: keep)
qed

lemma fold_cancel_nothing: "\<forall>i \<in> set is. map_of (st_subscriptions st) i = None \<Longrightarrow> fold cancel_registered is st = st"
  by (induction "is") (simp_all add: cancel_registered_def)

lemma cleanup_eq:
  "cleanupInactiveSubscriptions st w =
     (let (is, w) = inactive_subscriptions (map fst (st_subscriptions st)) st w
      in (fold (\<lambda>i st. st\<lparr>st_subscriptions := mdel i (st_subscriptions st)\<rparr>) is st, w))"
  by (simp add: cleanupInactiveSubscriptions_def Let_def unregistered fold_cancel_nothing split: prod.split)

lemma fold_unregister_objects [simp]:
  "st_objects (fold (\<lambda>i st. st\<lparr>st_subscriptions := mdel i (st_subscriptions st)\<rparr>) is st) = st_objects st"
  by (induction "is" arbitrary: st) simp_all

lemma sub_cleanup_inv: "cleanupInactiveSubscriptions st w = (st', w') \<Longrightarrow> sub_inv st \<Longrightarrow> sub_inv st'"
  by (auto simp: cleanup_eq Let_def fold_unregister split: prod.splits)

lemma sub_step_inv: "sub_step s (st, w) (st', w') \<Longrightarrow> sub_inv st \<Longrightarrow> sub_inv st'"
  by (elim sub_stepE)
    (auto simp: processConsumerHeartbeats_def processRebalancing_def
      intro: Subscribe_inv Unsubscribe_inv receive_inv worker_inv sub_cleanup_inv same_subs_inv
      dest!: same_subs_ops intro!: same_subs_inv [of st "st\<lparr>st_async := _\<rparr>"])

lemma sub_reachable_inv: "sub_reachable s st w \<Longrightarrow> sub_inv st"
proof (induction rule: sub_reachable.induct)
  case (sub_new mr sr cr tr cfg st w)
  then show ?case by (auto simp: NewSubscriber_def sub_inv_def)
qed (rule sub_step_inv)

section \<open>Workers that outlive their subscription\<close>

definition leaked :: "string \<Rightarrow> subscriber_state \<Rightarrow> bool" where
  "leaked i st \<longleftrightarrow> map_of (st_subscriptions st) i = None \<and>
     (\<exists>a. map_of (st_objects st) i = Some a \<and> ab_running a)"

lemma Subscribe_leaked:
  "Subscribe s req st w = (r, st', w') \<Longrightarrow> leaked i st \<Longrightarrow> map_of (st_subscriptions st') i = None \<Longrightarrow> leaked i st'"
  by (fastforce simp: Subscribe_def Let_def leaked_def put_object_def
      split: option.splits prod.splits sum.splits bool.splits if_splits)

lemma Unsubscribe_leaked: "Unsubscribe s j st w = (e, st', w') \<Longrightarrow> leaked i st \<Longrightarrow> leaked i st'"
  by (fastforce simp: Unsubscribe_def Let_def leaked_def put_object_def split: option.splits prod.splits if_splits)

lemma receive_leaked: "receive j st = Some (m, st') \<Longrightarrow> leaked i st \<Longrightarrow> leaked i st'"
  by (auto simp: receive_def leaked_def put_object_def split: option.splits list.splits)

lemma worker_leaked: "subscriptionWorker s j st w = Some (st', w') \<Longrightarrow> leaked i st \<Longrightarrow> leaked i st'"
  by (elim worker_cases) (auto simp: leaked_def put_object_def same_subs_def evolves_def)

lemma cleanup_leaked: "cleanupInactiveSubscriptions st w = (st', w') \<Longrightarrow> leaked i st \<Longrightarrow>
    map_of (st_subscriptions st') i = None \<Longrightarrow> leaked i st'"
  by (auto simp: cleanup_eq Let_def leaked_def split: prod.splits)

lemma same_subs_leaked: "same_subs st st' \<Longrightarrow> leaked i st \<Longrightarrow> leaked i st'"
  by (simp add: same_subs_def leaked_def)

lemmas leaked_ops = Unsubscribe_leaked receive_leaked worker_leaked same_subs_ops [THEN same_subs_leaked]

lemma sub_step_leaked:
  "sub_step s (st, w) (st', w') \<Longrightarrow> leaked i st \<Longrightarrow> map_of (st_subscriptions st') i = None \<Longrightarrow> leaked i st'"
  by (elim sub_stepE; (unfold processConsumerHeartbeats_def processRebalancing_def)?;
      (erule (2) Subscribe_leaked cleanup_leaked | erule (1) leaked_ops | simp add: leaked_def))

text \<open>Steps that leave an identifier unregistered.\<close>

definition step_without :: "string \<Rightarrow> 'd subscriber \<Rightarrow> subscriber_state \<times> 'd world \<Rightarrow> subscriber_state \<times> 'd world \<Rightarrow> bool" where
  "step_without i s x y \<longleftrightarrow> sub_step s x y \<and> map_of (st_subscriptions (fst y)) i = None"

lemma steps_leaked: "(step_without i s)\<^sup>*\<^sup>* x y \<Longrightarrow> leaked i (fst x) \<Longrightarrow> leaked i (fst y)"
proof (induction rule: rtranclp_induct)
  case (step y z)
  then show ?case using sub_step_leaked by (cases y; cases z) (auto simp: step_without_def)
qed

section \<open>Dealing the partitions\<close>

definition dealt :: "int \<Rightarrow> int \<Rightarrow> int \<Rightarrow> nat \<Rightarrow> int" where
  "dealt q r i n = int n * q + max 0 (min (int n) (r - i))"

lemma dealt_Suc: "dealt q r i (Suc n) = q + (if i < r then 1 else 0) + dealt q r (i + 1) n"
  by (simp add: dealt_def distrib_right min_def max_def)

lemma dealt_nonneg: "0 \<le> q \<Longrightarrow> 0 \<le> dealt q r i n"
  by (simp add: dealt_def)

lemma map_upto_append:
  "map (\<lambda>j. p + int j) [0..<a] @ map (\<lambda>j. p + int a + int j) [0..<b] = map (\<lambda>j. p + int j) [0..<a + b]"
  by (rule nth_equalityI) (simp_all add: nth_append)

lemma concat_deal:
  "0 \<le> q \<Longrightarrow> 0 \<le> p \<Longrightarrow> p + dealt q r i n < 2 ^ 31 \<Longrightarrow>
   concat (deal q r i p n) = map (\<lambda>j. p + int j) [0..<nat (dealt q r i n)]"
proof (induction n arbitrary: i p)
  case (Suc n)
  define k where "k = q + (if i < r then 1 else 0)"
  have k: "0 \<le> k" "dealt q r i (Suc n) = k + dealt q r (i + 1) n" "0 \<le> dealt q r (i + 1) n"
    using Suc.prems(1) by (simp_all add: k_def dealt_Suc dealt_nonneg)
  have "wrap32 (p + int j) = p + int j" if "j < nat k" for j
    using that k Suc.prems by (intro wrap32_id) auto
  then have "map (\<lambda>j. wrap32 (p + int j)) [0..<nat k] = map (\<lambda>j. p + int j) [0..<nat k]" by simp
  moreover have p: "wrap32 (p + max 0 k) = p + k" using k Suc.prems by (subst wrap32_id) auto
  moreover have "concat (deal q r (i + 1) (p + k) n) = map (\<lambda>j. p + k + int j) [0..<nat (dealt q r (i + 1) n)]"
    using k Suc.prems by (intro Suc.IH) auto
  ultimately have "concat (deal q r i p (Suc n)) =
      map (\<lambda>j. p + int j) [0..<nat k] @ map (\<lambda>j. p + int (nat k) + int j) [0..<nat (dealt q r (i + 1) n)]"
    using k(1) by (simp add: k_def [symmetric] Let_def)
  then show ?case unfolding map_upto_append k(2) using k by (simp add: nat_add_distrib)
qed (simp add: dealt_def)

lemma length_deal [simp]: "length (deal q r i p n) = n"
  by (induction n arbitrary: i p) (simp_all add: Let_def)

lemma length_deal_nth: "k < n \<Longrightarrow> length (deal q r i p n ! k) = nat (q + (if i + int k < r then 1 else 0))"
proof (induction n arbitrary: i p k)
  case (Suc n)
  then show ?case by (cases k) (simp_all add: Let_def algebra_simps)
qed simp

definition partitions_of :: "active_consumer gomap \<Rightarrow> string \<Rightarrow> int list" where
  "partitions_of cs i = (case map_of cs i of None \<Rightarrow> [] | Some c \<Rightarrow> c_Partitions (ac_consumer c))"

lemma set_partitions_other: "j \<notin> set is \<Longrightarrow> map_of (set_partitions is pss cs) j = map_of cs j"
  by (induction "is" pss cs rule: set_partitions.induct) (auto split: option.splits)

lemma set_partitions_dealt:
  "distinct is \<Longrightarrow> set is \<subseteq> dom (map_of cs) \<Longrightarrow> length pss = length is \<Longrightarrow>
   map (partitions_of (set_partitions is pss cs)) is = pss"
proof (induction "is" pss cs rule: set_partitions.induct)
  case (1 i "is" ps pss cs)
  then obtain c where c: "map_of cs i = Some c" by auto
  let ?cs = "mput i (c\<lparr>ac_consumer := (ac_consumer c)\<lparr>c_Partitions := ps\<rparr>\<rparr>) cs"
  have "map (partitions_of (set_partitions is pss ?cs)) is = pss"
    by (rule "1.IH" [unfolded c option.case]) (use "1.prems" in auto)
  moreover have "partitions_of (set_partitions is pss ?cs) i = ps"
    using "1.prems"(1) by (simp add: partitions_of_def set_partitions_other)
  ultimately show ?case using c by simp
qed auto

section \<open>What a push tick delivers\<close>

definition wanted :: "string \<Rightarrow> message \<Rightarrow> bool" where
  "wanted f m \<longleftrightarrow> f = '''' \<or> matchesFilter m f"

lemma deliver_message_wanted:
  assumes "deliver_message m a st w = (b, st', w')" "m_ExpiresAt m = None" "ab_messageChan a = Some ch"
  shows "s_Filter (ab_subscription b) = s_Filter (ab_subscription a) \<and>
    (\<exists>ch'. ab_messageChan b = Some ch' \<and> map m_ID ch' = map m_ID ch @
      (if wanted (s_Filter (ab_subscription a)) m \<and> length ch < channelCapacity then [m_ID m] else []))"
  using assms
  by (auto simp: deliver_message_def IsExpired_def IncrementDelivered_def time_now_def Let_def wanted_def
      split: if_splits prod.splits)

lemma deliver_loop_wanted:
  "deliver_loop ms a st w = (b, st', w') \<Longrightarrow> \<forall>m \<in> set ms. m_ExpiresAt m = None \<Longrightarrow>
   ab_messageChan a = Some ch \<Longrightarrow> s_Filter (ab_subscription a) = f \<Longrightarrow>
   \<exists>ch'. ab_messageChan b = Some ch' \<and> map m_ID ch' = map m_ID ch @
     take (channelCapacity - length ch) (map m_ID (filter (wanted f) ms))"
proof (induction ms arbitrary: a st w ch)
  case (Cons m ms)
  obtain a1 st1 w1 where 1: "deliver_message m a st w = (a1, st1, w1)" by (metis surj_pair)
  with Cons.prems obtain ch1 where ch1: "ab_messageChan a1 = Some ch1" "s_Filter (ab_subscription a1) = f"
    "map m_ID ch1 = map m_ID ch @ (if wanted f m \<and> length ch < channelCapacity then [m_ID m] else [])"
    using deliver_message_wanted [OF 1] by auto
  have "length ch1 = length ch + (if wanted f m \<and> length ch < channelCapacity then 1 else 0)"
    using arg_cong [OF ch1(3), of length] by simp
  moreover have "deliver_loop ms a1 st1 w1 = (b, st', w')" using Cons.prems(1) 1 by (simp add: Let_def)
  ultimately show ?case using Cons.IH [OF _ _ ch1(1,2)] Cons.prems(2) ch1(3)
    by (auto simp: take_Cons' split: if_splits)
qed simp

section \<open>Pulling\<close>

lemma valid_messages_all: "\<forall>m \<in> set ms. m_ExpiresAt m = None \<Longrightarrow> valid_messages ms w = (ms, w)"
  by (induction ms) (simp_all add: IsExpired_def)

lemma fold_go_async: "st_async (fold (\<lambda>m. go_async (AStore m)) ms st) = st_async st @ map AStore ms"
  by (induction ms arbitrary: st) (simp_all add: go_async_def)

section \<open>Properties\<close>


definition example_subscriber :: "map_db subscriber" where
  "example_subscriber = fst (NewSubscriber map_messages map_subscriptions map_groups map_topics default_broker)"

definition subscriber_state0 :: subscriber_state where
  "subscriber_state0 = snd (NewSubscriber map_messages map_subscriptions map_groups map_topics default_broker)"

definition topics_world :: "map_db world" where
  "topics_world = map_world\<lparr>db := (db map_world)\<lparr>md_topics :=
     [(''o'', fst (NewTopic ''o'' 5 map_world))],
     md_messages := [(''m'', zero_message\<lparr>m_ID := ''m'', m_Topic := ''o'', m_Status := StatusAcknowledged,
       m_ConsumerID := ''c''\<rparr>)]\<rparr>\<rparr>"

definition push_request :: subscribe_request where
  "push_request = \<lparr>sq_Topic = ''o'', sq_ConsumerGroup = '''', sq_ConsumerID = '''', sq_Type = TypePush,
     sq_AckDeadline = 0, sq_MaxRetries = 0, sq_DeadLetterTopic = '''', sq_Filter = '''', sq_Config = []\<rparr>"

definition pushing :: "subscribe_response res \<times> subscriber_state \<times> map_db world" where
  "pushing = Subscribe example_subscriber push_request subscriber_state0 topics_world"

lemmas subscriber_eval = example_subscriber_def subscriber_state0_def topics_world_def push_request_def
  NewSubscriber_def map_world_def map_stores time_now_def uuid_new_def Let_def NewTopic_def default_broker_def
  NewSubscription_def zero_subscription_def put_object_def sub_type_defs

lemma pushing_object: "\<exists>a. map_of (st_objects (fst (snd pushing))) ''u'' = Some a \<and> ab_running a \<and>
    ab_messageChan a = Some [] \<and> s_Filter (ab_subscription a) = '''' \<and> s_ConsumerGroup (ab_subscription a) = '''' \<and>
    s_Topic (ab_subscription a) = ''o'' \<and> IsActive (ab_subscription a) \<and> ab_lastActivity a = 1002 \<and>
    map_of (st_subscriptions (fst (snd pushing))) ''u'' = Some ()"
  by (simp add: pushing_def Subscribe_def validateSubscribeRequest_def subscriber_eval IsActive_def)

lemma pushing_reachable: "sub_reachable example_subscriber (fst (snd pushing)) (snd (snd pushing))"
proof (rule sub_next)
  show "sub_reachable example_subscriber subscriber_state0 topics_world"
    by (rule sub_new) (simp add: example_subscriber_def subscriber_state0_def)
  show "sub_step example_subscriber (subscriber_state0, topics_world) (fst (snd pushing), snd (snd pushing))"
    by (rule do_subscribe [of _ push_request _ _ "fst pushing"]) (simp add: pushing_def)
qed


text \<open>
  C16. What one tick of a push worker delivers. For a subscription without a consumer group, when the
  repository returns the messages \<open>ms\<close> (the first ten of the topic) and none has an expiry time, the
  tick appends to the channel, in order, the ones that match the filter, as many as fit. It asks
  neither whether a message was delivered before nor whether it was acknowledged, so that the next
  tick delivers them again.
\<close>

theorem push_tick_ignores_status:
  assumes "map_of (st_objects st) i = Some a" "ab_running a" "IsActive (ab_subscription a)"
    "s_ConsumerGroup (ab_subscription a) = ''''" "ab_messageChan a = Some ch"
    "MR_GetByTopic (sb_messageRepo s) (s_Topic (ab_subscription a)) 10 0 w = (Inr ms, w1)"
    "\<forall>m \<in> set ms. m_ExpiresAt m = None" "subscriptionWorker s i st w = Some (st', w')"
  shows "\<exists>b ch'. map_of (st_objects st') i = Some b \<and> ab_messageChan b = Some ch' \<and>
    map m_ID ch' = map m_ID ch @
      take (100 - length ch) (map m_ID (filter (wanted (s_Filter (ab_subscription a))) ms))"
proof -
  obtain b st1 where "deliver_loop ms a st w1 = (b, st1, w')" "st' = put_object i b st1"
    using assms(1-4,6,8)
    by (auto simp: subscriptionWorker_def processSubscriptionMessages_def Let_def split: prod.splits)
  with deliver_loop_wanted [OF this(1) assms(7,5)] show ?thesis
    by (auto simp: put_object_def channelCapacity_def)
qed

theorem push_tick_ignores_status_witness:
  "\<exists>st' w' b ch. subscriptionWorker example_subscriber ''u'' (fst (snd pushing)) topics_world = Some (st', w') \<and>
     map_of (st_objects st') ''u'' = Some b \<and> ab_messageChan b = Some ch \<and> map m_ID ch = [''m'']"
proof -
  obtain a where a: "map_of (st_objects (fst (snd pushing))) ''u'' = Some a" "ab_running a"
    "IsActive (ab_subscription a)" "s_ConsumerGroup (ab_subscription a) = ''''" "ab_messageChan a = Some []"
    "s_Topic (ab_subscription a) = ''o''" "s_Filter (ab_subscription a) = ''''"
    using pushing_object by blast
  let ?m = "zero_message\<lparr>m_ID := ''m'', m_Topic := ''o'', m_Status := StatusAcknowledged, m_ConsumerID := ''c''\<rparr>"
  have get: "MR_GetByTopic (sb_messageRepo example_subscriber) (s_Topic (ab_subscription a)) 10 0 topics_world
      = (Inr [?m], topics_world)"
    using a(6) by (simp add: subscriber_eval)
  obtain st' w' where t: "subscriptionWorker example_subscriber ''u'' (fst (snd pushing)) topics_world = Some (st', w')"
    using a(1-4) get by (cases "deliver_loop [?m] a (fst (snd pushing)) topics_world")
      (simp add: subscriptionWorker_def processSubscriptionMessages_def Let_def)
  have "m_ExpiresAt ?m = None" by (simp add: zero_message_def)
  with push_tick_ignores_status [OF a(1-5) get _ t] t a(7) show ?thesis by (auto simp: wanted_def)
qed

text \<open>
  C21. The cleanup of inactive subscriptions leaves their workers running for ever. If it unregisters
  a subscription with a running worker, the worker still runs afterwards, unsubscribing fails and
  changes nothing, and no step of the service stops it as long as the identifier is not registered
  again.
\<close>

theorem cleanup_leaks_workers:
  assumes "map_of (st_objects st) i = Some a" "ab_running a"
    "cleanupInactiveSubscriptions st w = (st', w')" "map_of (st_subscriptions st') i = None"
  shows "map_of (st_objects st') i = Some a \<and> (\<exists>e. Unsubscribe s i st' w2 = (Some e, st', w2)) \<and>
    (\<forall>y. (step_without i s)\<^sup>*\<^sup>* (st', w2) y \<longrightarrow> (\<exists>b. map_of (st_objects (fst y)) i = Some b \<and> ab_running b))"
proof -
  have o': "map_of (st_objects st') i = Some a" using assms(1,3) by (auto simp: cleanup_eq Let_def split: prod.splits)
  with assms(2,4) have "leaked i st'" by (simp add: leaked_def)
  then show ?thesis using o' assms(4) steps_leaked [of i s "(st', w2)"]
    by (auto simp: Unsubscribe_def leaked_def)
qed

definition late_world :: "map_db world" where
  "late_world = map_world\<lparr>clock := (\<lambda>n. 2 * Hour)\<rparr>"

theorem cleanup_leaks_workers_witness:
  "\<exists>st' w' a e. cleanupInactiveSubscriptions (fst (snd pushing)) late_world = (st', w') \<and>
     map_of (st_objects st') ''u'' = Some a \<and> ab_running a \<and>
     Unsubscribe example_subscriber ''u'' st' w' = (Some e, st', w')"
proof -
  obtain a where a: "map_of (st_objects (fst (snd pushing))) ''u'' = Some a" "ab_running a"
    using pushing_object by blast
  obtain st' w' where c: "cleanupInactiveSubscriptions (fst (snd pushing)) late_world = (st', w')" by fastforce
  then have "map_of (st_subscriptions st') ''u'' = None"
    by (auto simp: pushing_def Subscribe_def validateSubscribeRequest_def subscriber_eval late_world_def
        cleanupInactiveSubscriptions_def cancel_registered_def durations)
  from cleanup_leaks_workers [OF a c this, of example_subscriber w'] a c show ?thesis by blast
qed

text \<open>
  C15. A rebalance deals the partitions of the topic to the consumers completely and evenly: in the
  order in which the map of consumers is visited, the partitions they receive are \<open>0, 1, 2, \<dots>\<close> without
  gap or repetition up to the number of partitions, and no consumer has two more than another.
\<close>

theorem rebalance_deals_all_partitions:
  assumes "mset order = mset (map fst (ag_consumers g))" "wf_map (ag_consumers g)" "order \<noteq> []"
    "TR_Get (sb_topicRepo s) (cg_Topic (ag_group g)) w = (Inr t, w1)" "0 \<le> t_Partitions t" "t_Partitions t < 2 ^ 31"
    "rebalanceConsumerGroup s order g w = (g', w')"
  shows "concat (map (partitions_of (ag_consumers g')) order) = map int [0..<nat (t_Partitions t)] \<and>
    (\<forall>i \<in> set order. \<forall>j \<in> set order.
       length (partitions_of (ag_consumers g') i) \<le> Suc (length (partitions_of (ag_consumers g') j)))"
proof -
  let ?n = "int (length order)" and ?P = "t_Partitions t"
  define q r where "q = ?P div ?n" and "r = ?P mod ?n"
  have n: "0 < ?n" using assms(3) by simp
  have q: "?P sdiv ?n = q" and r: "?P smod ?n = r"
    using assms(5) n by (simp_all add: q_def r_def smod_nonneg signed_divide_int_def sgn_if)
  have qr: "0 \<le> q" "0 \<le> r" "r < ?n" using assms(5) n by (simp_all add: q_def r_def pos_imp_zdiv_nonneg_iff)
  have d: "distinct order" "set order \<subseteq> dom (map_of (ag_consumers g))"
    using assms(1,2) mset_eq_imp_distinct_iff [OF assms(1)] mset_eq_setD [OF assms(1)]
    by (auto simp: wf_map_def dom_map_of_conv_image_fst)
  have g': "ag_consumers g' = set_partitions order (deal q r 0 0 (length order)) (ag_consumers g)"
    using assms(3,4,7) by (auto simp: rebalanceConsumerGroup_def q r Let_def)
  have m: "map (partitions_of (ag_consumers g')) order = deal q r 0 0 (length order)"
    unfolding g' using d by (simp add: set_partitions_dealt)
  have tot: "dealt q r 0 (length order) = ?P" using qr n by (simp add: dealt_def q_def r_def)
  have "concat (map (partitions_of (ag_consumers g')) order) = map int [0..<nat ?P]"
    unfolding m using concat_deal [of q 0 r 0 "length order"] qr(1) assms(6) by (simp add: tot)
  moreover have "length (partitions_of (ag_consumers g') i) \<le> Suc (length (partitions_of (ag_consumers g') j))"
    if "i \<in> set order" "j \<in> set order" for i j
  proof -
    from that obtain a b where ab: "a < length order" "order ! a = i" "b < length order" "order ! b = j"
      by (metis in_set_conv_nth)
    have "length (partitions_of (ag_consumers g') (order ! k)) = nat (q + (if int k < r then 1 else 0))"
      if "k < length order" for k
      using arg_cong [OF m, of "\<lambda>xs. length (xs ! k)"] that by (simp add: length_deal_nth)
    with ab qr(1) show ?thesis by auto
  qed
  ultimately show ?thesis by blast
qed

definition example_group :: active_group where
  "example_group = \<lparr>ag_group = fst (NewConsumerGroup ''g'' ''o'' map_world),
     ag_consumers = map (\<lambda>i. (i, \<lparr>ac_consumer = \<lparr>c_ID = i, c_GroupID = ''g'', c_Partitions = [], c_LastHeartbeat = 0,
       c_Status = ConsumerActive, c_Metadata = []\<rparr>, ac_closed = False, ac_lastPull = 0\<rparr>)) [''a'', ''b'', ''c''],
     ag_rebalancing = True, ag_lastRebalance = zero_time\<rparr>"

theorem rebalance_deals_all_partitions_witness:
  "\<exists>g' w'. rebalanceConsumerGroup example_subscriber [''c'', ''a'', ''b''] example_group topics_world = (g', w') \<and>
     concat (map (partitions_of (ag_consumers g')) [''c'', ''a'', ''b'']) = [0, 1, 2, 3, 4]"
proof -
  obtain g' w' where g': "rebalanceConsumerGroup example_subscriber [''c'', ''a'', ''b''] example_group topics_world
      = (g', w')" by fastforce
  have t: "TR_Get (sb_topicRepo example_subscriber) (cg_Topic (ag_group example_group)) topics_world
      = (Inr (fst (NewTopic ''o'' 5 map_world)), topics_world)"
    by (simp add: subscriber_eval example_group_def NewConsumerGroup_def)
  have p: "t_Partitions (fst (NewTopic ''o'' 5 map_world)) = 5" by (simp add: NewTopic_def time_now_def Let_def)
  have "wf_map (ag_consumers example_group)" "mset [''c'', ''a'', ''b''] = mset (map fst (ag_consumers example_group))"
    by (simp_all add: example_group_def wf_map_def)
  from rebalance_deals_all_partitions [OF this(2,1) _ t _ _ g'] g' show ?thesis
    by (auto simp: p numeral_eq_Suc)
qed

text \<open>
  What a pull returns. When the repository returns the messages \<open>ms\<close> and none has an expiry time,
  the response carries exactly these, in order; with an acknowledgment deadline each is marked as
  delivered to one fresh consumer and a goroutine is started to store it. But \<open>NextOffset\<close> is taken
  from the field \<open>Offset\<close> of the last message, which no code ever sets: for messages as the
  publisher makes them it is 1 wherever the pull started.
\<close>

theorem pull_cursor_is_stuck:
  assumes "Pull s req st w = (Inr p, st', w')" "\<forall>m \<in> set ms. m_ExpiresAt m = None \<and> m_Offset m = 0"
    "(case pq_Partition req of
        Some k \<Rightarrow> MR_GetByTopicPartition (sb_messageRepo s) (pq_Topic req) k (case pq_Offset req of None \<Rightarrow> 0 | Some n \<Rightarrow> n) (pq_Limit req) w
      | None \<Rightarrow> MR_GetByTopic (sb_messageRepo s) (pq_Topic req) (pq_Limit req) (case pq_Offset req of None \<Rightarrow> 0 | Some n \<Rightarrow> n) w)
     = (Inr ms, w1)"
  shows "map m_ID (pl_Messages p) = map m_ID ms \<and> pl_NextOffset p = (if ms = [] then None else Some 1) \<and>
    pl_HasMore p = (int (length ms) = pq_Limit req) \<and>
    (0 < pq_AckDeadline req \<longrightarrow> st_async st' = st_async st @ map AStore (pl_Messages p) \<and>
       (\<exists>c. \<forall>m \<in> set (pl_Messages p). m_Status m = StatusDelivered \<and> m_ConsumerID m = c))"
proof -
  have v: "valid_messages ms w1 = (ms, w1)" using assms(2) by (simp add: valid_messages_all)
  have "validatePullRequest req = None" using assms(1) by (auto simp: Pull_def split: option.splits)
  moreover have "ms \<noteq> [] \<Longrightarrow> m_Offset (last ms) = 0" using assms(2) by simp
  ultimately show ?thesis using assms(1,3) v
    by (auto simp: Pull_def uuid_new_def time_now_def Let_def fold_go_async last_map comp_def wrap64_id
        split: if_splits)
qed

theorem pull_cursor_is_stuck_witness:
  "\<exists>p st' w'. Pull example_subscriber \<lparr>pq_Topic = ''o'', pq_Partition = None, pq_Offset = Some 7, pq_Limit = 10,
       pq_Timeout = 0, pq_AckDeadline = 5\<rparr> subscriber_state0 topics_world = (Inr p, st', w') \<and>
     map m_ID (pl_Messages p) = [''m''] \<and> pl_NextOffset p = Some 1"
proof -
  let ?req = "\<lparr>pq_Topic = ''o'', pq_Partition = None, pq_Offset = Some 7, pq_Limit = 10, pq_Timeout = 0, pq_AckDeadline = 5\<rparr>"
  let ?m = "zero_message\<lparr>m_ID := ''m'', m_Topic := ''o'', m_Status := StatusAcknowledged, m_ConsumerID := ''c''\<rparr>"
  have get: "(case pq_Partition ?req of
      Some k \<Rightarrow> MR_GetByTopicPartition (sb_messageRepo example_subscriber) (pq_Topic ?req) k (case pq_Offset ?req of None \<Rightarrow> 0 | Some n \<Rightarrow> n) (pq_Limit ?req) topics_world
    | None \<Rightarrow> MR_GetByTopic (sb_messageRepo example_subscriber) (pq_Topic ?req) (pq_Limit ?req) (case pq_Offset ?req of None \<Rightarrow> 0 | Some n \<Rightarrow> n) topics_world)
    = (Inr [?m], topics_world)"
    by (simp add: subscriber_eval)
  have m: "\<forall>m \<in> set [?m]. m_ExpiresAt m = None \<and> m_Offset m = 0" by (simp add: zero_message_def)
  have v: "valid_messages [?m] topics_world = ([?m], topics_world)"
    using m by (intro valid_messages_all) simp
  obtain p st' w' where p: "Pull example_subscriber ?req subscriber_state0 topics_world = (Inr p, st', w')"
    using get v by (simp add: Pull_def validatePullRequest_def uuid_new_def time_now_def Let_def del: valid_messages.simps)
  from pull_cursor_is_stuck [OF p m get] p show ?thesis by auto
qed

text \<open>
  The subscriber service lets any consumer acknowledge any message, unlike the acknowledgment
  service: when its \<open>Acknowledge\<close> succeeds on a stored message, the message is stored as acknowledged
  whoever asked.
\<close>

theorem any_consumer_can_acknowledge:
  assumes "message_store (sb_messageRepo s) stored" "stored (db w) (aq_MessageID req) m"
    "subscriber_Acknowledge s req st w = (None, st', w')"
  shows "\<exists>t. stored (db w') (aq_MessageID req) (m\<lparr>m_Status := StatusAcknowledged, m_AckedAt := Some t\<rparr>)"
proof -
  obtain a w1 where a: "MR_Acknowledge (sb_messageRepo s) a w1 = (None, w')" "a_MessageID a = aq_MessageID req"
    "a_Success a" "db w1 = db w"
    using assms(3) by (auto simp: subscriber_Acknowledge_def time_now_def Let_def split: prod.splits option.splits)
  with message_store.ack_ok [OF assms(1) a(1)] assms(2) show ?thesis by (auto simp: acked_def)
qed

theorem any_consumer_can_acknowledge_witness:
  "\<exists>st' w' m. subscriber_Acknowledge example_subscriber \<lparr>aq_MessageID = ''m'', aq_ConsumerID = ''thief'',
       aq_ConsumerGroup = ''''\<rparr> subscriber_state0 topics_world = (None, st', w') \<and>
     map_of (md_messages (db w')) ''m'' = Some m \<and> m_ConsumerID m = ''c'' \<and> m_Status m = StatusAcknowledged"
proof -
  let ?req = "\<lparr>aq_MessageID = ''m'', aq_ConsumerID = ''thief'', aq_ConsumerGroup = ''''\<rparr>"
  have s: "message_store (sb_messageRepo example_subscriber) (\<lambda>d i m. map_of (md_messages d) i = Some m)"
    using map_store.message_store_axioms by (simp add: example_subscriber_def NewSubscriber_def)
  obtain m where m: "map_of (md_messages (db topics_world)) (aq_MessageID ?req) = Some m" "m_ConsumerID m = ''c''"
    by (simp add: topics_world_def map_world_def)
  obtain st' w' where a: "subscriber_Acknowledge example_subscriber ?req subscriber_state0 topics_world = (None, st', w')"
    by (simp add: subscriber_Acknowledge_def subscriber_eval)
  from any_consumer_can_acknowledge [OF s m(1) a] a m(2) show ?thesis by auto
qed

text \<open>
  C39. The assignment by hash leaves partitions without a consumer: in a group of the consumers \<open>a\<close>
  and \<open>c\<close> both hashes are odd, so that a pull of the group gives neither of them any message of an
  even partition, although the read of the group has already consumed it.
\<close>

definition pair_group :: consumer_group where
  "pair_group = \<lparr>cg_Name = ''g'', cg_Topic = ''o'', cg_Consumers = map (\<lambda>i. (i, zero_consumer\<lparr>c_ID := i\<rparr>)) [''a'', ''c''],
     cg_RebalanceMethod = ''range'', cg_MaxConsumers = 100, cg_CreatedAt = 0, cg_UpdatedAt = 0\<rparr>"

theorem assignment_leaves_gaps:
  "shouldAssignToConsumer m i pair_group \<and> i \<in> fst ` set (cg_Consumers pair_group) \<longleftrightarrow>
     m_Partition m smod 2 = 1 \<and> i \<in> {''a'', ''c''}"
proof -
  have "consumer_hash (bytes_of ''a'') = 97" "consumer_hash (bytes_of ''c'') = 99"
    by (simp_all add: consumer_hash_def bytes_of_def wrap64_def of_char_of)
  then show ?thesis by (auto simp: shouldAssignToConsumer_def pair_group_def signed_modulo_int_def)
qed

end
