(* ===== verification/Metrics.thy ===== *)
theory Metrics
  imports Prelude Complex_Main
begin

text \<open>
  \<^verbatim>\<open>internal/adapters/metrics/prometheus/metrics.go\<close>: a registry of named collectors over that of the
  Prometheus library. Its \<open>MustRegister\<close> is a parameter on a state \<open>'g\<close>, \<open>None\<close> where it panics. A collector is
  what it was made of; of the functions of a \<open>CounterFunc\<close> or a \<open>GaugeFunc\<close> only the kind is kept.
  \<open>Handler\<close> and \<open>Run\<close> only call the library.
\<close>

record metric_opts =
  mo_Namespace :: string
  mo_Subsystem :: string
  mo_Name :: string
  mo_Help :: string

datatype collector =
    CounterMetric metric_opts
  | CounterFuncMetric metric_opts
  | CounterVecMetric metric_opts "string list"
  | GaugeMetric metric_opts
  | GaugeFuncMetric metric_opts
  | GaugeVecMetric metric_opts "string list"
  | SummaryMetric metric_opts "(rat \<times> rat) list"
  | SummaryVecMetric metric_opts "(rat \<times> rat) list" "string list"

text \<open>
  Which interfaces of the library the collectors implement: a gauge has all the methods of a counter.
\<close>

fun is_counter :: "collector \<Rightarrow> bool" where
  "is_counter (CounterMetric _) = True"
| "is_counter (GaugeMetric _) = True"
| "is_counter _ = False"

fun is_gauge :: "collector \<Rightarrow> bool" where
  "is_gauge (GaugeMetric _) = True"
| "is_gauge _ = False"

fun is_summary :: "collector \<Rightarrow> bool" where
  "is_summary (SummaryMetric _ _) = True"
| "is_summary _ = False"

record metrics =
  mx_namespace :: string
  mx_metrics :: "collector gomap"
  mx_countervecs :: "collector gomap"
  mx_guagevecs :: "collector gomap"
  mx_sumvecs :: "collector gomap"

definition DefObjectives :: "(rat \<times> rat) list" where
  "DefObjectives = [(1 / 2, 1 / 20), (9 / 10, 1 / 100), (19 / 20, 1 / 200), (99 / 100, 1 / 1000)]"

definition NewMetrics :: "string \<Rightarrow> metrics" where
  "NewMetrics namespace =
     \<lparr>mx_namespace = namespace, mx_metrics = [], mx_countervecs = [], mx_guagevecs = [], mx_sumvecs = []\<rparr>"

definition NewMetricsCollector :: metrics where
  "NewMetricsCollector = NewMetrics ''pubsubgo''"

definition metric_key :: "string \<Rightarrow> string \<Rightarrow> string" where
  "metric_key subsystem name = subsystem @ ''_'' @ name"

definition opts_of :: "metrics \<Rightarrow> string \<Rightarrow> string \<Rightarrow> string \<Rightarrow> metric_opts" where
  "opts_of m subsystem name help =
     \<lparr>mo_Namespace = mx_namespace m, mo_Subsystem = subsystem, mo_Name = name, mo_Help = help\<rparr>"

section \<open>Registering\<close>

text \<open>The collector is entered under its key, then registered with the library.\<close>

type_synonym 'g must_register = "collector \<Rightarrow> 'g \<Rightarrow> 'g option"

type_synonym 'g registering = "(collector \<times> metrics \<times> 'g) option"

definition register_metric ::
  "'g must_register \<Rightarrow> ((collector gomap \<Rightarrow> collector gomap) \<Rightarrow> metrics \<Rightarrow> metrics) \<Rightarrow> string \<Rightarrow> string \<Rightarrow> collector
    \<Rightarrow> metrics \<Rightarrow> 'g \<Rightarrow> 'g registering" where
  "register_metric reg upd subsystem name c m g =
     map_option (\<lambda>g. (c, upd (mput (metric_key subsystem name) c) m, g)) (reg c g)"

definition NewCounter :: "'g must_register \<Rightarrow> string \<Rightarrow> string \<Rightarrow> string \<Rightarrow> metrics \<Rightarrow> 'g \<Rightarrow> 'g registering" where
  "NewCounter reg subsystem name help m =
     register_metric reg mx_metrics_update subsystem name (CounterMetric (opts_of m subsystem name help)) m"

definition NewCounterFunc :: "'g must_register \<Rightarrow> string \<Rightarrow> string \<Rightarrow> string \<Rightarrow> metrics \<Rightarrow> 'g \<Rightarrow> 'g registering" where
  "NewCounterFunc reg subsystem name help m =
     register_metric reg mx_metrics_update subsystem name (CounterFuncMetric (opts_of m subsystem name help)) m"

definition NewCounterVec ::
  "'g must_register \<Rightarrow> string \<Rightarrow> string \<Rightarrow> string \<Rightarrow> string list \<Rightarrow> metrics \<Rightarrow> 'g \<Rightarrow> 'g registering" where
  "NewCounterVec reg subsystem name help labels m =
     register_metric reg mx_countervecs_update subsystem name (CounterVecMetric (opts_of m subsystem name help) labels) m"

definition NewGauge :: "'g must_register \<Rightarrow> string \<Rightarrow> string \<Rightarrow> string \<Rightarrow> metrics \<Rightarrow> 'g \<Rightarrow> 'g registering" where
  "NewGauge reg subsystem name help m =
     register_metric reg mx_metrics_update subsystem name (GaugeMetric (opts_of m subsystem name help)) m"

definition NewGaugeFunc :: "'g must_register \<Rightarrow> string \<Rightarrow> string \<Rightarrow> string \<Rightarrow> metrics \<Rightarrow> 'g \<Rightarrow> 'g registering" where
  "NewGaugeFunc reg subsystem name help m =
     register_metric reg mx_metrics_update subsystem name (GaugeFuncMetric (opts_of m subsystem name help)) m"

definition NewGaugeVec ::
  "'g must_register \<Rightarrow> string \<Rightarrow> string \<Rightarrow> string \<Rightarrow> string list \<Rightarrow> metrics \<Rightarrow> 'g \<Rightarrow> 'g registering" where
  "NewGaugeVec reg subsystem name help labels m =
     register_metric reg mx_guagevecs_update subsystem name (GaugeVecMetric (opts_of m subsystem name help) labels) m"

definition NewSummary :: "'g must_register \<Rightarrow> string \<Rightarrow> string \<Rightarrow> string \<Rightarrow> metrics \<Rightarrow> 'g \<Rightarrow> 'g registering" where
  "NewSummary reg subsystem name help m =
     register_metric reg mx_metrics_update subsystem name (SummaryMetric (opts_of m subsystem name help) DefObjectives) m"

definition NewSummaryVec ::
  "'g must_register \<Rightarrow> string \<Rightarrow> string \<Rightarrow> string \<Rightarrow> string list \<Rightarrow> metrics \<Rightarrow> 'g \<Rightarrow> 'g registering" where
  "NewSummaryVec reg subsystem name help labels m =
     register_metric reg mx_sumvecs_update subsystem name
       (SummaryVecMetric (opts_of m subsystem name help) DefObjectives labels) m"

section \<open>Looking up\<close>

text \<open>A type assertion panics for a missing entry and for one of another type; a missing vector is \<open>nil\<close>.\<close>

definition asserted :: "(collector \<Rightarrow> bool) \<Rightarrow> collector gomap \<Rightarrow> string \<Rightarrow> collector option" where
  "asserted is m k = (case map_of m k of None \<Rightarrow> None | Some c \<Rightarrow> if is c then Some c else None)"

definition get_Counter :: "string \<Rightarrow> string \<Rightarrow> metrics \<Rightarrow> collector option" where
  "get_Counter subsystem name m = asserted is_counter (mx_metrics m) (metric_key subsystem name)"

definition get_Gauge :: "string \<Rightarrow> string \<Rightarrow> metrics \<Rightarrow> collector option" where
  "get_Gauge subsystem name m = asserted is_gauge (mx_metrics m) (metric_key subsystem name)"

definition get_Summary :: "string \<Rightarrow> string \<Rightarrow> metrics \<Rightarrow> collector option" where
  "get_Summary subsystem name m = asserted is_summary (mx_metrics m) (metric_key subsystem name)"

definition get_CounterVec :: "string \<Rightarrow> string \<Rightarrow> metrics \<Rightarrow> collector option" where
  "get_CounterVec subsystem name m = map_of (mx_countervecs m) (metric_key subsystem name)"

definition get_GaugeVec :: "string \<Rightarrow> string \<Rightarrow> metrics \<Rightarrow> collector option" where
  "get_GaugeVec subsystem name m = map_of (mx_guagevecs m) (metric_key subsystem name)"

definition get_SummaryVec :: "string \<Rightarrow> string \<Rightarrow> metrics \<Rightarrow> collector option" where
  "get_SummaryVec subsystem name m = map_of (mx_sumvecs m) (metric_key subsystem name)"

section \<open>What was registered is found again\<close>

lemmas metrics_defs = NewCounter_def NewCounterFunc_def NewCounterVec_def NewGauge_def NewGaugeFunc_def NewGaugeVec_def
  NewSummary_def NewSummaryVec_def register_metric_def asserted_def get_Counter_def get_Gauge_def get_Summary_def
  get_CounterVec_def get_GaugeVec_def get_SummaryVec_def

lemma registered_is_found:
  "NewCounter reg s n h m g = Some (c, m', g') \<Longrightarrow> get_Counter s n m' = Some c \<and> get_Gauge s n m' = None"
  "NewGauge reg s n h m g = Some (c, m', g') \<Longrightarrow> get_Gauge s n m' = Some c \<and> get_Counter s n m' = Some c"
  "NewSummary reg s n h m g = Some (c, m', g') \<Longrightarrow> get_Summary s n m' = Some c \<and> get_Counter s n m' = None"
  "NewCounterFunc reg s n h m g = Some (c, m', g') \<Longrightarrow> get_Counter s n m' = None"
  "NewGaugeFunc reg s n h m g = Some (c, m', g') \<Longrightarrow> get_Gauge s n m' = None"
  "NewCounterVec reg s n h ls m g = Some (c, m', g') \<Longrightarrow> get_CounterVec s n m' = Some c"
  "NewGaugeVec reg s n h ls m g = Some (c, m', g') \<Longrightarrow> get_GaugeVec s n m' = Some c"
  "NewSummaryVec reg s n h ls m g = Some (c, m', g') \<Longrightarrow> get_SummaryVec s n m' = Some c"
  by (auto simp: metrics_defs)

text \<open>Subsystem and name are not told apart: a key of one pair is that of another one.\<close>

lemma keys_collide: "metric_key ''a'' ''b_c'' = metric_key ''a_b'' ''c''"
  by (simp add: metric_key_def)

end
