(* ===== verification/RedisTopics.thy ===== *)
theory RedisTopics
  imports RedisMessages
begin

text \<open>
  \<^verbatim>\<open>internal/adapters/storage/redis/topic_repository.go\<close>: the topic repository, and the proof that
  both repositories on one server keep the contract \<open>broker_store\<close>.
\<close>

section \<open>The operations\<close>

definition topicKey :: "string \<Rightarrow> string" where
  "topicKey n = ''topic:'' @ n"

definition topic_Create :: "(rcmd \<Rightarrow> 'd \<Rightarrow> rreply \<times> 'd) \<Rightarrow> topic \<Rightarrow> 'd world \<Rightarrow> go_error option \<times> 'd world" where
  "topic_Create exec t w =
     (let (r, w) = run exec (SET (topicKey (t_Name t)) (Doc (topic_json t)) 0) w
      in (case Err r of
            Some e \<Rightarrow> (Some (Wrap ''failed to store topic'' e), w)
          | None \<Rightarrow>
              (let (r, w) = run exec (SADD ''topics'' (t_Name t)) w
               in (wrap_err ''failed to add topic to set'' (Err r), w))))"

definition topic_Get :: "(rcmd \<Rightarrow> 'd \<Rightarrow> rreply \<times> 'd) \<Rightarrow> string \<Rightarrow> 'd world \<Rightarrow> topic res \<times> 'd world" where
  "topic_Get exec name w =
     (let (r, w) = run exec (GET (topicKey name)) w
      in (case reply_blob r of
            Inl e \<Rightarrow> (if e = redis_Nil then Inl (Errorf (''topic not found: '' @ name))
                      else Inl (Wrap ''failed to get topic'' e), w)
          | Inr data \<Rightarrow>
              (case Unmarshal topic_of_json data of
                 Inl e \<Rightarrow> (Inl (Wrap ''failed to unmarshal topic'' e), w)
               | Inr t \<Rightarrow> (Inr t, w))))"

definition topic_Update ::
  "(rcmd \<Rightarrow> 'd \<Rightarrow> rreply \<times> 'd) \<Rightarrow> topic \<Rightarrow> 'd world \<Rightarrow> go_error option \<times> topic \<times> 'd world" where
  "topic_Update exec t w =
     (let (now, w) = time_now w;
          t = t\<lparr>t_UpdatedAt := now\<rparr>;
          (r, w) = run exec (SET (topicKey (t_Name t)) (Doc (topic_json t)) 0) w
      in (wrap_err ''failed to update topic'' (Err r), t, w))"

fun del_each :: "(rcmd \<Rightarrow> 'd \<Rightarrow> rreply \<times> 'd) \<Rightarrow> string list \<Rightarrow> 'd world \<Rightarrow> 'd world" where
  "del_each exec [] w = w"
| "del_each exec (k # ks) w = del_each exec ks (snd (run exec (DEL [k]) w))"

definition topic_Delete :: "(rcmd \<Rightarrow> 'd \<Rightarrow> rreply \<times> 'd) \<Rightarrow> string \<Rightarrow> 'd world \<Rightarrow> go_error option \<times> 'd world" where
  "topic_Delete exec name w =
     (let (r, w) = run exec (SREM ''topics'' name) w
      in (case Err r of
            Some e \<Rightarrow> (Some (Wrap ''failed to remove topic from set'' e), w)
          | None \<Rightarrow>
              (let (r, w) = run exec (DEL [topicKey name]) w
               in (case Err r of
                     Some e \<Rightarrow> (Some (Wrap ''failed to delete topic'' e), w)
                   | None \<Rightarrow>
                       (let (r, w) = run exec (SCAN (''msg:'' @ name @ '':*'')) w
                        in (case r of
                              RKeys ks \<Rightarrow> (None, del_each exec ks w)
                            | _ \<Rightarrow> (None, w)))))))"

text \<open>Topics that cannot be read are skipped.\<close>

fun get_topics :: "(rcmd \<Rightarrow> 'd \<Rightarrow> rreply \<times> 'd) \<Rightarrow> string list \<Rightarrow> 'd world \<Rightarrow> topic list \<times> 'd world" where
  "get_topics exec [] w = ([], w)"
| "get_topics exec (n # ns) w =
     (let (r, w) = topic_Get exec n w; (ts, w) = get_topics exec ns w
      in (case r of Inl _ \<Rightarrow> (ts, w) | Inr t \<Rightarrow> (t # ts, w)))"

text \<open>
  A negative \<open>limit\<close> makes the capacity \<open>end-start\<close> of \<open>make\<close> negative, a negative \<open>offset\<close> an
  index out of range: the call panics.
\<close>

definition topic_List ::
  "(rcmd \<Rightarrow> 'd \<Rightarrow> rreply \<times> 'd) \<Rightarrow> int \<Rightarrow> int \<Rightarrow> 'd world \<Rightarrow> (topic list res \<times> 'd world) option" where
  "topic_List exec offset limit w =
     (let (r, w) = run exec (SMEMBERS ''topics'') w
      in (case reply_keys r of
            Inl e \<Rightarrow> Some (Inl (Wrap ''failed to list topics'' e), w)
          | Inr names \<Rightarrow>
              (let n = int (length names); e0 = wrap64 (offset + limit)
               in if offset > n then Some (Inr [], w)
                  else (let e = (if e0 > n then n else e0)
                        in if e - offset < 0 then None
                           else if offset < 0 \<and> offset < e then None
                           else (let (ts, w) = get_topics exec (take (nat (e - offset)) (drop (nat offset) names)) w
                                 in Some (Inr ts, w))))))"

definition topic_Exists :: "(rcmd \<Rightarrow> 'd \<Rightarrow> rreply \<times> 'd) \<Rightarrow> string \<Rightarrow> 'd world \<Rightarrow> bool res \<times> 'd world" where
  "topic_Exists exec name w =
     (let (r, w) = run exec (EXISTS (topicKey name)) w
      in (case reply_int r of
            Inl e \<Rightarrow> (Inl (Wrap ''failed to check topic existence'' e), w)
          | Inr n \<Rightarrow> (Inr (n > 0), w)))"

definition GetByPartition ::
  "(rcmd \<Rightarrow> 'd \<Rightarrow> rreply \<times> 'd) \<Rightarrow> int \<Rightarrow> 'd world \<Rightarrow> (topic list res \<times> 'd world) option" where
  "GetByPartition exec part w =
     map_option (\<lambda>(r, w). (map_sum id (filter (\<lambda>t. t_Partitions t > part)) r, w)) (topic_List exec 0 10000 w)"

definition IncrementMessageCount ::
  "(rcmd \<Rightarrow> 'd \<Rightarrow> rreply \<times> 'd) \<Rightarrow> string \<Rightarrow> int \<Rightarrow> 'd world \<Rightarrow> go_error option \<times> 'd world" where
  "IncrementMessageCount exec name delta w =
     (let (r, w) = run exec (INCRBY (''topic:stats:'' @ name @ '':messages'') delta) w
      in (wrap_err ''failed to increment message count'' (Err r), w))"

definition NewTopicRepository :: "(rcmd \<Rightarrow> 'd \<Rightarrow> rreply \<times> 'd) \<Rightarrow> 'd topic_repository" where
  "NewTopicRepository exec =
     \<lparr>TR_Create = topic_Create exec, TR_Get = topic_Get exec, TR_Update = topic_Update exec,
      TR_Delete = topic_Delete exec, TR_List = topic_List exec, TR_Exists = topic_Exists exec\<rparr>"

section \<open>The contract\<close>

definition topic_at :: "keyspace \<Rightarrow> string \<Rightarrow> topic \<Rightarrow> bool" where
  "topic_at ks n t \<longleftrightarrow> ks (topicKey n) = Some (VStr (Doc (topic_json t)), None)"

lemma topicKey_other [simp]:
  "topicKey n \<noteq> messageKey i" "messageKey i \<noteq> topicKey n" "topicKey n = topicKey k \<longleftrightarrow> n = k"
  "topicKey n \<noteq> ''topics''"
  by (simp_all add: topicKey_def messageKey_def)

text \<open>Commands that leave every topic document alone, because they write other keys or collections.\<close>

definition spares_topics :: "rcmd \<Rightarrow> bool" where
  "spares_topics c \<longleftrightarrow> (\<forall>n. topicKey n \<notin> set (doc_writes c))"

lemma spares_topics_simps [simp]:
  "spares_topics (SET (messageKey i) b t)" "spares_topics (ZADD k s m)" "spares_topics (RPUSH k x)"
  "spares_topics (HINCRBY k f n)" "spares_topics (EXPIRE (messageKey i) ttl)" "spares_topics (GET k)"
  "spares_topics (EXISTS k)" "spares_topics (SADD k x)"
  by (simp_all add: spares_topics_def)

lemma redis_ok_SET_topic:
  "redis_ok ks (SET (topicKey n) (Doc (topic_json t)) 0) r ks' \<Longrightarrow> topic_at ks' n t"
  by (simp add: redis_ok_def topic_at_def)

context redis_server
begin

lemma run_topic_frame:
  "run exec c w = (r, w') \<Longrightarrow> spares_topics c \<Longrightarrow> topic_at (abs (db w)) n t \<Longrightarrow> topic_at (abs (db w')) n t"
  using redis_result_doc_kept [OF run_result] by (simp add: topic_at_def spares_topics_def)

lemma pipeline_topic_frame:
  "pipeline exec cs w = (rs, w') \<Longrightarrow> (\<And>c. c \<in> set cs \<Longrightarrow> spares_topics c) \<Longrightarrow> topic_at (abs (db w)) n t \<Longrightarrow>
   topic_at (abs (db w')) n t"
proof (induction cs arbitrary: w rs)
  case (Cons c cs)
  obtain r w1 where r: "run exec c w = (r, w1)" by fastforce
  then have "topic_at (abs (db w1)) n t" using run_topic_frame Cons.prems by simp
  with Cons r show ?case by (auto simp: Let_def split: prod.splits)
qed simp

lemma expire_spares: "expire_cmds m w = (ex, w') \<Longrightarrow> c \<in> set ex \<Longrightarrow> spares_topics c"
  using set_expire_cmds [of m w ex w' c] by auto

lemma Store_topics:
  assumes "Store exec m w = (e, w')" "topic_at (abs (db w)) n t"
  shows "topic_at (abs (db w')) n t"
proof -
  obtain ex w1 where ex: "expire_cmds m w = (ex, w1)" by fastforce
  with assms obtain cs rs where p: "pipeline exec cs w1 = (rs, w')"
    and cs: "set cs \<subseteq> {SET (messageKey (m_ID m)) (Doc (message_ToJSON m)) 0,
        ZADD (topicMessagesKey (m_Topic m)) (float64_of_int (m_CreatedAt m)) (m_ID m),
        RPUSH (partitionKey (m_Topic m) (m_Partition m)) (m_ID m),
        HINCRBY (topicStatsKey (m_Topic m)) ''message_count'' 1,
        HINCRBY (topicStatsKey (m_Topic m)) ''bytes_in'' (int (length (m_Payload m)))} \<union> set ex"
    by (fastforce simp: Store_def Let_def simp del: pipeline.simps split: prod.splits if_splits)
  from cs have "spares_topics c" if "c \<in> set cs" for c
    using that expire_spares [OF ex] by auto
  with p assms(2) show ?thesis using pipeline_topic_frame db_expire_cmds [OF ex] by metis
qed

lemma batch_spares: "batch_cmds ms w = (cs, w') \<Longrightarrow> c \<in> set cs \<Longrightarrow> spares_topics c"
proof (induction ms arbitrary: w cs)
  case (Cons m ms)
  then show ?case by (auto simp: Let_def split: prod.splits dest: expire_spares)
qed simp

lemma db_batch_cmds: "batch_cmds ms w = (cs, w') \<Longrightarrow> db w' = db w"
  by (induction ms arbitrary: w cs) (auto simp: Let_def split: prod.splits dest: db_expire_cmds)

lemma StoreBatch_topics:
  "StoreBatch exec ms w = (e, w') \<Longrightarrow> topic_at (abs (db w)) n t \<Longrightarrow> topic_at (abs (db w')) n t"
  by (auto simp: StoreBatch_def Let_def split: prod.splits)
    (metis pipeline_topic_frame batch_spares db_batch_cmds)

lemma run_SET_topic:
  "run exec (SET (topicKey n) (Doc (topic_json t)) 0) w = (r, w') \<Longrightarrow> Err r = None \<Longrightarrow>
   topic_at (abs (db w')) n t"
  using redis_result_ok [OF run_result Err_None] redis_ok_SET_topic by metis

lemma run_SET_topic_any:
  assumes "run exec (SET (topicKey n) (Doc (topic_json t)) 0) w = (r, w')" "topic_at (abs (db w)) n x"
  shows "topic_at (abs (db w')) n x \<or> topic_at (abs (db w')) n t"
proof -
  from run_result [OF assms(1)] obtain ks1 where "expires (abs (db w)) ks1"
    and *: "abs (db w') = ks1 \<or> (\<exists>r. redis_ok ks1 (SET (topicKey n) (Doc (topic_json t)) 0) r (abs (db w')))"
    by (auto simp: redis_result_def)
  then have "topic_at ks1 n x" using assms(2) by (auto simp: topic_at_def dest: expires_fixed)
  with * show ?thesis by (auto dest: redis_ok_SET_topic)
qed

lemma topic_Create_ok: "topic_Create exec t w = (None, w') \<Longrightarrow> topic_at (abs (db w')) (t_Name t) t"
  by (auto simp: topic_Create_def Let_def split: prod.splits option.splits
      dest: run_SET_topic intro: run_topic_frame)

lemma topic_Get_ok:
  assumes "topic_Get exec n w = (Inr t, w')" "topic_at (abs (db w)) n x"
  shows "t = x"
proof -
  obtain r w1 where r: "run exec (GET (topicKey n)) w = (r, w1)" by fastforce
  with assms(1) obtain b where "r = RBlob b" "Unmarshal topic_of_json b = Inr t"
    by (cases r) (auto simp: topic_Get_def Let_def split: sum.splits if_splits)
  with r assms(2) show ?thesis
    by (auto dest!: run_GET simp: topic_at_def Unmarshal_def topic_json_cases split: option.splits if_splits)
qed

lemma db_topic_Get: "topic_Get exec n w = (r, w') \<Longrightarrow> \<exists>r0. run exec (GET (topicKey n)) w = (r0, w')"
  by (auto simp: topic_Get_def Let_def split: prod.splits sum.splits if_splits)

lemma topic_Update_run:
  assumes "topic_Update exec t w = (e, t', w')"
  obtains now w1 r where "t' = t\<lparr>t_UpdatedAt := now\<rparr>" "db w1 = db w" "e = None \<longleftrightarrow> Err r = None"
    "run exec (SET (topicKey (t_Name t)) (Doc (topic_json t')) 0) w1 = (r, w')"
proof -
  obtain now w1 where t: "time_now w = (now, w1)" by fastforce
  obtain r w2 where r: "run exec (SET (topicKey (t_Name t)) (Doc (topic_json (t\<lparr>t_UpdatedAt := now\<rparr>))) 0) w1 = (r, w2)"
    by fastforce
  show thesis
    by (rule that [of now w1 r]) (use assms t r in \<open>auto simp: topic_Update_def wrap_err_def dest: time_now_db\<close>)
qed

lemma topic_Update_time: "topic_Update exec t w = (e, t', w') \<Longrightarrow> \<exists>now. t' = t\<lparr>t_UpdatedAt := now\<rparr>"
  by (elim topic_Update_run) blast

lemma topic_Update_ok:
  "topic_Update exec t w = (None, t', w') \<Longrightarrow> topic_at (abs (db w')) (t_Name t) t'"
  by (elim topic_Update_run) (auto dest: run_SET_topic)

lemma topic_Update_any:
  assumes "topic_Update exec t w = (e, t', w')" "topic_at (abs (db w)) (t_Name t) x"
  shows "topic_at (abs (db w')) (t_Name t) x \<or> topic_at (abs (db w')) (t_Name t) t'"
  using assms by (elim topic_Update_run) (metis run_SET_topic_any)

lemma topic_Update_messages:
  assumes "topic_Update exec t w = (e, t', w')" "msg_at (abs (db w)) i m"
  shows "msg_at (abs (db w')) i m"
  using assms by (elim topic_Update_run) (auto simp: harmless_def dest: run_harmless [of _ _ _ _ i m])

lemma topic_Create_messages:
  assumes "topic_Create exec t w = (e, w')" "msg_at (abs (db w)) i m"
  shows "msg_at (abs (db w')) i m"
proof -
  obtain r w1 where r: "run exec (SET (topicKey (t_Name t)) (Doc (topic_json t)) 0) w = (r, w1)" by fastforce
  then have "msg_at (abs (db w1)) i m" using run_harmless assms(2) by (simp add: harmless_def)
  moreover have "w' = w1 \<or> (\<exists>r. run exec (SADD ''topics'' (t_Name t)) w1 = (r, w'))"
    using assms(1) r by (auto simp: topic_Create_def Let_def split: prod.splits option.splits)
  moreover have "harmless i m (SADD ''topics'' (t_Name t))"
    by (simp add: harmless_def messageKey_def)
  ultimately show ?thesis using run_harmless by blast
qed

lemma topic_Get_messages:
  "topic_Get exec n w = (r, w') \<Longrightarrow> msg_at (abs (db w)) i m \<Longrightarrow> msg_at (abs (db w')) i m"
  using db_topic_Get [of n w r w'] run_harmless [of "GET (topicKey n)" w _ w' i m]
  by (auto simp: harmless_def)

lemma topic_Get_frame:
  "topic_Get exec n w = (r, w') \<Longrightarrow> topic_at (abs (db w)) k x \<Longrightarrow> topic_at (abs (db w')) k x"
  using db_topic_Get [of n w r w'] run_topic_frame [of "GET (topicKey n)" w _ w' k x] by auto

lemma topic_Exists_ok:
  assumes "topic_Exists exec n w = (Inr b, w')" "topic_at (abs (db w)) n x"
  shows b
proof -
  obtain r w1 where r: "run exec (EXISTS (topicKey n)) w = (r, w1)" by fastforce
  with assms(1) obtain k where k: "r = RInt k" "b \<longleftrightarrow> k > 0"
    by (cases r) (auto simp: topic_Exists_def Let_def split: sum.splits)
  obtain ks1 where "expires (abs (db w)) ks1" "redis_ok ks1 (EXISTS (topicKey n)) r (abs (db w1))"
    using redis_result_ok [OF run_result [OF r]] k by blast
  with assms(2) k show ?thesis by (auto simp: topic_at_def redis_ok_def dest: expires_fixed)
qed

end

sublocale redis_server \<subseteq> broker: broker_store "NewMessageRepository exec" "\<lambda>d. msg_at (abs d)"
    "NewTopicRepository exec" "\<lambda>d. topic_at (abs d)"
  by unfold_locales
    (auto simp: NewMessageRepository_def NewTopicRepository_def
      dest: topic_Create_ok topic_Update_time topic_Update_ok topic_Update_any topic_Get_ok topic_Get_frame topic_Exists_ok
        Store_topics StoreBatch_topics topic_Update_messages topic_Create_messages topic_Get_messages)

section \<open>Deleting a topic\<close>

text \<open>A key that matches a pattern has at least the colons of the pattern.\<close>

lemma glob_colons: "glob p s \<Longrightarrow> count_list p CHR '':'' \<le> count_list s CHR '':''"
proof (induction p s rule: glob.induct)
  case (2 p ps s)
  show ?case
  proof (cases s)
    case Nil
    with 2 show ?thesis by (auto split: if_splits)
  next
    case (Cons c cs)
    show ?thesis
    proof (cases "p = CHR ''*''")
      case True
      with 2 Cons show ?thesis by (auto simp: le_SucI split: if_splits)
    next
      case False
      with 2 Cons show ?thesis by (auto simp: le_SucI)
    qed
  qed
qed simp

lemma scanned_keys_spare:
  "CHR '':'' \<notin> set i \<Longrightarrow> \<not> glob (''msg:'' @ n @ '':*'') (messageKey i)"
  using glob_colons [of "''msg:'' @ n @ '':*''" "messageKey i"]
  by (auto simp: messageKey_def count_list_0_iff)

context redis_server
begin

lemma del_each_messages:
  "msg_at (abs (db w)) i m \<Longrightarrow> messageKey i \<notin> set keys \<Longrightarrow> msg_at (abs (db (del_each exec keys w))) i m"
proof (induction keys arbitrary: w)
  case (Cons k keys)
  obtain r w1 where r: "run exec (DEL [k]) w = (r, w1)" by fastforce
  then have "msg_at (abs (db w1)) i m" using run_harmless Cons.prems by (simp add: harmless_def)
  with Cons r show ?case by simp
qed simp

lemma run_SCAN: "run exec (SCAN pat) w = (RKeys keys, w') \<Longrightarrow> k \<in> set keys \<Longrightarrow> glob pat k"
  using redis_result_ok [OF run_result, of "SCAN pat" w "RKeys keys" w'] by (auto simp: redis_ok_def)

lemma topic_Delete_messages:
  assumes "topic_Delete exec n w = (e, w')" "msg_at (abs (db w)) i m" "CHR '':'' \<notin> set i"
  shows "msg_at (abs (db w')) i m"
proof -
  obtain r1 w1 where r1: "run exec (SREM ''topics'' n) w = (r1, w1)" by fastforce
  obtain r2 w2 where r2: "run exec (DEL [topicKey n]) w1 = (r2, w2)" by fastforce
  obtain r3 w3 where r3: "run exec (SCAN (''msg:'' @ n @ '':*'')) w2 = (r3, w3)" by fastforce
  have 1: "msg_at (abs (db w1)) i m"
    using run_harmless [OF r1] assms(2) by (simp add: harmless_def messageKey_def)
  then have 2: "msg_at (abs (db w2)) i m" using run_harmless [OF r2] by (simp add: harmless_def)
  then have 3: "msg_at (abs (db w3)) i m" using run_harmless [OF r3] by (simp add: harmless_def)
  have "messageKey i \<notin> set keys" if "r3 = RKeys keys" for keys
    using run_SCAN [of _ w2 keys w3] r3 that scanned_keys_spare [OF assms(3)] by blast
  with 3 have "msg_at (abs (db (del_each exec keys w3))) i m" if "r3 = RKeys keys" for keys
    using that del_each_messages by blast
  with assms(1) r1 r2 r3 1 2 3 show ?thesis
    by (cases r3) (auto simp: topic_Delete_def split: option.splits)
qed

lemma index_overwritten:
  assumes "topic_Create exec t w = (None, w1)" "t_Name t = n @ '':messages''"
  shows "\<exists>e. fst (CountByTopic exec n w1) = Inl e"
proof -
  have key: "topicKey (t_Name t) = topicMessagesKey n"
    using assms(2) by (simp add: topicKey_def topicMessagesKey_def)
  have at: "abs (db w1) (topicMessagesKey n) = Some (VStr (Doc (topic_json t)), None)"
    using topic_Create_ok [OF assms(1)] key by (simp add: topic_at_def)
  obtain r w2 where r: "run exec (ZCARD (topicMessagesKey n)) w1 = (r, w2)" by fastforce
  have "r \<noteq> RInt k" for k
  proof
    assume "r = RInt k"
    with run_result [OF r] obtain ks1 where e: "expires (abs (db w1)) ks1"
      and ok: "redis_ok ks1 (ZCARD (topicMessagesKey n)) (RInt k) (abs (db w2))" by (auto simp: redis_result_def)
    from expires_fixed [OF e at] ok show False by (simp add: redis_ok_def wrongtype_def)
  qed
  with r show ?thesis by (cases r) (auto simp: CountByTopic_def)
qed

lemma broker_contract:
  "broker_store (NewMessageRepository exec) (\<lambda>d. msg_at (abs d)) (NewTopicRepository exec) (\<lambda>d. topic_at (abs d))"
  by (rule broker.broker_store_axioms)

end

section \<open>Properties\<close>

text \<open>
  C28. The Redis adapters keep the contract of the services: on every server that behaves as
  documented the message and the topic repository store, return, update and acknowledge what they
  were given, leave all other messages and topics alone, and neither disturbs the other.
\<close>

theorem redis_repositories_keep_contract:
  assumes "redis_server exec ks"
  shows "broker_store (NewMessageRepository exec) (\<lambda>d. msg_at (ks d))
    (NewTopicRepository exec) (\<lambda>d. topic_at (ks d))"
  using assms by (rule redis_server.broker_contract)

theorem redis_repositories_keep_contract_witness:
  "broker_store (NewMessageRepository mem_exec) (\<lambda>d. msg_at (map_of d))
    (NewTopicRepository mem_exec) (\<lambda>d. topic_at (map_of d))"
  using redis_repositories_keep_contract [OF mem_server.redis_server_axioms] .

text \<open>
  Deleting a topic deletes none of its messages: \<open>Delete\<close> looks for keys \<open>msg:<topic>:*\<close>, but
  messages are kept under \<open>msg:<id>\<close>. Every message whose identifier has no colon (all those
  that the publisher creates) is still stored afterwards, whatever its topic.
\<close>

theorem deleting_topic_keeps_messages:
  assumes "redis_server exec ks" "topic_Delete exec n w = (e, w')"
    "msg_at (ks (db w)) i m" "CHR '':'' \<notin> set i"
  shows "msg_at (ks (db w')) i m"
  using assms by (rule redis_server.topic_Delete_messages)

theorem deleting_topic_keeps_messages_witness:
  "\<exists>w'. topic_Delete mem_exec ''o'' example_stored = (None, w') \<and> msg_at (map_of (db w')) ''u'' example_message"
proof -
  have at: "msg_at (map_of (db example_stored)) ''u'' example_message"
    using redis_server.Store_stored [OF mem_server.redis_server_axioms example_Store]
    by (simp add: example_message_def)
  obtain e w' where d: "topic_Delete mem_exec ''o'' example_stored = (e, w')" by fastforce
  moreover have "fst (topic_Delete mem_exec ''o'' example_stored) = None"
    by (simp add: topic_Delete_def topicKey_def example_stored_def Store_def mem_eval example_message_def
        zero_message_def)
  ultimately show ?thesis
    using deleting_topic_keeps_messages [OF mem_server.redis_server_axioms d at] by auto
qed

text \<open>
  Topic names and index keys share one name space: creating a topic named \<open><n>:messages\<close>
  overwrites the message index of topic \<open>n\<close> with a document, and from then on counting the
  messages of \<open>n\<close> fails.
\<close>

theorem topic_name_destroys_index:
  assumes "redis_server exec ks" "topic_Create exec t w = (None, w1)" "t_Name t = n @ '':messages''"
  shows "\<exists>e. fst (CountByTopic exec n w1) = Inl e"
  using assms by (rule redis_server.index_overwritten)

theorem topic_name_destroys_index_witness:
  "fst (CountByTopic mem_exec ''o'' example_stored) = Inr 1 \<and>
   (\<exists>t w1 e. t_Name t = ''o:messages'' \<and> topic_Create mem_exec t example_stored = (None, w1)
      \<and> fst (CountByTopic mem_exec ''o'' w1) = Inl e)"
proof -
  define t where "t = fst (NewTopic ''o:messages'' 1 example_stored)"
  define w1 where "w1 = snd (topic_Create mem_exec t example_stored)"
  have n: "t_Name t = ''o'' @ '':messages''" by (simp add: t_def NewTopic_def time_now_def)
  have c: "topic_Create mem_exec t example_stored = (None, w1)"
    unfolding w1_def t_def
    by (simp add: topic_Create_def NewTopic_def topicKey_def example_stored_def Store_def mem_eval
        example_message_def zero_message_def)
  have "fst (CountByTopic mem_exec ''o'' example_stored) = Inr 1"
    by (simp add: CountByTopic_def example_stored_def Store_def mem_eval example_message_def zero_message_def)
  with c n topic_name_destroys_index [OF mem_server.redis_server_axioms c n] show ?thesis by auto
qed

end
