(* ===== verification/Compression.thy ===== *)
theory Compression
  imports Json Complex_Main
begin

text \<open>
  \<^verbatim>\<open>internal/services/publisher/compression.go\<close>: the compressors, the choice between them and the
  heuristic that recognises compressed data. The codecs themselves are libraries, a parameter.
  Floating-point numbers of the heuristic are rationals: the rounding is not modelled.
\<close>

section \<open>Compressors\<close>

text \<open>
  The library calls: a writer is created, takes the data and is closed, which yields the contents
  of the buffer; a reader is created and read to its end.
\<close>

record codecs =
  snappy_Encode :: "bytes \<Rightarrow> bytes"
  snappy_Decode :: "bytes \<Rightarrow> bytes res"
  gzip_NewWriterLevel :: "int \<Rightarrow> go_error option"
  gzip_Write :: "int \<Rightarrow> bytes \<Rightarrow> go_error option"
  gzip_Close :: "int \<Rightarrow> bytes \<Rightarrow> bytes res"
  gzip_NewReader :: "bytes \<Rightarrow> go_error option"
  gzip_ReadAll :: "bytes \<Rightarrow> bytes res"
  lz4_Write :: "bytes \<Rightarrow> go_error option"
  lz4_Close :: "bytes \<Rightarrow> bytes res"
  lz4_ReadAll :: "bytes \<Rightarrow> bytes res"

record compressor =
  Compress :: "bytes \<Rightarrow> bytes res"
  Decompress :: "bytes \<Rightarrow> bytes res"
  compressor_Type :: string

definition noopCompressor :: compressor where
  "noopCompressor = \<lparr>Compress = Inr, Decompress = Inr, compressor_Type = ''none''\<rparr>"

definition snappyCompressor :: "codecs \<Rightarrow> compressor" where
  "snappyCompressor l = \<lparr>Compress = (\<lambda>d. Inr (snappy_Encode l d)), Decompress = snappy_Decode l,
     compressor_Type = ''snappy''\<rparr>"

definition wrap_res :: "string \<Rightarrow> 'a res \<Rightarrow> 'a res" where
  "wrap_res s r = map_sum (Wrap s) id r"

definition gzip_Compress :: "codecs \<Rightarrow> int \<Rightarrow> bytes \<Rightarrow> bytes res" where
  "gzip_Compress l level d =
     (case gzip_NewWriterLevel l level of
        Some e \<Rightarrow> Inl (Wrap ''failed to create gzip writer'' e)
      | None \<Rightarrow>
          (case gzip_Write l level d of
             Some e \<Rightarrow> Inl (Wrap ''failed to write data'' e)
           | None \<Rightarrow> wrap_res ''failed to close writer'' (gzip_Close l level d)))"

definition gzip_Decompress :: "codecs \<Rightarrow> bytes \<Rightarrow> bytes res" where
  "gzip_Decompress l d =
     (case gzip_NewReader l d of
        Some e \<Rightarrow> Inl (Wrap ''failed to create gzip reader'' e)
      | None \<Rightarrow> wrap_res ''failed to decompress data'' (gzip_ReadAll l d))"

definition gzipCompressor :: "codecs \<Rightarrow> int \<Rightarrow> compressor" where
  "gzipCompressor l level = \<lparr>Compress = gzip_Compress l level, Decompress = gzip_Decompress l,
     compressor_Type = ''gzip''\<rparr>"

definition lz4_Compress :: "codecs \<Rightarrow> bytes \<Rightarrow> bytes res" where
  "lz4_Compress l d =
     (case lz4_Write l d of
        Some e \<Rightarrow> Inl (Wrap ''failed to write data'' e)
      | None \<Rightarrow> wrap_res ''failed to close writer'' (lz4_Close l d))"

definition lz4_Decompress :: "codecs \<Rightarrow> bytes \<Rightarrow> bytes res" where
  "lz4_Decompress l d = wrap_res ''failed to decompress data'' (lz4_ReadAll l d)"

definition lz4Compressor :: "codecs \<Rightarrow> compressor" where
  "lz4Compressor l = \<lparr>Compress = lz4_Compress l, Decompress = lz4_Decompress l,
     compressor_Type = ''lz4''\<rparr>"

definition NewCompressor :: "codecs \<Rightarrow> string \<Rightarrow> int \<Rightarrow> compressor" where
  "NewCompressor l compressionType level =
     (if compressionType = ''snappy'' then snappyCompressor l
      else if compressionType = ''gzip'' then gzipCompressor l level
      else if compressionType = ''lz4'' then lz4Compressor l
      else noopCompressor)"

text \<open>What a compressor promises, and what it needs of the libraries.\<close>

locale lossless =
  fixes c :: compressor
  assumes decompress_compress: "Compress c d = Inr e \<Longrightarrow> Decompress c e = Inr d"
begin

lemma compress_inj: "Compress c d = Inr e \<Longrightarrow> Compress c d' = Inr e \<Longrightarrow> d = d'"
  using decompress_compress by (metis sum.inject(2))

end

locale lossless_codecs =
  fixes l :: codecs
  assumes snappy: "snappy_Decode l (snappy_Encode l d) = Inr d"
    and gzip: "gzip_NewWriterLevel l level = None \<Longrightarrow> gzip_Write l level d = None \<Longrightarrow> gzip_Close l level d = Inr e \<Longrightarrow>
      gzip_NewReader l e = None \<and> gzip_ReadAll l e = Inr d"
    and lz4: "lz4_Write l d = None \<Longrightarrow> lz4_Close l d = Inr e \<Longrightarrow> lz4_ReadAll l e = Inr d"

sublocale lossless_codecs \<subseteq> chosen: lossless "NewCompressor l compressionType level"
  for compressionType level
proof
  fix d e
  have *: "map_sum (Wrap s) id r = Inr x \<longleftrightarrow> r = Inr x" for s and r :: "bytes res" and x
    by (cases r) auto
  show "Compress (NewCompressor l compressionType level) d = Inr e \<Longrightarrow>
      Decompress (NewCompressor l compressionType level) e = Inr d"
    by (auto simp: NewCompressor_def noopCompressor_def snappyCompressor_def gzipCompressor_def
        lz4Compressor_def gzip_Compress_def gzip_Decompress_def lz4_Compress_def lz4_Decompress_def
        wrap_res_def snappy gzip lz4 * split: if_splits option.splits)
qed

context lossless_codecs
begin

lemma NewCompressor_lossless:
  "Compress (NewCompressor l compressionType level) d = Inr e \<Longrightarrow>
   Decompress (NewCompressor l compressionType level) e = Inr d"
  by (rule chosen.decompress_compress)

end

text \<open>Codecs that store the data behind one marker byte.\<close>

definition marker_codecs :: codecs where
  "marker_codecs = \<lparr>snappy_Encode = (\<lambda>d. 115 # d),
     snappy_Decode = (\<lambda>e. case e of [] \<Rightarrow> Inl (Errorf ''corrupt'') | x # d \<Rightarrow> Inr d),
     gzip_NewWriterLevel = (\<lambda>n. if - 2 \<le> n \<and> n \<le> 9 then None else Some (Errorf ''invalid level'')),
     gzip_Write = (\<lambda>n d. None), gzip_Close = (\<lambda>n d. Inr (31 # d)),
     gzip_NewReader = (\<lambda>e. if e = [] then Some (Errorf ''EOF'') else None),
     gzip_ReadAll = (\<lambda>e. Inr (tl e)), lz4_Write = (\<lambda>d. None), lz4_Close = (\<lambda>d. Inr (4 # d)),
     lz4_ReadAll = (\<lambda>e. Inr (tl e))\<rparr>"

interpretation marker: lossless_codecs marker_codecs
  by unfold_locales (auto simp: marker_codecs_def)

section \<open>The heuristic\<close>

record compression_stats =
  cs_OriginalSize :: int
  cs_CompressedSize :: int
  cs_CompressionRatio :: rat
  cs_Type :: string

definition GetCompressionStats :: "bytes \<Rightarrow> bytes \<Rightarrow> string \<Rightarrow> compression_stats" where
  "GetCompressionStats original compressed compressionType =
     (let originalSize = int (length original); compressedSize = int (length compressed)
      in \<lparr>cs_OriginalSize = originalSize, cs_CompressedSize = compressedSize,
          cs_CompressionRatio =
            (if originalSize > 0 then of_int compressedSize / of_int originalSize else 0),
          cs_Type = compressionType\<rparr>)"

definition logNatural :: "rat \<Rightarrow> rat" where
  "logNatural x =
     (if x \<le> 0 then 0
      else (let y = (x - 1) / (x + 1); y2 = y * y
            in 2 * y * (1 + y2 / 3 + y2 * y2 / 5 + y2 * y2 * y2 / 7)))"

definition log2 :: "rat \<Rightarrow> rat" where
  "log2 x = 6931471805599453 / 10000000000000000 * logNatural x"

definition byte_freq :: "bytes \<Rightarrow> 8 word \<Rightarrow> nat" where
  "byte_freq data b = count_list data b"

text \<open>The map of frequencies has a key for every byte of the data.\<close>

definition calculateEntropy :: "bytes \<Rightarrow> rat" where
  "calculateEntropy data =
     (if data = [] then 0
      else sum_list (map (\<lambda>b. let p = of_nat (byte_freq data b) / of_nat (length data) in - (p * log2 p))
             (remdups data)))"

definition isLikelyCompressed :: "bytes \<Rightarrow> bool" where
  "isLikelyCompressed data =
     (if length data < 10 then False
      else if data ! 0 = 0x1f \<and> data ! 1 = 0x8b then True
      else if take 8 data = [0x89, 0x50, 0x4E, 0x47, 0x0D, 0x0A, 0x1A, 0x0A] then True
      else if data ! 0 = 0xFF \<and> data ! 1 = 0xD8 then True
      else if take 4 data = [0x50, 0x4B, 0x03, 0x04] then True
      else calculateEntropy (take (min (length data) 1024) data) > 7)"

definition ShouldCompress :: "bytes \<Rightarrow> string \<Rightarrow> int \<Rightarrow> bool" where
  "ShouldCompress data compressionType minSize =
     (if compressionType = ''none'' \<or> compressionType = '''' then False
      else if int (length data) < minSize then False
      else if isLikelyCompressed data then False
      else True)"

text \<open>For frequencies the approximation of the logarithm stays above \<open>-352/105\<close>.\<close>

lemma logNatural_bound: "0 < x \<Longrightarrow> x \<le> 1 \<Longrightarrow> - (352 / 105) \<le> logNatural x \<and> logNatural x \<le> 0"
proof -
  assume x: "0 < x" "x \<le> 1"
  define y where "y = (x - 1) / (x + 1)"
  have y: "- 1 \<le> y" "y \<le> 0" using x by (simp_all add: y_def field_simps)
  then have y2: "0 \<le> y * y" "y * y \<le> 1" using mult_mono [of "- y" 1 "- y" 1] by simp_all
  then have y4: "0 \<le> y * y * (y * y)" "y * y * (y * y) \<le> 1"
    using mult_mono [of "y * y" 1 "y * y" 1] by simp_all
  with y2 have y6: "0 \<le> y * y * (y * y) * (y * y)" "y * y * (y * y) * (y * y) \<le> 1"
    using mult_mono [of "y * y * (y * y)" 1 "y * y" 1] by simp_all
  define s where "s = 1 + y * y / 3 + y * y * (y * y) / 5 + y * y * (y * y) * (y * y) / 7"
  have s: "0 \<le> s" "s \<le> 176 / 105" using y2 y4 y6 by (simp_all add: s_def)
  have "- y * s \<le> 1 * (176 / 105)" using y s by (intro mult_mono) simp_all
  moreover have "0 \<le> - y * s" using y s by (simp add: mult_nonpos_nonneg)
  moreover have "logNatural x = 2 * y * s" using x by (simp add: logNatural_def Let_def y_def [symmetric] s_def)
  ultimately show ?thesis by (simp add: mult.commute)
qed

lemma sum_byte_freq: "sum_list (map (\<lambda>b. byte_freq data b) (remdups data)) = length data"
  using sum_count_set [of data "set data"]
  by (simp add: byte_freq_def sum_list_distinct_conv_sum_set)

lemma entropy_bound: "calculateEntropy data < 3"
proof (cases "data = []")
  case False
  let ?p = "\<lambda>b. of_nat (byte_freq data b) / of_nat (length data) :: rat"
  have bound: "- (?p b * log2 (?p b)) \<le> 7 / 3 * ?p b" if "b \<in> set (remdups data)" for b
  proof -
    have "0 < byte_freq data b" "byte_freq data b \<le> length data"
      using that count_le_length [of data b] by (simp_all add: byte_freq_def count_list_0_iff zero_less_iff_neq_zero)
    with False have "0 < ?p b" "?p b \<le> 1" by simp_all
    then have "- log2 (?p b) \<le> 7 / 3" "0 \<le> ?p b" using logNatural_bound [of "?p b"] by (simp_all add: log2_def)
    then have "?p b * - log2 (?p b) \<le> ?p b * (7 / 3)" by (rule mult_left_mono)
    then show ?thesis by simp
  qed
  have "calculateEntropy data = sum_list (map (\<lambda>b. - (?p b * log2 (?p b))) (remdups data))"
    using False by (simp add: calculateEntropy_def Let_def)
  also have "\<dots> \<le> sum_list (map (\<lambda>b. 7 / 3 * ?p b) (remdups data))"
    using bound by (rule sum_list_mono)
  also have "\<dots> = 7 / 3 * (of_nat (sum_list (map (byte_freq data) (remdups data))) / of_nat (length data))"
    by (simp add: sum_list_distinct_conv_sum_set sum_distrib_left [symmetric] sum_divide_distrib [symmetric])
  also have "\<dots> = 7 / 3" using False sum_byte_freq [of data] by simp
  finally show ?thesis by simp
qed (simp add: calculateEntropy_def)

section \<open>Properties\<close>



text \<open>
  C39. The entropy test of \<open>isLikelyCompressed\<close> never fires: \<open>log2\<close> multiplies by \<open>ln 2\<close> instead
  of dividing, so the entropy it computes stays below 3, far from the threshold of 7. Data counts
  as compressed exactly when it has ten bytes and starts with one of the four magic numbers.
\<close>

theorem only_magic_numbers_count:
  "isLikelyCompressed data \<longleftrightarrow> 10 \<le> length data \<and>
     (prefix [0x1f, 0x8b] data \<or> prefix [0x89, 0x50, 0x4E, 0x47, 0x0D, 0x0A, 0x1A, 0x0A] data
      \<or> prefix [0xFF, 0xD8] data \<or> prefix [0x50, 0x4B, 0x03, 0x04] data)"
proof (cases "length data < 10")
  case False
  then have "data = data ! 0 # data ! 1 # drop 2 data"
    by (metis Cons_nth_drop_Suc One_nat_def drop0 less_trans linorder_not_less numeral_2_eq_2
        one_less_numeral_iff order_less_le_trans semiring_norm(76) zero_less_numeral)
  then have "prefix [a, b] data \<longleftrightarrow> data ! 0 = a \<and> data ! 1 = b" for a b by (metis Cons_prefix_Cons Nil_prefix)
  moreover have *: "take n data = xs \<longleftrightarrow> prefix xs data" if "length xs = n" for n xs
    using that by (auto simp: prefix_def intro: exI [of _ "drop n data"]) (metis append_take_drop_id)
  have "take 4 data = [0x50, 0x4B, 0x03, 0x04] \<longleftrightarrow> prefix [0x50, 0x4B, 0x03, 0x04] data"
    "take 8 data = [0x89, 0x50, 0x4E, 0x47, 0x0D, 0x0A, 0x1A, 0x0A]
      \<longleftrightarrow> prefix [0x89, 0x50, 0x4E, 0x47, 0x0D, 0x0A, 0x1A, 0x0A] data"
    by (rule *; simp)+
  moreover have "\<not> calculateEntropy xs > 7" for xs using entropy_bound [of xs] by simp
  ultimately show ?thesis using False by (auto simp: isLikelyCompressed_def)
qed (simp add: isLikelyCompressed_def)

end
