(* ===== verification/Publisher.thy ===== *)
theory Publisher
  imports RedisTopics Config Compression
begin

text \<open>
  \<^verbatim>\<open>internal/services/publisher/publisher.go\<close>: publishing one message or a batch, creating,
  deleting and listing topics. The repositories are those of \<open>Ports\<close>; the theorems hold for every
  pair that keeps the contract \<open>broker_store\<close>, and the Redis adapters do. \<open>None\<close> is a panic: the
  partition of a message is computed modulo the number of partitions of its topic, which may be 0.
  The logger has no effect here.
\<close>

section \<open>Requests and responses\<close>

record publish_request =
  pr_Topic :: string
  pr_Key :: bytes
  pr_Payload :: bytes
  pr_Headers :: "string gomap"
  pr_Priority :: int
  pr_DeliveryMode :: int
  pr_TTL :: "int option"
  pr_Partition :: "int option"

record publish_response =
  pp_MessageID :: string
  pp_Topic :: string
  pp_Partition :: int
  pp_Offset :: int
  pp_Timestamp :: int
  pp_Compressed :: bool

record message_batch =
  mb_Key :: bytes
  mb_Payload :: bytes
  mb_Headers :: "string gomap"
  mb_Priority :: int
  mb_DeliveryMode :: int
  mb_TTL :: "int option"

record batch_publish_request =
  br_Topic :: string
  br_Messages :: "message_batch list"

record batch_publish_response =
  bp_Published :: int
  bp_Failed :: int
  bp_MessageIDs :: "string list"
  bp_Responses :: "publish_response list"
  bp_Errors :: "string list"

record create_topic_request =
  ct_Name :: string
  ct_Partitions :: int
  ct_Replication :: int
  ct_RetentionTime :: int
  ct_MaxSize :: int
  ct_Config :: "json gomap option"

record topic_stats =
  ts_Topic :: string
  ts_Partitions :: int
  ts_Messages :: int
  ts_Consumers :: int
  ts_Rate :: string
  ts_Size :: string
  ts_BytesIn :: int
  ts_BytesOut :: int
  ts_CreatedAt :: int
  ts_UpdatedAt :: int

record topic_info =
  ti_Name :: string
  ti_Partitions :: int
  ti_MessageCount :: int
  ti_RetentionTime :: int
  ti_CreatedAt :: int
  ti_Config :: "json gomap"

record 'd publisher =
  ps_messageRepo :: "'d message_repository"
  ps_topicRepo :: "'d topic_repository"
  ps_config :: broker_config
  ps_compressor :: compressor

definition NewPublisher ::
  "codecs \<Rightarrow> 'd message_repository \<Rightarrow> 'd topic_repository \<Rightarrow> broker_config \<Rightarrow> 'd publisher" where
  "NewPublisher l mr tr cfg =
     \<lparr>ps_messageRepo = mr, ps_topicRepo = tr, ps_config = cfg,
      ps_compressor = NewCompressor l (bc_CompressionType cfg) (bc_CompressionLevel cfg)\<rparr>"

section \<open>Helpers\<close>

definition validatePublishRequest :: "'d publisher \<Rightarrow> publish_request \<Rightarrow> go_error option" where
  "validatePublishRequest s req =
     (if pr_Topic req = '''' then Some (Errorf ''topic cannot be empty'')
      else if length (pr_Payload req) = 0 then Some (Errorf ''payload cannot be empty'')
      else if int (length (pr_Payload req)) > wrap64 (bc_MaxMessageBatchSize (ps_config s) * 1024)
      then Some (Errorf ''payload too large'')
      else None)"

definition validateBatchMessage :: "message_batch \<Rightarrow> go_error option" where
  "validateBatchMessage m =
     (if length (mb_Payload m) = 0 then Some (Errorf ''payload cannot be empty'') else None)"

definition hash :: "bytes \<Rightarrow> int" where
  "hash data =
     (let h = foldl (\<lambda>h b. wrap64 (h * 31 + uint b)) 0 data in if h < 0 then wrap64 (- h) else h)"

definition shouldCompress :: "'d publisher \<Rightarrow> bytes \<Rightarrow> bool" where
  "shouldCompress s payload \<longleftrightarrow>
     bc_CompressionType (ps_config s) \<noteq> ''none'' \<and> length payload > 1024"

definition publisher_CreateTopic ::
  "'d publisher \<Rightarrow> create_topic_request \<Rightarrow> 'd world \<Rightarrow> go_error option \<times> 'd world" where
  "publisher_CreateTopic s req w =
     (case TR_Exists (ps_topicRepo s) (ct_Name req) w of
        (Inl e, w) \<Rightarrow> (Some (Wrap ''failed to check topic existence'' e), w)
      | (Inr True, w) \<Rightarrow> (Some (Errorf (''topic '' @ ct_Name req @ '' already exists'')), w)
      | (Inr False, w) \<Rightarrow>
          (let partitions = (if ct_Partitions req \<le> 0 then bc_DefaultPartitions (ps_config s) else ct_Partitions req);
               replication = (if ct_Replication req \<le> 0 then bc_DefaultReplication (ps_config s) else ct_Replication req);
               retention = (if ct_RetentionTime req \<le> 0 then 24 * Hour else ct_RetentionTime req);
               (t, w) = NewTopic (ct_Name req) partitions w;
               t = t\<lparr>t_Replication := replication, t_RetentionTime := retention\<rparr>;
               t = (if ct_MaxSize req > 0 then t\<lparr>t_MaxSize := ct_MaxSize req\<rparr> else t);
               t = (case ct_Config req of None \<Rightarrow> t | Some c \<Rightarrow> t\<lparr>t_Config := c\<rparr>);
               (e, w) = TR_Create (ps_topicRepo s) t w
           in (map_option (Wrap ''failed to create topic'') e, w)))"

definition ensureTopicExists :: "'d publisher \<Rightarrow> string \<Rightarrow> 'd world \<Rightarrow> topic res \<times> 'd world" where
  "ensureTopicExists s topicName w =
     (case TR_Get (ps_topicRepo s) topicName w of
        (Inr t, w) \<Rightarrow> (Inr t, w)
      | (Inl _, w) \<Rightarrow>
          (case publisher_CreateTopic s
              \<lparr>ct_Name = topicName, ct_Partitions = bc_DefaultPartitions (ps_config s), ct_Replication = 0,
               ct_RetentionTime = 0, ct_MaxSize = 0, ct_Config = None\<rparr> w of
             (Some e, w) \<Rightarrow> (Inl e, w)
           | (None, w) \<Rightarrow> TR_Get (ps_topicRepo s) topicName w))"

text \<open>The partition of a message without one: by its key, or else by its identifier.\<close>

definition choose_partition :: "publish_request \<Rightarrow> string \<Rightarrow> topic \<Rightarrow> int option" where
  "choose_partition req mid t =
     (case pr_Partition req of
        Some p \<Rightarrow> Some p
      | None \<Rightarrow>
          if t_Partitions t = 0 then None
          else Some (wrap32 (hash (if length (pr_Key req) > 0 then pr_Key req else bytes_of mid)
                               smod t_Partitions t)))"

definition createMessage ::
  "'d publisher \<Rightarrow> publish_request \<Rightarrow> topic \<Rightarrow> 'd world \<Rightarrow> (message \<times> 'd world) option" where
  "createMessage s req t w =
     (let (mid, w) = uuid_new w;
          (now, w) = time_now w;
          m = zero_message\<lparr>m_ID := mid, m_Topic := pr_Topic req, m_Key := pr_Key req,
                m_Payload := pr_Payload req, m_Headers := pr_Headers req, m_Priority := pr_Priority req,
                m_DeliveryMode := pr_DeliveryMode req, m_Status := StatusPending,
                m_MaxRetries := bc_MaxRetries (ps_config s), m_CreatedAt := now\<rparr>;
          m = (if m_Priority m = 0 then m\<lparr>m_Priority := PriorityNormal\<rparr> else m);
          m = (if m_DeliveryMode m = 0 then m\<lparr>m_DeliveryMode := DeliveryAtLeastOnce\<rparr> else m);
          (m, w) = (case pr_TTL req of
                      None \<Rightarrow> (m, w)
                    | Some ttl \<Rightarrow> (let (now, w) = time_now w in (m\<lparr>m_ExpiresAt := Some (now + ttl)\<rparr>, w)))
      in map_option (\<lambda>p. (m\<lparr>m_Partition := p\<rparr>, w)) (choose_partition req mid t))"

text \<open>The payload is compressed when that is enabled and succeeds.\<close>

definition compress_message :: "'d publisher \<Rightarrow> bytes \<Rightarrow> message \<Rightarrow> message" where
  "compress_message s payload m =
     (if shouldCompress s payload
      then (case Compress (ps_compressor s) payload of
              Inl _ \<Rightarrow> m
            | Inr c \<Rightarrow> m\<lparr>m_Payload := c, m_Compressed := True,
                        m_CompressionType := bc_CompressionType (ps_config s)\<rparr>)
      else m)"

definition response_of :: "message \<Rightarrow> publish_response" where
  "response_of m = \<lparr>pp_MessageID = m_ID m, pp_Topic = m_Topic m, pp_Partition = m_Partition m,
     pp_Offset = m_Offset m, pp_Timestamp = m_CreatedAt m, pp_Compressed = m_Compressed m\<rparr>"

section \<open>The service\<close>

definition Publish ::
  "'d publisher \<Rightarrow> publish_request \<Rightarrow> 'd world \<Rightarrow> (publish_response res \<times> 'd world) option" where
  "Publish s req w =
     (case validatePublishRequest s req of
        Some e \<Rightarrow> Some (Inl (Wrap ''invalid publish request'' e), w)
      | None \<Rightarrow>
          (case ensureTopicExists s (pr_Topic req) w of
             (Inl e, w) \<Rightarrow> Some (Inl (Wrap ''failed to ensure topic exists'' e), w)
           | (Inr t, w) \<Rightarrow>
               (case createMessage s req t w of
                  None \<Rightarrow> None
                | Some (m, w) \<Rightarrow>
                    (let m = compress_message s (pr_Payload req) m
                     in (case MR_Store (ps_messageRepo s) m w of
                           (Some e, w) \<Rightarrow> Some (Inl (Wrap ''failed to store message'' e), w)
                         | (None, w) \<Rightarrow>
                             (let (t, w) = IncrementMessages 1 t w;
                                  t = AddBytesIn (int (length (pr_Payload req))) t;
                                  (e, t, w) = TR_Update (ps_topicRepo s) t w
                              in Some (Inr (response_of m), w)))))))"

text \<open>The request that the batch makes of one of its messages.\<close>

definition batch_request :: "string \<Rightarrow> message_batch \<Rightarrow> publish_request" where
  "batch_request topicName mb =
     \<lparr>pr_Topic = topicName, pr_Key = mb_Key mb, pr_Payload = mb_Payload mb, pr_Headers = mb_Headers mb,
      pr_Priority = mb_Priority mb, pr_DeliveryMode = mb_DeliveryMode mb, pr_TTL = mb_TTL mb,
      pr_Partition = None\<rparr>"

text \<open>The loop over the batch: the messages, the responses, the errors and the bytes taken in.\<close>

record batch_state =
  bs_messages :: "message list"
  bs_errors :: "string list"
  bs_published :: int
  bs_failed :: int
  bs_bytesIn :: int

fun batch_loop ::
  "'d publisher \<Rightarrow> string \<Rightarrow> topic \<Rightarrow> nat \<Rightarrow> message_batch list \<Rightarrow> batch_state \<Rightarrow> 'd world
    \<Rightarrow> (batch_state \<times> 'd world) option" where
  "batch_loop s topicName t i [] b w = Some (b, w)"
| "batch_loop s topicName t i (mb # mbs) b w =
     (case validateBatchMessage mb of
        Some e \<Rightarrow> batch_loop s topicName t (Suc i) mbs
          (b\<lparr>bs_errors := bs_errors b @ [''message '' @ itoa (int i) @ '': '' @ Error e],
             bs_failed := bs_failed b + 1\<rparr>) w
      | None \<Rightarrow>
          (case createMessage s (batch_request topicName mb) t w of
             None \<Rightarrow> None
           | Some (m, w) \<Rightarrow>
               batch_loop s topicName t (Suc i) mbs
                 (b\<lparr>bs_messages := bs_messages b @ [compress_message s (mb_Payload mb) m],
                    bs_bytesIn := wrap64 (bs_bytesIn b + int (length (mb_Payload mb))),
                    bs_published := bs_published b + 1\<rparr>) w))"

definition PublishBatch ::
  "'d publisher \<Rightarrow> batch_publish_request \<Rightarrow> 'd world \<Rightarrow> (batch_publish_response res \<times> 'd world) option" where
  "PublishBatch s req w =
     (let n = int (length (br_Messages req)); limit = bc_MaxMessageBatchSize (ps_config s) in
      if n = 0 then Some (Inl (Errorf ''batch cannot be empty''), w)
      else if n > limit
      then Some (Inl (Errorf (''batch size '' @ itoa n @ '' exceeds maximum '' @ itoa limit)), w)
      else
        (case ensureTopicExists s (br_Topic req) w of
           (Inl e, w) \<Rightarrow> Some (Inl (Wrap ''failed to ensure topic exists'' e), w)
         | (Inr t, w) \<Rightarrow>
             (case batch_loop s (br_Topic req) t 0 (br_Messages req)
                 \<lparr>bs_messages = [], bs_errors = [], bs_published = 0, bs_failed = 0, bs_bytesIn = 0\<rparr> w of
                None \<Rightarrow> None
              | Some (b, w) \<Rightarrow>
                  (let resp = \<lparr>bp_Published = bs_published b, bp_Failed = bs_failed b,
                         bp_MessageIDs = map m_ID (bs_messages b),
                         bp_Responses = map response_of (bs_messages b), bp_Errors = bs_errors b\<rparr>
                   in if bs_messages b = [] then Some (Inr resp, w)
                      else
                        (case MR_StoreBatch (ps_messageRepo s) (bs_messages b) w of
                           (Some e, w) \<Rightarrow> Some (Inl (Wrap ''failed to store message batch'' e), w)
                         | (None, w) \<Rightarrow>
                             (let (t, w) = IncrementMessages (int (length (bs_messages b))) t w;
                                  t = AddBytesIn (bs_bytesIn b) t;
                                  (e, t, w) = TR_Update (ps_topicRepo s) t w
                              in Some (Inr resp, w)))))))"

definition publisher_DeleteTopic ::
  "'d publisher \<Rightarrow> string \<Rightarrow> 'd world \<Rightarrow> go_error option \<times> 'd world" where
  "publisher_DeleteTopic s topicName w =
     (case TR_Exists (ps_topicRepo s) topicName w of
        (Inl e, w) \<Rightarrow> (Some (Wrap ''failed to check topic existence'' e), w)
      | (Inr False, w) \<Rightarrow> (Some (Errorf (''topic '' @ topicName @ '' does not exist'')), w)
      | (Inr True, w) \<Rightarrow>
          (let (e, w) = TR_Delete (ps_topicRepo s) topicName w
           in (map_option (Wrap ''failed to delete topic'') e, w)))"

text \<open>
  \<open>%.1f\<close> of a quotient, rounded to the nearest tenth, ties to even; the loop of \<open>formatBytes\<close>
  finds the largest unit that fits.
\<close>

definition format1 :: "int \<Rightarrow> int \<Rightarrow> string" where
  "format1 a b =
     (let q = (10 * a) div b; r = (10 * a) mod b;
          q = (if 2 * r > b \<or> (2 * r = b \<and> odd q) then q + 1 else q)
      in itoa (q div 10) @ ''.'' @ itoa (q mod 10))"

function format_loop :: "int \<Rightarrow> int \<Rightarrow> nat \<Rightarrow> int \<times> nat" where
  "format_loop n d e = (if n \<ge> 1024 then format_loop (n div 1024) (d * 1024) (Suc e) else (d, e))"
  by auto

termination by (relation "measure (\<lambda>(n, d, e). nat n)") auto

declare format_loop.simps [simp del]

definition formatBytes :: "int \<Rightarrow> string option" where
  "formatBytes b =
     (if b < 1024 then Some (itoa b @ '' B'')
      else (let (d, e) = format_loop (b div 1024) 1024 0
            in if e < length ''KMGTPE'' then Some (format1 b d @ '' '' @ [''KMGTPE'' ! e] @ ''B'') else None))"

definition publisher_GetTopicStats ::
  "'d publisher \<Rightarrow> string \<Rightarrow> 'd world \<Rightarrow> (topic_stats res \<times> 'd world) option" where
  "publisher_GetTopicStats s topicName w =
     (case TR_Get (ps_topicRepo s) topicName w of
        (Inl e, w) \<Rightarrow> Some (Inl (Wrap ''failed to get topic'' e), w)
      | (Inr t, w) \<Rightarrow>
          (let (r, w) = MR_CountByTopic (ps_messageRepo s) topicName w;
               messageCount = (case r of Inl _ \<Rightarrow> t_MessageCount t | Inr n \<Rightarrow> n);
               (_, bytesIn, bytesOut) = GetStats t
           in map_option (\<lambda>size. (Inr \<lparr>ts_Topic = t_Name t, ts_Partitions = t_Partitions t,
                  ts_Messages = messageCount, ts_Consumers = 0, ts_Rate = ''0 msg/s'', ts_Size = size,
                  ts_BytesIn = bytesIn, ts_BytesOut = bytesOut, ts_CreatedAt = t_CreatedAt t,
                  ts_UpdatedAt = t_UpdatedAt t\<rparr>, w)) (formatBytes bytesIn)))"

definition publisher_ListTopics ::
  "'d publisher \<Rightarrow> 'd world \<Rightarrow> (topic_info list res \<times> 'd world) option" where
  "publisher_ListTopics s w =
     map_option (\<lambda>(r, w). (case r of
        Inl e \<Rightarrow> Inl (Wrap ''failed to list topics'' e)
      | Inr ts \<Rightarrow> Inr (map (\<lambda>t. \<lparr>ti_Name = t_Name t, ti_Partitions = t_Partitions t,
          ti_MessageCount = t_MessageCount t, ti_RetentionTime = t_RetentionTime t,
          ti_CreatedAt = t_CreatedAt t, ti_Config = t_Config t\<rparr>) ts), w))
       (TR_List (ps_topicRepo s) 0 1000 w)"

section \<open>What the helpers produce\<close>

definition published_from :: "'d publisher \<Rightarrow> publish_request \<Rightarrow> topic \<Rightarrow> message \<Rightarrow> bool" where
  "published_from s req t m \<longleftrightarrow>
     m_Topic m = pr_Topic req \<and> m_Key m = pr_Key req \<and> m_Headers m = pr_Headers req \<and>
     m_Priority m = (if pr_Priority req = 0 then PriorityNormal else pr_Priority req) \<and>
     m_DeliveryMode m = (if pr_DeliveryMode req = 0 then DeliveryAtLeastOnce else pr_DeliveryMode req) \<and>
     m_Status m = StatusPending \<and> m_RetryCount m = 0 \<and> m_MaxRetries m = bc_MaxRetries (ps_config s) \<and>
     m_ConsumerID m = '''' \<and> m_DeliveredAt m = None \<and> m_AckedAt m = None \<and>
     (m_ExpiresAt m = None \<longleftrightarrow> pr_TTL req = None) \<and>
     choose_partition req (m_ID m) t = Some (m_Partition m) \<and>
     (if m_Compressed m then Compress (ps_compressor s) (pr_Payload req) = Inr (m_Payload m)
      else m_Payload m = pr_Payload req)"

lemma createMessage_facts:
  assumes "createMessage s req t w = Some (m, w')"
  shows "published_from s req t m" "m_ID m = uuids w (minted w)" "m_Payload m = pr_Payload req"
    "\<not> m_Compressed m" "db w' = db w" "uuids w' = uuids w" "minted w' = Suc (minted w)"
  using assms
  by (auto simp: createMessage_def published_from_def uuid_new_def time_now_def zero_message_def
      Let_def split: option.splits if_splits)

lemma compress_message_facts:
  assumes "published_from s req t m" "m_Payload m = pr_Payload req" "\<not> m_Compressed m"
  shows "published_from s req t (compress_message s (pr_Payload req) m)"
    "m_ID (compress_message s (pr_Payload req) m) = m_ID m"
  using assms by (auto simp: compress_message_def published_from_def split: sum.splits)

lemma Publish_cases:
  assumes "Publish s req w = Some (Inr resp, w')"
  obtains t w1 m w2 w3 now t1 e t2 w4 where
    "validatePublishRequest s req = None"
    "ensureTopicExists s (pr_Topic req) w = (Inr t, w1)"
    "published_from s req t m" "m_ID m = uuids w1 (minted w1)" "db w2 = db w1"
    "MR_Store (ps_messageRepo s) m w2 = (None, w3)" "db w4 = db w3"
    "t1 = AddBytesIn (int (length (pr_Payload req)))
       (t\<lparr>t_MessageCount := wrap64 (t_MessageCount t + 1), t_UpdatedAt := now\<rparr>)"
    "TR_Update (ps_topicRepo s) t1 w4 = (e, t2, w')" "resp = response_of m"
proof -
  from assms have v: "validatePublishRequest s req = None"
    by (simp add: Publish_def split: option.splits)
  obtain r w1 where e: "ensureTopicExists s (pr_Topic req) w = (r, w1)" by fastforce
  with assms v obtain t where r: "r = Inr t"
    by (cases r) (auto simp: Publish_def)
  with assms v e obtain m0 w2 where c: "createMessage s req t w1 = Some (m0, w2)"
    by (auto simp: Publish_def split: option.splits)
  define m where "m = compress_message s (pr_Payload req) m0"
  note facts = createMessage_facts [OF c] compress_message_facts [OF createMessage_facts(1) [OF c]
      createMessage_facts(3) [OF c] createMessage_facts(4) [OF c], folded m_def]
  obtain x w3 where st: "MR_Store (ps_messageRepo s) m w2 = (x, w3)" by fastforce
  with assms v e r c have x: "x = None"
    by (auto simp: Publish_def m_def [symmetric] split: option.splits)
  obtain t1 w4 where i: "IncrementMessages 1 t w3 = (t1, w4)" by fastforce
  obtain ee t2 w5 where u: "TR_Update (ps_topicRepo s) (AddBytesIn (int (length (pr_Payload req))) t1) w4
      = (ee, t2, w5)" by (metis prod_cases3)
  have "w5 = w'" "resp = response_of m"
    using assms v e r c st x i u by (auto simp: Publish_def m_def [symmetric])
  with v e r facts st x i u show thesis
    by (intro that [of t w1 m w2 w3 w4 "AddBytesIn (int (length (pr_Payload req))) t1" "clock w3 (ticks w3)" ee t2])
      (auto simp: IncrementMessages_def AddBytesIn_def time_now_def)
qed

lemma batch_loop_facts:
  assumes "batch_loop s n t i mbs b w = Some (b', w')"
  defines "valid \<equiv> filter (\<lambda>mb. mb_Payload mb \<noteq> []) mbs"
  shows "db w' = db w \<and> bs_published b' = bs_published b + int (length valid)
    \<and> bs_failed b' = bs_failed b + int (length mbs) - int (length valid)
    \<and> int (length (bs_errors b')) - int (length (bs_errors b)) = bs_failed b' - bs_failed b
    \<and> (\<exists>ms. bs_messages b' = bs_messages b @ ms
          \<and> list_all2 (\<lambda>mb m. published_from s (batch_request n mb) t m) valid ms
          \<and> map m_ID ms = map (uuids w) [minted w ..< minted w + length ms])"
  using assms(1) unfolding valid_def
proof (induction s n t i mbs b w rule: batch_loop.induct)
  case (2 s n t i mb mbs b w)
  show ?case
  proof (cases "mb_Payload mb = []")
    case True
    with 2 show ?thesis by (fastforce simp: validateBatchMessage_def)
  next
    case False
    with 2 obtain m0 w1 where c: "createMessage s (batch_request n mb) t w = Some (m0, w1)"
      by (auto simp: validateBatchMessage_def split: option.splits)
    define m where "m = compress_message s (mb_Payload mb) m0"
    have pay: "mb_Payload mb = pr_Payload (batch_request n mb)" by (simp add: batch_request_def)
    note f = createMessage_facts [OF c] compress_message_facts [OF createMessage_facts(1) [OF c]
        createMessage_facts(3) [OF c] createMessage_facts(4) [OF c], folded pay, folded m_def]
    let ?b = "b\<lparr>bs_messages := bs_messages b @ [m],
      bs_bytesIn := wrap64 (bs_bytesIn b + int (length (mb_Payload mb))), bs_published := bs_published b + 1\<rparr>"
    have "batch_loop s n t (Suc i) mbs ?b w1 = Some (b', w')"
      using 2(3) False c by (simp add: validateBatchMessage_def m_def)
    moreover have None: "validateBatchMessage mb = None" using False by (simp add: validateBatchMessage_def)
    ultimately have IH: "db w' = db w1"
      "bs_published b' = bs_published ?b + int (length (filter (\<lambda>mb. mb_Payload mb \<noteq> []) mbs))"
      "bs_failed b' = bs_failed ?b + int (length mbs) - int (length (filter (\<lambda>mb. mb_Payload mb \<noteq> []) mbs))"
      "int (length (bs_errors b')) - int (length (bs_errors ?b)) = bs_failed b' - bs_failed ?b"
      "\<exists>ms. bs_messages b' = bs_messages ?b @ ms
          \<and> list_all2 (\<lambda>mb m. published_from s (batch_request n mb) t m) (filter (\<lambda>mb. mb_Payload mb \<noteq> []) mbs) ms
          \<and> map m_ID ms = map (uuids w1) [minted w1 ..< minted w1 + length ms]"
      using 2(1) [OF None c refl] by (simp_all add: m_def)
    then obtain ms where ms: "bs_messages b' = bs_messages b @ m # ms"
      "list_all2 (\<lambda>mb m. published_from s (batch_request n mb) t m) (filter (\<lambda>mb. mb_Payload mb \<noteq> []) mbs) ms"
      "map m_ID ms = map (uuids w1) [minted w1 ..< minted w1 + length ms]" by auto
    have "map m_ID (m # ms) = map (uuids w) [minted w ..< minted w + length (m # ms)]"
      using ms(3) f(2,6,7,9) by (simp add: upt_conv_Cons del: upt_Suc)
    then have "\<exists>ms. bs_messages b' = bs_messages b @ ms
        \<and> list_all2 (\<lambda>mb m. published_from s (batch_request n mb) t m) (filter (\<lambda>mb. mb_Payload mb \<noteq> []) (mb # mbs)) ms
        \<and> map m_ID ms = map (uuids w) [minted w ..< minted w + length ms]"
      using ms(1,2) f(8) False by (intro exI [of _ "m # ms"]) (simp del: upt_Suc)
    with f(5) IH(1-4) False show ?thesis by simp
  qed
qed simp

context broker_store
begin

text \<open>The service over this pair of repositories.\<close>

lemma publish_stored:
  assumes "ps_messageRepo s = mr" "ps_topicRepo s = tr" "Publish s req w = Some (Inr resp, w')"
  shows "\<exists>t m. published_from s req t m \<and> resp = response_of m \<and> stored (db w') (m_ID m) m"
  using assms(3)
proof (cases rule: Publish_cases)
  case (1 t w1 m w2 w3 now t1 e t2 w4)
  have "stored (db w4) (m_ID m) m" using store_ok 1 assms by metis
  then have "stored (db w') (m_ID m) m" using update_messages 1 assms by metis
  with 1 show ?thesis by blast
qed

lemma ensure_existing:
  assumes "ps_topicRepo s = tr" "holds_topic (db w) n x" "ensureTopicExists s n w = (Inr t, w1)"
  shows "t = x \<and> holds_topic (db w1) n x"
proof -
  obtain r w2 where r: "TR_Get tr n w = (r, w2)" by fastforce
  then have h: "holds_topic (db w2) n x" using topic_get_frame assms(2) by blast
  show ?thesis
  proof (cases r)
    case (Inr t')
    with r assms h topic_get_ok [of n w t' w2 x] show ?thesis by (auto simp: ensureTopicExists_def)
  next
    case (Inl e)
    let ?q = "\<lparr>ct_Name = n, ct_Partitions = bc_DefaultPartitions (ps_config s), ct_Replication = 0,
      ct_RetentionTime = 0, ct_MaxSize = 0, ct_Config = None\<rparr>"
    obtain rb w4 where x: "TR_Exists tr n w2 = (rb, w4)" by fastforce
    with exists_ok [OF _ h] have "rb \<noteq> Inr False" by blast
    with x assms(1) obtain e2 where "publisher_CreateTopic s ?q w2 = (Some e2, w4)"
      by (cases rb) (auto simp: publisher_CreateTopic_def split: bool.splits)
    with r assms(1,3) Inl show ?thesis by (simp add: ensureTopicExists_def)
  qed
qed

lemma publish_counts:
  assumes "ps_messageRepo s = mr" "ps_topicRepo s = tr" "Publish s req w = Some (Inr resp, w')"
    and t: "holds_topic (db w) (pr_Topic req) t" "t_Name t = pr_Topic req"
  shows "\<exists>t'. holds_topic (db w') (pr_Topic req) t' \<and>
    (t' = t \<or> t' = t\<lparr>t_MessageCount := wrap64 (t_MessageCount t + 1),
                  t_BytesIn := wrap64 (t_BytesIn t + int (length (pr_Payload req))),
                  t_UpdatedAt := t_UpdatedAt t'\<rparr>)"
  using assms(3)
proof (cases rule: Publish_cases)
  case (1 t0 w1 m w2 w3 now t1 e t2 w4)
  have "t0 = t" and h1: "holds_topic (db w1) (pr_Topic req) t"
    using ensure_existing [OF assms(2) t(1)] 1 by blast+
  with 1(8) t(2) have n: "t_Name t1 = pr_Topic req" by (simp add: AddBytesIn_def)
  have "holds_topic (db w3) (pr_Topic req) t" using store_topics h1 1 assms(1) by metis
  then have h: "holds_topic (db w4) (t_Name t1) t" using 1(7) n by simp
  have u: "TR_Update tr t1 w4 = (e, t2, w')" using 1 assms(2) by simp
  obtain now' where t2: "t2 = t1\<lparr>t_UpdatedAt := now'\<rparr>" using update_time [OF u] by blast
  from update_any [OF u h] n 1(8) \<open>t0 = t\<close> t2 show ?thesis by (auto simp: AddBytesIn_def)
qed

lemma batch_stored_all:
  assumes "ps_messageRepo s = mr" "ps_topicRepo s = tr" "PublishBatch s req w = Some (Inr resp, w')"
    and uuids: "\<And>w1 t. ensureTopicExists s (br_Topic req) w = (Inr t, w1) \<Longrightarrow> inj (uuids w1)"
  shows "\<exists>t ms. list_all2 (\<lambda>mb m. published_from s (batch_request (br_Topic req) mb) t m)
        (filter (\<lambda>mb. mb_Payload mb \<noteq> []) (br_Messages req)) ms
      \<and> bp_MessageIDs resp = map m_ID ms \<and> bp_Responses resp = map response_of ms
      \<and> bp_Published resp = int (length ms)
      \<and> bp_Published resp + bp_Failed resp = int (length (br_Messages req))
      \<and> int (length (bp_Errors resp)) = bp_Failed resp
      \<and> (\<forall>m \<in> set ms. stored (db w') (m_ID m) m)"
proof -
  let ?b0 = "\<lparr>bs_messages = [], bs_errors = [], bs_published = 0, bs_failed = 0, bs_bytesIn = 0\<rparr>"
  obtain r w1 where e: "ensureTopicExists s (br_Topic req) w = (r, w1)" by fastforce
  with assms(3) obtain t where t: "r = Inr t"
    by (cases r) (auto simp: PublishBatch_def Let_def split: if_splits)
  with assms(3) e obtain b w2 where l: "batch_loop s (br_Topic req) t 0 (br_Messages req) ?b0 w1 = Some (b, w2)"
    by (auto simp: PublishBatch_def Let_def split: if_splits option.splits)
  let ?resp = "\<lparr>bp_Published = bs_published b, bp_Failed = bs_failed b, bp_MessageIDs = map m_ID (bs_messages b),
    bp_Responses = map response_of (bs_messages b), bp_Errors = bs_errors b\<rparr>"
  from batch_loop_facts [OF l] obtain ms where ms: "bs_messages b = ms"
    "list_all2 (\<lambda>mb m. published_from s (batch_request (br_Topic req) mb) t m)
        (filter (\<lambda>mb. mb_Payload mb \<noteq> []) (br_Messages req)) ms"
    "map m_ID ms = map (uuids w1) [minted w1 ..< minted w1 + length ms]"
    and n: "bs_published b = int (length (filter (\<lambda>mb. mb_Payload mb \<noteq> []) (br_Messages req)))"
      "bs_published b + bs_failed b = int (length (br_Messages req))"
      "int (length (bs_errors b)) = bs_failed b" by auto
  have resp: "resp = ?resp" and st: "\<forall>m \<in> set ms. stored (db w') (m_ID m) m"
  proof -
    have "inj (uuids w1)" using uuids e t by blast
    then have d: "distinct (map m_ID ms)" unfolding ms(3) by (simp add: distinct_map inj_on_def)
    show "resp = ?resp"
      using assms(3) e t l by (auto simp: PublishBatch_def Let_def split: if_splits option.splits prod.splits)
    show "\<forall>m \<in> set ms. stored (db w') (m_ID m) m"
    proof (cases "ms = []")
      case False
      with assms(1-3) e t l ms(1) obtain w3 where "MR_StoreBatch mr ms w2 = (None, w3)"
        "\<exists>t1 ee t2. TR_Update tr t1 (w3\<lparr>ticks := Suc (ticks w3)\<rparr>) = (ee, t2, w')"
        by (auto simp: PublishBatch_def Let_def IncrementMessages_def time_now_def
            split: if_splits option.splits prod.splits)
      with batch_ok [OF _ d] update_messages [where w = "w3\<lparr>ticks := Suc (ticks w3)\<rparr>"] show ?thesis
        by fastforce
    qed simp
  qed
  have "length (filter (\<lambda>mb. mb_Payload mb \<noteq> []) (br_Messages req)) = length ms"
    using ms(2) by (rule list_all2_lengthD)
  with ms n st resp show ?thesis by (intro exI [of _ t] exI [of _ ms]) simp
qed

end

lemma uuids_time_now: "time_now w = (t, w') \<Longrightarrow> uuids w' = uuids w"
  by (auto simp: time_now_def)

lemma uuids_run: "run exec c w = (r, w') \<Longrightarrow> uuids w' = uuids w"
  by (auto simp: run_def Let_def split: prod.splits)

lemma uuids_ensure:
  assumes "ps_topicRepo s = NewTopicRepository exec" "ensureTopicExists s n w = (r, w')"
  shows "uuids w' = uuids w"
proof -
  have get: "uuids w' = uuids w" if "topic_Get exec n w = (r, w')" for n r w and w' :: "'a world"
    using that by (auto simp: topic_Get_def Let_def split: prod.splits sum.splits if_splits dest: uuids_run)
  have ex: "uuids w' = uuids w" if "topic_Exists exec n w = (r, w')" for n r w and w' :: "'a world"
    using that by (auto simp: topic_Exists_def Let_def split: prod.splits sum.splits dest: uuids_run)
  have cr: "uuids w' = uuids w" if "topic_Create exec t w = (r, w')" for t r w and w' :: "'a world"
    using that by (auto simp: topic_Create_def Let_def split: prod.splits option.splits dest!: uuids_run)
  have create: "uuids w' = uuids w" if "publisher_CreateTopic s q w = (e, w')" for q e w and w' :: "'a world"
    using that assms(1)
    by (auto simp: publisher_CreateTopic_def NewTopicRepository_def NewTopic_def Let_def
        split: prod.splits sum.splits bool.splits dest!: ex cr uuids_time_now)
  show ?thesis using assms
    by (auto simp: ensureTopicExists_def NewTopicRepository_def split: prod.splits sum.splits option.splits
        dest!: get create)
qed

context redis_server
begin

lemmas publish_redis = broker.publish_stored and publish_counts_redis = broker.publish_counts
  and batch_redis = broker.batch_stored_all

end

section \<open>Hashing and sizes\<close>

lemma hash_negative: "hash data < 0 \<Longrightarrow> hash data = - (2 ^ 63)"
proof -
  let ?h = "foldl (\<lambda>h b. wrap64 (h * 31 + uint b)) 0 data"
  have h: "in64 ?h" by (induction data rule: rev_induct) simp_all
  assume "hash data < 0"
  then have neg: "?h < 0" and w: "wrap64 (- ?h) < 0" by (auto simp: hash_def Let_def split: if_splits)
  have "?h = - (2 ^ 63)"
  proof (rule ccontr)
    assume "?h \<noteq> - (2 ^ 63)"
    with h neg have "wrap64 (- ?h) = - ?h" by (intro wrap64_id) simp_all
    with w neg show False by simp
  qed
  then show "hash data = - (2 ^ 63)" by (simp add: hash_def Let_def wrap64_def)
qed

lemma choose_partition_bounds:
  assumes "choose_partition req mid t = Some p" "pr_Partition req = None" "0 < t_Partitions t" "in32 (t_Partitions t)"
  shows "\<bar>p\<bar> < t_Partitions t"
    "hash (if length (pr_Key req) > 0 then pr_Key req else bytes_of mid) \<noteq> - (2 ^ 63) \<Longrightarrow> 0 \<le> p"
proof -
  define h where "h = hash (if length (pr_Key req) > 0 then pr_Key req else bytes_of mid)"
  have b: "- t_Partitions t < h smod t_Partitions t" "h smod t_Partitions t < t_Partitions t"
    using smod_bounds [OF assms(3)] by auto
  with assms have p: "p = h smod t_Partitions t" by (simp add: choose_partition_def h_def wrap32_id)
  with b show "\<bar>p\<bar> < t_Partitions t" by simp
  assume "hash (if length (pr_Key req) > 0 then pr_Key req else bytes_of mid) \<noteq> - (2 ^ 63)"
  then have "0 \<le> h" using hash_negative by (force simp: h_def)
  with p assms(3) show "0 \<le> p" by (simp add: smod_nonneg)
qed

lemma format_loop_unit:
  "format_loop n d e = (d', e') \<Longrightarrow> 0 < n \<Longrightarrow> n < 1024 ^ k \<Longrightarrow> 0 < k \<Longrightarrow>
   \<exists>j<k. d' = d * 1024 ^ j \<and> e' = e + j \<and> 1 \<le> n div 1024 ^ j \<and> n div 1024 ^ j < 1024"
proof (induction n d e arbitrary: k rule: format_loop.induct)
  case (1 n d e)
  show ?case
  proof (cases "n \<ge> 1024")
    case False
    with 1 show ?thesis by (intro exI [of _ 0]) (auto simp: format_loop.simps [of n d e])
  next
    case True
    obtain k' where k: "k = Suc k'" using 1(5) by (cases k) auto
    have "n div 1024 < 1024 ^ k'" using 1(4) k by simp
    moreover have "0 < n div 1024" using True by simp
    moreover have "0 < k'"
    proof (rule ccontr)
      assume "\<not> 0 < k'"
      with \<open>n div 1024 < 1024 ^ k'\<close> \<open>0 < n div 1024\<close> show False by simp
    qed
    moreover have "format_loop (n div 1024) (d * 1024) (Suc e) = (d', e')"
      using 1(2) True by (simp add: format_loop.simps [of n d e])
    ultimately obtain j where "j < k'" "d' = d * 1024 * 1024 ^ j" "e' = Suc e + j"
      "1 \<le> n div 1024 div 1024 ^ j" "n div 1024 div 1024 ^ j < 1024"
      using 1(1) [OF True, of k'] by blast
    then show ?thesis by (intro exI [of _ "Suc j"]) (simp add: k zdiv_zmult2_eq)
  qed
qed

section \<open>Properties\<close>

lemma publish_on_redis:
  assumes "redis_server exec ks"
    "Publish (NewPublisher l (NewMessageRepository exec) (NewTopicRepository exec) cfg) req w = Some (Inr resp, w')"
  shows "\<exists>t m. published_from (NewPublisher l (NewMessageRepository exec) (NewTopicRepository exec) cfg) req t m
    \<and> resp = response_of m \<and> msg_at (ks (db w')) (pp_MessageID resp) m"
proof -
  obtain t m where "published_from (NewPublisher l (NewMessageRepository exec) (NewTopicRepository exec) cfg) req t m"
    "resp = response_of m" "msg_at (ks (db w')) (m_ID m) m"
    using redis_server.publish_redis [OF assms(1) _ _ assms(2)] by (auto simp: NewPublisher_def)
  then show ?thesis by (auto simp: response_of_def)
qed

text \<open>
  C1. A publish that succeeds has stored its message: on the Redis repositories, when \<open>Publish\<close>
  returns a response, the database holds, under the identifier in the response, a pending message
  with the topic, key, headers and payload of the request (compressed by the configured compressor
  if the response says so), its priority and delivery mode (where 0, which is also what low priority
  and at most once are, counts as not set), no consumer, no retries, and the partition chosen for it; the other
  fields of the response are those of that message.
\<close>

theorem published_message_is_stored:
  assumes "redis_server exec ks"
    "Publish (NewPublisher l (NewMessageRepository exec) (NewTopicRepository exec) cfg) req w = Some (Inr resp, w')"
  shows "\<exists>t m. published_from (NewPublisher l (NewMessageRepository exec) (NewTopicRepository exec) cfg) req t m
    \<and> resp = response_of m \<and> msg_at (ks (db w')) (pp_MessageID resp) m"
  using assms by (rule publish_on_redis)

definition example_request :: publish_request where
  "example_request = \<lparr>pr_Topic = ''o'', pr_Key = [], pr_Payload = [104, 105], pr_Headers = [], pr_Priority = 0,
     pr_DeliveryMode = 0, pr_TTL = None, pr_Partition = Some 0\<rparr>"

definition example_publisher :: "mem publisher" where
  "example_publisher =
     NewPublisher marker_codecs (NewMessageRepository mem_exec) (NewTopicRepository mem_exec) default_broker"

lemmas publish_eval = mem_eval ensureTopicExists_def NewPublisher_def NewTopicRepository_def topic_Get_def
  publisher_CreateTopic_def topic_Exists_def topic_Create_def NewTopic_def default_broker_def topicKey_def
  topic_json_cases topic_wf_def durations Publish_def createMessage_def validatePublishRequest_def
  wrap64_def choose_partition_def zero_message_def compress_message_def shouldCompress_def Store_def
  NewMessageRepository_def IncrementMessages_def AddBytesIn_def topic_Update_def response_of_def

lemma example_Publish:
  "\<exists>resp w'. Publish example_publisher example_request mem_world = Some (Inr resp, w')"
  by (simp add: example_publisher_def example_request_def publish_eval)

theorem published_message_is_stored_witness:
  "\<exists>resp w' t m. Publish example_publisher example_request mem_world = Some (Inr resp, w')
     \<and> published_from example_publisher example_request t m
     \<and> msg_at (map_of (db w')) (pp_MessageID resp) m"
proof -
  obtain resp w' where p: "Publish example_publisher example_request mem_world = Some (Inr resp, w')"
    using example_Publish by blast
  from published_message_is_stored [OF mem_server.redis_server_axioms p [unfolded example_publisher_def]] p
  show ?thesis unfolding example_publisher_def by blast
qed

text \<open>
  Publishing to an existing topic never loses its record and moves its counters by exactly one
  message and the size of the uncompressed payload, or not at all (the update is best effort): no
  other field changes but the time of the update.
\<close>

theorem publish_moves_counters:
  assumes "redis_server exec ks"
    "Publish (NewPublisher l (NewMessageRepository exec) (NewTopicRepository exec) cfg) req w = Some (Inr resp, w')"
    "topic_at (ks (db w)) (pr_Topic req) t" "t_Name t = pr_Topic req"
  shows "\<exists>t'. topic_at (ks (db w')) (pr_Topic req) t' \<and>
    (t' = t \<or> t' = t\<lparr>t_MessageCount := wrap64 (t_MessageCount t + 1),
                  t_BytesIn := wrap64 (t_BytesIn t + int (length (pr_Payload req))),
                  t_UpdatedAt := t_UpdatedAt t'\<rparr>)"
  using redis_server.publish_counts_redis [OF assms(1) _ _ assms(2-4)] by (simp add: NewPublisher_def)

definition example_topic :: topic where
  "example_topic = \<lparr>t_Name = ''o'', t_Partitions = 3, t_Replication = 1, t_RetentionTime = 24 * Hour,
     t_MaxSize = 1073741824, t_Config = [], t_CreatedAt = 1, t_UpdatedAt = 1, t_MessageCount = 4,
     t_BytesIn = 100, t_BytesOut = 0\<rparr>"

definition topic_world :: "mem world" where
  "topic_world = mem_world\<lparr>db := [(topicKey ''o'', (VStr (Doc (topic_json example_topic)), None))]\<rparr>"

theorem publish_moves_counters_witness:
  "\<exists>resp w' t'. Publish example_publisher example_request topic_world = Some (Inr resp, w')
     \<and> topic_at (map_of (db topic_world)) ''o'' example_topic \<and> topic_at (map_of (db w')) ''o'' t'
     \<and> t_MessageCount t' \<in> {4, 5}"
proof -
  obtain resp w' where p: "Publish example_publisher example_request topic_world = Some (Inr resp, w')"
    by (atomize_elim, simp add: example_publisher_def example_request_def topic_world_def example_topic_def publish_eval)
  have at: "topic_at (map_of (db topic_world)) ''o'' example_topic"
    by (simp add: topic_at_def topic_world_def mem_world_def)
  from publish_moves_counters [OF mem_server.redis_server_axioms p [unfolded example_publisher_def], of example_topic] at p
  obtain t' where "topic_at (map_of (db w')) ''o'' t'" "t' = example_topic \<or>
      t' = example_topic\<lparr>t_MessageCount := wrap64 (t_MessageCount example_topic + 1),
        t_BytesIn := wrap64 (t_BytesIn example_topic + 2), t_UpdatedAt := t_UpdatedAt t'\<rparr>"
    by (auto simp: example_request_def example_topic_def)
  moreover from this(2) have "t_MessageCount t' \<in> {4, 5}"
    by (elim disjE) (simp_all add: example_topic_def wrap64_def, metis topic.select_convs(9))
  ultimately show ?thesis using p at by blast
qed

text \<open>
  C26. A batch that succeeds accounts for each of its messages: those with a payload are published
  in order, each stored under its identifier (the identifiers of the uuid generator being distinct)
  with the fields of its part of the request; the others are counted as failed, with one error text
  each; the numbers add up to the size of the batch.
\<close>

theorem batch_accounts_for_every_message:
  assumes "redis_server exec ks" "inj (uuids w)"
    "PublishBatch (NewPublisher l (NewMessageRepository exec) (NewTopicRepository exec) cfg) req w = Some (Inr resp, w')"
  shows "\<exists>t ms. list_all2 (\<lambda>mb m. published_from (NewPublisher l (NewMessageRepository exec) (NewTopicRepository exec) cfg)
          (batch_request (br_Topic req) mb) t m) (filter (\<lambda>mb. mb_Payload mb \<noteq> []) (br_Messages req)) ms
      \<and> bp_MessageIDs resp = map m_ID ms \<and> bp_Responses resp = map response_of ms
      \<and> bp_Published resp = int (length ms)
      \<and> bp_Published resp + bp_Failed resp = int (length (br_Messages req))
      \<and> int (length (bp_Errors resp)) = bp_Failed resp
      \<and> (\<forall>m \<in> set ms. msg_at (ks (db w')) (m_ID m) m)"
proof (rule redis_server.batch_redis [OF assms(1) _ _ assms(3)])
  let ?s = "NewPublisher l (NewMessageRepository exec) (NewTopicRepository exec) cfg"
  show "ps_messageRepo ?s = NewMessageRepository exec" and tr: "ps_topicRepo ?s = NewTopicRepository exec"
    by (simp_all add: NewPublisher_def)
  fix w1 t
  assume "ensureTopicExists ?s (br_Topic req) w = (Inr t, w1)"
  with uuids_ensure [OF tr] assms(2) show "inj (uuids w1)" by simp
qed

definition example_batch :: batch_publish_request where
  "example_batch = \<lparr>br_Topic = ''o'', br_Messages =
     [\<lparr>mb_Key = [], mb_Payload = [1, 2], mb_Headers = [], mb_Priority = 0, mb_DeliveryMode = 0, mb_TTL = None\<rparr>,
      \<lparr>mb_Key = [], mb_Payload = [], mb_Headers = [], mb_Priority = 0, mb_DeliveryMode = 0, mb_TTL = None\<rparr>]\<rparr>"

lemma example_uuids: "inj (uuids topic_world)"
  unfolding topic_world_def mem_world_def by (rule injI) (simp add: replicate_eq_replicate del: replicate_Suc)

lemma example_ensure: "ensureTopicExists example_publisher ''o'' topic_world = (Inr example_topic, topic_world)"
  by (simp add: example_publisher_def topic_world_def example_topic_def publish_eval)

lemma example_batch_runs:
  "\<exists>b w1 w2. batch_loop example_publisher ''o'' example_topic 0 (br_Messages example_batch)
      \<lparr>bs_messages = [], bs_errors = [], bs_published = 0, bs_failed = 0, bs_bytesIn = 0\<rparr> topic_world = Some (b, w1)
    \<and> bs_messages b \<noteq> [] \<and> StoreBatch mem_exec (bs_messages b) w1 = (None, w2)"
  by (simp add: example_publisher_def example_batch_def topic_world_def example_topic_def publish_eval
      validateBatchMessage_def batch_request_def StoreBatch_def float64_exact)

lemma example_PublishBatch:
  "\<exists>resp w'. PublishBatch example_publisher example_batch topic_world = Some (Inr resp, w')"
proof -
  have c: "ps_messageRepo example_publisher = NewMessageRepository mem_exec" "ps_config example_publisher = default_broker"
    "br_Topic example_batch = ''o''" "length (br_Messages example_batch) = 2" "br_Messages example_batch \<noteq> []"
    by (simp_all add: example_publisher_def NewPublisher_def example_batch_def)
  from example_batch_runs show ?thesis
    by (auto simp: PublishBatch_def example_ensure c default_broker_def Let_def NewMessageRepository_def
        split: prod.splits)
qed

theorem batch_accounts_for_every_message_witness:
  "\<exists>resp w'. PublishBatch example_publisher example_batch topic_world = Some (Inr resp, w')
     \<and> bp_Published resp + bp_Failed resp = 2 \<and> int (length (bp_Errors resp)) = bp_Failed resp"
proof -
  obtain resp w' where p: "PublishBatch example_publisher example_batch topic_world = Some (Inr resp, w')"
    using example_PublishBatch by blast
  from batch_accounts_for_every_message [OF mem_server.redis_server_axioms example_uuids p [unfolded example_publisher_def]] p
  show ?thesis by (auto simp: example_batch_def)
qed



text \<open>
  There is a key of 13 bytes whose hash is the least 64-bit integer: a message with this key
  on a topic of three partitions is given partition -2, and no partition list contains it.
\<close>

theorem key_with_negative_partition:
  "choose_partition (example_request\<lparr>pr_Partition := None, pr_Key := [11, 22, 0, 3, 18, 9, 5, 17, 18, 10, 4, 3, 8]\<rparr>)
     mid example_topic = Some (- 2)"
proof -
  have "hash [11, 22, 0, 3, 18, 9, 5, 17, 18, 10, 4, 3, 8] = - (2 ^ 63)"
    by (simp add: hash_def wrap64_def Let_def)
  moreover have "- (2 ^ 63) smod 3 = (- 2 :: int)" by (simp add: signed_modulo_int_def)
  ultimately show ?thesis
    by (simp add: choose_partition_def example_request_def example_topic_def wrap32_def)
qed

text \<open>
  C40. \<open>formatBytes\<close> never indexes past the units K to E: for every \<open>int64\<close> it returns a text, and for
  sizes from 1024 bytes on it picks the unit in which the size is at least 1 and below 1024.
\<close>

theorem formatBytes_finds_unit:
  "formatBytes (wrap64 b) \<noteq> None \<and>
   (wrap64 b < 1024 \<or> (\<exists>j < 6. format_loop (wrap64 b div 1024) 1024 0 = (1024 ^ Suc j, j)
      \<and> 1 \<le> wrap64 b div 1024 ^ Suc j \<and> wrap64 b div 1024 ^ Suc j < 1024))"
proof (cases "wrap64 b < 1024")
  case False
  obtain d e where l: "format_loop (wrap64 b div 1024) 1024 0 = (d, e)" by fastforce
  have "wrap64 b < 9223372036854775808" by simp
  also have "\<dots> < 1024 * 1024 ^ 6" by simp
  finally have "wrap64 b < 1024 * 1024 ^ 6" .
  then have "wrap64 b div 1024 < 1024 ^ 6" by simp
  moreover have "0 < wrap64 b div 1024" using False by simp
  ultimately obtain j where "j < 6" "d = 1024 * 1024 ^ j" "e = j"
    "1 \<le> wrap64 b div 1024 div 1024 ^ j" "wrap64 b div 1024 div 1024 ^ j < 1024"
    using format_loop_unit [OF l, of 6] by auto
  moreover from this have "e < length ''KMGTPE''" by simp
  ultimately show ?thesis using l False by (auto simp: formatBytes_def zdiv_zmult2_eq)
qed (simp add: formatBytes_def)

end
