(* ===== verification/HttpCore.thy ===== *)
theory HttpCore
  imports Publisher Subscriber TopicManager
begin

text \<open>
  What the handlers of the HTTP API share, \<^verbatim>\<open>internal/adapters/api/http\<close>: \<^verbatim>\<open>utils.go\<close>, \<^verbatim>\<open>middleware.go\<close>,
  \<^verbatim>\<open>health.go\<close> and the types of \<^verbatim>\<open>server.go\<close>, with what the code uses of \<^verbatim>\<open>net/http\<close> and \<^verbatim>\<open>encoding/json\<close>:
  the request, the writing of a response, the request multiplexer and the decoding of a struct.

  A body is the tree of its first JSON value, or the decoder's error; it holds no \<open>JTime\<close>, a client
  sends strings. The texts of the errors of \<^verbatim>\<open>encoding/json\<close> and \<^verbatim>\<open>encoding/base64\<close> are abbreviated. A
  path has no percent-encoded characters and the query of a redirect is left out.
  A handler is a function from the request, the state of the server and the world to the response;
  \<open>None\<close> is no response: a panic, which the server of \<^verbatim>\<open>net/http\<close> recovers from by closing the
  connection, or a call that blocks for ever.
\<close>

section \<open>Requests\<close>

record http_request =
  rq_Method :: string
  rq_Path :: string
  rq_Query :: "string gomap"
  rq_Header :: "string gomap"
  rq_RemoteAddr :: string
  rq_Body :: "go_error + json"

definition HeaderGet :: "http_request \<Rightarrow> string \<Rightarrow> string" where
  "HeaderGet r k = (case map_of (rq_Header r) k of None \<Rightarrow> '''' | Some v \<Rightarrow> v)"

definition QueryGet :: "http_request \<Rightarrow> string \<Rightarrow> string" where
  "QueryGet r k = (case map_of (rq_Query r) k of None \<Rightarrow> '''' | Some v \<Rightarrow> v)"

section \<open>Responses\<close>

record error_response =
  er_Error :: string
  er_Code :: string
  er_Message :: string

record http_publish_response =
  hp_MessageID :: string
  hp_Topic :: string
  hp_Partition :: int
  hp_Offset :: int
  hp_Timestamp :: int

record failed_message =
  fm_Index :: int
  fm_Error :: string
  fm_Message :: string

record http_batch_response =
  hb_Messages :: "http_publish_response list"
  hb_Failed :: "failed_message list"

record message_response =
  me_ID :: string
  me_Topic :: string
  me_Partition :: int
  me_Offset :: int
  me_Key :: string
  me_Payload :: string
  me_Headers :: "string gomap"
  me_Priority :: string
  me_DeliveryMode :: string
  me_ConsumerGroup :: string
  me_ConsumerID :: string
  me_CreatedAt :: int
  me_DeliveredAt :: "int option"
  me_ExpiresAt :: "int option"

record http_pull_response =
  hl_Messages :: "message_response list"
  hl_HasMore :: bool
  hl_NextOffset :: "int option"
  hl_WaitTime :: int
  hl_ReceivedAt :: int

record health_status =
  hh_Status :: string
  hh_Timestamp :: int
  hh_Version :: string
  hh_Services :: "string gomap"

text \<open>The values that the handlers put into \<open>SuccessResponse.Data\<close>, of type \<open>interface{}\<close>.\<close>

datatype data =
    DNil
  | DPublished http_publish_response
  | DSubscribed subscribe_response
  | DSubscription subscription_info
  | DSubscriptions "subscription_info list"
  | DPulled http_pull_response
  | DJoined join_group_response
  | DCreated create_response
  | DTopics list_response
  | DTopic managed_topic_info
  | DStats topic_statistics
  | DHealth topic_health
  | DPartitions partition_info
  | DRebalanced rebalance_result

record success_response =
  su_Data :: data
  su_Message :: string

datatype body =
    BError error_response
  | BSuccess success_response
  | BBatch http_batch_response
  | BHealth health_status
  | BText string

text \<open>
  What was written to the \<open>http.ResponseWriter\<close>: the codes given to \<open>WriteHeader\<close>, of which the
  first is sent, the header and the parts of the body.
\<close>

record http_response =
  rp_Codes :: "int list"
  rp_Header :: "string gomap"
  rp_Body :: "body list"

definition sent_status :: "http_response \<Rightarrow> int" where
  "sent_status p = (case rp_Codes p of [] \<Rightarrow> 200 | c # _ \<Rightarrow> c)"

definition writeJSONResponse :: "int \<Rightarrow> body \<Rightarrow> http_response" where
  "writeJSONResponse statusCode b =
     \<lparr>rp_Codes = [statusCode], rp_Header = [(''Content-Type'', ''application/json'')], rp_Body = [b]\<rparr>"

definition writeErrorResponse :: "int \<Rightarrow> go_error \<Rightarrow> string \<Rightarrow> http_response" where
  "writeErrorResponse statusCode err code =
     writeJSONResponse statusCode
       (BError \<lparr>er_Error = Error err, er_Code = code, er_Message = ''Request failed: '' @ Error err\<rparr>)"

definition writeSuccessResponse :: "data \<Rightarrow> string \<Rightarrow> http_response" where
  "writeSuccessResponse d msg = writeJSONResponse 200 (BSuccess \<lparr>su_Data = d, su_Message = msg\<rparr>)"

definition method_not_allowed :: http_response where
  "method_not_allowed = writeErrorResponse 405 (Errorf ''method not allowed'') ''METHOD_NOT_ALLOWED''"

definition endpoint_not_found :: http_response where
  "endpoint_not_found = writeErrorResponse 404 (Errorf ''endpoint not found'') ''NOT_FOUND''"

text \<open>
  The handlers choose the status of a service error by the text of the error: the first substring
  that occurs in it decides, 500 is the default.
\<close>

fun error_reply :: "(string \<times> int \<times> string) list \<Rightarrow> string \<Rightarrow> go_error \<Rightarrow> http_response" where
  "error_reply [] dflt e = writeErrorResponse 500 e dflt"
| "error_reply ((sub, status, code) # cs) dflt e =
     (if contains_str (Error e) sub then writeErrorResponse status e code else error_reply cs dflt e)"

text \<open>The last code is the one that the logging wrapper of \<^verbatim>\<open>middleware.go\<close> remembers.\<close>

definition logged_status :: "http_response \<Rightarrow> int" where
  "logged_status p = (if rp_Codes p = [] then 200 else last (rp_Codes p))"

section \<open>Decoding a struct\<close>

text \<open>
  \<open>json.Decode\<close> stores the fields of the object one after the other: a name matches a field exactly
  or else up to case (non-ASCII letters that fold to ASCII are left out), \<open>null\<close> clears a pointer,
  map or slice and leaves any other value, a map is written into entry by entry. \<open>strict\<close> is
  \<open>DisallowUnknownFields\<close>.
\<close>

type_synonym 'r setter = "json \<Rightarrow> 'r \<Rightarrow> 'r option"

definition struct_field :: "'r setter gomap \<Rightarrow> string \<Rightarrow> 'r setter option" where
  "struct_field fs k = (case map_of fs k of Some f \<Rightarrow> Some f | None \<Rightarrow> map_of fs (ToLower k))"

fun decode_fields :: "bool \<Rightarrow> 'r setter gomap \<Rightarrow> (string \<times> json) list \<Rightarrow> 'r \<Rightarrow> 'r option" where
  "decode_fields strict fs [] r = Some r"
| "decode_fields strict fs ((k, v) # kvs) r =
     (case struct_field fs k of
        None \<Rightarrow> if strict then None else decode_fields strict fs kvs r
      | Some f \<Rightarrow> (case f v r of None \<Rightarrow> None | Some r \<Rightarrow> decode_fields strict fs kvs r))"

definition decode_struct :: "bool \<Rightarrow> 'r setter gomap \<Rightarrow> 'r setter" where
  "decode_struct strict fs j r =
     (case j of JNull \<Rightarrow> Some r | JObj kvs \<Rightarrow> decode_fields strict fs kvs r | _ \<Rightarrow> None)"

definition set_str :: "((string \<Rightarrow> string) \<Rightarrow> 'r \<Rightarrow> 'r) \<Rightarrow> 'r setter" where
  "set_str u j r = (case j of JNull \<Rightarrow> Some r | JStr s \<Rightarrow> Some (u (\<lambda>_. s) r) | _ \<Rightarrow> None)"

definition set_bool :: "((bool \<Rightarrow> bool) \<Rightarrow> 'r \<Rightarrow> 'r) \<Rightarrow> 'r setter" where
  "set_bool u j r = (case j of JNull \<Rightarrow> Some r | JBool b \<Rightarrow> Some (u (\<lambda>_. b) r) | _ \<Rightarrow> None)"

definition set_int :: "((int \<Rightarrow> int) \<Rightarrow> 'r \<Rightarrow> 'r) \<Rightarrow> 'r setter" where
  "set_int u j r = (case j of JNull \<Rightarrow> Some r | JNum n \<Rightarrow> if in64 n then Some (u (\<lambda>_. n) r) else None | _ \<Rightarrow> None)"

definition set_int32 :: "((int \<Rightarrow> int) \<Rightarrow> 'r \<Rightarrow> 'r) \<Rightarrow> 'r setter" where
  "set_int32 u j r = (case j of JNull \<Rightarrow> Some r | JNum n \<Rightarrow> if in32 n then Some (u (\<lambda>_. n) r) else None | _ \<Rightarrow> None)"

definition set_int_ptr :: "((int option \<Rightarrow> int option) \<Rightarrow> 'r \<Rightarrow> 'r) \<Rightarrow> 'r setter" where
  "set_int_ptr u j r = (case j of JNull \<Rightarrow> Some (u (\<lambda>_. None) r)
     | JNum n \<Rightarrow> if in64 n then Some (u (\<lambda>_. Some n) r) else None | _ \<Rightarrow> None)"

definition str_entry :: "string \<times> json \<Rightarrow> (string \<times> string) option" where
  "str_entry e = (case e of (k, JStr s) \<Rightarrow> Some (k, s) | (k, JNull) \<Rightarrow> Some (k, '''') | _ \<Rightarrow> None)"

definition set_str_map :: "((string gomap \<Rightarrow> string gomap) \<Rightarrow> 'r \<Rightarrow> 'r) \<Rightarrow> 'r setter" where
  "set_str_map u j r = (case j of JNull \<Rightarrow> Some (u (\<lambda>_. []) r)
     | JObj kvs \<Rightarrow> map_option (\<lambda>es. u (fold (\<lambda>(k, v). mput k v) es) r) (dec_all str_entry kvs) | _ \<Rightarrow> None)"

text \<open>A value stored in an \<open>interface{}\<close>: numbers become \<open>float64\<close>, objects maps.\<close>

fun any_value :: "json \<Rightarrow> json" where
  "any_value (JNum n) = JNum (float64_of_int n)"
| "any_value (JArr vs) = JArr (map any_value vs)"
| "any_value (JObj kvs) = JObj (fold (\<lambda>(k, v). mput k v) (map (\<lambda>(k, v). (k, any_value v)) kvs) [])"
| "any_value j = j"

definition set_any_map :: "((json gomap option \<Rightarrow> json gomap option) \<Rightarrow> 'r \<Rightarrow> 'r) \<Rightarrow> 'r setter" where
  "set_any_map u j r = (case j of JNull \<Rightarrow> Some (u (\<lambda>_. None) r)
     | JObj kvs \<Rightarrow> Some (u (\<lambda>old. Some (fold (\<lambda>(k, v). mput k (any_value v)) kvs
                                        (case old of None \<Rightarrow> [] | Some m \<Rightarrow> m))) r) | _ \<Rightarrow> None)"

text \<open>A slice of structs: an element already there is written over, not cleared.\<close>

fun decode_elems :: "'e setter \<Rightarrow> 'e \<Rightarrow> json list \<Rightarrow> 'e list \<Rightarrow> 'e list option" where
  "decode_elems f z [] old = Some []"
| "decode_elems f z (v # vs) old =
     (case f v (case old of [] \<Rightarrow> z | x # _ \<Rightarrow> x) of
        None \<Rightarrow> None
      | Some y \<Rightarrow> map_option ((#) y) (decode_elems f z vs (tl old)))"

definition set_list :: "'e setter \<Rightarrow> 'e \<Rightarrow> ('r \<Rightarrow> 'e list) \<Rightarrow> (('e list \<Rightarrow> 'e list) \<Rightarrow> 'r \<Rightarrow> 'r) \<Rightarrow> 'r setter" where
  "set_list f z g u j r = (case j of JNull \<Rightarrow> Some (u (\<lambda>_. []) r)
     | JArr vs \<Rightarrow> map_option (\<lambda>es. u (\<lambda>_. es) r) (decode_elems f z vs (g r)) | _ \<Rightarrow> None)"

definition set_struct_ptr :: "'e setter \<Rightarrow> 'e \<Rightarrow> ('r \<Rightarrow> 'e option) \<Rightarrow> (('e option \<Rightarrow> 'e option) \<Rightarrow> 'r \<Rightarrow> 'r) \<Rightarrow> 'r setter" where
  "set_struct_ptr f z g u j r = (case j of JNull \<Rightarrow> Some (u (\<lambda>_. None) r)
     | _ \<Rightarrow> map_option (\<lambda>e. u (\<lambda>_. Some e) r) (f j (case g r of None \<Rightarrow> z | Some e \<Rightarrow> e)))"

lemmas setters = set_str_def set_bool_def set_int_def set_int32_def set_int_ptr_def set_str_map_def
  set_any_map_def set_list_def set_struct_ptr_def

definition json_error :: go_error where
  "json_error = Errorf ''json: cannot unmarshal''"

definition parseJSONRequest :: "'r setter gomap \<Rightarrow> 'r \<Rightarrow> http_request \<Rightarrow> 'r res" where
  "parseJSONRequest fs zero r =
     (if HeaderGet r ''Content-Type'' \<noteq> ''application/json''
      then Inl (Errorf ''content-type must be application/json'')
      else (case rq_Body r of
              Inl e \<Rightarrow> Inl (Wrap ''invalid JSON'' e)
            | Inr j \<Rightarrow> (case decode_struct True fs j zero of
                          None \<Rightarrow> Inl (Wrap ''invalid JSON'' json_error)
                        | Some v \<Rightarrow> Inr v)))"

text \<open>\<open>base64.StdEncoding.DecodeString\<close> skips line breaks.\<close>

definition DecodeString :: "string \<Rightarrow> bytes res" where
  "DecodeString s =
     (case b64_decode (filter (\<lambda>c. c \<noteq> CHR 0x0A \<and> c \<noteq> CHR 0x0D) s) of
        None \<Rightarrow> Inl (Errorf ''illegal base64 data'') | Some bs \<Rightarrow> Inr bs)"

section \<open>Paths and queries\<close>

text \<open>The first wildcard of the pattern that the path is long enough for.\<close>

definition is_wildcard :: "string \<Rightarrow> bool" where
  "is_wildcard part \<longleftrightarrow> HasPrefix part ''{'' \<and> HasSuffix part ''}''"

fun path_param :: "nat \<Rightarrow> string list \<Rightarrow> string list \<Rightarrow> string" where
  "path_param i [] parts = ''''"
| "path_param i (part # ps) parts =
     (if is_wildcard part \<and> i < length parts then parts ! i else path_param (Suc i) ps parts)"

definition extractPathParam :: "string \<Rightarrow> string \<Rightarrow> string" where
  "extractPathParam path pattern = path_param 0 (split_on CHR ''/'' pattern) (split_on CHR ''/'' path)"

definition extract_after :: "string \<Rightarrow> string \<Rightarrow> string" where
  "extract_after kind path =
     (let parts = split_on CHR ''/'' (TrimPrefix path ''/'')
      in if length parts \<ge> 3 \<and> parts ! 0 = ''v1'' \<and> parts ! 1 = kind then parts ! 2 else '''')"

definition extractTopicFromPath :: "string \<Rightarrow> string" where
  "extractTopicFromPath = extract_after ''topics''"

definition extractSubscriptionIDFromPath :: "string \<Rightarrow> string" where
  "extractSubscriptionIDFromPath = extract_after ''subscriptions''"

definition extractMessageIDFromPath :: "string \<Rightarrow> string" where
  "extractMessageIDFromPath = extract_after ''messages''"

definition extractConsumerGroupFromPath :: "string \<Rightarrow> string" where
  "extractConsumerGroupFromPath = extract_after ''consumer-groups''"

text \<open>\<open>strconv.Atoi\<close>.\<close>

definition Atoi :: "string \<Rightarrow> int option" where
  "Atoi s =
     (let (sign, ds) = (case s of c # ds \<Rightarrow> if c = CHR ''-'' then (- 1, ds) else if c = CHR ''+'' then (1, ds) else (1, s)
                        | [] \<Rightarrow> (1, s))
      in if ds \<noteq> [] \<and> list_all is_digit ds \<and> in64 (sign * atoi_digits ds) then Some (sign * atoi_digits ds) else None)"

definition parseQueryInt :: "http_request \<Rightarrow> string \<Rightarrow> int \<Rightarrow> int" where
  "parseQueryInt r k dflt =
     (if QueryGet r k = '''' then dflt else (case Atoi (QueryGet r k) of None \<Rightarrow> dflt | Some n \<Rightarrow> n))"

definition parseQueryString :: "http_request \<Rightarrow> string \<Rightarrow> string \<Rightarrow> string" where
  "parseQueryString r k dflt = (if QueryGet r k = '''' then dflt else QueryGet r k)"

text \<open>\<open>strings.TrimSpace\<close> on ASCII, and what stands before the last occurrence of a character.\<close>

definition is_space :: "char \<Rightarrow> bool" where
  "is_space c \<longleftrightarrow> (of_char c :: nat) \<in> {9, 10, 11, 12, 13, 32}"

definition TrimSpace :: "string \<Rightarrow> string" where
  "TrimSpace s = rev (dropWhile is_space (rev (dropWhile is_space s)))"

definition before_last :: "char \<Rightarrow> string \<Rightarrow> string" where
  "before_last c s = (if c \<in> set s then rev (tl (dropWhile (\<lambda>x. x \<noteq> c) (rev s))) else s)"

definition getClientIP :: "http_request \<Rightarrow> string" where
  "getClientIP r =
     (if HeaderGet r ''X-Forwarded-For'' \<noteq> ''''
      then TrimSpace (hd (split_on CHR '','' (HeaderGet r ''X-Forwarded-For'')))
      else if HeaderGet r ''X-Real-Ip'' \<noteq> '''' then HeaderGet r ''X-Real-Ip''
      else before_last CHR '':'' (rq_RemoteAddr r))"

section \<open>The server and its state\<close>

text \<open>
  The state: the subscriber and the topic service, that of the WebSocket handler, and the access log.
  \<open>hv_ranges\<close> holds the orders in which a rebalance visits Go maps. The handler of \<^verbatim>\<open>/ws\<close> also sees
  whether the writer it is given implements \<open>http.Hijacker\<close>. The acknowledgment service and the
  configuration, which no handler uses, are left out.
\<close>

record access_entry =
  lg_Method :: string
  lg_Path :: string
  lg_Status :: int
  lg_Duration :: int
  lg_RemoteIP :: string
  lg_UserAgent :: string

record 'w http_state =
  hs_subscriber :: subscriber_state
  hs_topics :: topic_state
  hs_ws :: 'w
  hs_log :: "access_entry list"

type_synonym ('d, 'w) http_handler =
  "http_request \<Rightarrow> 'w http_state \<Rightarrow> 'd world \<Rightarrow> (http_response \<times> 'w http_state \<times> 'd world) option"

type_synonym ('d, 'w) writer_handler = "bool \<Rightarrow> ('d, 'w) http_handler"

record ('d, 'w) http_server =
  hv_publisher :: "'d publisher"
  hv_subscriber :: "'d subscriber"
  hv_topics :: "'d topic_service"
  hv_ranges :: "string list \<times> string list \<times> (int \<Rightarrow> string list)"
  hv_wsHandler :: "('d, 'w) writer_handler option"

definition NewServer ::
  "'d publisher \<Rightarrow> 'd subscriber \<Rightarrow> 'd topic_service \<Rightarrow> string list \<times> string list \<times> (int \<Rightarrow> string list)
    \<Rightarrow> ('d, 'w) http_server" where
  "NewServer p sb tm ranges =
     \<lparr>hv_publisher = p, hv_subscriber = sb, hv_topics = tm, hv_ranges = ranges, hv_wsHandler = None\<rparr>"

definition SetWebSocketHandler ::
  "('d, 'w) writer_handler \<Rightarrow> ('d, 'w) http_server \<Rightarrow> ('d, 'w) http_server" where
  "SetWebSocketHandler h s = s\<lparr>hv_wsHandler := Some h\<rparr>"

text \<open>A response that leaves the state alone.\<close>

definition reply :: "http_response \<Rightarrow> 'w http_state \<Rightarrow> 'd world \<Rightarrow> (http_response \<times> 'w http_state \<times> 'd world) option" where
  "reply p st w = Some (p, st, w)"

section \<open>Health and metrics\<close>

definition healthHandler :: "('d, 'w) http_handler" where
  "healthHandler r st w =
     (if rq_Method r \<noteq> ''GET'' then reply method_not_allowed st w
      else (let services = map (\<lambda>s. (s, ''healthy'')) [''publisher'', ''subscriber'', ''topic'', ''acknowledgment''];
                status = (if list_ex (\<lambda>(k, v). v \<noteq> ''healthy'') services then ''degraded'' else ''healthy'');
                (now, w) = time_now w
            in reply (writeJSONResponse 200 (BHealth \<lparr>hh_Status = status, hh_Timestamp = now,
                        hh_Version = ''1.0.0'', hh_Services = services\<rparr>)) st w))"

definition text_lines :: "string list \<Rightarrow> string" where
  "text_lines ls = concat (map (\<lambda>l. l @ [CHR 0x0A]) ls)"

definition static_metrics :: string where
  "static_metrics = text_lines
     [''# HELP pubsub_messages_total Total number of messages processed'',
      ''# TYPE pubsub_messages_total counter'', ''pubsub_messages_total 0'', '''',
      ''# HELP pubsub_topics_total Total number of topics'',
      ''# TYPE pubsub_topics_total gauge'', ''pubsub_topics_total 0'', '''',
      ''# HELP pubsub_subscriptions_total Total number of active subscriptions'',
      ''# TYPE pubsub_subscriptions_total gauge'', ''pubsub_subscriptions_total 0'']"

definition metricsHandler :: "('d, 'w) http_handler" where
  "metricsHandler r st w =
     (if rq_Method r \<noteq> ''GET'' then reply method_not_allowed st w
      else reply \<lparr>rp_Codes = [200], rp_Header = [(''Content-Type'', ''text/plain'')],
                  rp_Body = [BText static_metrics]\<rparr> st w)"

section \<open>Middleware\<close>

text \<open>
  The wrapper of the logging middleware embeds the interface \<open>http.ResponseWriter\<close>, whose three
  methods are all it has: it is no \<open>Hijacker\<close>, whatever it wraps. A handler that panics is not
  logged.
\<close>

definition withLogging :: "('d, 'w) writer_handler \<Rightarrow> ('d, 'w) writer_handler" where
  "withLogging next hijacker r st w =
     (let (start, w) = time_now w
      in (case next False r st w of
            None \<Rightarrow> None
          | Some (p, st, w) \<Rightarrow>
              (let (stop, w) = time_now w;
                   e = \<lparr>lg_Method = rq_Method r, lg_Path = rq_Path r, lg_Status = logged_status p,
                        lg_Duration = stop - start, lg_RemoteIP = getClientIP r,
                        lg_UserAgent = HeaderGet r ''User-Agent''\<rparr>
               in Some (p, st\<lparr>hs_log := hs_log st @ [e]\<rparr>, w))))"

definition cors_header :: "string gomap" where
  "cors_header =
     [(''Access-Control-Allow-Origin'', ''*''),
      (''Access-Control-Allow-Methods'', ''GET, POST, PUT, DELETE, OPTIONS''),
      (''Access-Control-Allow-Headers'', ''Content-Type, Authorization, X-Requested-With''),
      (''Access-Control-Max-Age'', ''86400'')]"

text \<open>The handler writes its own header fields over the ones that are already set.\<close>

definition over_header :: "string gomap \<Rightarrow> http_response \<Rightarrow> http_response" where
  "over_header h p = p\<lparr>rp_Header := fold (\<lambda>(k, v). mput k v) (rp_Header p) h\<rparr>"

definition withCORS :: "('d, 'w) writer_handler \<Rightarrow> ('d, 'w) writer_handler" where
  "withCORS next hijacker r st w =
     (if rq_Method r = ''OPTIONS'' then reply \<lparr>rp_Codes = [200], rp_Header = cors_header, rp_Body = []\<rparr> st w
      else map_option (\<lambda>(p, sw). (over_header cors_header p, sw)) (next hijacker r st w))"

definition withRateLimit :: "('d, 'w) writer_handler \<Rightarrow> ('d, 'w) writer_handler" where
  "withRateLimit next = next"

definition withMiddleware :: "('d, 'w) writer_handler \<Rightarrow> ('d, 'w) writer_handler" where
  "withMiddleware next = withLogging (withCORS (withRateLimit next))"

section \<open>The request multiplexer\<close>

text \<open>
  \<open>http.ServeMux\<close> for patterns without methods, hosts and wildcards. A path is cleaned first; a
  pattern matches the path it equals, one that ends in a slash every path below it, the longest
  wins. A path that is not clean, and one whose tree is registered only with the trailing slash, are
  redirected (with a page whose text is abbreviated here).
\<close>

definition clean_step :: "string list \<Rightarrow> string \<Rightarrow> string list" where
  "clean_step ds d = (if d = '''' \<or> d = ''.'' then ds else if d = ''..'' then butlast ds else ds @ [d])"

definition join_path :: "string list \<Rightarrow> string" where
  "join_path ds = concat (map (\<lambda>d. CHR ''/'' # d) ds)"

definition cleanPath :: "string \<Rightarrow> string" where
  "cleanPath p =
     (let p = (if HasPrefix p ''/'' then p else CHR ''/'' # p);
          ds = foldl clean_step [] (split_on CHR ''/'' p);
          np = (if ds = [] then ''/'' else join_path ds)
      in if HasSuffix p ''/'' \<and> np \<noteq> ''/'' then np @ ''/'' else np)"

datatype 'h route = Redirect string | Serve 'h | NoRoute

definition longer :: "(string \<times> 'h) option \<Rightarrow> string \<times> 'h \<Rightarrow> (string \<times> 'h) option" where
  "longer best e = (case best of None \<Rightarrow> Some e | Some b \<Rightarrow> if length (fst b) < length (fst e) then Some e else best)"

definition mux_match :: "(string \<times> 'h) list \<Rightarrow> string \<Rightarrow> 'h option" where
  "mux_match ps path =
     (case map_of ps path of
        Some h \<Rightarrow> Some h
      | None \<Rightarrow> map_option snd (foldl longer None (filter (\<lambda>(p, h). HasSuffix p ''/'' \<and> HasPrefix path p) ps)))"

definition mux_route :: "(string \<times> 'h) list \<Rightarrow> http_request \<Rightarrow> 'h route" where
  "mux_route ps r =
     (let path = (if rq_Method r = ''CONNECT'' then rq_Path r else cleanPath (rq_Path r))
      in if map_of ps path = None \<and> \<not> HasSuffix path ''/'' \<and> map_of ps (path @ ''/'') \<noteq> None
         then Redirect (cleanPath (rq_Path r) @ ''/'')
         else if path \<noteq> rq_Path r then Redirect path
         else (case mux_match ps path of None \<Rightarrow> NoRoute | Some h \<Rightarrow> Serve h))"

definition moved_permanently :: "string \<Rightarrow> http_response" where
  "moved_permanently url =
     \<lparr>rp_Codes = [301], rp_Header = [(''Location'', url)], rp_Body = [BText ''Moved Permanently'']\<rparr>"

text \<open>\<open>http.Error\<close>, and \<open>http.NotFound\<close>, which calls it.\<close>

definition http_Error :: "string \<Rightarrow> int \<Rightarrow> http_response" where
  "http_Error msg code =
     \<lparr>rp_Codes = [code], rp_Header = [(''Content-Type'', ''text/plain; charset=utf-8''), (''X-Content-Type-Options'', ''nosniff'')],
      rp_Body = [BText (text_lines [msg])]\<rparr>"

definition mux_serve :: "(string \<times> ('d, 'w) writer_handler) list \<Rightarrow> ('d, 'w) writer_handler" where
  "mux_serve ps hijacker r st w =
     (case mux_route ps r of
        Redirect url \<Rightarrow> reply (moved_permanently url) st w
      | NoRoute \<Rightarrow> reply (http_Error ''404 page not found'' 404) st w
      | Serve h \<Rightarrow> h hijacker r st w)"

end
