(* ===== verification/HttpPublisher.thy ===== *)
theory HttpPublisher
  imports HttpCore
begin

text \<open>
  Publishing over HTTP, \<^verbatim>\<open>internal/adapters/api/http/publisher.go\<close>: the decoding and validation of the
  requests, their conversion for the publisher service and the conversion of its answers.
\<close>

section \<open>Requests\<close>

record http_publish_request =
  hq_Key :: string
  hq_Payload :: string
  hq_Headers :: "string gomap"
  hq_Priority :: string
  hq_DeliveryMode :: string
  hq_TTL :: "int option"

record http_batch_request =
  hq_Messages :: "http_publish_request list"

definition zero_publish_request :: http_publish_request where
  "zero_publish_request =
     \<lparr>hq_Key = '''', hq_Payload = '''', hq_Headers = [], hq_Priority = '''', hq_DeliveryMode = '''', hq_TTL = None\<rparr>"

definition publish_setters :: "http_publish_request setter gomap" where
  "publish_setters =
     [(''key'', set_str hq_Key_update), (''payload'', set_str hq_Payload_update),
      (''headers'', set_str_map hq_Headers_update), (''priority'', set_str hq_Priority_update),
      (''delivery_mode'', set_str hq_DeliveryMode_update), (''ttl'', set_int_ptr hq_TTL_update)]"

definition batch_setters :: "http_batch_request setter gomap" where
  "batch_setters =
     [(''messages'', set_list (decode_struct True publish_setters) zero_publish_request hq_Messages hq_Messages_update)]"

section \<open>Validation and conversion\<close>

definition http_validatePublishRequest :: "http_publish_request \<Rightarrow> go_error option" where
  "http_validatePublishRequest req =
     (if hq_Payload req = '''' then Some (Errorf ''payload is required'')
      else (case DecodeString (hq_Payload req) of
              Inl e \<Rightarrow> Some (Errorf ''payload must be base64 encoded'')
            | Inr _ \<Rightarrow>
                if hq_Priority req \<noteq> '''' \<and> hq_Priority req \<notin> {''low'', ''normal'', ''high'', ''critical''}
                then Some (Errorf (''invalid priority: '' @ hq_Priority req))
                else if hq_DeliveryMode req \<noteq> ''''
                  \<and> hq_DeliveryMode req \<notin> {''at_most_once'', ''at_least_once'', ''exactly_once''}
                then Some (Errorf (''invalid delivery mode: '' @ hq_DeliveryMode req))
                else if (case hq_TTL req of None \<Rightarrow> False | Some n \<Rightarrow> n < 0)
                then Some (Errorf ''TTL must be non-negative'')
                else None))"

definition parsePriority :: "string \<Rightarrow> int" where
  "parsePriority p =
     (if p = ''low'' then PriorityLow else if p = ''high'' then PriorityHigh
      else if p = ''critical'' then PriorityCritical else PriorityNormal)"

definition parseDeliveryMode :: "string \<Rightarrow> int" where
  "parseDeliveryMode m =
     (if m = ''at_most_once'' then DeliveryAtMostOnce else if m = ''exactly_once'' then DeliveryExactlyOnce
      else DeliveryAtLeastOnce)"

text \<open>\<open>time.Duration(n) * time.Second\<close>.\<close>

definition in_seconds :: "int \<Rightarrow> int" where
  "in_seconds n = wrap64 (n * Second)"

definition service_request :: "string \<Rightarrow> http_publish_request \<Rightarrow> bytes \<Rightarrow> publish_request" where
  "service_request topic req payload =
     \<lparr>pr_Topic = topic, pr_Key = bytes_of (hq_Key req), pr_Payload = payload, pr_Headers = hq_Headers req,
      pr_Priority = parsePriority (hq_Priority req), pr_DeliveryMode = parseDeliveryMode (hq_DeliveryMode req),
      pr_TTL = map_option in_seconds (hq_TTL req), pr_Partition = None\<rparr>"

definition service_batch_message :: "http_publish_request \<Rightarrow> bytes \<Rightarrow> message_batch" where
  "service_batch_message req payload =
     \<lparr>mb_Key = bytes_of (hq_Key req), mb_Payload = payload, mb_Headers = hq_Headers req,
      mb_Priority = parsePriority (hq_Priority req), mb_DeliveryMode = parseDeliveryMode (hq_DeliveryMode req),
      mb_TTL = map_option in_seconds (hq_TTL req)\<rparr>"

definition http_response_of :: "publish_response \<Rightarrow> http_publish_response" where
  "http_response_of p =
     \<lparr>hp_MessageID = pp_MessageID p, hp_Topic = pp_Topic p, hp_Partition = pp_Partition p,
      hp_Offset = pp_Offset p, hp_Timestamp = pp_Timestamp p\<rparr>"

section \<open>Handlers\<close>

definition handlePublish :: "('d, 'w) http_server \<Rightarrow> string \<Rightarrow> ('d, 'w) http_handler" where
  "handlePublish s topic r st w =
     (if rq_Method r \<noteq> ''POST'' then reply method_not_allowed st w
      else (case parseJSONRequest publish_setters zero_publish_request r of
              Inl e \<Rightarrow> reply (writeErrorResponse 400 e ''INVALID_REQUEST'') st w
            | Inr req \<Rightarrow>
                (case http_validatePublishRequest req of
                   Some e \<Rightarrow> reply (writeErrorResponse 400 e ''VALIDATION_ERROR'') st w
                 | None \<Rightarrow>
                     (case DecodeString (hq_Payload req) of
                        Inl e \<Rightarrow> reply (writeErrorResponse 400 (Wrap ''invalid base64 payload'' e) ''INVALID_PAYLOAD'') st w
                      | Inr payload \<Rightarrow>
                          (case Publish (hv_publisher s) (service_request topic req payload) w of
                             None \<Rightarrow> None
                           | Some (Inl e, w) \<Rightarrow> reply (writeErrorResponse 500 e ''PUBLISH_FAILED'') st w
                           | Some (Inr resp, w) \<Rightarrow>
                               reply (writeSuccessResponse (DPublished (http_response_of resp))
                                        ''Message published successfully'') st w)))))"

text \<open>The loop over the messages of a batch: those to publish, and those that failed with their index.\<close>

fun convert_batch ::
  "nat \<Rightarrow> http_publish_request list \<Rightarrow> message_batch list \<times> failed_message list" where
  "convert_batch i [] = ([], [])"
| "convert_batch i (req # reqs) =
     (let (ms, fs) = convert_batch (Suc i) reqs
      in (case http_validatePublishRequest req of
            Some e \<Rightarrow> (ms, \<lparr>fm_Index = int i, fm_Error = ''VALIDATION_ERROR'', fm_Message = Error e\<rparr> # fs)
          | None \<Rightarrow>
              (case DecodeString (hq_Payload req) of
                 Inl e \<Rightarrow> (ms, \<lparr>fm_Index = int i, fm_Error = ''INVALID_PAYLOAD'',
                              fm_Message = ''invalid base64 payload: '' @ Error e\<rparr> # fs)
               | Inr payload \<Rightarrow> (service_batch_message req payload # ms, fs))))"

text \<open>The errors that the service reports, with their position in its list of errors as the index.\<close>

definition batch_failures :: "string list \<Rightarrow> failed_message list" where
  "batch_failures errs =
     map (\<lambda>(i, e). \<lparr>fm_Index = int i, fm_Error = ''PUBLISH_FAILED'', fm_Message = e\<rparr>)
       (filter (\<lambda>(i, e). e \<noteq> '''') (enumerate 0 errs))"

definition handleBatchPublish :: "('d, 'w) http_server \<Rightarrow> string \<Rightarrow> ('d, 'w) http_handler" where
  "handleBatchPublish s topic r st w =
     (if rq_Method r \<noteq> ''POST'' then reply method_not_allowed st w
      else (case parseJSONRequest batch_setters \<lparr>hq_Messages = []\<rparr> r of
              Inl e \<Rightarrow> reply (writeErrorResponse 400 e ''INVALID_REQUEST'') st w
            | Inr req \<Rightarrow>
                if length (hq_Messages req) = 0
                then reply (writeErrorResponse 400 (Errorf ''at least one message is required'') ''EMPTY_BATCH'') st w
                else if length (hq_Messages req) > 1000
                then reply (writeErrorResponse 400 (Errorf ''batch size exceeds maximum limit of 1000'') ''BATCH_TOO_LARGE'') st w
                else
                  (let (ms, failed) = convert_batch 0 (hq_Messages req)
                   in if length ms = 0
                      then reply (writeJSONResponse 400 (BBatch \<lparr>hb_Messages = [], hb_Failed = failed\<rparr>)) st w
                      else
                        (case PublishBatch (hv_publisher s) \<lparr>br_Topic = topic, br_Messages = ms\<rparr> w of
                           None \<Rightarrow> None
                         | Some (Inl e, w) \<Rightarrow> reply (writeErrorResponse 500 e ''BATCH_PUBLISH_FAILED'') st w
                         | Some (Inr resp, w) \<Rightarrow>
                             (let failed = failed @ batch_failures (bp_Errors resp)
                              in reply (writeJSONResponse (if length failed > 0 then 206 else 200)
                                   (BBatch \<lparr>hb_Messages = map http_response_of (bp_Responses resp),
                                            hb_Failed = failed\<rparr>)) st w)))))"

definition handlePublisherRoutes :: "('d, 'w) http_server \<Rightarrow> ('d, 'w) http_handler" where
  "handlePublisherRoutes s r st w =
     (let parts = split_on CHR ''/'' (TrimPrefix (rq_Path r) ''/v1/publish/'')
      in if length parts = 0 \<or> parts ! 0 = ''''
         then reply (writeErrorResponse 400 (Errorf ''topic name is required'') ''MISSING_TOPIC'') st w
         else if length parts > 1 \<and> parts ! 1 = ''batch'' then handleBatchPublish s (parts ! 0) r st w
         else if length parts = 1 then handlePublish s (parts ! 0) r st w
         else reply endpoint_not_found st w)"

definition setupPublisherRoutes ::
  "('d, 'w) http_server \<Rightarrow> (string \<times> ('d, 'w) writer_handler) list" where
  "setupPublisherRoutes s = [(''/v1/publish/'', \<lambda>_. handlePublisherRoutes s)]"

end
