(* ===== verification/HttpSubscriber.thy ===== *)
theory HttpSubscriber
  imports HttpPublisher
begin

text \<open>
  Subscriptions, consumer groups and acknowledgments over HTTP: \<^verbatim>\<open>subscriber.go\<close> and
  \<^verbatim>\<open>acknowledgment.go\<close> of \<^verbatim>\<open>internal/adapters/api/http\<close>. \<open>handleTopicSubscriberOperations\<close> is
  modelled, but no route reaches it.
\<close>

section \<open>Requests\<close>

record retry_policy =
  wp_MaxRetries :: int
  wp_BackoffFactor :: int
  wp_MaxBackoff :: "int option"

record http_subscribe_request =
  wq_Topic :: string
  wq_ConsumerGroup :: string
  wq_DeliveryMode :: string
  wq_MaxMessages :: int
  wq_AckDeadline :: "int option"
  wq_RetryPolicy :: "retry_policy option"
  wq_DeadLetterTopic :: string
  wq_Config :: "string gomap"

record http_pull_request =
  wl_MaxMessages :: int
  wl_AckDeadline :: "int option"
  wl_WaitTimeout :: "int option"

record http_group_pull_request =
  wg_ConsumerGroup :: string
  wg_ConsumerID :: string
  wg_MaxMessages :: int
  wg_AckDeadline :: "int option"
  wg_WaitTimeout :: "int option"

record http_join_request =
  wj_ConsumerGroup :: string
  wj_ConsumerID :: string
  wj_Config :: "string gomap"

record http_ack_request =
  wa_MessageID :: string
  wa_ConsumerID :: string
  wa_ConsumerGroup :: string

record http_nack_request =
  wn_MessageID :: string
  wn_ConsumerID :: string
  wn_ConsumerGroup :: string
  wn_Reason :: string
  wn_Retry :: bool

definition retry_setters :: "retry_policy setter gomap" where
  "retry_setters =
     [(''max_retries'', set_int wp_MaxRetries_update), (''backoff_factor'', set_int wp_BackoffFactor_update),
      (''max_backoff'', set_int_ptr wp_MaxBackoff_update)]"

definition zero_retry_policy :: retry_policy where
  "zero_retry_policy = \<lparr>wp_MaxRetries = 0, wp_BackoffFactor = 0, wp_MaxBackoff = None\<rparr>"

definition subscribe_setters :: "http_subscribe_request setter gomap" where
  "subscribe_setters =
     [(''topic'', set_str wq_Topic_update), (''consumer_group'', set_str wq_ConsumerGroup_update),
      (''delivery_mode'', set_str wq_DeliveryMode_update), (''max_messages'', set_int wq_MaxMessages_update),
      (''ack_deadline'', set_int_ptr wq_AckDeadline_update),
      (''retry_policy'', set_struct_ptr (decode_struct True retry_setters) zero_retry_policy wq_RetryPolicy wq_RetryPolicy_update),
      (''dead_letter_topic'', set_str wq_DeadLetterTopic_update), (''config'', set_str_map wq_Config_update)]"

definition zero_subscribe_request :: http_subscribe_request where
  "zero_subscribe_request =
     \<lparr>wq_Topic = '''', wq_ConsumerGroup = '''', wq_DeliveryMode = '''', wq_MaxMessages = 0, wq_AckDeadline = None,
      wq_RetryPolicy = None, wq_DeadLetterTopic = '''', wq_Config = []\<rparr>"

definition pull_setters :: "http_pull_request setter gomap" where
  "pull_setters =
     [(''max_messages'', set_int wl_MaxMessages_update), (''ack_deadline'', set_int_ptr wl_AckDeadline_update),
      (''wait_timeout'', set_int_ptr wl_WaitTimeout_update)]"

definition group_pull_setters :: "http_group_pull_request setter gomap" where
  "group_pull_setters =
     [(''consumer_group'', set_str wg_ConsumerGroup_update), (''consumer_id'', set_str wg_ConsumerID_update),
      (''max_messages'', set_int wg_MaxMessages_update), (''ack_deadline'', set_int_ptr wg_AckDeadline_update),
      (''wait_timeout'', set_int_ptr wg_WaitTimeout_update)]"

definition zero_group_pull_request :: http_group_pull_request where
  "zero_group_pull_request =
     \<lparr>wg_ConsumerGroup = '''', wg_ConsumerID = '''', wg_MaxMessages = 0, wg_AckDeadline = None, wg_WaitTimeout = None\<rparr>"

definition join_setters :: "http_join_request setter gomap" where
  "join_setters =
     [(''consumer_group'', set_str wj_ConsumerGroup_update), (''consumer_id'', set_str wj_ConsumerID_update),
      (''config'', set_str_map wj_Config_update)]"

definition ack_setters :: "http_ack_request setter gomap" where
  "ack_setters =
     [(''message_id'', set_str wa_MessageID_update), (''consumer_id'', set_str wa_ConsumerID_update),
      (''consumer_group'', set_str wa_ConsumerGroup_update)]"

definition nack_setters :: "http_nack_request setter gomap" where
  "nack_setters =
     [(''message_id'', set_str wn_MessageID_update), (''consumer_id'', set_str wn_ConsumerID_update),
      (''consumer_group'', set_str wn_ConsumerGroup_update), (''reason'', set_str wn_Reason_update),
      (''retry'', set_bool wn_Retry_update)]"

section \<open>Validation and conversion\<close>

definition http_validateSubscribeRequest :: "http_subscribe_request \<Rightarrow> go_error option" where
  "http_validateSubscribeRequest req =
     (if wq_Topic req = '''' then Some (Errorf ''topic is required'')
      else if wq_DeliveryMode req \<noteq> '''' \<and> wq_DeliveryMode req \<notin> {''push'', ''pull''}
      then Some (Errorf (''invalid delivery mode: '' @ wq_DeliveryMode req))
      else if (case wq_AckDeadline req of None \<Rightarrow> False | Some n \<Rightarrow> n < 0)
      then Some (Errorf ''ack deadline must be non-negative'')
      else (case wq_RetryPolicy req of
              None \<Rightarrow> None
            | Some p \<Rightarrow>
                if wp_MaxRetries p < 0 then Some (Errorf ''max retries must be non-negative'')
                else if (case wp_MaxBackoff p of None \<Rightarrow> False | Some n \<Rightarrow> n < 0)
                then Some (Errorf ''max backoff must be non-negative'')
                else None))"

definition parseSubscriptionType :: "string \<Rightarrow> int" where
  "parseSubscriptionType mode = (if mode = ''push'' then TypePush else TypePull)"

definition formatPriority :: "int \<Rightarrow> string" where
  "formatPriority p =
     (if p = PriorityLow then ''low'' else if p = PriorityHigh then ''high''
      else if p = PriorityCritical then ''critical'' else ''normal'')"

definition formatDeliveryMode :: "int \<Rightarrow> string" where
  "formatDeliveryMode m =
     (if m = DeliveryAtMostOnce then ''at_most_once'' else if m = DeliveryExactlyOnce then ''exactly_once''
      else ''at_least_once'')"

definition convertMessage :: "message \<Rightarrow> message_response" where
  "convertMessage m =
     \<lparr>me_ID = m_ID m, me_Topic = m_Topic m, me_Partition = m_Partition m, me_Offset = m_Offset m,
      me_Key = b64_encode (m_Key m), me_Payload = b64_encode (m_Payload m), me_Headers = m_Headers m,
      me_Priority = formatPriority (m_Priority m), me_DeliveryMode = formatDeliveryMode (m_DeliveryMode m),
      me_ConsumerGroup = m_ConsumerGroup m, me_ConsumerID = m_ConsumerID m, me_CreatedAt = m_CreatedAt m,
      me_DeliveredAt = m_DeliveredAt m, me_ExpiresAt = m_ExpiresAt m\<rparr>"

definition convertPullResponse :: "pull_response \<Rightarrow> 'd world \<Rightarrow> http_pull_response \<times> 'd world" where
  "convertPullResponse p w =
     (let (now, w) = time_now w
      in (\<lparr>hl_Messages = map convertMessage (pl_Messages p), hl_HasMore = pl_HasMore p,
           hl_NextOffset = pl_NextOffset p, hl_WaitTime = 0, hl_ReceivedAt = now\<rparr>, w))"

text \<open>The request that a subscription makes of its body.\<close>

definition service_subscribe_request :: "http_subscribe_request \<Rightarrow> subscribe_request" where
  "service_subscribe_request req =
     \<lparr>sq_Topic = wq_Topic req, sq_ConsumerGroup = wq_ConsumerGroup req, sq_ConsumerID = '''',
      sq_Type = parseSubscriptionType (wq_DeliveryMode req),
      sq_AckDeadline = (case wq_AckDeadline req of None \<Rightarrow> 0 | Some n \<Rightarrow> in_seconds n),
      sq_MaxRetries = (case wq_RetryPolicy req of None \<Rightarrow> 0 | Some p \<Rightarrow> wp_MaxRetries p),
      sq_DeadLetterTopic = wq_DeadLetterTopic req, sq_Filter = '''', sq_Config = wq_Config req\<rparr>"

section \<open>Subscription handlers\<close>

definition handleCreateSubscription :: "('d, 'w) http_server \<Rightarrow> ('d, 'w) http_handler" where
  "handleCreateSubscription s r st w =
     (case parseJSONRequest subscribe_setters zero_subscribe_request r of
        Inl e \<Rightarrow> reply (writeErrorResponse 400 e ''INVALID_REQUEST'') st w
      | Inr req \<Rightarrow>
          (case http_validateSubscribeRequest req of
             Some e \<Rightarrow> reply (writeErrorResponse 400 e ''VALIDATION_ERROR'') st w
           | None \<Rightarrow>
               (case Subscribe (hv_subscriber s) (service_subscribe_request req) (hs_subscriber st) w of
                  (Inl e, ss, w) \<Rightarrow>
                    reply (error_reply [(''topic not found'', 404, ''TOPIC_NOT_FOUND'')] ''SUBSCRIPTION_FAILED'' e)
                      (st\<lparr>hs_subscriber := ss\<rparr>) w
                | (Inr resp, ss, w) \<Rightarrow>
                    reply (writeSuccessResponse (DSubscribed resp) ''Subscription created successfully'')
                      (st\<lparr>hs_subscriber := ss\<rparr>) w)))"

definition handleSubscriptionListOrCreate :: "('d, 'w) http_server \<Rightarrow> ('d, 'w) http_handler" where
  "handleSubscriptionListOrCreate s r st w =
     (if rq_Method r = ''POST'' then handleCreateSubscription s r st w else reply method_not_allowed st w)"

definition handleGetSubscription :: "('d, 'w) http_server \<Rightarrow> string \<Rightarrow> ('d, 'w) http_handler" where
  "handleGetSubscription s sid r st w =
     (case GetSubscription (hv_subscriber s) sid (hs_subscriber st) w of
        (Inl e, w) \<Rightarrow> reply (error_reply [(''not found'', 404, ''SUBSCRIPTION_NOT_FOUND'')] ''GET_FAILED'' e) st w
      | (Inr info, w) \<Rightarrow>
          reply (writeSuccessResponse (DSubscription info) ''Subscription retrieved successfully'') st w)"

definition handleDeleteSubscription :: "('d, 'w) http_server \<Rightarrow> string \<Rightarrow> ('d, 'w) http_handler" where
  "handleDeleteSubscription s sid r st w =
     (case Unsubscribe (hv_subscriber s) sid (hs_subscriber st) w of
        (Some e, ss, w) \<Rightarrow>
          reply (error_reply [(''not found'', 404, ''SUBSCRIPTION_NOT_FOUND'')] ''DELETE_FAILED'' e)
            (st\<lparr>hs_subscriber := ss\<rparr>) w
      | (None, ss, w) \<Rightarrow>
          reply (writeSuccessResponse DNil ''Subscription deleted successfully'') (st\<lparr>hs_subscriber := ss\<rparr>) w)"

definition handleSubscriptionOperations :: "('d, 'w) http_server \<Rightarrow> ('d, 'w) http_handler" where
  "handleSubscriptionOperations s r st w =
     (let sid = extractSubscriptionIDFromPath (rq_Path r)
      in if sid = ''''
         then reply (writeErrorResponse 400 (Errorf ''subscription ID is required'') ''MISSING_SUBSCRIPTION_ID'') st w
         else if rq_Method r = ''GET'' then handleGetSubscription s sid r st w
         else if rq_Method r = ''DELETE'' then handleDeleteSubscription s sid r st w
         else reply method_not_allowed st w)"

definition handlePullMessages :: "('d, 'w) http_server \<Rightarrow> string \<Rightarrow> ('d, 'w) http_handler" where
  "handlePullMessages s topic r st w =
     (if rq_Method r \<noteq> ''POST'' then reply method_not_allowed st w
      else (case parseJSONRequest pull_setters \<lparr>wl_MaxMessages = 0, wl_AckDeadline = None, wl_WaitTimeout = None\<rparr> r of
              Inl e \<Rightarrow> reply (writeErrorResponse 400 e ''INVALID_REQUEST'') st w
            | Inr req \<Rightarrow>
                (case Pull (hv_subscriber s)
                    \<lparr>pq_Topic = topic, pq_Partition = None, pq_Offset = None, pq_Limit = wl_MaxMessages req,
                     pq_Timeout = (case wl_WaitTimeout req of None \<Rightarrow> 0 | Some n \<Rightarrow> in_seconds n),
                     pq_AckDeadline = (case wl_AckDeadline req of None \<Rightarrow> 0 | Some n \<Rightarrow> in_seconds n)\<rparr>
                    (hs_subscriber st) w of
                   (Inl e, ss, w) \<Rightarrow>
                     reply (error_reply [(''topic not found'', 404, ''TOPIC_NOT_FOUND'')] ''PULL_FAILED'' e)
                       (st\<lparr>hs_subscriber := ss\<rparr>) w
                 | (Inr resp, ss, w) \<Rightarrow>
                     (let (p, w) = convertPullResponse resp w
                      in reply (writeSuccessResponse (DPulled p) ''Messages retrieved successfully'')
                           (st\<lparr>hs_subscriber := ss\<rparr>) w))))"

definition handleListTopicSubscriptions :: "('d, 'w) http_server \<Rightarrow> string \<Rightarrow> ('d, 'w) http_handler" where
  "handleListTopicSubscriptions s topic r st w =
     (if rq_Method r \<noteq> ''GET'' then reply method_not_allowed st w
      else (case ListSubscriptions (hv_subscriber s) topic w of
              (Inl e, w) \<Rightarrow> reply (error_reply [(''topic not found'', 404, ''TOPIC_NOT_FOUND'')] ''LIST_FAILED'' e) st w
            | (Inr infos, w) \<Rightarrow>
                reply (writeSuccessResponse (DSubscriptions infos) ''Subscriptions retrieved successfully'') st w))"

text \<open>Nothing is written for a path without a topic, or with another operation: an empty 200.\<close>

definition handleTopicSubscriberOperations :: "('d, 'w) http_server \<Rightarrow> ('d, 'w) http_handler" where
  "handleTopicSubscriberOperations s r st w =
     (let path = rq_Path r; topic = extractTopicFromPath path; silent = \<lparr>rp_Codes = [], rp_Header = [], rp_Body = []\<rparr>
      in if topic = '''' then reply silent st w
         else if HasSuffix path ''/pull'' then handlePullMessages s topic r st w
         else if contains_str path ''/subscriptions'' then handleListTopicSubscriptions s topic r st w
         else reply silent st w)"

section \<open>Consumer group handlers\<close>

text \<open>The topic that is pulled from is the field \<open>consumer_group\<close> of the body.\<close>

definition handleConsumerGroupPull :: "('d, 'w) http_server \<Rightarrow> string \<Rightarrow> ('d, 'w) http_handler" where
  "handleConsumerGroupPull s groupName r st w =
     (if rq_Method r \<noteq> ''POST'' then reply method_not_allowed st w
      else (case parseJSONRequest group_pull_setters zero_group_pull_request r of
              Inl e \<Rightarrow> reply (writeErrorResponse 400 e ''INVALID_REQUEST'') st w
            | Inr req \<Rightarrow>
                if wg_ConsumerID req = ''''
                then reply (writeErrorResponse 400 (Errorf ''consumer ID is required'') ''MISSING_CONSUMER_ID'') st w
                else
                  (case PullWithConsumerGroup (hv_subscriber s)
                      \<lparr>gq_Topic = wg_ConsumerGroup req, gq_ConsumerGroup = groupName, gq_ConsumerID = wg_ConsumerID req,
                       gq_Limit = wg_MaxMessages req, gq_Timeout = 0,
                       gq_AckDeadline = (case wg_AckDeadline req of None \<Rightarrow> 0 | Some n \<Rightarrow> in_seconds n)\<rparr>
                      (hs_subscriber st) w of
                     None \<Rightarrow> None
                   | Some (Inl e, ss, w) \<Rightarrow>
                       reply (error_reply [(''not found'', 404, ''GROUP_NOT_FOUND'')] ''PULL_FAILED'' e)
                         (st\<lparr>hs_subscriber := ss\<rparr>) w
                   | Some (Inr resp, ss, w) \<Rightarrow>
                       (let (p, w) = convertPullResponse resp w
                        in reply (writeSuccessResponse (DPulled p) ''Messages retrieved successfully'')
                             (st\<lparr>hs_subscriber := ss\<rparr>) w))))"

definition handleJoinConsumerGroup :: "('d, 'w) http_server \<Rightarrow> string \<Rightarrow> ('d, 'w) http_handler" where
  "handleJoinConsumerGroup s groupName r st w =
     (if rq_Method r \<noteq> ''POST'' then reply method_not_allowed st w
      else (case parseJSONRequest join_setters \<lparr>wj_ConsumerGroup = '''', wj_ConsumerID = '''', wj_Config = []\<rparr> r of
              Inl e \<Rightarrow> reply (writeErrorResponse 400 e ''INVALID_REQUEST'') st w
            | Inr req \<Rightarrow>
                if wj_ConsumerID req = ''''
                then reply (writeErrorResponse 400 (Errorf ''consumer ID is required'') ''MISSING_CONSUMER_ID'') st w
                else
                  (case JoinConsumerGroup (hv_subscriber s)
                      \<lparr>jq_Topic = '''', jq_ConsumerGroup = groupName, jq_ConsumerID = wj_ConsumerID req,
                       jq_Metadata = wj_Config req\<rparr> (hs_subscriber st) w of
                     (Inl e, ss, w) \<Rightarrow> reply (writeErrorResponse 500 e ''JOIN_FAILED'') (st\<lparr>hs_subscriber := ss\<rparr>) w
                   | (Inr resp, ss, w) \<Rightarrow>
                       reply (writeSuccessResponse (DJoined resp) ''Joined consumer group successfully'')
                         (st\<lparr>hs_subscriber := ss\<rparr>) w)))"

text \<open>\<open>LeaveConsumerGroup\<close> never returns an error, so the error branch of the handler is left out.\<close>

definition handleLeaveConsumerGroup :: "('d, 'w) http_server \<Rightarrow> string \<Rightarrow> ('d, 'w) http_handler" where
  "handleLeaveConsumerGroup s groupName r st w =
     (if rq_Method r \<noteq> ''POST'' then reply method_not_allowed st w
      else if QueryGet r ''consumer_id'' = ''''
      then reply (writeErrorResponse 400 (Errorf ''consumer ID is required'') ''MISSING_CONSUMER_ID'') st w
      else (let (ss, w) = LeaveConsumerGroup (hv_subscriber s) groupName (QueryGet r ''consumer_id'') (hs_subscriber st) w
            in reply (writeSuccessResponse DNil ''Left consumer group successfully'') (st\<lparr>hs_subscriber := ss\<rparr>) w))"

definition handleConsumerGroupOperations :: "('d, 'w) http_server \<Rightarrow> ('d, 'w) http_handler" where
  "handleConsumerGroupOperations s r st w =
     (let path = rq_Path r; groupName = extractConsumerGroupFromPath path
      in if groupName = ''''
         then reply (writeErrorResponse 400 (Errorf ''consumer group is required'') ''MISSING_CONSUMER_GROUP'') st w
         else if HasSuffix path ''/pull'' then handleConsumerGroupPull s groupName r st w
         else if HasSuffix path ''/join'' then handleJoinConsumerGroup s groupName r st w
         else if HasSuffix path ''/leave'' then handleLeaveConsumerGroup s groupName r st w
         else reply endpoint_not_found st w)"

definition setupSubscriberRoutes ::
  "('d, 'w) http_server \<Rightarrow> (string \<times> ('d, 'w) writer_handler) list" where
  "setupSubscriberRoutes s =
     [(''/v1/subscriptions'', \<lambda>_. handleSubscriptionListOrCreate s),
      (''/v1/subscriptions/'', \<lambda>_. handleSubscriptionOperations s),
      (''/v1/consumer-groups/'', \<lambda>_. handleConsumerGroupOperations s)]"

section \<open>Acknowledgment handlers\<close>

definition validateAcknowledgeRequest :: "http_ack_request \<Rightarrow> go_error option" where
  "validateAcknowledgeRequest req =
     (if wa_MessageID req = '''' then Some (Errorf ''message ID is required'')
      else if wa_ConsumerID req = '''' then Some (Errorf ''consumer ID is required'')
      else None)"

definition validateNackRequest :: "http_nack_request \<Rightarrow> go_error option" where
  "validateNackRequest req =
     (if wn_MessageID req = '''' then Some (Errorf ''message ID is required'')
      else if wn_ConsumerID req = '''' then Some (Errorf ''consumer ID is required'')
      else None)"

definition handleAcknowledgeMessage :: "('d, 'w) http_server \<Rightarrow> string \<Rightarrow> ('d, 'w) http_handler" where
  "handleAcknowledgeMessage s messageID r st w =
     (if rq_Method r \<noteq> ''POST'' then reply method_not_allowed st w
      else (case parseJSONRequest ack_setters \<lparr>wa_MessageID = '''', wa_ConsumerID = '''', wa_ConsumerGroup = ''''\<rparr> r of
              Inl e \<Rightarrow> reply (writeErrorResponse 400 e ''INVALID_REQUEST'') st w
            | Inr req \<Rightarrow>
                (case validateAcknowledgeRequest req of
                   Some e \<Rightarrow> reply (writeErrorResponse 400 e ''VALIDATION_ERROR'') st w
                 | None \<Rightarrow>
                     (case subscriber_Acknowledge (hv_subscriber s)
                         \<lparr>aq_MessageID = messageID, aq_ConsumerID = wa_ConsumerID req,
                          aq_ConsumerGroup = wa_ConsumerGroup req\<rparr> (hs_subscriber st) w of
                        (Some e, ss, w) \<Rightarrow>
                          reply (error_reply
                              [(''not found'', 404, ''MESSAGE_NOT_FOUND''),
                               (''already acknowledged'', 409, ''ALREADY_ACKNOWLEDGED''),
                               (''deadline exceeded'', 410, ''ACK_DEADLINE_EXCEEDED'')] ''ACKNOWLEDGE_FAILED'' e)
                            (st\<lparr>hs_subscriber := ss\<rparr>) w
                      | (None, ss, w) \<Rightarrow>
                          reply (writeSuccessResponse DNil ''Message acknowledged successfully'')
                            (st\<lparr>hs_subscriber := ss\<rparr>) w))))"

definition handleNegativeAcknowledgeMessage :: "('d, 'w) http_server \<Rightarrow> string \<Rightarrow> ('d, 'w) http_handler" where
  "handleNegativeAcknowledgeMessage s messageID r st w =
     (if rq_Method r \<noteq> ''POST'' then reply method_not_allowed st w
      else (case parseJSONRequest nack_setters
                \<lparr>wn_MessageID = '''', wn_ConsumerID = '''', wn_ConsumerGroup = '''', wn_Reason = '''', wn_Retry = False\<rparr> r of
              Inl e \<Rightarrow> reply (writeErrorResponse 400 e ''INVALID_REQUEST'') st w
            | Inr req \<Rightarrow>
                (case validateNackRequest req of
                   Some e \<Rightarrow> reply (writeErrorResponse 400 e ''VALIDATION_ERROR'') st w
                 | None \<Rightarrow>
                     (case NegativeAcknowledge (hv_subscriber s)
                         \<lparr>nq_MessageID = messageID, nq_ConsumerID = wn_ConsumerID req,
                          nq_ConsumerGroup = wn_ConsumerGroup req, nq_Reason = wn_Reason req,
                          nq_Retry = wn_Retry req\<rparr> (hs_subscriber st) w of
                        (Some e, ss, w) \<Rightarrow>
                          reply (error_reply
                              [(''not found'', 404, ''MESSAGE_NOT_FOUND''),
                               (''already acknowledged'', 409, ''ALREADY_ACKNOWLEDGED''),
                               (''max retries exceeded'', 400, ''MAX_RETRIES_EXCEEDED'')] ''NACK_FAILED'' e)
                            (st\<lparr>hs_subscriber := ss\<rparr>) w
                      | (None, ss, w) \<Rightarrow>
                          reply (writeSuccessResponse DNil
                              (if wn_Retry req then ''Message negative acknowledged and scheduled for retry''
                               else ''Message negative acknowledged and moved to DLQ''))
                            (st\<lparr>hs_subscriber := ss\<rparr>) w))))"

definition handleMessageOperations :: "('d, 'w) http_server \<Rightarrow> ('d, 'w) http_handler" where
  "handleMessageOperations s r st w =
     (let path = rq_Path r; messageID = extractMessageIDFromPath path
      in if messageID = ''''
         then reply (writeErrorResponse 400 (Errorf ''message ID is required'') ''MISSING_MESSAGE_ID'') st w
         else if HasSuffix path ''/ack'' then handleAcknowledgeMessage s messageID r st w
         else if HasSuffix path ''/nack'' then handleNegativeAcknowledgeMessage s messageID r st w
         else reply endpoint_not_found st w)"

definition setupAcknowledgeRoutes ::
  "('d, 'w) http_server \<Rightarrow> (string \<times> ('d, 'w) writer_handler) list" where
  "setupAcknowledgeRoutes s = [(''/v1/messages/'', \<lambda>_. handleMessageOperations s)]"

end
