(* ===== verification/HttpTopic.thy ===== *)
theory HttpTopic
  imports HttpCore HttpPublisher
begin

text \<open>
  Topics over HTTP, \<^verbatim>\<open>internal/adapters/api/http/topic.go\<close>.
\<close>

section \<open>Requests\<close>

record http_create_request =
  vq_Name :: string
  vq_Partitions :: int
  vq_Replication :: int
  vq_RetentionTime :: "int option"
  vq_MaxSize :: "int option"
  vq_Config :: "json gomap option"

record http_update_request =
  vu_RetentionTime :: "int option"
  vu_MaxSize :: "int option"
  vu_Config :: "json gomap option"

definition create_setters :: "http_create_request setter gomap" where
  "create_setters =
     [(''name'', set_str vq_Name_update), (''partitions'', set_int32 vq_Partitions_update),
      (''replication'', set_int32 vq_Replication_update), (''retention_time'', set_int_ptr vq_RetentionTime_update),
      (''max_size'', set_int_ptr vq_MaxSize_update), (''config'', set_any_map vq_Config_update)]"

definition zero_create_request :: http_create_request where
  "zero_create_request =
     \<lparr>vq_Name = '''', vq_Partitions = 0, vq_Replication = 0, vq_RetentionTime = None, vq_MaxSize = None,
      vq_Config = None\<rparr>"

definition update_setters :: "http_update_request setter gomap" where
  "update_setters =
     [(''retention_time'', set_int_ptr vu_RetentionTime_update), (''max_size'', set_int_ptr vu_MaxSize_update),
      (''config'', set_any_map vu_Config_update)]"

text \<open>The characters of a topic name: ASCII letters and digits, dash, underscore and dot.\<close>

definition name_char :: "char \<Rightarrow> bool" where
  "name_char c \<longleftrightarrow>
     (let n = (of_char c :: nat)
      in (97 \<le> n \<and> n \<le> 122) \<or> (65 \<le> n \<and> n \<le> 90) \<or> (48 \<le> n \<and> n \<le> 57)
         \<or> c = CHR ''-'' \<or> c = CHR ''_'' \<or> c = CHR ''.'')"

definition http_validateCreateTopicRequest :: "http_create_request \<Rightarrow> go_error option" where
  "http_validateCreateTopicRequest req =
     (if vq_Name req = '''' then Some (Errorf ''topic name is required'')
      else if length (vq_Name req) > 255 then Some (Errorf ''topic name must be 255 characters or less'')
      else if \<not> list_all name_char (vq_Name req) then Some (Errorf ''topic name contains invalid characters'')
      else if vq_Partitions req < 0 then Some (Errorf ''partitions must be non-negative'')
      else if vq_Replication req < 0 then Some (Errorf ''replication must be non-negative'')
      else if (case vq_RetentionTime req of None \<Rightarrow> False | Some n \<Rightarrow> n < 0)
      then Some (Errorf ''retention time must be non-negative'')
      else if (case vq_MaxSize req of None \<Rightarrow> False | Some n \<Rightarrow> n < 0)
      then Some (Errorf ''max size must be non-negative'')
      else None)"

definition service_create_request :: "http_create_request \<Rightarrow> create_request" where
  "service_create_request req =
     \<lparr>xq_Name = vq_Name req, xq_Partitions = vq_Partitions req, xq_Replication = vq_Replication req,
      xq_RetentionTime = (case vq_RetentionTime req of None \<Rightarrow> 0 | Some n \<Rightarrow> in_seconds n),
      xq_MaxSize = (case vq_MaxSize req of None \<Rightarrow> 0 | Some n \<Rightarrow> n), xq_Config = vq_Config req\<rparr>"

section \<open>Handlers\<close>

definition topic_not_found :: "(string \<times> int \<times> string)" where
  "topic_not_found = (''not found'', 404, ''TOPIC_NOT_FOUND'')"

definition handleCreateTopic :: "('d, 'w) http_server \<Rightarrow> ('d, 'w) http_handler" where
  "handleCreateTopic s r st w =
     (case parseJSONRequest create_setters zero_create_request r of
        Inl e \<Rightarrow> reply (writeErrorResponse 400 e ''INVALID_REQUEST'') st w
      | Inr req \<Rightarrow>
          (case http_validateCreateTopicRequest req of
             Some e \<Rightarrow> reply (writeErrorResponse 400 e ''VALIDATION_ERROR'') st w
           | None \<Rightarrow>
               (case manager_CreateTopic (hv_topics s) (service_create_request req) (hs_topics st) w of
                  None \<Rightarrow> None
                | Some (Inl e, ts, w) \<Rightarrow>
                    reply (error_reply [(''already exists'', 409, ''TOPIC_EXISTS'')] ''CREATE_FAILED'' e)
                      (st\<lparr>hs_topics := ts\<rparr>) w
                | Some (Inr resp, ts, w) \<Rightarrow>
                    reply (writeSuccessResponse (DCreated resp) ''Topic created successfully'')
                      (st\<lparr>hs_topics := ts\<rparr>) w)))"

definition handleListTopics :: "('d, 'w) http_server \<Rightarrow> ('d, 'w) http_handler" where
  "handleListTopics s r st w =
     (case manager_ListTopics (hv_topics s)
         \<lparr>lq_Offset = parseQueryInt r ''offset'' 0, lq_Limit = parseQueryInt r ''limit'' 50,
          lq_Filter = parseQueryString r ''filter'' ''''\<rparr> w of
        None \<Rightarrow> None
      | Some (Inl e, w) \<Rightarrow> reply (writeErrorResponse 500 e ''LIST_FAILED'') st w
      | Some (Inr resp, w) \<Rightarrow> reply (writeSuccessResponse (DTopics resp) ''Topics retrieved successfully'') st w)"

definition handleTopicListOrCreate :: "('d, 'w) http_server \<Rightarrow> ('d, 'w) http_handler" where
  "handleTopicListOrCreate s r st w =
     (if rq_Method r = ''GET'' then handleListTopics s r st w
      else if rq_Method r = ''POST'' then handleCreateTopic s r st w
      else reply method_not_allowed st w)"

definition handleGetTopic :: "('d, 'w) http_server \<Rightarrow> string \<Rightarrow> ('d, 'w) http_handler" where
  "handleGetTopic s topicName r st w =
     (case GetTopic (hv_topics s) topicName (hs_topics st) w of
        (Inl e, ts, w) \<Rightarrow> reply (error_reply [topic_not_found] ''GET_FAILED'' e) (st\<lparr>hs_topics := ts\<rparr>) w
      | (Inr info, ts, w) \<Rightarrow>
          reply (writeSuccessResponse (DTopic info) ''Topic retrieved successfully'') (st\<lparr>hs_topics := ts\<rparr>) w)"

definition handleUpdateTopic :: "('d, 'w) http_server \<Rightarrow> string \<Rightarrow> ('d, 'w) http_handler" where
  "handleUpdateTopic s topicName r st w =
     (case parseJSONRequest update_setters \<lparr>vu_RetentionTime = None, vu_MaxSize = None, vu_Config = None\<rparr> r of
        Inl e \<Rightarrow> reply (writeErrorResponse 400 e ''INVALID_REQUEST'') st w
      | Inr req \<Rightarrow>
          (case UpdateTopic (hv_topics s) topicName
              \<lparr>yq_RetentionTime = map_option in_seconds (vu_RetentionTime req), yq_MaxSize = vu_MaxSize req,
               yq_Config = vu_Config req\<rparr> (hs_topics st) w of
             (Inl e, ts, w) \<Rightarrow>
               reply (error_reply [topic_not_found, (''no updates'', 400, ''NO_UPDATES'')] ''UPDATE_FAILED'' e)
                 (st\<lparr>hs_topics := ts\<rparr>) w
           | (Inr info, ts, w) \<Rightarrow>
               reply (writeSuccessResponse (DTopic info) ''Topic updated successfully'') (st\<lparr>hs_topics := ts\<rparr>) w))"

definition handleDeleteTopic :: "('d, 'w) http_server \<Rightarrow> string \<Rightarrow> ('d, 'w) http_handler" where
  "handleDeleteTopic s topicName r st w =
     (case manager_DeleteTopic (hv_topics s) topicName (hs_topics st) w of
        (Some e, ts, w) \<Rightarrow>
          reply (error_reply [topic_not_found, (''does not exist'', 404, ''TOPIC_NOT_FOUND'')] ''DELETE_FAILED'' e)
            (st\<lparr>hs_topics := ts\<rparr>) w
      | (None, ts, w) \<Rightarrow>
          reply (writeSuccessResponse DNil ''Topic deleted successfully'') (st\<lparr>hs_topics := ts\<rparr>) w)"

definition handleGetTopicStats :: "('d, 'w) http_server \<Rightarrow> string \<Rightarrow> ('d, 'w) http_handler" where
  "handleGetTopicStats s topicName r st w =
     (if rq_Method r \<noteq> ''GET'' then reply method_not_allowed st w
      else (case manager_GetTopicStats (hv_topics s) topicName (hs_topics st) w of
              (Inl e, ts, w) \<Rightarrow> reply (error_reply [topic_not_found] ''STATS_FAILED'' e) (st\<lparr>hs_topics := ts\<rparr>) w
            | (Inr stats, ts, w) \<Rightarrow>
                reply (writeSuccessResponse (DStats stats) ''Topic statistics retrieved successfully'')
                  (st\<lparr>hs_topics := ts\<rparr>) w))"

definition handleGetTopicHealth :: "('d, 'w) http_server \<Rightarrow> string \<Rightarrow> ('d, 'w) http_handler" where
  "handleGetTopicHealth s topicName r st w =
     (if rq_Method r \<noteq> ''GET'' then reply method_not_allowed st w
      else (case GetTopicHealth (hv_topics s) topicName (hs_topics st) w of
              (Inl e, ts, w) \<Rightarrow> reply (error_reply [topic_not_found] ''HEALTH_FAILED'' e) (st\<lparr>hs_topics := ts\<rparr>) w
            | (Inr health, ts, w) \<Rightarrow>
                reply (writeSuccessResponse (DHealth health) ''Topic health retrieved successfully'')
                  (st\<lparr>hs_topics := ts\<rparr>) w))"

definition handleGetPartitionInfo :: "('d, 'w) http_server \<Rightarrow> string \<Rightarrow> ('d, 'w) http_handler" where
  "handleGetPartitionInfo s topicName r st w =
     (if rq_Method r \<noteq> ''GET'' then reply method_not_allowed st w
      else (case manager_GetPartitionInfo topicName (hs_topics st) of
              Inl e \<Rightarrow> reply (error_reply [topic_not_found] ''PARTITION_INFO_FAILED'' e) st w
            | Inr info \<Rightarrow>
                reply (writeSuccessResponse (DPartitions info) ''Partition information retrieved successfully'') st w))"

definition handleRebalancePartitions :: "('d, 'w) http_server \<Rightarrow> string \<Rightarrow> ('d, 'w) http_handler" where
  "handleRebalancePartitions s topicName r st w =
     (if rq_Method r \<noteq> ''POST'' then reply method_not_allowed st w
      else (let (consumers, cs, order) = hv_ranges s
            in (case manager_RebalancePartitions consumers cs order topicName (hs_topics st) w of
                  None \<Rightarrow> None
                | Some (Inl e, ts, w) \<Rightarrow>
                    reply (error_reply [topic_not_found, (''already in progress'', 409, ''REBALANCE_IN_PROGRESS'')]
                             ''REBALANCE_FAILED'' e) (st\<lparr>hs_topics := ts\<rparr>) w
                | Some (Inr result, ts, w) \<Rightarrow>
                    reply (writeSuccessResponse (DRebalanced result) ''Partition rebalancing initiated successfully'')
                      (st\<lparr>hs_topics := ts\<rparr>) w)))"

definition handleTopicOperations :: "('d, 'w) http_server \<Rightarrow> ('d, 'w) http_handler" where
  "handleTopicOperations s r st w =
     (let path = rq_Path r; topic = extractTopicFromPath path
      in if topic = '''' then reply (writeErrorResponse 400 (Errorf ''topic name is required'') ''MISSING_TOPIC'') st w
         else if HasSuffix path ''/stats'' then handleGetTopicStats s topic r st w
         else if HasSuffix path ''/health'' then handleGetTopicHealth s topic r st w
         else if HasSuffix path ''/partitions'' then handleGetPartitionInfo s topic r st w
         else if HasSuffix path ''/rebalance'' then handleRebalancePartitions s topic r st w
         else if path = ''/v1/topics/'' @ topic then
           (if rq_Method r = ''GET'' then handleGetTopic s topic r st w
            else if rq_Method r = ''PUT'' then handleUpdateTopic s topic r st w
            else if rq_Method r = ''DELETE'' then handleDeleteTopic s topic r st w
            else reply method_not_allowed st w)
         else reply endpoint_not_found st w)"

definition setupTopicRoutes :: "('d, 'w) http_server \<Rightarrow> (string \<times> ('d, 'w) writer_handler) list" where
  "setupTopicRoutes s =
     [(''/v1/topics'', \<lambda>_. handleTopicListOrCreate s), (''/v1/topics/'', \<lambda>_. handleTopicOperations s)]"

end
