(* ===== verification/HttpServer.thy ===== *)
theory HttpServer
  imports HttpSubscriber HttpTopic
begin

text \<open>
  The HTTP server as a whole, \<^verbatim>\<open>internal/adapters/api/http/server.go\<close>: the routes of all its parts in
  one multiplexer, behind the middleware. \<open>Start\<close> and \<open>Stop\<close>, which only call \<open>http.Server\<close>, are not
  modelled; \<open>ServeHTTP\<close> is what \<open>http.Server\<close> does with a request: its own writer is a \<open>Hijacker\<close>.
\<close>

definition routes :: "('d, 'w) http_server \<Rightarrow> (string \<times> ('d, 'w) writer_handler) list" where
  "routes s =
     [(''/health'', \<lambda>_. healthHandler), (''/metrics'', \<lambda>_. metricsHandler)]
     @ (case hv_wsHandler s of None \<Rightarrow> [] | Some h \<Rightarrow> [(''/ws'', h)])
     @ setupPublisherRoutes s @ setupSubscriberRoutes s @ setupTopicRoutes s @ setupAcknowledgeRoutes s"

definition setupRoutes :: "('d, 'w) http_server \<Rightarrow> ('d, 'w) writer_handler" where
  "setupRoutes s = withMiddleware (mux_serve (routes s))"

definition GetHandler :: "('d, 'w) http_server \<Rightarrow> ('d, 'w) writer_handler" where
  "GetHandler s = setupRoutes s"

definition ServeHTTP :: "('d, 'w) http_server \<Rightarrow> ('d, 'w) http_handler" where
  "ServeHTTP s = GetHandler s True"

end
