(* ===== verification/WsCore.thy ===== *)
theory WsCore
  imports HttpServer Sha256
begin

text \<open>
  The WebSocket server, \<^verbatim>\<open>internal/adapters/api/websocket\<close>: \<^verbatim>\<open>server.go\<close>, \<^verbatim>\<open>connection.go\<close>, \<^verbatim>\<open>handlers.go\<close>.

  Connections and subscriptions are objects that several maps point to: \<open>ws_conns\<close> and \<open>ws_subs\<close> are
  the objects, the maps hold their positions. A channel is its buffer with a flag that says whether it
  is closed; \<open>close\<close> and \<open>send\<close> of a connection are closed together. \<open>cn_wire\<close> is what was written to the
  peer. A \<open>select\<close> between two cases that are ready takes either: \<open>coin\<close> says which. \<open>None\<close> is a panic,
  which ends the process, as the pumps are goroutines of their own, or a call that never returns.
  Of the documents that arrive, \<open>JTime\<close> is a string in the format of RFC 3339 in the field \<open>timestamp\<close>.
\<close>

section \<open>Messages\<close>

record ws_message =
  wm_Type :: string
  wm_ID :: string
  wm_Topic :: string
  wm_Payload :: "json option"
  wm_Headers :: "string gomap"
  wm_Timestamp :: int
  wm_Error :: string

definition zero_ws_message :: ws_message where
  "zero_ws_message = \<lparr>wm_Type = '''', wm_ID = '''', wm_Topic = '''', wm_Payload = None, wm_Headers = [],
     wm_Timestamp = zero_time, wm_Error = ''''\<rparr>"

definition MsgTypeSubscribe :: string where "MsgTypeSubscribe = ''subscribe''"
definition MsgTypeUnsubscribe :: string where "MsgTypeUnsubscribe = ''unsubscribe''"
definition MsgTypePublish :: string where "MsgTypePublish = ''publish''"
definition MsgTypeAck :: string where "MsgTypeAck = ''ack''"
definition MsgTypePing :: string where "MsgTypePing = ''ping''"
definition MsgTypeMessage :: string where "MsgTypeMessage = ''message''"
definition MsgTypeError :: string where "MsgTypeError = ''error''"
definition MsgTypePong :: string where "MsgTypePong = ''pong''"
definition MsgTypeSubscribed :: string where "MsgTypeSubscribed = ''subscribed''"
definition MsgTypeUnsubscribed :: string where "MsgTypeUnsubscribed = ''unsubscribed''"
definition MsgTypePublished :: string where "MsgTypePublished = ''published''"

lemmas msg_types = MsgTypeSubscribe_def MsgTypeUnsubscribe_def MsgTypePublish_def MsgTypeAck_def MsgTypePing_def
  MsgTypeMessage_def MsgTypeError_def MsgTypePong_def MsgTypeSubscribed_def MsgTypeUnsubscribed_def MsgTypePublished_def

definition ws_message_json :: "ws_message \<Rightarrow> json" where
  "ws_message_json m =
     obj [(''type'', Some (JStr (wm_Type m))), (''id'', omitempty (wm_ID m = '''') (JStr (wm_ID m))),
          (''topic'', omitempty (wm_Topic m = '''') (JStr (wm_Topic m))), (''payload'', wm_Payload m),
          (''headers'', omitempty (wm_Headers m = []) (enc_map JStr (wm_Headers m))),
          (''timestamp'', Some (JTime (wm_Timestamp m))), (''error'', omitempty (wm_Error m = '''') (JStr (wm_Error m)))]"

record subscribe_payload =
  wsp_Topic :: string
  wsp_ConsumerGroup :: string
  wsp_Filter :: string
  wsp_MaxMessages :: int

record publish_payload =
  wpp_Key :: string
  wpp_Payload :: string
  wpp_Headers :: "string gomap"
  wpp_Priority :: string

record unsubscribe_payload =
  wup_Topic :: string

record ack_payload =
  wkp_MessageID :: string
  wkp_ConsumerGroup :: string

record message_payload =
  mp_ID :: string
  mp_Key :: string
  mp_Payload :: string
  mp_Headers :: "string gomap"
  mp_Priority :: string
  mp_DeliveryMode :: string
  mp_Topic :: string
  mp_Partition :: int
  mp_Offset :: int
  mp_ConsumerGroup :: string
  mp_CreatedAt :: int
  mp_ExpiresAt :: "int option"

definition message_payload_json :: "message_payload \<Rightarrow> json" where
  "message_payload_json p =
     obj [(''id'', Some (JStr (mp_ID p))), (''key'', omitempty (mp_Key p = '''') (JStr (mp_Key p))),
          (''payload'', Some (JStr (mp_Payload p))),
          (''headers'', omitempty (mp_Headers p = []) (enc_map JStr (mp_Headers p))),
          (''priority'', Some (JStr (mp_Priority p))), (''delivery_mode'', Some (JStr (mp_DeliveryMode p))),
          (''topic'', Some (JStr (mp_Topic p))), (''partition'', Some (JNum (mp_Partition p))),
          (''offset'', Some (JNum (mp_Offset p))),
          (''consumer_group'', omitempty (mp_ConsumerGroup p = '''') (JStr (mp_ConsumerGroup p))),
          (''created_at'', Some (JTime (mp_CreatedAt p))), (''expires_at'', enc_time_ptr (mp_ExpiresAt p))]"

text \<open>A \<open>json.RawMessage\<close> keeps any value, \<open>null\<close> too; \<open>null\<close> leaves a time as it is.\<close>

definition set_raw :: "((json option \<Rightarrow> json option) \<Rightarrow> 'r \<Rightarrow> 'r) \<Rightarrow> 'r setter" where
  "set_raw u j r = Some (u (\<lambda>_. Some j) r)"

definition set_time :: "((int \<Rightarrow> int) \<Rightarrow> 'r \<Rightarrow> 'r) \<Rightarrow> 'r setter" where
  "set_time u j r = (case j of JNull \<Rightarrow> Some r | JTime t \<Rightarrow> Some (u (\<lambda>_. t) r) | _ \<Rightarrow> None)"

definition ws_message_setters :: "ws_message setter gomap" where
  "ws_message_setters =
     [(''type'', set_str wm_Type_update), (''id'', set_str wm_ID_update), (''topic'', set_str wm_Topic_update),
      (''payload'', set_raw wm_Payload_update), (''headers'', set_str_map wm_Headers_update),
      (''timestamp'', set_time wm_Timestamp_update), (''error'', set_str wm_Error_update)]"

definition subscribe_payload_setters :: "subscribe_payload setter gomap" where
  "subscribe_payload_setters =
     [(''topic'', set_str wsp_Topic_update), (''consumer_group'', set_str wsp_ConsumerGroup_update),
      (''filter'', set_str wsp_Filter_update), (''max_messages'', set_int wsp_MaxMessages_update)]"

definition publish_payload_setters :: "publish_payload setter gomap" where
  "publish_payload_setters =
     [(''key'', set_str wpp_Key_update), (''payload'', set_str wpp_Payload_update),
      (''headers'', set_str_map wpp_Headers_update), (''priority'', set_str wpp_Priority_update)]"

definition unsubscribe_payload_setters :: "unsubscribe_payload setter gomap" where
  "unsubscribe_payload_setters = [(''topic'', set_str wup_Topic_update)]"

definition ack_payload_setters :: "ack_payload setter gomap" where
  "ack_payload_setters =
     [(''message_id'', set_str wkp_MessageID_update), (''consumer_group'', set_str wkp_ConsumerGroup_update)]"

text \<open>\<open>json.Unmarshal\<close> of the raw payload; an absent payload has no bytes.\<close>

definition unmarshal_payload :: "'r setter gomap \<Rightarrow> 'r \<Rightarrow> json option \<Rightarrow> 'r res" where
  "unmarshal_payload fs zero p =
     (case p of
        None \<Rightarrow> Inl (Errorf ''unexpected end of JSON input'')
      | Some j \<Rightarrow> (case decode_struct False fs j zero of None \<Rightarrow> Inl json_error | Some r \<Rightarrow> Inr r))"

section \<open>Connections and the state of the server\<close>

record ws_subscription =
  wb_ID :: string
  wb_ConnectionID :: string
  wb_Topic :: string
  wb_ConsumerGroup :: string
  wb_Filter :: string
  wb_CreatedAt :: int
  wb_MessageCount :: int
  wb_LastMessage :: "int option"

datatype frame = TextFrame json | PingFrame | CloseFrame

record ws_connection =
  cn_ID :: string
  cn_RemoteAddr :: string
  cn_UserAgent :: string
  cn_ConnectedAt :: int
  cn_LastPingAt :: int
  cn_IsAlive :: bool
  cn_send :: "json list"
  cn_closed :: bool
  cn_done :: bool
  cn_subscriptions :: "nat gomap"
  cn_open :: bool
  cn_wire :: "frame list"

record ws_state =
  ws_connections :: "nat gomap"
  ws_subscriptions :: "nat gomap gomap"
  ws_conns :: "ws_connection list"
  ws_subs :: "ws_subscription list"

text \<open>
  The upgrader is \<^verbatim>\<open>github.com/gorilla/websocket\<close>: it is a function of the writer being a \<open>Hijacker\<close> and
  of the request, that either answers the request itself with an error or takes over the connection.
\<close>

record 'd ws_server =
  sv_publisher :: "'d publisher"
  sv_subscriber :: "'d subscriber"
  sv_upgrade :: "bool \<Rightarrow> http_request \<Rightarrow> (http_response \<times> go_error) + unit"

definition ws_state0 :: ws_state where
  "ws_state0 = \<lparr>ws_connections = [], ws_subscriptions = [], ws_conns = [], ws_subs = []\<rparr>"

definition websocket_NewServer ::
  "'d publisher \<Rightarrow> 'd subscriber \<Rightarrow> (bool \<Rightarrow> http_request \<Rightarrow> (http_response \<times> go_error) + unit)
    \<Rightarrow> 'd ws_server \<times> ws_state" where
  "websocket_NewServer p sb up =
     (\<lparr>sv_publisher = p, sv_subscriber = sb, sv_upgrade = up\<rparr>, ws_state0)"

type_synonym 'd ws_run = "(ws_state http_state \<times> 'd world) option"

definition conn :: "nat \<Rightarrow> ws_state http_state \<Rightarrow> ws_connection" where
  "conn a st = ws_conns (hs_ws st) ! a"

definition on_ws :: "(ws_state \<Rightarrow> ws_state) \<Rightarrow> ws_state http_state \<Rightarrow> ws_state http_state" where
  "on_ws f st = st\<lparr>hs_ws := f (hs_ws st)\<rparr>"

definition put_conn :: "nat \<Rightarrow> ws_connection \<Rightarrow> ws_state http_state \<Rightarrow> ws_state http_state" where
  "put_conn a c = on_ws (\<lambda>x. x\<lparr>ws_conns := (ws_conns x)[a := c]\<rparr>)"

section \<open>Sending and closing\<close>

text \<open>
  \<open>Close\<close> cancels the context, returns when the connection is no longer alive, and closes the channels
  and the connection. Two goroutines may have passed the test before either goes on, hence the two
  parts; closing a closed channel panics.
\<close>

definition Close_begin :: "ws_connection \<Rightarrow> ws_connection" where
  "Close_begin c = c\<lparr>cn_done := True\<rparr>"

definition Close_end :: "ws_connection \<Rightarrow> ws_connection option" where
  "Close_end c =
     (if cn_closed c then None
      else Some (c\<lparr>cn_IsAlive := False, cn_closed := True, cn_open := False\<rparr>))"

definition connection_Close :: "ws_connection \<Rightarrow> ws_connection option" where
  "connection_Close c =
     (let c = Close_begin c in if \<not> cn_IsAlive c then Some c else Close_end c)"

definition sendMessage :: "bool \<Rightarrow> ws_message \<Rightarrow> ws_connection \<Rightarrow> ws_connection option" where
  "sendMessage coin m c =
     (if (cn_closed c \<or> length (cn_send c) < 256) \<and> (cn_done c \<longrightarrow> coin) then
        (if cn_closed c then None else Some (c\<lparr>cn_send := cn_send c @ [ws_message_json m]\<rparr>))
      else if cn_done c then Some c
      else connection_Close c)"

definition send_to :: "bool \<Rightarrow> nat \<Rightarrow> ws_message \<Rightarrow> ws_state http_state \<Rightarrow> 'd world \<Rightarrow> 'd ws_run" where
  "send_to coin a m st w = map_option (\<lambda>c. (put_conn a c st, w)) (sendMessage coin m (conn a st))"

definition sendError :: "bool \<Rightarrow> nat \<Rightarrow> string \<Rightarrow> go_error \<Rightarrow> ws_state http_state \<Rightarrow> 'd world \<Rightarrow> 'd ws_run" where
  "sendError coin a message err st w =
     (let (now, w) = time_now w
      in send_to coin a (zero_ws_message\<lparr>wm_Type := MsgTypeError, wm_Error := message @ '': '' @ Error err,
           wm_Timestamp := now\<rparr>) st w)"

section \<open>Handlers\<close>

definition ws_subscribe_request :: "subscribe_payload \<Rightarrow> subscribe_request" where
  "ws_subscribe_request p =
     \<lparr>sq_Topic = wsp_Topic p, sq_ConsumerGroup = wsp_ConsumerGroup p, sq_ConsumerID = '''', sq_Type = TypePush,
      sq_AckDeadline = 0, sq_MaxRetries = 0, sq_DeadLetterTopic = '''', sq_Filter = wsp_Filter p, sq_Config = []\<rparr>"

definition inner :: "string \<Rightarrow> nat gomap gomap \<Rightarrow> nat gomap" where
  "inner topic m = (case map_of m topic of None \<Rightarrow> [] | Some ts \<Rightarrow> ts)"

text \<open>The new subscription is entered in the map of the connection and in that of the server.\<close>

definition add_subscription :: "nat \<Rightarrow> ws_subscription \<Rightarrow> ws_state \<Rightarrow> ws_state" where
  "add_subscription a sub x =
     (let p = length (ws_subs x); c = ws_conns x ! a; topic = wb_Topic sub
      in x\<lparr>ws_subs := ws_subs x @ [sub],
           ws_conns := (ws_conns x)[a := c\<lparr>cn_subscriptions := mput topic p (cn_subscriptions c)\<rparr>],
           ws_subscriptions := mput topic (mput (cn_ID c) p (inner topic (ws_subscriptions x))) (ws_subscriptions x)\<rparr>)"

definition conn_handleSubscribe ::
  "'d ws_server \<Rightarrow> bool \<Rightarrow> nat \<Rightarrow> ws_message \<Rightarrow> ws_state http_state \<Rightarrow> 'd world \<Rightarrow> 'd ws_run" where
  "conn_handleSubscribe s coin a msg st w =
     (case unmarshal_payload subscribe_payload_setters
         \<lparr>wsp_Topic = '''', wsp_ConsumerGroup = '''', wsp_Filter = '''', wsp_MaxMessages = 0\<rparr> (wm_Payload msg) of
        Inl e \<Rightarrow> sendError coin a ''Invalid subscribe payload'' e st w
      | Inr p \<Rightarrow>
          if wsp_Topic p = '''' then sendError coin a ''Topic is required for subscription'' (Errorf ''empty topic'') st w
          else if map_of (cn_subscriptions (conn a st)) (wsp_Topic p) \<noteq> None
          then sendError coin a ''Already subscribed to topic'' (Errorf (''topic: '' @ wsp_Topic p)) st w
          else
            (case Subscribe (sv_subscriber s) (ws_subscribe_request p) (hs_subscriber st) w of
               (Inl e, ss, w) \<Rightarrow> sendError coin a ''Subscription failed'' e (st\<lparr>hs_subscriber := ss\<rparr>) w
             | (Inr resp, ss, w) \<Rightarrow>
                 (let (created, w) = time_now w;
                      sub = \<lparr>wb_ID = sp_SubscriptionID resp, wb_ConnectionID = cn_ID (conn a st), wb_Topic = wsp_Topic p,
                             wb_ConsumerGroup = wsp_ConsumerGroup p, wb_Filter = wsp_Filter p, wb_CreatedAt = created,
                             wb_MessageCount = 0, wb_LastMessage = None\<rparr>;
                      st = on_ws (add_subscription a sub) (st\<lparr>hs_subscriber := ss\<rparr>);
                      (now, w) = time_now w
                  in send_to coin a
                       (zero_ws_message\<lparr>wm_Type := MsgTypeSubscribed, wm_ID := wm_ID msg, wm_Topic := wsp_Topic p,
                          wm_Timestamp := now,
                          wm_Payload := Some (JObj [(''consumer_group'', JStr (wsp_ConsumerGroup p)),
                            (''subscription_id'', JStr (wb_ID sub)), (''topic'', JStr (wsp_Topic p))])\<rparr>) st w)))"

definition drop_subscription :: "string \<Rightarrow> string \<Rightarrow> nat gomap gomap \<Rightarrow> nat gomap gomap" where
  "drop_subscription topic cid m =
     (case map_of m topic of
        None \<Rightarrow> m
      | Some ts \<Rightarrow> (let ts = mdel cid ts in if ts = [] then mdel topic m else mput topic ts m))"

definition conn_handleUnsubscribe ::
  "'d ws_server \<Rightarrow> bool \<Rightarrow> nat \<Rightarrow> ws_message \<Rightarrow> ws_state http_state \<Rightarrow> 'd world \<Rightarrow> 'd ws_run" where
  "conn_handleUnsubscribe s coin a msg st w =
     (case unmarshal_payload unsubscribe_payload_setters \<lparr>wup_Topic = ''''\<rparr> (wm_Payload msg) of
        Inl e \<Rightarrow> sendError coin a ''Invalid unsubscribe payload'' e st w
      | Inr p \<Rightarrow>
          if wup_Topic p = '''' then sendError coin a ''Topic is required for unsubscription'' (Errorf ''empty topic'') st w
          else
            (case map_of (cn_subscriptions (conn a st)) (wup_Topic p) of
               None \<Rightarrow> sendError coin a ''Not subscribed to topic'' (Errorf (''topic: '' @ wup_Topic p)) st w
             | Some i \<Rightarrow>
                 (let (e, ss, w) = Unsubscribe (sv_subscriber s) (wb_ID (ws_subs (hs_ws st) ! i)) (hs_subscriber st) w;
                      c = conn a st;
                      st = put_conn a (c\<lparr>cn_subscriptions := mdel (wup_Topic p) (cn_subscriptions c)\<rparr>) (st\<lparr>hs_subscriber := ss\<rparr>);
                      st = on_ws (\<lambda>x. x\<lparr>ws_subscriptions := drop_subscription (wup_Topic p) (cn_ID c) (ws_subscriptions x)\<rparr>) st;
                      (now, w) = time_now w
                  in send_to coin a
                       (zero_ws_message\<lparr>wm_Type := MsgTypeUnsubscribed, wm_ID := wm_ID msg, wm_Topic := wup_Topic p,
                          wm_Timestamp := now, wm_Payload := Some (JObj [(''topic'', JStr (wup_Topic p))])\<rparr>) st w)))"

definition ws_parsePriority :: "string \<Rightarrow> int" where
  "ws_parsePriority p =
     (if p = ''low'' then PriorityLow else if p = ''high'' then PriorityHigh
      else if p = ''critical'' then PriorityCritical else PriorityNormal)"

definition ws_formatPriority :: "int \<Rightarrow> string" where
  "ws_formatPriority p =
     (if p = PriorityLow then ''low'' else if p = PriorityHigh then ''high''
      else if p = PriorityCritical then ''critical'' else ''normal'')"

definition ws_formatDeliveryMode :: "int \<Rightarrow> string" where
  "ws_formatDeliveryMode m =
     (if m = DeliveryAtMostOnce then ''at_most_once'' else if m = DeliveryExactlyOnce then ''exactly_once''
      else ''at_least_once'')"

definition ws_publish_request :: "string \<Rightarrow> publish_payload \<Rightarrow> bytes \<Rightarrow> publish_request" where
  "ws_publish_request topic p payload =
     \<lparr>pr_Topic = topic, pr_Key = bytes_of (wpp_Key p), pr_Payload = payload, pr_Headers = wpp_Headers p,
      pr_Priority = ws_parsePriority (wpp_Priority p), pr_DeliveryMode = DeliveryAtLeastOnce,
      pr_TTL = None, pr_Partition = None\<rparr>"

definition zero_publish_payload :: publish_payload where
  "zero_publish_payload = \<lparr>wpp_Key = '''', wpp_Payload = '''', wpp_Headers = [], wpp_Priority = ''''\<rparr>"

definition publish_confirmation :: "ws_message \<Rightarrow> publish_response \<Rightarrow> int \<Rightarrow> ws_message" where
  "publish_confirmation msg resp now =
     zero_ws_message\<lparr>wm_Type := MsgTypePublished, wm_ID := wm_ID msg, wm_Topic := wm_Topic msg, wm_Timestamp := now,
       wm_Payload := Some (JObj [(''message_id'', JStr (pp_MessageID resp)), (''offset'', JNum (pp_Offset resp)),
         (''partition'', JNum (pp_Partition resp)), (''timestamp'', JTime (pp_Timestamp resp)),
         (''topic'', JStr (pp_Topic resp))])\<rparr>"

definition conn_handlePublish ::
  "'d ws_server \<Rightarrow> bool \<Rightarrow> nat \<Rightarrow> ws_message \<Rightarrow> ws_state http_state \<Rightarrow> 'd world \<Rightarrow> 'd ws_run" where
  "conn_handlePublish s coin a msg st w =
     (case unmarshal_payload publish_payload_setters zero_publish_payload (wm_Payload msg) of
        Inl e \<Rightarrow> sendError coin a ''Invalid publish payload'' e st w
      | Inr p \<Rightarrow>
          if wm_Topic msg = '''' then sendError coin a ''Topic is required for publishing'' (Errorf ''empty topic'') st w
          else if wpp_Payload p = '''' then sendError coin a ''Message payload is required'' (Errorf ''empty payload'') st w
          else
            (case DecodeString (wpp_Payload p) of
               Inl e \<Rightarrow> sendError coin a ''Invalid base64 payload'' e st w
             | Inr payload \<Rightarrow>
                 (case Publish (sv_publisher s) (ws_publish_request (wm_Topic msg) p payload) w of
                    None \<Rightarrow> None
                  | Some (Inl e, w) \<Rightarrow> sendError coin a ''Publish failed'' e st w
                  | Some (Inr resp, w) \<Rightarrow>
                      (let (now, w) = time_now w in send_to coin a (publish_confirmation msg resp now) st w))))"

definition conn_handleAck ::
  "'d ws_server \<Rightarrow> bool \<Rightarrow> nat \<Rightarrow> ws_message \<Rightarrow> ws_state http_state \<Rightarrow> 'd world \<Rightarrow> 'd ws_run" where
  "conn_handleAck s coin a msg st w =
     (case unmarshal_payload ack_payload_setters \<lparr>wkp_MessageID = '''', wkp_ConsumerGroup = ''''\<rparr> (wm_Payload msg) of
        Inl e \<Rightarrow> sendError coin a ''Invalid ack payload'' e st w
      | Inr p \<Rightarrow>
          if wkp_MessageID p = ''''
          then sendError coin a ''Message ID is required for acknowledgment'' (Errorf ''empty message_id'') st w
          else
            (case subscriber_Acknowledge (sv_subscriber s)
                \<lparr>aq_MessageID = wkp_MessageID p, aq_ConsumerID = cn_ID (conn a st),
                 aq_ConsumerGroup = wkp_ConsumerGroup p\<rparr> (hs_subscriber st) w of
               (Some e, ss, w) \<Rightarrow> sendError coin a ''Acknowledgment failed'' e (st\<lparr>hs_subscriber := ss\<rparr>) w
             | (None, ss, w) \<Rightarrow> Some (st\<lparr>hs_subscriber := ss\<rparr>, w)))"

definition conn_handlePing ::
  "bool \<Rightarrow> nat \<Rightarrow> ws_message \<Rightarrow> ws_state http_state \<Rightarrow> 'd world \<Rightarrow> 'd ws_run" where
  "conn_handlePing coin a msg st w =
     (let (now, w) = time_now w
      in send_to coin a (zero_ws_message\<lparr>wm_Type := MsgTypePong, wm_ID := wm_ID msg, wm_Timestamp := now\<rparr>) st w)"

text \<open>\<open>handleMessage\<close>; what was read is a JSON document or not.\<close>

definition handleMessage ::
  "'d ws_server \<Rightarrow> bool \<Rightarrow> nat \<Rightarrow> go_error + json \<Rightarrow> ws_state http_state \<Rightarrow> 'd world \<Rightarrow> 'd ws_run" where
  "handleMessage s coin a data st w =
     (case (case data of Inl e \<Rightarrow> Inl e
            | Inr j \<Rightarrow> (case decode_struct False ws_message_setters j zero_ws_message of
                          None \<Rightarrow> Inl json_error | Some m \<Rightarrow> Inr m)) of
        Inl e \<Rightarrow> sendError coin a ''Invalid message format'' e st w
      | Inr msg \<Rightarrow>
          (let (now, w) = time_now w; st = put_conn a ((conn a st)\<lparr>cn_LastPingAt := now\<rparr>) st
           in if wm_Type msg = MsgTypeSubscribe then conn_handleSubscribe s coin a msg st w
              else if wm_Type msg = MsgTypeUnsubscribe then conn_handleUnsubscribe s coin a msg st w
              else if wm_Type msg = MsgTypePublish then conn_handlePublish s coin a msg st w
              else if wm_Type msg = MsgTypeAck then conn_handleAck s coin a msg st w
              else if wm_Type msg = MsgTypePing then conn_handlePing coin a msg st w
              else sendError coin a ''Unknown message type'' (Errorf (''unsupported message type: '' @ wm_Type msg)) st w))"

section \<open>Delivery\<close>

text \<open>Nothing in the program calls \<open>DeliverMessage\<close> or \<open>BroadcastToTopic\<close>.\<close>

definition payload_of :: "message \<Rightarrow> message_payload" where
  "payload_of m =
     \<lparr>mp_ID = m_ID m, mp_Key = b64_encode (m_Key m), mp_Payload = b64_encode (m_Payload m), mp_Headers = m_Headers m,
      mp_Priority = ws_formatPriority (m_Priority m), mp_DeliveryMode = ws_formatDeliveryMode (m_DeliveryMode m),
      mp_Topic = m_Topic m, mp_Partition = m_Partition m, mp_Offset = m_Offset m, mp_ConsumerGroup = m_ConsumerGroup m,
      mp_CreatedAt = m_CreatedAt m, mp_ExpiresAt = m_ExpiresAt m\<rparr>"

definition DeliverMessage :: "bool \<Rightarrow> nat \<Rightarrow> message \<Rightarrow> ws_state http_state \<Rightarrow> 'd world \<Rightarrow> 'd ws_run" where
  "DeliverMessage coin a m st w =
     (let (st, w) =
            (case map_of (cn_subscriptions (conn a st)) (m_Topic m) of
               None \<Rightarrow> (st, w)
             | Some i \<Rightarrow>
                 (let (now, w) = time_now w; sub = ws_subs (hs_ws st) ! i;
                      sub = sub\<lparr>wb_MessageCount := wrap64 (wb_MessageCount sub + 1), wb_LastMessage := Some now\<rparr>
                  in (on_ws (\<lambda>x. x\<lparr>ws_subs := (ws_subs x)[i := sub]\<rparr>) st, w)));
          (i, w) = uuid_new w;
          (now, w) = time_now w
      in send_to coin a (zero_ws_message\<lparr>wm_Type := MsgTypeMessage, wm_ID := i, wm_Topic := m_Topic m, wm_Timestamp := now,
           wm_Payload := Some (message_payload_json (payload_of m))\<rparr>) st w)"

fun broadcast :: "(nat \<Rightarrow> bool) \<Rightarrow> ws_message \<Rightarrow> string list \<Rightarrow> ws_state http_state \<Rightarrow> 'd world \<Rightarrow> 'd ws_run" where
  "broadcast coin m [] st w = Some (st, w)"
| "broadcast coin m (i # is) st w =
     (case map_of (ws_connections (hs_ws st)) i of
        None \<Rightarrow> broadcast coin m is st w
      | Some a \<Rightarrow>
          if cn_IsAlive (conn a st)
          then (case send_to (coin a) a m st w of None \<Rightarrow> None | Some (st, w) \<Rightarrow> broadcast coin m is st w)
          else broadcast coin m is st w)"

definition BroadcastToTopic ::
  "(nat \<Rightarrow> bool) \<Rightarrow> string \<Rightarrow> message_payload \<Rightarrow> ws_state http_state \<Rightarrow> 'd world \<Rightarrow> 'd ws_run" where
  "BroadcastToTopic coin topic p st w =
     (case map_of (ws_subscriptions (hs_ws st)) topic of
        None \<Rightarrow> Some (st, w)
      | Some ts \<Rightarrow>
          (let (now, w) = time_now w
           in broadcast coin (zero_ws_message\<lparr>wm_Type := MsgTypeMessage, wm_Topic := topic, wm_Timestamp := now,
                wm_Payload := Some (message_payload_json p)\<rparr>) (map fst ts) st w))"

section \<open>The server\<close>

definition ws_getClientIP :: "http_request \<Rightarrow> string" where
  "ws_getClientIP r =
     (if HeaderGet r ''X-Forwarded-For'' \<noteq> ''''
      then TrimSpace (hd (split_on CHR '','' (HeaderGet r ''X-Forwarded-For'')))
      else if HeaderGet r ''X-Real-Ip'' \<noteq> '''' then HeaderGet r ''X-Real-Ip''
      else before_last CHR '':'' (rq_RemoteAddr r))"

definition generateConnectionID :: "http_request \<Rightarrow> 'd world \<Rightarrow> string \<times> 'd world" where
  "generateConnectionID r w =
     (let (u, w) = uuid_new w; (now, w) = time_now w;
          s = rq_RemoteAddr r @ '':'' @ HeaderGet r ''User-Agent'' @ '':'' @ u @ '':'' @ itoa now
      in (hex_EncodeToString (take 8 (Sum256 (bytes_of s))), w))"

definition createConnection :: "http_request \<Rightarrow> 'd world \<Rightarrow> ws_connection \<times> 'd world" where
  "createConnection r w =
     (let (i, w) = generateConnectionID r w; (t1, w) = time_now w; (t2, w) = time_now w
      in (\<lparr>cn_ID = i, cn_RemoteAddr = ws_getClientIP r, cn_UserAgent = HeaderGet r ''User-Agent'', cn_ConnectedAt = t1,
           cn_LastPingAt = t2, cn_IsAlive = True, cn_send = [], cn_closed = False, cn_done = False,
           cn_subscriptions = [], cn_open = True, cn_wire = []\<rparr>, w))"

definition registerConnection :: "ws_connection \<Rightarrow> ws_state \<Rightarrow> nat \<times> ws_state" where
  "registerConnection c x =
     (length (ws_conns x),
      x\<lparr>ws_conns := ws_conns x @ [c], ws_connections := mput (cn_ID c) (length (ws_conns x)) (ws_connections x)\<rparr>)"

definition removeAllSubscriptions :: "string \<Rightarrow> ws_state \<Rightarrow> ws_state" where
  "removeAllSubscriptions cid x =
     x\<lparr>ws_subscriptions := filter (\<lambda>(t, ts). ts \<noteq> []) (map (\<lambda>(t, ts). (t, mdel cid ts)) (ws_subscriptions x))\<rparr>"

definition unregisterConnection :: "nat \<Rightarrow> ws_state \<Rightarrow> ws_state" where
  "unregisterConnection a x =
     (let cid = cn_ID (ws_conns x ! a)
      in removeAllSubscriptions cid (x\<lparr>ws_connections := mdel cid (ws_connections x)\<rparr>))"

definition upgradeConnection ::
  "'d ws_server \<Rightarrow> bool \<Rightarrow> http_request \<Rightarrow> (http_response \<times> go_error) + unit" where
  "upgradeConnection s hijacker r =
     (case sv_upgrade s hijacker r of
        Inl (p, e) \<Rightarrow> Inl (p, Wrap ''failed to upgrade connection'' e)
      | Inr u \<Rightarrow> Inr u)"

text \<open>
  \<open>HandleWebSocket\<close> up to its wait for the connection to close: a response, or the new connection.
  After a failed upgrade, the upgrader having answered, it writes a second error to the same writer.
\<close>

definition then_Error :: "http_response \<Rightarrow> string \<Rightarrow> int \<Rightarrow> http_response" where
  "then_Error p msg code =
     (let q = http_Error msg code
      in \<lparr>rp_Codes = rp_Codes p @ rp_Codes q, rp_Header = (if rp_Codes p = [] then rp_Header q else rp_Header p),
          rp_Body = rp_Body p @ rp_Body q\<rparr>)"

definition openWebSocket ::
  "'d ws_server \<Rightarrow> bool \<Rightarrow> http_request \<Rightarrow> ws_state http_state \<Rightarrow> 'd world
    \<Rightarrow> (http_response + nat) \<times> ws_state http_state \<times> 'd world" where
  "openWebSocket s hijacker r st w =
     (case upgradeConnection s hijacker r of
        Inl (p, e) \<Rightarrow> (Inl (then_Error p ''Failed to upgrade connection'' 400), st, w)
      | Inr _ \<Rightarrow>
          (let (c, w) = createConnection r w; (a, x) = registerConnection c (hs_ws st)
           in (Inr a, st\<lparr>hs_ws := x\<rparr>, w)))"

text \<open>The handler of \<^verbatim>\<open>/ws\<close> does not return while its connection is open.\<close>

definition HandleWebSocket :: "'d ws_server \<Rightarrow> ('d, ws_state) writer_handler" where
  "HandleWebSocket s hijacker r st w =
     (case openWebSocket s hijacker r st w of
        (Inl p, st, w) \<Rightarrow> Some (p, st, w)
      | (Inr a, st, w) \<Rightarrow> None)"

record connection_stats =
  xs_total_connections :: int
  xs_alive_connections :: int
  xs_total_subscriptions :: int
  xs_topics_subscribed :: int

definition GetConnectionStats :: "ws_state \<Rightarrow> connection_stats" where
  "GetConnectionStats x =
     \<lparr>xs_total_connections = int (length (ws_connections x)),
      xs_alive_connections = int (length (filter (\<lambda>(i, a). cn_IsAlive (ws_conns x ! a)) (ws_connections x))),
      xs_total_subscriptions = sum_list (map (\<lambda>(t, ts). int (length ts)) (ws_subscriptions x)),
      xs_topics_subscribed = int (length (ws_subscriptions x))\<rparr>"

fun close_each :: "nat list \<Rightarrow> ws_state \<Rightarrow> ws_state option" where
  "close_each [] x = Some x"
| "close_each (a # as) x =
     (case connection_Close (ws_conns x ! a) of
        None \<Rightarrow> None
      | Some c \<Rightarrow> close_each as (x\<lparr>ws_conns := (ws_conns x)[a := c]\<rparr>))"

definition websocket_Shutdown :: "ws_state \<Rightarrow> ws_state option" where
  "websocket_Shutdown x = close_each (map snd (ws_connections x)) x"

end
