(* ===== verification/Cli.thy ===== *)
theory Cli
  imports WsCore
begin

text \<open>
  The command line client, \<^verbatim>\<open>cmd/cli\<close>: its commands as functions of their flags and of the network. The
  network is a parameter: it performs one HTTP request (after following redirects) on a state \<open>'n\<close>, and
  \<open>dial\<close> opens a WebSocket. The flags are those after \<^verbatim>\<open>cobra\<close> has parsed them. A command returns its
  error, if any, and what it prints; a field whose Go value has its own text (a time, a duration) is
  printed as that value.
\<close>

section \<open>What is sent, received and printed\<close>

record client_request =
  cq_Method :: string
  cq_URL :: string
  cq_ContentType :: string
  cq_Body :: "json option"

text \<open>
  A response: the status, and the body as a text, unless reading it fails, and as the document it is, if
  it is one. \<open>NewRequest\<close> refuses a URL that can not be parsed; \<open>Do\<close> sends a request.
\<close>

record client_response =
  cr_Status :: int
  cr_Text :: "go_error + string"
  cr_Json :: "go_error + json"

record 'n network =
  NewRequest :: "string \<Rightarrow> go_error option"
  Do :: "client_request \<Rightarrow> 'n \<Rightarrow> (go_error + client_response) \<times> 'n"

datatype out = Line string | Field string json

type_synonym result = "go_error option \<times> out list"

definition quoted :: "string \<Rightarrow> string" where
  "quoted s = CHR 0x27 # s @ [CHR 0x27]"

definition fail :: "string \<Rightarrow> out list \<Rightarrow> result" where
  "fail msg os = (Some (Errorf msg), os)"

definition fail_with :: "string \<Rightarrow> go_error \<Rightarrow> out list \<Rightarrow> result" where
  "fail_with msg e os = fail (msg @ '': '' @ Error e) os"

definition server_error :: "client_response \<Rightarrow> string \<Rightarrow> out list \<Rightarrow> result" where
  "server_error p text os = fail (''server error ('' @ itoa (cr_Status p) @ ''): '' @ text) os"

definition when_verbose :: "bool \<Rightarrow> out list \<Rightarrow> out list" where
  "when_verbose verbose os = (if verbose then os else [])"

definition unmarshal :: "'r setter \<Rightarrow> 'r \<Rightarrow> client_response \<Rightarrow> 'r res" where
  "unmarshal f zero p =
     (case cr_Json p of
        Inl e \<Rightarrow> Inl e
      | Inr j \<Rightarrow> (case f j zero of None \<Rightarrow> Inl json_error | Some r \<Rightarrow> Inr r))"

text \<open>Sending a request and reading all of the body: two ways to fail.\<close>

definition and_read :: "go_error + client_response \<Rightarrow> (go_error + go_error) + client_response \<times> string" where
  "and_read r =
     (case r of
        Inl e \<Rightarrow> Inl (Inl e)
      | Inr p \<Rightarrow> (case cr_Text p of Inl e \<Rightarrow> Inl (Inr e) | Inr text \<Rightarrow> Inr (p, text)))"

section \<open>publish\<close>

record cli_publish_request =
  kq_Topic :: string
  kq_Key :: string
  kq_Payload :: string
  kq_Headers :: "string gomap"
  kq_Priority :: string
  kq_DeliveryMode :: string

record cli_publish_response =
  kp_MessageID :: string
  kp_Topic :: string
  kp_Partition :: int
  kp_Offset :: int
  kp_Timestamp :: int
  kp_Compressed :: bool

definition cli_publish_json :: "cli_publish_request \<Rightarrow> json" where
  "cli_publish_json q =
     obj [(''topic'', Some (JStr (kq_Topic q))), (''key'', omitempty (kq_Key q = '''') (JStr (kq_Key q))),
          (''payload'', Some (JStr (kq_Payload q))),
          (''headers'', omitempty (kq_Headers q = []) (enc_map JStr (kq_Headers q))),
          (''priority'', omitempty (kq_Priority q = '''') (JStr (kq_Priority q))),
          (''delivery_mode'', omitempty (kq_DeliveryMode q = '''') (JStr (kq_DeliveryMode q)))]"

definition cli_publish_setters :: "cli_publish_response setter gomap" where
  "cli_publish_setters =
     [(''message_id'', set_str kp_MessageID_update), (''topic'', set_str kp_Topic_update),
      (''partition'', set_int32 kp_Partition_update), (''offset'', set_int kp_Offset_update),
      (''timestamp'', set_time kp_Timestamp_update), (''compressed'', set_bool kp_Compressed_update)]"

definition zero_cli_publish_response :: cli_publish_response where
  "zero_cli_publish_response = \<lparr>kp_MessageID = '''', kp_Topic = '''', kp_Partition = 0, kp_Offset = 0,
     kp_Timestamp = zero_time, kp_Compressed = False\<rparr>"

text \<open>\<open>header_split i n s\<close> looks for the first \<open>=\<close> of a header of length \<open>n\<close> from position \<open>i\<close> on.\<close>

fun header_split :: "nat \<Rightarrow> string \<Rightarrow> string \<Rightarrow> (string \<times> string) option" where
  "header_split i header [] = None"
| "header_split i header (c # cs) =
     (if c = CHR ''='' then
        (if i = 0 \<or> i = length header - 1 then None else Some (take i header, drop (i + 1) header))
      else header_split (Suc i) header cs)"

definition parseHeader :: "string \<Rightarrow> string gomap \<Rightarrow> string gomap res" where
  "parseHeader header m =
     (case header_split 0 header header of
        None \<Rightarrow> Inl (Errorf ''invalid format, expected key=value'')
      | Some (k, v) \<Rightarrow> Inr (mput k v m))"

fun parse_headers :: "string list \<Rightarrow> string gomap \<Rightarrow> string gomap res" where
  "parse_headers [] m = Inr m"
| "parse_headers (h # hs) m =
     (case parseHeader h m of
        Inl e \<Rightarrow> Inl (Errorf (''invalid header format '' @ quoted h @ '': '' @ Error e))
      | Inr m \<Rightarrow> parse_headers hs m)"

definition publishMessage ::
  "'n network \<Rightarrow> string \<Rightarrow> cli_publish_request \<Rightarrow> bool \<Rightarrow> 'n \<Rightarrow> result \<times> 'n" where
  "publishMessage net serverURL req verbose n =
     (let url = serverURL @ ''/api/v1/publish'';
          out = when_verbose verbose [Line (''Publishing to: '' @ url), Field ''Request: '' (cli_publish_json req)]
      in case NewRequest net url of
           Some e \<Rightarrow> (fail_with ''failed to create request'' e out, n)
         | None \<Rightarrow>
     (let (r, n) = Do net \<lparr>cq_Method = ''POST'', cq_URL = url, cq_ContentType = ''application/json'',
                             cq_Body = Some (cli_publish_json req)\<rparr> n
      in (case and_read r of
            Inl (Inl e) \<Rightarrow> (fail_with ''failed to send request'' e out, n)
          | Inl (Inr e) \<Rightarrow> (fail_with ''failed to read response'' e out, n)
          | Inr (p, text) \<Rightarrow>
              (let out = out @ when_verbose verbose
                     [Field ''Response Status: '' (JNum (cr_Status p)), Line (''Response Body: '' @ text)]
               in if cr_Status p \<noteq> 200 then (server_error p text out, n)
                  else (case unmarshal (decode_struct False cli_publish_setters) zero_cli_publish_response p of
                          Inl e \<Rightarrow> (fail_with ''failed to parse response'' e out, n)
                        | Inr resp \<Rightarrow>
                            ((None, out @ [Line '' Message published successfully!'', Line (''Message ID: '' @ kp_MessageID resp),
                                Line (''Topic: '' @ kp_Topic resp), Field ''Partition: '' (JNum (kp_Partition resp)),
                                Field ''Offset: '' (JNum (kp_Offset resp)), Field ''Timestamp: '' (JTime (kp_Timestamp resp))]
                              @ (if kp_Compressed resp then [Line ''Compressed: Yes''] else [])), n))))))"

record publish_flags =
  pf_topic :: string
  pf_message :: string
  pf_key :: string
  pf_priority :: string
  pf_deliveryMode :: string
  pf_headers :: "string list"

definition publish_defaults :: publish_flags where
  "publish_defaults = \<lparr>pf_topic = '''', pf_message = '''', pf_key = '''', pf_priority = ''normal'',
     pf_deliveryMode = ''at_least_once'', pf_headers = []\<rparr>"

definition publish_command :: "'n network \<Rightarrow> string \<Rightarrow> bool \<Rightarrow> publish_flags \<Rightarrow> 'n \<Rightarrow> result \<times> 'n" where
  "publish_command net serverURL verbose f n =
     (if pf_topic f = '''' then (fail ''topic is required'' [], n)
      else if pf_message f = '''' then (fail ''message is required'' [], n)
      else (case parse_headers (pf_headers f) [] of
              Inl e \<Rightarrow> ((Some e, []), n)
            | Inr hs \<Rightarrow>
                publishMessage net serverURL
                  \<lparr>kq_Topic = pf_topic f, kq_Key = pf_key f, kq_Payload = pf_message f, kq_Headers = hs,
                   kq_Priority = pf_priority f, kq_DeliveryMode = pf_deliveryMode f\<rparr> verbose n))"

section \<open>topics\<close>

record cli_topic_info =
  ki_Name :: string
  ki_Partitions :: int
  ki_MessageCount :: int
  ki_RetentionTime :: int
  ki_CreatedAt :: int
  ki_Config :: "json gomap option"

record cli_create_request =
  kc_Name :: string
  kc_Partitions :: int
  kc_Replication :: int
  kc_RetentionTime :: string
  kc_MaxSize :: int
  kc_Config :: "json gomap"

record cli_topic_stats =
  kt_Topic :: string
  kt_Partitions :: int
  kt_Messages :: int
  kt_Consumers :: int
  kt_Rate :: string
  kt_Size :: string
  kt_BytesIn :: int
  kt_BytesOut :: int
  kt_CreatedAt :: int
  kt_UpdatedAt :: int

definition cli_topic_setters :: "cli_topic_info setter gomap" where
  "cli_topic_setters =
     [(''name'', set_str ki_Name_update), (''partitions'', set_int32 ki_Partitions_update),
      (''message_count'', set_int ki_MessageCount_update), (''retention_time'', set_int ki_RetentionTime_update),
      (''created_at'', set_time ki_CreatedAt_update), (''config'', set_any_map ki_Config_update)]"

definition zero_cli_topic :: cli_topic_info where
  "zero_cli_topic = \<lparr>ki_Name = '''', ki_Partitions = 0, ki_MessageCount = 0, ki_RetentionTime = 0,
     ki_CreatedAt = zero_time, ki_Config = None\<rparr>"

definition cli_stats_setters :: "cli_topic_stats setter gomap" where
  "cli_stats_setters =
     [(''topic'', set_str kt_Topic_update), (''partitions'', set_int32 kt_Partitions_update),
      (''messages'', set_int kt_Messages_update), (''consumers'', set_int kt_Consumers_update),
      (''rate'', set_str kt_Rate_update), (''size'', set_str kt_Size_update), (''bytes_in'', set_int kt_BytesIn_update),
      (''bytes_out'', set_int kt_BytesOut_update), (''created_at'', set_time kt_CreatedAt_update),
      (''updated_at'', set_time kt_UpdatedAt_update)]"

definition zero_cli_stats :: cli_topic_stats where
  "zero_cli_stats = \<lparr>kt_Topic = '''', kt_Partitions = 0, kt_Messages = 0, kt_Consumers = 0, kt_Rate = '''', kt_Size = '''',
     kt_BytesIn = 0, kt_BytesOut = 0, kt_CreatedAt = zero_time, kt_UpdatedAt = zero_time\<rparr>"

definition cli_create_json :: "cli_create_request \<Rightarrow> json" where
  "cli_create_json q =
     obj [(''name'', Some (JStr (kc_Name q))), (''partitions'', omitempty (kc_Partitions q = 0) (JNum (kc_Partitions q))),
          (''replication'', omitempty (kc_Replication q = 0) (JNum (kc_Replication q))),
          (''retention_time'', omitempty (kc_RetentionTime q = '''') (JStr (kc_RetentionTime q))),
          (''max_size'', omitempty (kc_MaxSize q = 0) (JNum (kc_MaxSize q))),
          (''config'', omitempty (kc_Config q = []) (JObj (kc_Config q)))]"

text \<open>Decoding \<open>[]TopicInfo\<close>.\<close>

definition set_topics_list :: "cli_topic_info list setter" where
  "set_topics_list j old =
     (case j of JNull \<Rightarrow> Some [] | JArr vs \<Rightarrow> decode_elems (decode_struct False cli_topic_setters) zero_cli_topic vs old
      | _ \<Rightarrow> None)"

definition simple_get :: "string \<Rightarrow> string \<Rightarrow> client_request" where
  "simple_get method url = \<lparr>cq_Method = method, cq_URL = url, cq_ContentType = '''', cq_Body = None\<rparr>"

definition listTopics :: "'n network \<Rightarrow> string \<Rightarrow> bool \<Rightarrow> 'n \<Rightarrow> result \<times> 'n" where
  "listTopics net serverURL verbose n =
     (let url = serverURL @ ''/api/v1/topics'';
          out = when_verbose verbose [Line (''Fetching topics from: '' @ url)];
          (r, n) = Do net (simple_get ''GET'' url) n
      in (case and_read r of
            Inl (Inl e) \<Rightarrow> (fail_with ''failed to fetch topics'' e out, n)
          | Inl (Inr e) \<Rightarrow> (fail_with ''failed to read response'' e out, n)
          | Inr (p, text) \<Rightarrow>
              (let out = out @ when_verbose verbose [Line (''Response: '' @ text)]
               in if cr_Status p \<noteq> 200 then (server_error p text out, n)
                  else (case unmarshal set_topics_list [] p of
                          Inl e \<Rightarrow> (fail_with ''failed to parse response'' e out, n)
                        | Inr [] \<Rightarrow> ((None, out @ [Line '' No topics found'']), n)
                        | Inr ts \<Rightarrow>
                            ((None, out @ Line ('' Found '' @ itoa (int (length ts)) @ '' topic(s):'') # Line '''' #
                                concat (map (\<lambda>t. [Line ('' '' @ ki_Name t), Field ''   Partitions: '' (JNum (ki_Partitions t)),
                                  Field ''   Messages: '' (JNum (ki_MessageCount t)),
                                  Field ''   Retention: '' (JNum (ki_RetentionTime t)),
                                  Field ''   Created: '' (JTime (ki_CreatedAt t)), Line '''']) ts)), n)))))"

definition createTopic :: "'n network \<Rightarrow> string \<Rightarrow> cli_create_request \<Rightarrow> bool \<Rightarrow> 'n \<Rightarrow> result \<times> 'n" where
  "createTopic net serverURL req verbose n =
     (let url = serverURL @ ''/api/v1/topics'';
          out = when_verbose verbose [Line (''Creating topic at: '' @ url), Field ''Request: '' (cli_create_json req)];
          (r, n) = Do net \<lparr>cq_Method = ''POST'', cq_URL = url, cq_ContentType = ''application/json'',
                         cq_Body = Some (cli_create_json req)\<rparr> n
      in (case and_read r of
            Inl (Inl e) \<Rightarrow> (fail_with ''failed to create topic'' e out, n)
          | Inl (Inr e) \<Rightarrow> (fail_with ''failed to read response'' e out, n)
          | Inr (p, text) \<Rightarrow>
              (let out = out @ when_verbose verbose [Line (''Response: '' @ text)]
               in if cr_Status p \<noteq> 201 \<and> cr_Status p \<noteq> 200 then (server_error p text out, n)
                  else ((None, out @ [Line ('' Topic '' @ quoted (kc_Name req) @ '' created successfully!''),
                           Field ''   Partitions: '' (JNum (kc_Partitions req))]
                         @ (if kc_RetentionTime req \<noteq> '''' then [Line (''   Retention: '' @ kc_RetentionTime req)] else [])), n))))"

definition deleteTopic :: "'n network \<Rightarrow> string \<Rightarrow> string \<Rightarrow> bool \<Rightarrow> 'n \<Rightarrow> result \<times> 'n" where
  "deleteTopic net serverURL topicName verbose n =
     (let url = serverURL @ ''/api/v1/topics/'' @ topicName;
          out = when_verbose verbose [Line (''Deleting topic: '' @ url)]
      in case NewRequest net url of
           Some e \<Rightarrow> (fail_with ''failed to create request'' e out, n)
         | None \<Rightarrow>
     (let (r, n) = Do net (simple_get ''DELETE'' url) n
      in (case and_read r of
            Inl (Inl e) \<Rightarrow> (fail_with ''failed to delete topic'' e out, n)
          | Inl (Inr e) \<Rightarrow> (fail_with ''failed to read response'' e out, n)
          | Inr (p, text) \<Rightarrow>
              (let out = out @ when_verbose verbose [Line (''Response: '' @ text)]
               in if cr_Status p \<noteq> 200 \<and> cr_Status p \<noteq> 204 then (server_error p text out, n)
                  else ((None, out @ [Line ('' Topic '' @ quoted topicName @ '' deleted successfully!'')]), n)))))"

definition getTopicStats :: "'n network \<Rightarrow> string \<Rightarrow> string \<Rightarrow> bool \<Rightarrow> 'n \<Rightarrow> result \<times> 'n" where
  "getTopicStats net serverURL topicName verbose n =
     (let url = serverURL @ ''/api/v1/topics/'' @ topicName @ ''/stats'';
          out = when_verbose verbose [Line (''Fetching stats from: '' @ url)];
          (r, n) = Do net (simple_get ''GET'' url) n
      in (case and_read r of
            Inl (Inl e) \<Rightarrow> (fail_with ''failed to fetch topic stats'' e out, n)
          | Inl (Inr e) \<Rightarrow> (fail_with ''failed to read response'' e out, n)
          | Inr (p, text) \<Rightarrow>
              (let out = out @ when_verbose verbose [Line (''Response: '' @ text)]
               in if cr_Status p \<noteq> 200 then (server_error p text out, n)
                  else (case unmarshal (decode_struct False cli_stats_setters) zero_cli_stats p of
                          Inl e \<Rightarrow> (fail_with ''failed to parse response'' e out, n)
                        | Inr s \<Rightarrow>
                            ((None, out @ [Line ('' Statistics for topic '' @ quoted topicName @ '':''), Line '''',
                                Field ''   Partitions: '' (JNum (kt_Partitions s)), Field ''   Messages: '' (JNum (kt_Messages s)),
                                Field ''   Consumers: '' (JNum (kt_Consumers s)), Line (''   Message Rate: '' @ kt_Rate s),
                                Line (''   Size: '' @ kt_Size s), Field ''   Bytes In: '' (JNum (kt_BytesIn s)),
                                Field ''   Bytes Out: '' (JNum (kt_BytesOut s)), Field ''   Created: '' (JTime (kt_CreatedAt s)),
                                Field ''   Updated: '' (JTime (kt_UpdatedAt s))]), n)))))"

definition create_topic_command ::
  "'n network \<Rightarrow> string \<Rightarrow> bool \<Rightarrow> string \<Rightarrow> int \<Rightarrow> int \<Rightarrow> string \<Rightarrow> int \<Rightarrow> 'n \<Rightarrow> result \<times> 'n" where
  "create_topic_command net serverURL verbose name partitions replication retention maxSize n =
     (if name = '''' then (fail ''topic name is required'' [], n)
      else createTopic net serverURL
             \<lparr>kc_Name = name, kc_Partitions = partitions, kc_Replication = replication, kc_RetentionTime = retention,
              kc_MaxSize = maxSize, kc_Config = []\<rparr> verbose n)"

definition delete_topic_command :: "'n network \<Rightarrow> string \<Rightarrow> bool \<Rightarrow> string \<Rightarrow> 'n \<Rightarrow> result \<times> 'n" where
  "delete_topic_command net serverURL verbose name n =
     (if name = '''' then (fail ''topic name is required'' [], n) else deleteTopic net serverURL name verbose n)"

definition topic_stats_command :: "'n network \<Rightarrow> string \<Rightarrow> bool \<Rightarrow> string \<Rightarrow> 'n \<Rightarrow> result \<times> 'n" where
  "topic_stats_command net serverURL verbose name n =
     (if name = '''' then (fail ''topic name is required'' [], n) else getTopicStats net serverURL name verbose n)"

section \<open>version\<close>

definition getBuildInfo :: string where
  "getBuildInfo = ''development''"

definition version_command :: result where
  "version_command = (None, [Line ''PubSubGo CLI v1.0.0'', Line ''A command-line client for PubSubGo message broker'',
     Line (''Build: '' @ getBuildInfo)])"

section \<open>subscribe\<close>

text \<open>
  The WebSocket library of the client is a parameter: \<open>dial\<close> connects, \<open>write\<close> writes a document; what
  then happens comes as a list of events. A failed read says whether the peer went away, which ends the
  client without an error. When the list ends, the client waits. The server's
  URL is given as \<open>url.Parse\<close> takes it apart, into scheme and host.
\<close>

record cli_message =
  km_Type :: string
  km_ID :: string
  km_Topic :: string
  km_Payload :: "json option"
  km_Timestamp :: int
  km_Error :: string

definition zero_cli_message :: cli_message where
  "zero_cli_message = \<lparr>km_Type = '''', km_ID = '''', km_Topic = '''', km_Payload = None, km_Timestamp = zero_time, km_Error = ''''\<rparr>"

definition cli_message_json :: "cli_message \<Rightarrow> json" where
  "cli_message_json m =
     obj [(''type'', Some (JStr (km_Type m))), (''id'', omitempty (km_ID m = '''') (JStr (km_ID m))),
          (''topic'', omitempty (km_Topic m = '''') (JStr (km_Topic m))), (''payload'', km_Payload m),
          (''timestamp'', Some (JTime (km_Timestamp m))), (''error'', omitempty (km_Error m = '''') (JStr (km_Error m)))]"

definition cli_message_setters :: "cli_message setter gomap" where
  "cli_message_setters =
     [(''type'', set_str km_Type_update), (''id'', set_str km_ID_update), (''topic'', set_str km_Topic_update),
      (''payload'', set_raw km_Payload_update), (''timestamp'', set_time km_Timestamp_update), (''error'', set_str km_Error_update)]"

definition cli_subscribe_json :: "string \<Rightarrow> string \<Rightarrow> string \<Rightarrow> json" where
  "cli_subscribe_json topic consumerGroup flt =
     obj [(''topic'', Some (JStr topic)), (''consumer_group'', omitempty (consumerGroup = '''') (JStr consumerGroup)),
          (''filter'', omitempty (flt = '''') (JStr flt))]"

definition set_time_ptr :: "((int option \<Rightarrow> int option) \<Rightarrow> 'r \<Rightarrow> 'r) \<Rightarrow> 'r setter" where
  "set_time_ptr u j r = (case j of JNull \<Rightarrow> Some (u (\<lambda>_. None) r) | JTime t \<Rightarrow> Some (u (\<lambda>_. Some t) r) | _ \<Rightarrow> None)"

definition cli_payload_setters :: "message_payload setter gomap" where
  "cli_payload_setters =
     [(''id'', set_str mp_ID_update), (''key'', set_str mp_Key_update), (''payload'', set_str mp_Payload_update),
      (''headers'', set_str_map mp_Headers_update), (''priority'', set_str mp_Priority_update),
      (''delivery_mode'', set_str mp_DeliveryMode_update), (''topic'', set_str mp_Topic_update),
      (''partition'', set_int32 mp_Partition_update), (''offset'', set_int mp_Offset_update),
      (''consumer_group'', set_str mp_ConsumerGroup_update), (''created_at'', set_time mp_CreatedAt_update),
      (''expires_at'', set_time_ptr mp_ExpiresAt_update)]"

definition zero_message_payload :: message_payload where
  "zero_message_payload = \<lparr>mp_ID = '''', mp_Key = '''', mp_Payload = '''', mp_Headers = [], mp_Priority = '''',
     mp_DeliveryMode = '''', mp_Topic = '''', mp_Partition = 0, mp_Offset = 0, mp_ConsumerGroup = '''',
     mp_CreatedAt = zero_time, mp_ExpiresAt = None\<rparr>"

type_synonym 'd ws_writer = "json \<Rightarrow> 'd world \<Rightarrow> go_error option \<times> 'd world"

definition generateID :: "'d world \<Rightarrow> string \<times> 'd world" where
  "generateID w = (let (now, w) = time_now w in (''cli-'' @ itoa now, w))"

definition cli_handleMessage ::
  "'d ws_writer \<Rightarrow> cli_message \<Rightarrow> bool \<Rightarrow> bool \<Rightarrow> 'd world \<Rightarrow> result \<times> 'd world" where
  "cli_handleMessage wr msg noAck verbose w =
     (case unmarshal_payload cli_payload_setters zero_message_payload (km_Payload msg) of
        Inl e \<Rightarrow> (fail_with ''failed to parse message payload'' e [], w)
      | Inr p \<Rightarrow>
          (let (now, w) = time_now w;
               out = [Field '' Message received: '' (JTime now), Line (''   ID: '' @ mp_ID p), Line (''   Topic: '' @ mp_Topic p)]
                 @ (if mp_Key p \<noteq> '''' then [Line (''   Key: '' @ mp_Key p)] else [])
                 @ [Line (''   Content: '' @ mp_Payload p), Line (''   Priority: '' @ mp_Priority p),
                    Line (''   Partition: '' @ itoa (mp_Partition p) @ '', Offset: '' @ itoa (mp_Offset p))]
                 @ (if mp_Headers p \<noteq> [] then [Field ''   Headers: '' (enc_map JStr (mp_Headers p))] else [])
                 @ [Field ''   Created: '' (JTime (mp_CreatedAt p)), Line '''']
           in if noAck then ((None, out), w)
              else (let (i, w) = generateID w; (now, w) = time_now w;
                        (e, w) = wr (cli_message_json (zero_cli_message\<lparr>km_Type := ''ack'', km_ID := i, km_Timestamp := now,
                          km_Payload := Some (JObj [(''consumer_group'', JStr (mp_ConsumerGroup p)),
                            (''message_id'', JStr (mp_ID p))])\<rparr>)) w
                    in (case e of
                          Some e \<Rightarrow> (fail_with ''failed to send acknowledgment'' e out, w)
                        | None \<Rightarrow> ((None, out @ when_verbose verbose
                            [Line ('' Sent acknowledgment for message '' @ mp_ID p)]), w)))))"

text \<open>
  What happens while the client runs: a document arrives (and the signal of the user while it is handled,
  or not), a read fails, or the signal comes while the client waits for a document. The signal cancels a
  context that the loop looks at only between two reads, and only the first one is taken.
\<close>

datatype event = Received json bool | ReadFailed bool go_error | Interrupted

definition shutting_down :: "bool \<Rightarrow> out list" where
  "shutting_down cancelled = (if cancelled then [] else [Line '''', Line '' Shutting down...''])"

text \<open>The loop: \<open>None\<close> while it is still waiting.\<close>

fun cli_receive ::
  "'d ws_writer \<Rightarrow> bool \<Rightarrow> bool \<Rightarrow> bool \<Rightarrow> event list \<Rightarrow> out list \<Rightarrow> 'd world
    \<Rightarrow> (go_error option) option \<times> out list \<times> 'd world" where
  "cli_receive wr noAck verbose cancelled [] out w = (None, out, w)"
| "cli_receive wr noAck verbose cancelled (Interrupted # es) out w =
     cli_receive wr noAck verbose True es (out @ shutting_down cancelled) w"
| "cli_receive wr noAck verbose cancelled (ReadFailed gone e # es) out w =
     (if gone then (Some None, out @ [Line (map char_of [0xF0, 0x9F, 0x93, 0xA1 :: nat] @ '' Connection closed'')], w)
      else (Some (Some (Errorf (''failed to read message: '' @ Error e))), out, w))"
| "cli_receive wr noAck verbose cancelled (Received j interrupted # es) out w =
     (case decode_struct False cli_message_setters j zero_cli_message of
        None \<Rightarrow> (Some (Some (Errorf (''failed to read message: '' @ Error json_error))), out, w)
      | Some m \<Rightarrow>
          (let out = out @ when_verbose verbose [Field ''Received: '' (cli_message_json m)];
               (os, w) =
                 (if km_Type m = ''message'' then
                    (case cli_handleMessage wr m noAck verbose w of
                       ((Some e, os), w) \<Rightarrow> (os @ [Line (''Error handling message: '' @ Error e)], w)
                     | ((None, os), w) \<Rightarrow> (os, w))
                  else if km_Type m = ''subscribed'' then ([Line '' Subscription confirmed''], w)
                  else if km_Type m = ''error'' then ([Line ('' Error: '' @ km_Error m)], w)
                  else if km_Type m = ''pong'' then (when_verbose verbose [Line '' Received pong''], w)
                  else (when_verbose verbose [Line (''Unknown message type: '' @ km_Type m)], w));
               out = out @ os @ (if interrupted then shutting_down cancelled else [])
           in if cancelled \<or> interrupted then (Some None, out, w)
              else cli_receive wr noAck verbose False es out w))"

definition ws_url :: "string \<Rightarrow> string \<Rightarrow> string" where
  "ws_url scheme host = (if scheme = ''https'' then ''wss'' else ''ws'') @ ''://'' @ host @ ''/ws''"

text \<open>\<open>dial\<close> works on the state \<open>'n\<close> of the network; the clock and the connection are the client's.\<close>

definition subscribeToTopic ::
  "(string \<Rightarrow> 'n \<Rightarrow> go_error option \<times> 'n) \<Rightarrow> 'd ws_writer \<Rightarrow> event list \<Rightarrow> go_error + string \<times> string
    \<Rightarrow> string \<Rightarrow> string \<Rightarrow> string \<Rightarrow> bool \<Rightarrow> bool \<Rightarrow> 'n \<Rightarrow> 'd world
    \<Rightarrow> ((go_error option) option \<times> out list \<times> 'd world) \<times> 'n" where
  "subscribeToTopic dial wr events serverURL topic consumerGroup flt noAck verbose n w =
     (case serverURL of
        Inl e \<Rightarrow> ((Some (Some (Errorf (''invalid server URL: '' @ Error e))), [], w), n)
      | Inr (scheme, host) \<Rightarrow>
          (let url = ws_url scheme host;
               out = when_verbose verbose [Line (''Connecting to WebSocket: '' @ url)];
               (e, n) = dial url n
           in (case e of
                 Some e \<Rightarrow> ((Some (Some (Errorf (''failed to connect to WebSocket: '' @ Error e))), out, w), n)
               | None \<Rightarrow>
                   (let out = out @ [Line (map char_of [0xF0, 0x9F, 0x94, 0x97 :: nat] @ '' Connected to PubSubGo server'')];
                        (i, w) = generateID w;
                        (now, w) = time_now w;
                        m = cli_message_json (zero_cli_message\<lparr>km_Type := ''subscribe'', km_ID := i, km_Topic := topic,
                          km_Payload := Some (cli_subscribe_json topic consumerGroup flt), km_Timestamp := now\<rparr>);
                        (e, w) = wr m w
                    in (case e of
                          Some e \<Rightarrow> ((Some (Some (Errorf (''failed to send subscription: '' @ Error e))), out, w), n)
                        | None \<Rightarrow>
                            (cli_receive wr noAck verbose False events
                               (out @ when_verbose verbose [Field ''Sent subscription: '' m]
                                @ [Line (map char_of [0xF0, 0x9F, 0x93, 0xA1 :: nat] @ '' Subscribed to topic '' @ quoted topic)]
                                @ (if consumerGroup \<noteq> ''''
                                   then [Line (map char_of [0xF0, 0x9F, 0x91, 0xA5 :: nat] @ '' Consumer group: '' @ consumerGroup)] else [])
                                @ (if flt \<noteq> ''''
                                   then [Line (map char_of [0xF0, 0x9F, 0x94, 0x8D :: nat] @ '' Filter: '' @ flt)] else [])
                                @ [Line (map char_of [0xE2, 0x8F, 0xB3 :: nat] @ '' Waiting for messages... (Press Ctrl+C to exit)''),
                                   Line '''']) w, n))))))"

definition subscribe_command ::
  "(string \<Rightarrow> 'n \<Rightarrow> go_error option \<times> 'n) \<Rightarrow> 'd ws_writer \<Rightarrow> event list \<Rightarrow> go_error + string \<times> string
    \<Rightarrow> string \<Rightarrow> string \<Rightarrow> string \<Rightarrow> bool \<Rightarrow> bool \<Rightarrow> 'n \<Rightarrow> 'd world
    \<Rightarrow> ((go_error option) option \<times> out list \<times> 'd world) \<times> 'n" where
  "subscribe_command dial wr events serverURL topic consumerGroup flt noAck verbose n w =
     (if topic = '''' then ((Some (Some (Errorf ''topic is required'')), [], w), n)
      else subscribeToTopic dial wr events serverURL topic consumerGroup flt noAck verbose n w)"

end
