(* ===== verification/HttpRoutes.thy ===== *)
theory HttpRoutes
  imports HttpServer
begin

text \<open>
  Paths and routes: a clean path is a list of plain segments, cleaning a path twice is cleaning it
  once, and a path of plain segments below a registered tree is served by the handler of the tree.
\<close>

section \<open>Segments\<close>

definition plain_seg :: "string \<Rightarrow> bool" where
  "plain_seg d \<longleftrightarrow> d \<noteq> '''' \<and> d \<noteq> ''.'' \<and> d \<noteq> ''..'' \<and> CHR ''/'' \<notin> set d"

lemma split_on_append:
  "c \<notin> set d \<Longrightarrow> split_on c (d @ y) = (d @ hd (split_on c y)) # tl (split_on c y)"
  by (induction d) (auto split: list.splits)

lemma split_on_snoc: "split_on c (s @ [c]) = split_on c s @ [[]]"
  by (induction s) (auto split: list.splits)

lemma split_on_sep: "d \<in> set (split_on c s) \<Longrightarrow> c \<notin> set d"
proof (induction s arbitrary: d)
  case (Cons x s)
  obtain y ys where "split_on c s = y # ys" by (cases "split_on c s") auto
  with Cons show ?case by (auto split: if_splits)
qed simp

lemma split_on_single: "split_on c s = [x] \<Longrightarrow> x = s \<and> c \<notin> set s"
  by (induction s arbitrary: x) (auto split: if_splits list.splits)

lemma join_path_Cons [simp]: "join_path [] = []" "join_path (d # ds) = CHR ''/'' # d @ join_path ds"
  by (simp_all add: join_path_def)

lemma join_path_eq_Nil [simp]: "join_path ds = [] \<longleftrightarrow> ds = []"
  by (cases ds) simp_all

lemma split_join: "list_all plain_seg ds \<Longrightarrow> split_on CHR ''/'' (join_path ds) = [] # ds"
  by (induction ds) (auto simp: plain_seg_def split_on_append)

lemma clean_plain: "list_all plain_seg ds \<Longrightarrow> foldl clean_step acc ds = acc @ ds"
  by (induction ds arbitrary: acc) (auto simp: plain_seg_def clean_step_def)

lemma list_all_butlast: "list_all P xs \<Longrightarrow> list_all P (butlast xs)"
  by (auto simp: list_all_iff dest: in_set_butlastD)

lemma clean_yields_plain:
  "list_all plain_seg acc \<Longrightarrow> \<forall>d \<in> set ds. CHR ''/'' \<notin> set d \<Longrightarrow> list_all plain_seg (foldl clean_step acc ds)"
proof (induction ds arbitrary: acc)
  case (Cons d ds)
  then have "list_all plain_seg (clean_step acc d)"
    using list_all_butlast [of plain_seg acc] by (auto simp: clean_step_def) (simp add: plain_seg_def)
  with Cons show ?case by simp
qed simp

lemma join_path_last: "list_all plain_seg ds \<Longrightarrow> ds \<noteq> [] \<Longrightarrow> \<not> HasSuffix (join_path ds) ''/''"
proof (induction ds rule: rev_induct)
  case (snoc d ds)
  then obtain x xs where "d = xs @ [x]" "x \<noteq> CHR ''/''"
    by (cases d rule: rev_exhaust) (auto simp: plain_seg_def)
  then show ?case by (simp add: join_path_def HasSuffix_def suffix_to_prefix)
qed simp

section \<open>Cleaning\<close>

lemma HasPrefix_join: "ds \<noteq> [] \<Longrightarrow> HasPrefix (join_path ds @ s) ''/''"
  by (cases ds) (simp_all add: HasPrefix_def)

lemma foldl_clean: "list_all plain_seg ds \<Longrightarrow> foldl clean_step [] ([] # ds) = ds"
  using clean_plain [of ds "[]"] by (simp add: clean_step_def)

lemma cleanPath_join: "list_all plain_seg ds \<Longrightarrow> ds \<noteq> [] \<Longrightarrow> cleanPath (join_path ds) = join_path ds"
  using join_path_last [of ds] HasPrefix_join [of ds "[]"]
  by (simp add: cleanPath_def split_join foldl_clean del: foldl_Cons)

lemma cleanPath_join_slash:
  assumes "list_all plain_seg ds" "ds \<noteq> []"
  shows "cleanPath (join_path ds @ ''/'') = join_path ds @ ''/''"
proof -
  have "split_on CHR ''/'' (join_path ds @ ''/'') = ([] # ds) @ [[]]"
    using split_on_snoc [of "CHR ''/''" "join_path ds"] split_join [OF assms(1)] by simp
  then have "foldl clean_step [] (split_on CHR ''/'' (join_path ds @ ''/'')) = ds"
    using foldl_clean [OF assms(1)] by (simp only: foldl_append) (simp add: clean_step_def)
  moreover have "join_path ds \<noteq> ''/''" using join_path_last [OF assms] by (auto simp: HasSuffix_def)
  moreover have "HasSuffix (join_path ds @ ''/'') ''/''" by (simp add: HasSuffix_def)
  ultimately show ?thesis using HasPrefix_join [OF assms(2)] assms(2) by (simp add: cleanPath_def Let_def)
qed

lemma cleanPath_forms:
  obtains "cleanPath p = ''/''"
    | ds where "list_all plain_seg ds" "ds \<noteq> []" "cleanPath p = join_path ds"
    | ds where "list_all plain_seg ds" "ds \<noteq> []" "cleanPath p = join_path ds @ ''/''"
proof -
  define q where "q = (if HasPrefix p ''/'' then p else CHR ''/'' # p)"
  define ds where "ds = foldl clean_step [] (split_on CHR ''/'' q)"
  have "list_all plain_seg ds" unfolding ds_def by (rule clean_yields_plain) (auto dest: split_on_sep)
  moreover have "cleanPath p = (let np = if ds = [] then ''/'' else join_path ds
      in if HasSuffix q ''/'' \<and> np \<noteq> ''/'' then np @ ''/'' else np)"
    by (simp add: cleanPath_def q_def ds_def Let_def)
  ultimately show thesis using that by (auto simp: Let_def split: if_splits)
qed

lemma cleanPath_idem: "cleanPath (cleanPath p) = cleanPath p"
proof (cases p rule: cleanPath_forms)
  case 1
  then show ?thesis by (simp add: cleanPath_def HasPrefix_def clean_step_def HasSuffix_def)
qed (simp_all add: cleanPath_join cleanPath_join_slash)

section \<open>The routes of the server\<close>

lemma HasSuffix_slash [simp]: "HasSuffix (s @ ''/'') ''/''" "HasSuffix ''/'' ''/''"
  by (simp_all add: HasSuffix_def)

lemma route_again:
  assumes "mux_route ps r = Redirect url" "rq_Method r \<noteq> ''CONNECT''"
  shows "mux_route ps (r\<lparr>rq_Path := url\<rparr>) \<noteq> Redirect u"
proof (cases "url = cleanPath (rq_Path r)")
  case True
  with assms show ?thesis by (auto simp: mux_route_def Let_def cleanPath_idem split: if_splits option.splits)
next
  case False
  with assms have url: "url = cleanPath (rq_Path r) @ ''/''" "\<not> HasSuffix (cleanPath (rq_Path r)) ''/''"
    by (auto simp: mux_route_def Let_def split: if_splits option.splits)
  then have "cleanPath url = url"
    by (cases "rq_Path r" rule: cleanPath_forms) (simp_all add: cleanPath_join_slash)
  with url(1) assms(2) show ?thesis by (auto simp: mux_route_def Let_def split: if_splits option.splits)
qed

text \<open>A path of plain segments is matched as it is.\<close>

lemma route_plain:
  assumes "rq_Path r = join_path ds" "list_all plain_seg ds" "ds \<noteq> []"
    and "map_of ps (join_path ds) = Some h \<or> map_of ps (join_path ds @ ''/'') = None \<and> mux_match ps (join_path ds) = Some h"
  shows "mux_route ps r = Serve h"
  using assms cleanPath_join [OF assms(2,3)] by (auto simp: mux_route_def mux_match_def Let_def split: option.splits)

lemmas setups = routes_def setupPublisherRoutes_def setupSubscriberRoutes_def setupTopicRoutes_def
  setupAcknowledgeRoutes_def

lemma tree_match:
  assumes "i \<noteq> []"
  shows "mux_match (routes s) (''/v1/publish/'' @ i) = Some (\<lambda>_. handlePublisherRoutes s)"
    "mux_match (routes s) (''/v1/subscriptions/'' @ i) = Some (\<lambda>_. handleSubscriptionOperations s)"
    "mux_match (routes s) (''/v1/consumer-groups/'' @ i) = Some (\<lambda>_. handleConsumerGroupOperations s)"
    "mux_match (routes s) (''/v1/topics/'' @ i) = Some (\<lambda>_. handleTopicOperations s)"
    "mux_match (routes s) (''/v1/messages/'' @ i) = Some (\<lambda>_. handleMessageOperations s)"
  using assms
  by (cases "hv_wsHandler s"; simp add: mux_match_def setups longer_def HasPrefix_def HasSuffix_def suffix_to_prefix)+

lemma tree_not_exact:
  assumes "i \<noteq> []"
  shows "map_of (routes s) (''/v1/publish/'' @ i) = None" "map_of (routes s) (''/v1/subscriptions/'' @ i) = None"
    "map_of (routes s) (''/v1/consumer-groups/'' @ i) = None" "map_of (routes s) (''/v1/topics/'' @ i) = None"
    "map_of (routes s) (''/v1/messages/'' @ i) = None"
  using assms by (cases "hv_wsHandler s"; simp add: setups)+

lemma tree_routes:
  assumes "rq_Path r = join_path (''v1'' # kind # ds)" "list_all plain_seg (''v1'' # kind # ds)" "ds \<noteq> []"
  shows "kind = ''publish'' \<Longrightarrow> mux_route (routes s) r = Serve (\<lambda>_. handlePublisherRoutes s)"
    "kind = ''subscriptions'' \<Longrightarrow> mux_route (routes s) r = Serve (\<lambda>_. handleSubscriptionOperations s)"
    "kind = ''consumer-groups'' \<Longrightarrow> mux_route (routes s) r = Serve (\<lambda>_. handleConsumerGroupOperations s)"
    "kind = ''topics'' \<Longrightarrow> mux_route (routes s) r = Serve (\<lambda>_. handleTopicOperations s)"
    "kind = ''messages'' \<Longrightarrow> mux_route (routes s) r = Serve (\<lambda>_. handleMessageOperations s)"
proof -
  obtain i where i: "join_path ds = CHR ''/'' # i" "i \<noteq> []"
    using assms(2,3) by (cases ds) (auto simp: plain_seg_def)
  note m = tree_match [OF i(2), of s, simplified]
  note n = tree_not_exact [of "i @ ''/''" s, simplified]
  show "kind = ''publish'' \<Longrightarrow> mux_route (routes s) r = Serve (\<lambda>_. handlePublisherRoutes s)"
    "kind = ''subscriptions'' \<Longrightarrow> mux_route (routes s) r = Serve (\<lambda>_. handleSubscriptionOperations s)"
    "kind = ''consumer-groups'' \<Longrightarrow> mux_route (routes s) r = Serve (\<lambda>_. handleConsumerGroupOperations s)"
    "kind = ''topics'' \<Longrightarrow> mux_route (routes s) r = Serve (\<lambda>_. handleTopicOperations s)"
    "kind = ''messages'' \<Longrightarrow> mux_route (routes s) r = Serve (\<lambda>_. handleMessageOperations s)"
    by (rule route_plain [OF assms(1,2)]; simp add: i m n)+
qed

text \<open>The parts that the handlers take a path apart into.\<close>

lemma extract_join:
  assumes "list_all plain_seg (''v1'' # kind # i # ds)"
  shows "extract_after k (join_path (''v1'' # kind # i # ds)) = (if k = kind then i else '''')"
proof -
  have "split_on CHR ''/'' (TrimPrefix (join_path (''v1'' # kind # i # ds)) ''/'') = ''v1'' # kind # i # ds"
    using split_join [OF assms] by (simp add: TrimPrefix_def)
  then show ?thesis by (simp add: extract_after_def Let_def)
qed

lemma HasSuffix_join:
  assumes "list_all plain_seg ds" "ds \<noteq> []" "CHR ''/'' \<notin> set e"
  shows "HasSuffix (join_path ds) (CHR ''/'' # e) \<longleftrightarrow> last ds = e"
proof -
  obtain xs d where ds: "ds = xs @ [d]" using assms(2) by (cases ds rule: rev_exhaust) auto
  with assms(1) have d: "CHR ''/'' \<notin> set d" by (simp add: plain_seg_def)
  have "join_path ds = join_path xs @ CHR ''/'' # d" by (simp add: ds join_path_def)
  moreover have "suffix (CHR ''/'' # e) (y @ CHR ''/'' # d) \<longleftrightarrow> d = e" for y
    using d assms(3) by (auto simp: suffix_def append_eq_append_conv2 append_eq_Cons_conv Cons_eq_append_conv)
  ultimately show ?thesis by (simp add: HasSuffix_def ds)
qed

end
