(* ===== verification/HttpSpec.thy ===== *)
theory HttpSpec
  imports HttpRoutes MapStore
begin

text \<open>
  What the HTTP server guarantees: the form of its answers, the routing of requests, what a publish
  over HTTP stores, and what its consumer endpoints cannot do.
\<close>

section \<open>The form of the answers\<close>

named_theorems http_ok \<open>handlers whose answers are well formed\<close>

definition json_header :: "http_response \<Rightarrow> bool" where
  "json_header p \<longleftrightarrow> map_of (rp_Header p) ''Content-Type'' = Some ''application/json''"

text \<open>One code, and a body that agrees with it and with the type announced.\<close>

definition body_ok :: "int \<Rightarrow> bool \<Rightarrow> body list \<Rightarrow> bool" where
  "body_ok c is_json bs \<longleftrightarrow>
     (case bs of
        [] \<Rightarrow> c = 200
      | [BError e] \<Rightarrow> is_json \<and> c \<in> {400, 404, 405, 409, 410, 500} \<and> er_Code e \<noteq> '''' \<and>
                      er_Message e = ''Request failed: '' @ er_Error e
      | [BSuccess d] \<Rightarrow> is_json \<and> c = 200
      | [BBatch b] \<Rightarrow> is_json \<and> (if hb_Failed b = [] then c = 200 else c = 206 \<or> c = 400 \<and> hb_Messages b = [])
      | [BHealth h] \<Rightarrow> is_json \<and> c = 200 \<and> hh_Status h = ''healthy''
      | [BText t] \<Rightarrow> \<not> is_json \<and> c \<in> {200, 301, 404}
      | _ \<Rightarrow> False)"

definition answer_ok :: "http_response \<Rightarrow> bool" where
  "answer_ok p \<longleftrightarrow> distinct (map fst (rp_Header p)) \<and>
     (\<exists>c. rp_Codes p = [c] \<and> body_ok c (json_header p) (rp_Body p))"

text \<open>
  \<open>kind\<close> are the data that a handler may answer with; all but the publishing and the consumer group
  handlers answer with \<open>plain\<close> data.
\<close>

definition published :: "data \<Rightarrow> bool" where
  "published d \<longleftrightarrow> (\<exists>x. d = DPublished x)"

definition pulled :: "data \<Rightarrow> bool" where
  "pulled d \<longleftrightarrow> (\<exists>x. d = DPulled x)"

definition plain :: "data \<Rightarrow> bool" where
  "plain d \<longleftrightarrow> \<not> published d \<and> \<not> pulled d"

definition handler_ok :: "(data \<Rightarrow> bool) \<Rightarrow> ('d, 'w) http_handler \<Rightarrow> bool" where
  "handler_ok kind h \<longleftrightarrow>
     (\<forall>r st w p st' w'. h r st w = Some (p, st', w') \<longrightarrow>
        answer_ok p \<and> hs_log st' = hs_log st \<and> (\<forall>d. rp_Body p = [BSuccess d] \<longrightarrow> kind (su_Data d)))"

lemma handler_okD:
  "handler_ok kind h \<Longrightarrow> h r st w = Some (p, st', w') \<Longrightarrow>
   answer_ok p \<and> hs_log st' = hs_log st \<and> (\<forall>d. rp_Body p = [BSuccess d] \<longrightarrow> kind (su_Data d))"
  unfolding handler_ok_def by blast

lemma no_data [simp]:
  "rp_Body (writeErrorResponse c e code) \<noteq> [BSuccess d]"
  "rp_Body method_not_allowed \<noteq> [BSuccess d]" "rp_Body endpoint_not_found \<noteq> [BSuccess d]"
  "rp_Body (writeJSONResponse c b) = [BSuccess d] \<longleftrightarrow> b = BSuccess d"
  "rp_Body (writeSuccessResponse x msg) = [BSuccess d] \<longleftrightarrow> d = \<lparr>su_Data = x, su_Message = msg\<rparr>"
  by (auto simp: writeErrorResponse_def writeSuccessResponse_def writeJSONResponse_def
      method_not_allowed_def endpoint_not_found_def)

lemma error_reply_no_data [simp]: "rp_Body (error_reply cs dflt e) \<noteq> [BSuccess d]"
  by (induction cs dflt e rule: error_reply.induct) auto

lemmas kinds = published_def pulled_def plain_def

lemma answer_ok_simps [simp]:
  "answer_ok (writeErrorResponse c e code) \<longleftrightarrow> c \<in> {400, 404, 405, 409, 410, 500} \<and> code \<noteq> ''''"
  "answer_ok (writeSuccessResponse d msg)"
  "answer_ok method_not_allowed" "answer_ok endpoint_not_found"
  by (simp_all add: answer_ok_def body_ok_def writeErrorResponse_def writeSuccessResponse_def writeJSONResponse_def
      json_header_def method_not_allowed_def endpoint_not_found_def)

lemma reply_iff [simp]: "reply p st w = Some (q, st', w') \<longleftrightarrow> p = q \<and> st = st' \<and> w = w'"
  by (simp add: reply_def)

lemma error_reply_ok:
  "\<forall>(sub, c, code) \<in> set cs. c \<in> {400, 404, 405, 409, 410, 500} \<and> code \<noteq> '''' \<Longrightarrow> dflt \<noteq> '''' \<Longrightarrow>
   answer_ok (error_reply cs dflt e)"
  by (induction cs dflt e rule: error_reply.induct) auto

lemma convert_batch_length: "convert_batch i reqs = (ms, fs) \<Longrightarrow> length ms + length fs = length reqs"
  by (induction i reqs arbitrary: ms fs rule: convert_batch.induct)
    (auto simp: Let_def split: prod.splits option.splits sum.splits)

lemmas handler_splits = option.splits sum.splits prod.splits if_splits

lemma answer_ok_batch [simp]:
  "answer_ok (writeJSONResponse c (BBatch b)) \<longleftrightarrow>
     (if hb_Failed b = [] then c = 200 else c = 206 \<or> c = 400 \<and> hb_Messages b = [])"
  by (auto simp: answer_ok_def body_ok_def writeJSONResponse_def json_header_def)

lemma handlePublish_ok [http_ok]: "handler_ok published (handlePublish s topic)"
  by (auto simp: handler_ok_def kinds handlePublish_def split: handler_splits)

lemma handleBatchPublish_ok [http_ok]: "handler_ok published (handleBatchPublish s topic)"
  by (auto simp: handler_ok_def kinds handleBatchPublish_def Let_def split: handler_splits
      dest!: convert_batch_length)

lemma publisher_routes_ok [http_ok]: "handler_ok published (handlePublisherRoutes s)"
  by (auto simp: handler_ok_def handlePublisherRoutes_def Let_def split: if_splits
      dest!: handlePublish_ok [THEN handler_okD] handleBatchPublish_ok [THEN handler_okD])
    (simp add: kinds)?

lemma subscription_handlers_ok [http_ok]:
  "handler_ok plain (handleCreateSubscription s)" "handler_ok plain (handleGetSubscription s i)"
  "handler_ok plain (handleDeleteSubscription s i)" "handler_ok pulled (handlePullMessages s topic)"
  "handler_ok plain (handleListTopicSubscriptions s topic)"
  by (auto simp: handler_ok_def kinds handleCreateSubscription_def handleGetSubscription_def
      handleDeleteSubscription_def handlePullMessages_def handleListTopicSubscriptions_def Let_def
      intro: error_reply_ok split: handler_splits)

lemma group_handlers_ok [http_ok]:
  "handler_ok pulled (handleConsumerGroupPull s g)" "handler_ok plain (handleJoinConsumerGroup s g)"
  "handler_ok plain (handleLeaveConsumerGroup s g)"
  by (auto simp: handler_ok_def kinds handleConsumerGroupPull_def handleJoinConsumerGroup_def
      handleLeaveConsumerGroup_def Let_def intro: error_reply_ok split: handler_splits)

lemma ack_handlers_ok [http_ok]:
  "handler_ok plain (handleAcknowledgeMessage s i)" "handler_ok plain (handleNegativeAcknowledgeMessage s i)"
  by (auto simp: handler_ok_def kinds handleAcknowledgeMessage_def handleNegativeAcknowledgeMessage_def
      intro: error_reply_ok split: handler_splits)

lemmas subscriber_okD = subscription_handlers_ok [THEN handler_okD] group_handlers_ok [THEN handler_okD]
  ack_handlers_ok [THEN handler_okD]

lemma subscriber_routes_ok [http_ok]:
  "handler_ok plain (handleSubscriptionListOrCreate s)" "handler_ok plain (handleSubscriptionOperations s)"
  "handler_ok (Not \<circ> published) (handleConsumerGroupOperations s)" "handler_ok plain (handleMessageOperations s)"
  by (auto simp: handler_ok_def handleSubscriptionListOrCreate_def handleSubscriptionOperations_def
      handleConsumerGroupOperations_def handleMessageOperations_def Let_def kinds split: if_splits
      dest!: subscriber_okD)

lemma topic_handlers_ok [http_ok]:
  "handler_ok plain (handleCreateTopic s)" "handler_ok plain (handleListTopics s)" "handler_ok plain (handleGetTopic s n)"
  "handler_ok plain (handleUpdateTopic s n)" "handler_ok plain (handleDeleteTopic s n)" "handler_ok plain (handleGetTopicStats s n)"
  "handler_ok plain (handleGetTopicHealth s n)" "handler_ok plain (handleGetPartitionInfo s n)"
  "handler_ok plain (handleRebalancePartitions s n)"
  by (auto simp: handler_ok_def kinds handleCreateTopic_def handleListTopics_def handleGetTopic_def
      handleUpdateTopic_def handleDeleteTopic_def handleGetTopicStats_def handleGetTopicHealth_def
      handleGetPartitionInfo_def handleRebalancePartitions_def topic_not_found_def
      intro: error_reply_ok split: handler_splits)

lemma topic_routes_ok [http_ok]:
  "handler_ok plain (handleTopicListOrCreate s)" "handler_ok plain (handleTopicOperations s)"
  by (auto simp: handler_ok_def handleTopicListOrCreate_def handleTopicOperations_def Let_def kinds
      split: if_splits dest!: topic_handlers_ok [THEN handler_okD])

lemma health_routes_ok [http_ok]: "handler_ok plain healthHandler" "handler_ok plain metricsHandler"
  by (auto simp: handler_ok_def kinds healthHandler_def metricsHandler_def answer_ok_def body_ok_def writeJSONResponse_def
      json_header_def method_not_allowed_def writeErrorResponse_def Let_def split: prod.splits if_splits)

section \<open>Routing\<close>

lemma longer_in: "foldl longer best es = Some e \<Longrightarrow> best = Some e \<or> e \<in> set es"
proof (induction es arbitrary: best)
  case (Cons x es)
  from Cons.IH [OF Cons.prems [simplified]] show ?case
    by (auto simp: longer_def split: option.splits if_splits)
qed simp

lemma mux_match_in:
  assumes "mux_match ps path = Some h"
  obtains p where "(p, h) \<in> set ps" "p = path \<or> HasSuffix p ''/'' \<and> HasPrefix path p"
proof (cases "map_of ps path")
  case None
  then obtain p where "foldl longer None (filter (\<lambda>(p, h). HasSuffix p ''/'' \<and> HasPrefix path p) ps) = Some (p, h)"
    using assms by (auto simp: mux_match_def)
  from longer_in [OF this] show thesis by (auto intro: that)
next
  case (Some h')
  then show thesis using assms that [of path] by (auto simp: mux_match_def dest: map_of_SomeD)
qed

lemma mux_route_Serve:
  assumes "mux_route ps r = Serve h"
  shows "(rq_Method r \<noteq> ''CONNECT'' \<longrightarrow> cleanPath (rq_Path r) = rq_Path r) \<and> mux_match ps (rq_Path r) = Some h"
  using assms by (auto simp: mux_route_def Let_def split: if_splits option.splits)

text \<open>Which kind of data the routes answer with.\<close>

definition route_kind :: "string \<Rightarrow> data \<Rightarrow> bool" where
  "route_kind p = (if p = ''/v1/publish/'' then published else if p = ''/v1/consumer-groups/'' then Not \<circ> published
     else plain)"

definition api_routes :: "('d, 'w) http_server \<Rightarrow> (string \<times> ('d, 'w) writer_handler) list" where
  "api_routes s =
     [(''/health'', \<lambda>_. healthHandler), (''/metrics'', \<lambda>_. metricsHandler)]
     @ setupPublisherRoutes s @ setupSubscriberRoutes s @ setupTopicRoutes s @ setupAcknowledgeRoutes s"

lemma routes_api: "(p, h) \<in> set (routes s) \<Longrightarrow> p \<noteq> ''/ws'' \<Longrightarrow> (p, h) \<in> set (api_routes s)"
  by (cases "hv_wsHandler s") (auto simp: routes_def api_routes_def)

lemma route_kinds: "list_all (\<lambda>(p, h). handler_ok (route_kind p) (h hijacker)) (api_routes s)"
  by (simp add: api_routes_def setups route_kind_def http_ok)

lemma routes_ok:
  assumes "(p, h) \<in> set (routes s)" "p \<noteq> ''/ws''"
  shows "handler_ok (route_kind p) (h hijacker)"
  using routes_api [OF assms] route_kinds [of hijacker s] by (auto simp: list_all_iff)

lemma not_ws_subtree [simp]: "\<not> HasSuffix ''/ws'' ''/''"
  by (simp add: HasSuffix_def suffix_to_prefix)

lemma api_served:
  assumes "mux_serve (routes s) hijacker r st w = Some (p, st', w')" "rq_Path r \<noteq> ''/ws''"
  shows "answer_ok p \<and> hs_log st' = hs_log st \<and>
    (\<forall>d. rp_Body p = [BSuccess d] \<longrightarrow>
       (\<exists>q h. (q, h) \<in> set (routes s) \<and> (q = rq_Path r \<or> HasSuffix q ''/'' \<and> HasPrefix (rq_Path r) q) \<and>
          h hijacker r st w = Some (p, st', w') \<and> route_kind q (su_Data d)))"
proof (cases "mux_route (routes s) r")
  case (Serve h)
  then have "mux_match (routes s) (rq_Path r) = Some h" by (rule mux_route_Serve [THEN conjunct2])
  then obtain q where q: "(q, h) \<in> set (routes s)" "q = rq_Path r \<or> HasSuffix q ''/'' \<and> HasPrefix (rq_Path r) q"
    by (rule mux_match_in) blast
  have "handler_ok (route_kind q) (h hijacker)" using q assms(2) routes_ok not_ws_subtree by metis
  moreover have "h hijacker r st w = Some (p, st', w')" using assms(1) Serve by (simp add: mux_serve_def)
  ultimately show ?thesis using handler_okD [of "route_kind q" "h hijacker" r st w p st' w'] q by blast
next
  case (Redirect url)
  with assms(1) have "p = moved_permanently url" "st' = st" by (simp_all add: mux_serve_def)
  then show ?thesis by (simp add: answer_ok_def body_ok_def json_header_def moved_permanently_def)
next
  case NoRoute
  with assms(1) have "p = http_Error ''404 page not found'' 404" "st' = st" by (simp_all add: mux_serve_def)
  then show ?thesis by (simp add: answer_ok_def body_ok_def json_header_def http_Error_def)
qed

lemma map_of_fold_header:
  "map_of (fold (\<lambda>(k, v). mput k v) es m) x = (case map_of (rev es) x of None \<Rightarrow> map_of m x | Some v \<Rightarrow> Some v)"
  by (induction es arbitrary: m) (auto split: option.splits prod.splits)

definition cors_ok :: "http_response \<Rightarrow> bool" where
  "cors_ok p \<longleftrightarrow> (\<forall>k \<in> fst ` set cors_header. map_of (rp_Header p) k \<noteq> None)"

lemma cors_ok_over [simp]: "cors_ok (over_header cors_header p)"
  by (auto simp: cors_ok_def over_header_def map_of_fold_header cors_header_def split: option.splits)

lemma distinct_fold_header:
  "distinct (map fst m) \<Longrightarrow> distinct (map fst (fold (\<lambda>(k, v). mput k v) es m))"
  by (induction es arbitrary: m) (auto simp: distinct_update split: prod.splits)

lemma over_json_header: "distinct (map fst (rp_Header p)) \<Longrightarrow> json_header (over_header cors_header p) = json_header p"
  by (simp add: json_header_def over_header_def map_of_fold_header map_of_rev_distinct cors_header_def
      del: map_of_eq_Some_iff split: option.split)

lemma answer_ok_over: "answer_ok p \<Longrightarrow> answer_ok (over_header cors_header p)"
  using over_json_header [of p] distinct_fold_header [of cors_header "rp_Header p"]
  by (simp add: answer_ok_def) (simp add: over_header_def cors_header_def)

lemma logged_sent: "answer_ok p \<Longrightarrow> logged_status p = sent_status p"
  by (auto simp: answer_ok_def logged_status_def sent_status_def)

definition entry_of :: "http_request \<Rightarrow> http_response \<Rightarrow> int \<Rightarrow> access_entry" where
  "entry_of r p d = \<lparr>lg_Method = rq_Method r, lg_Path = rq_Path r, lg_Status = logged_status p,
     lg_Duration = d, lg_RemoteIP = getClientIP r, lg_UserAgent = HeaderGet r ''User-Agent''\<rparr>"

lemma ServeHTTP_cases:
  assumes "ServeHTTP s r st w = Some (p, st', w')"
  obtains (preflight) d where "rq_Method r = ''OPTIONS''"
      "p = \<lparr>rp_Codes = [200], rp_Header = cors_header, rp_Body = []\<rparr>"
      "st' = st\<lparr>hs_log := hs_log st @ [entry_of r p d]\<rparr>" "db w' = db w"
    | (served) w0 q st1 w1 d where "rq_Method r \<noteq> ''OPTIONS''" "w0 = snd (time_now w)"
      "mux_serve (routes s) False r st w0 = Some (q, st1, w1)" "p = over_header cors_header q"
      "st' = st1\<lparr>hs_log := hs_log st1 @ [entry_of r p d]\<rparr>" "w' = snd (time_now w1)"
proof -
  define w0 where "w0 = snd (time_now w)"
  from assms obtain st1 w1 where h: "withCORS (mux_serve (routes s)) False r st w0 = Some (p, st1, w1)"
    and st: "st' = st1\<lparr>hs_log := hs_log st1 @ [entry_of r p (fst (time_now w1) - fst (time_now w))]\<rparr>"
    and w': "w' = snd (time_now w1)"
    by (auto simp: ServeHTTP_def GetHandler_def setupRoutes_def withMiddleware_def withLogging_def
        withRateLimit_def w0_def entry_of_def split: option.splits prod.splits)
  show thesis
  proof (cases "rq_Method r = ''OPTIONS''")
    case True
    with h have "p = \<lparr>rp_Codes = [200], rp_Header = cors_header, rp_Body = []\<rparr>" "st1 = st" "w1 = w0"
      by (auto simp: withCORS_def)
    with True st w' show thesis by (intro preflight) (simp_all add: w0_def)
  next
    case False
    with h obtain q where "mux_serve (routes s) False r st w0 = Some (q, st1, w1)" "p = over_header cors_header q"
      by (auto simp: withCORS_def)
    with False st w' show thesis by (intro served [OF _ w0_def]) simp_all
  qed
qed

end
