(* ===== verification/WsSpec.thy ===== *)
theory WsSpec
  imports WsCore HttpSpec
begin

text \<open>
  The WebSocket server as a state machine: every connection has three goroutines, the pump that reads
  and handles messages, the pump that writes, and \<open>HandleWebSocket\<close>, which waits and cleans up.
\<close>

section \<open>Steps\<close>

datatype reader = Reading | Handling "go_error + json" | ReaderClosing | ReaderDone

datatype writer = Writing | WriterClosing | WriterDone

record pumps =
  gp_reader :: reader
  gp_writer :: writer
  gp_waiting :: bool

type_synonym 'd ws_config = "pumps list \<times> ws_state http_state \<times> 'd world"

definition new_pumps :: pumps where
  "new_pumps = \<lparr>gp_reader = Reading, gp_writer = Writing, gp_waiting = True\<rparr>"

definition set_reader :: "nat \<Rightarrow> reader \<Rightarrow> pumps list \<Rightarrow> pumps list" where
  "set_reader a x gs = gs[a := (gs ! a)\<lparr>gp_reader := x\<rparr>]"

definition set_writer :: "nat \<Rightarrow> writer \<Rightarrow> pumps list \<Rightarrow> pumps list" where
  "set_writer a x gs = gs[a := (gs ! a)\<lparr>gp_writer := x\<rparr>]"

text \<open>
  A read or a write may fail at any time, a pump may see that the context is done or that its channel
  is closed: then it leaves its loop and its deferred \<open>Close\<close> begins. A pump that found the connection
  alive goes on to close it. \<open>feed\<close> admits the calls of the two functions that the program never calls.
\<close>

inductive ws_step :: "'d ws_server \<Rightarrow> bool \<Rightarrow> 'd ws_config \<Rightarrow> 'd ws_config option \<Rightarrow> bool" for s feed where
  accept: "openWebSocket s hijacker r st w = (Inr a, st', w') \<Longrightarrow>
    ws_step s feed (gs, st, w) (Some (gs @ [new_pumps], st', w'))"
| read_frame: "a < length gs \<Longrightarrow> gp_reader (gs ! a) = Reading \<Longrightarrow> cn_open (conn a st) \<Longrightarrow>
    ws_step s feed (gs, st, w) (Some (set_reader a (Handling d) gs, st, w))"
| handle: "a < length gs \<Longrightarrow> gp_reader (gs ! a) = Handling d \<Longrightarrow>
    ws_step s feed (gs, st, w) (map_option (\<lambda>(st, w). (set_reader a Reading gs, st, w)) (handleMessage s coin a d st w))"
| read_stop: "a < length gs \<Longrightarrow> gp_reader (gs ! a) = Reading \<Longrightarrow>
    ws_step s feed (gs, st, w)
      (Some (set_reader a (if cn_IsAlive (conn a st) then ReaderClosing else ReaderDone) gs,
             put_conn a (Close_begin (conn a st)) st, w))"
| reader_close: "a < length gs \<Longrightarrow> gp_reader (gs ! a) = ReaderClosing \<Longrightarrow>
    ws_step s feed (gs, st, w)
      (map_option (\<lambda>c. (set_reader a ReaderDone gs, put_conn a c st, w)) (Close_end (conn a st)))"
| write_frame: "a < length gs \<Longrightarrow> gp_writer (gs ! a) = Writing \<Longrightarrow> cn_open (conn a st) \<Longrightarrow> cn_send (conn a st) = m # ms \<Longrightarrow>
    ws_step s feed (gs, st, w)
      (Some (gs, put_conn a ((conn a st)\<lparr>cn_send := ms, cn_wire := cn_wire (conn a st) @ [TextFrame m]\<rparr>) st, w))"
| ping: "a < length gs \<Longrightarrow> gp_writer (gs ! a) = Writing \<Longrightarrow> cn_open (conn a st) \<Longrightarrow> time_now w = (now, w') \<Longrightarrow>
    ws_step s feed (gs, st, w)
      (Some (gs, put_conn a ((conn a st)\<lparr>cn_LastPingAt := now, cn_wire := cn_wire (conn a st) @ [PingFrame]\<rparr>) st, w'))"
| write_stop: "a < length gs \<Longrightarrow> gp_writer (gs ! a) = Writing \<Longrightarrow> ms = cn_send (conn a st) \<or> ms = tl (cn_send (conn a st)) \<Longrightarrow>
    ws_step s feed (gs, st, w)
      (Some (set_writer a (if cn_IsAlive (conn a st) then WriterClosing else WriterDone) gs,
             put_conn a (Close_begin ((conn a st)\<lparr>cn_send := ms\<rparr>)) st, w))"
| writer_close: "a < length gs \<Longrightarrow> gp_writer (gs ! a) = WriterClosing \<Longrightarrow>
    ws_step s feed (gs, st, w)
      (map_option (\<lambda>c. (set_writer a WriterDone gs, put_conn a c st, w)) (Close_end (conn a st)))"
| cleanup: "a < length gs \<Longrightarrow> gp_waiting (gs ! a) \<Longrightarrow> cn_closed (conn a st) \<Longrightarrow>
    ws_step s feed (gs, st, w) (Some (gs[a := (gs ! a)\<lparr>gp_waiting := False\<rparr>], on_ws (unregisterConnection a) st, w))"
| shutdown: "ws_step s feed (gs, st, w) (map_option (\<lambda>x. (gs, st\<lparr>hs_ws := x\<rparr>, w)) (websocket_Shutdown (hs_ws st)))"
| deliver: "feed \<Longrightarrow> a < length gs \<Longrightarrow>
    ws_step s feed (gs, st, w) (map_option (Pair gs) (DeliverMessage coin a m st w))"
| broadcast: "feed \<Longrightarrow>
    ws_step s feed (gs, st, w) (map_option (Pair gs) (BroadcastToTopic coins topic p st w))"

text \<open>A run also admits any change that other parts of the program make to the services and the database.\<close>

inductive ws_run :: "'d ws_server \<Rightarrow> bool \<Rightarrow> 'd ws_config \<Rightarrow> bool" for s feed where
  start: "hs_ws st = ws_state0 \<Longrightarrow> ws_run s feed ([], st, w)"
| step: "ws_run s feed c \<Longrightarrow> ws_step s feed c (Some c') \<Longrightarrow> ws_run s feed c'"
| others: "ws_run s feed (gs, st, w) \<Longrightarrow> hs_ws st' = hs_ws st \<Longrightarrow> ws_run s feed (gs, st', w')"

section \<open>The invariant\<close>

definition live_ok :: "ws_connection \<Rightarrow> bool" where
  "live_ok c \<longleftrightarrow> cn_closed c = (\<not> cn_IsAlive c) \<and> cn_open c = cn_IsAlive c \<and> (cn_closed c \<longrightarrow> cn_done c) \<and>
     length (cn_send c) \<le> 256"

definition points_to :: "ws_subscription list \<Rightarrow> nat \<Rightarrow> string \<Rightarrow> string \<Rightarrow> bool" where
  "points_to subs p cid topic \<longleftrightarrow> p < length subs \<and> wb_ConnectionID (subs ! p) = cid \<and> wb_Topic (subs ! p) = topic"

definition conn_ok :: "ws_subscription list \<Rightarrow> ws_connection \<Rightarrow> bool" where
  "conn_ok subs c \<longleftrightarrow> live_ok c \<and> wf_map (cn_subscriptions c) \<and>
     (\<forall>t p. map_of (cn_subscriptions c) t = Some p \<longrightarrow> points_to subs p (cn_ID c) t)"

definition registry_ok :: "nat gomap \<Rightarrow> ws_connection list \<Rightarrow> bool" where
  "registry_ok m cs \<longleftrightarrow> wf_map m \<and> (\<forall>i a. map_of m i = Some a \<longrightarrow> a < length cs \<and> cn_ID (cs ! a) = i)"

definition topics_ok :: "ws_subscription list \<Rightarrow> nat gomap gomap \<Rightarrow> bool" where
  "topics_ok subs m \<longleftrightarrow> wf_map m \<and>
     (\<forall>t ts. map_of m t = Some ts \<longrightarrow> ts \<noteq> [] \<and> wf_map ts \<and> (\<forall>i p. map_of ts i = Some p \<longrightarrow> points_to subs p i t))"

definition ws_ok :: "ws_state \<Rightarrow> bool" where
  "ws_ok x \<longleftrightarrow> registry_ok (ws_connections x) (ws_conns x) \<and> topics_ok (ws_subs x) (ws_subscriptions x) \<and>
     list_all (conn_ok (ws_subs x)) (ws_conns x)"

text \<open>A goroutine that has left its loop has cancelled the context; cleaning up follows the closing.\<close>

definition pump_ok :: "pumps \<Rightarrow> ws_connection \<Rightarrow> bool" where
  "pump_ok g c \<longleftrightarrow> (gp_reader g \<in> {ReaderClosing, ReaderDone} \<longrightarrow> cn_done c) \<and>
     (gp_writer g \<in> {WriterClosing, WriterDone} \<longrightarrow> cn_done c) \<and> (\<not> gp_waiting g \<longrightarrow> cn_closed c)"

definition sound :: "'d ws_config \<Rightarrow> bool" where
  "sound c \<longleftrightarrow> (case c of (gs, st, w) \<Rightarrow> ws_ok (hs_ws st) \<and> list_all2 pump_ok gs (ws_conns (hs_ws st)))"

text \<open>What happens to a connection: it keeps its name, a context stays done and a channel closed.\<close>

definition later :: "ws_connection \<Rightarrow> ws_connection \<Rightarrow> bool" where
  "later c c' \<longleftrightarrow> cn_ID c' = cn_ID c \<and> (cn_done c \<longrightarrow> cn_done c') \<and> (cn_closed c \<longrightarrow> cn_closed c')"

definition next_ok :: "ws_state \<Rightarrow> ws_state \<Rightarrow> bool" where
  "next_ok x x' \<longleftrightarrow> ws_ok x' \<and> list_all2 later (ws_conns x) (ws_conns x')"

lemma later_refl [simp]: "later c c"
  by (simp add: later_def)

lemma later_trans: "later a b \<Longrightarrow> later b c \<Longrightarrow> later a c"
  by (simp add: later_def)

lemma next_ok_refl: "ws_ok x \<Longrightarrow> next_ok x x"
  by (simp add: next_ok_def list_all2_same)

lemma next_ok_trans: "next_ok x y \<Longrightarrow> next_ok y z \<Longrightarrow> next_ok x z"
  unfolding next_ok_def by (blast intro: list_all2_trans later_trans)

lemma pump_ok_later: "pump_ok g c \<Longrightarrow> later c c' \<Longrightarrow> pump_ok g c'"
  by (auto simp: pump_ok_def later_def)

lemma pumps_later: "list_all2 pump_ok gs cs \<Longrightarrow> list_all2 later cs cs' \<Longrightarrow> list_all2 pump_ok gs cs'"
  by (blast intro: list_all2_trans pump_ok_later)

lemma sound_next: "sound (gs, st, w) \<Longrightarrow> next_ok (hs_ws st) (hs_ws st') \<Longrightarrow> sound (gs, st', w')"
  by (auto simp: sound_def next_ok_def intro: pumps_later)

lemma live_ok_begin: "live_ok c \<Longrightarrow> live_ok (Close_begin c)"
  by (simp add: live_ok_def Close_begin_def)

lemma Close_end_Some:
  "Close_end c = Some c' \<longleftrightarrow> \<not> cn_closed c \<and> c' = c\<lparr>cn_IsAlive := False, cn_closed := True, cn_open := False\<rparr>"
  by (auto simp: Close_end_def)

lemma live_ok_end: "live_ok c \<Longrightarrow> cn_done c \<Longrightarrow> Close_end c = Some c' \<Longrightarrow> live_ok c'"
  by (simp add: live_ok_def Close_end_Some)

lemma Close_begin_done [simp]: "cn_done (Close_begin c)"
  by (simp add: Close_begin_def)

lemma live_ok_close: "live_ok c \<Longrightarrow> connection_Close c = Some c' \<Longrightarrow> live_ok c'"
  by (auto simp: connection_Close_def Let_def split: if_splits intro: live_ok_begin live_ok_end)

lemma live_ok_send: "live_ok c \<Longrightarrow> sendMessage coin m c = Some c' \<Longrightarrow> live_ok c'"
  by (auto simp: sendMessage_def live_ok_close split: if_splits) (auto simp: live_ok_def)

text \<open>Changes of one connection that leave its name and its subscriptions alone.\<close>

definition same_conn :: "ws_connection \<Rightarrow> ws_connection \<Rightarrow> bool" where
  "same_conn c c' \<longleftrightarrow> later c c' \<and> cn_subscriptions c' = cn_subscriptions c \<and> (live_ok c \<longrightarrow> live_ok c')"

lemma same_conn_close:
  "same_conn c (Close_begin c)" "cn_done c \<Longrightarrow> Close_end c = Some c' \<Longrightarrow> same_conn c c'"
  "connection_Close c = Some c' \<Longrightarrow> same_conn c c'"
proof -
  show "same_conn c (Close_begin c)" by (simp add: same_conn_def later_def live_ok_begin) (simp add: Close_begin_def)
  show "cn_done c \<Longrightarrow> Close_end c = Some c' \<Longrightarrow> same_conn c c'"
    by (simp add: same_conn_def later_def live_ok_end) (simp add: Close_end_Some)
  show "connection_Close c = Some c' \<Longrightarrow> same_conn c c'"
    by (simp add: same_conn_def later_def live_ok_close)
      (auto simp: connection_Close_def Close_begin_def Close_end_Some Let_def split: if_splits)
qed

lemma same_conn_ping:
  "same_conn c (c\<lparr>cn_LastPingAt := t\<rparr>)" "same_conn c (c\<lparr>cn_LastPingAt := t, cn_wire := fs\<rparr>)"
  by (simp_all add: same_conn_def later_def live_ok_def)

lemma same_conn_taken:
  "length ms \<le> length (cn_send c) \<Longrightarrow> same_conn c (c\<lparr>cn_send := ms, cn_wire := fs\<rparr>)"
  "length ms \<le> length (cn_send c) \<Longrightarrow> same_conn c (Close_begin (c\<lparr>cn_send := ms\<rparr>))"
  by (auto simp: same_conn_def later_def live_ok_def Close_begin_def)

lemma same_conn_send: "sendMessage coin m c = Some c' \<Longrightarrow> same_conn c c'"
  by (auto simp: sendMessage_def same_conn_close split: if_splits) (auto simp: same_conn_def later_def live_ok_def)

lemma next_put:
  assumes "ws_ok x" "a < length (ws_conns x)" "same_conn (ws_conns x ! a) c"
  shows "next_ok x (x\<lparr>ws_conns := (ws_conns x)[a := c]\<rparr>)"
proof -
  have "conn_ok (ws_subs x) (ws_conns x ! a)" using assms(1,2) by (auto simp: ws_ok_def list_all_length)
  with assms(3) have "conn_ok (ws_subs x) c" by (auto simp: conn_ok_def same_conn_def later_def)
  moreover have "registry_ok (ws_connections x) ((ws_conns x)[a := c])"
    using assms by (auto simp: ws_ok_def registry_ok_def same_conn_def later_def nth_list_update)
  moreover have "list_all2 later (ws_conns x) ((ws_conns x)[a := c])"
    using assms(2,3) by (simp add: list_all2_conv_all_nth nth_list_update same_conn_def)
  ultimately show ?thesis
    using assms(1) by (auto simp: next_ok_def ws_ok_def list_all_iff dest!: set_update_subset_insert [THEN subsetD])
qed

lemma next_put_conn:
  "ws_ok (hs_ws st) \<Longrightarrow> a < length (ws_conns (hs_ws st)) \<Longrightarrow> same_conn (conn a st) c \<Longrightarrow>
   next_ok (hs_ws st) (hs_ws (put_conn a c st))"
  by (simp add: put_conn_def on_ws_def conn_def next_put)

lemma send_to_next:
  assumes "send_to coin a m st w = Some (st', w')" "ws_ok (hs_ws st)" "a < length (ws_conns (hs_ws st))"
  shows "next_ok (hs_ws st) (hs_ws st')"
  using assms by (auto simp: send_to_def intro: next_put_conn same_conn_send)

lemma sendError_next:
  assumes "sendError coin a msg e st w = Some (st', w')" "ws_ok (hs_ws st)" "a < length (ws_conns (hs_ws st))"
  shows "next_ok (hs_ws st) (hs_ws st')"
  using assms by (auto simp: sendError_def Let_def split: prod.splits intro: send_to_next)

text \<open>A new connection.\<close>

lemma createConnection_new:
  assumes "createConnection r w = (c, w')"
  shows "cn_subscriptions c = []" "live_ok c" "cn_send c = []" "cn_wire c = []" "\<not> cn_done c" "db w' = db w"
  using assms by (auto simp: createConnection_def generateConnectionID_def live_ok_def uuid_new_def time_now_def Let_def
      split: prod.splits)

lemma openWebSocket_new:
  assumes "openWebSocket s hijacker r st w = (Inr a, st', w')"
  obtains c w0 where "createConnection r w = (c, w')" "a = length (ws_conns (hs_ws st))"
    "hs_ws st' = snd (registerConnection c (hs_ws st))" "hs_subscriber st' = hs_subscriber st"
  using assms by (auto simp: openWebSocket_def registerConnection_def Let_def split: sum.splits prod.splits)

lemma register_ok:
  assumes "ws_ok x" "conn_ok (ws_subs x) c"
  shows "ws_ok (snd (registerConnection c x))"
proof -
  have "registry_ok (mput (cn_ID c) (length (ws_conns x)) (ws_connections x)) (ws_conns x @ [c])"
    using assms(1) by (auto simp: ws_ok_def registry_ok_def nth_append less_SucI split: if_splits)
  with assms show ?thesis by (simp add: ws_ok_def registerConnection_def)
qed

lemma accept_sound:
  assumes "sound (gs, st, w)" "openWebSocket s hijacker r st w = (Inr a, st', w')"
  shows "sound (gs @ [new_pumps], st', w')"
proof -
  obtain c where c: "createConnection r w = (c, w')" "hs_ws st' = snd (registerConnection c (hs_ws st))"
    using assms(2) by (rule openWebSocket_new)
  then have "conn_ok (ws_subs (hs_ws st)) c" by (simp add: conn_ok_def createConnection_new wf_map_def)
  moreover have "pump_ok new_pumps c" by (simp add: pump_ok_def new_pumps_def)
  ultimately show ?thesis
    using assms(1) c(2) by (simp add: sound_def register_ok) (simp add: registerConnection_def list_all2_appendI)
qed

text \<open>The maps of subscriptions.\<close>

lemma points_to_more: "points_to subs p i t \<Longrightarrow> points_to (subs @ [s]) p i t"
  by (simp add: points_to_def nth_append)

lemma topics_ok_inner:
  "topics_ok subs m \<Longrightarrow> wf_map (inner t m) \<and> (\<forall>i p. map_of (inner t m) i = Some p \<longrightarrow> points_to subs p i t)"
  by (auto simp: topics_ok_def inner_def wf_map_def split: option.splits)

lemma mput_not_Nil [simp]: "mput k v m \<noteq> []"
  by (cases m) (auto split: prod.splits)

lemma topics_ok_put:
  assumes "topics_ok subs m" "wb_ConnectionID s = i" "wb_Topic s = t"
  shows "topics_ok (subs @ [s]) (mput t (mput i (length subs) (inner t m)) m)"
proof -
  have "points_to (subs @ [s]) (length subs) i t" using assms(2,3) by (simp add: points_to_def)
  with assms(1) topics_ok_inner [OF assms(1), of t] show ?thesis
    by (auto simp: topics_ok_def points_to_more split: if_splits)
qed

lemma topics_ok_drop: "topics_ok subs m \<Longrightarrow> topics_ok subs (drop_subscription t i m)"
  by (auto simp: topics_ok_def drop_subscription_def Let_def split: option.splits if_splits)

lemma map_of_filter_map:
  "wf_map m \<Longrightarrow> map_of (filter (\<lambda>(t, ts). ts \<noteq> []) (map (\<lambda>(t, ts). (t, f ts)) m)) t =
     (case map_of m t of None \<Rightarrow> None | Some ts \<Rightarrow> if f ts = [] then None else Some (f ts))"
proof (induction m)
  case (Cons e m)
  moreover from this have "map_of m (fst e) = None" by (auto simp: wf_map_def map_of_eq_None_iff)
  ultimately show ?case by (cases e) (auto simp: wf_map_def split: option.splits)
qed simp

lemma wf_map_filter_map: "wf_map m \<Longrightarrow> wf_map (filter P (map (\<lambda>(t, ts). (t, f ts)) m))"
  unfolding wf_map_def by (rule distinct_map_filter) (simp add: comp_def case_prod_beta)

lemma topics_ok_remove: "topics_ok subs m \<Longrightarrow>
   topics_ok subs (filter (\<lambda>(t, ts). ts \<noteq> []) (map (\<lambda>(t, ts). (t, mdel i ts)) m))"
  by (auto simp: topics_ok_def map_of_filter_map wf_map_filter_map split: option.splits if_splits)

lemma add_next:
  assumes "ws_ok x" "a < length (ws_conns x)" "wb_ConnectionID sub = cn_ID (ws_conns x ! a)"
  shows "next_ok x (add_subscription a sub x)"
proof -
  let ?c = "ws_conns x ! a"
  let ?c' = "?c\<lparr>cn_subscriptions := mput (wb_Topic sub) (length (ws_subs x)) (cn_subscriptions ?c)\<rparr>"
  have old: "conn_ok (ws_subs x @ [sub]) c" if "c \<in> set (ws_conns x)" for c
    using assms(1) that by (auto simp: ws_ok_def list_all_iff conn_ok_def intro: points_to_more)
  have "points_to (ws_subs x @ [sub]) (length (ws_subs x)) (cn_ID ?c) (wb_Topic sub)"
    using assms(3) by (simp add: points_to_def)
  then have "conn_ok (ws_subs x @ [sub]) ?c'"
    using old [of ?c] assms(2) by (auto simp: conn_ok_def live_ok_def)
  then have "list_all (conn_ok (ws_subs x @ [sub])) ((ws_conns x)[a := ?c'])"
    using old by (auto simp: list_all_iff dest!: set_update_subset_insert [THEN subsetD])
  moreover have "registry_ok (ws_connections x) ((ws_conns x)[a := ?c'])"
    using assms(1,2) by (auto simp: ws_ok_def registry_ok_def nth_list_update)
  moreover have "list_all2 later (ws_conns x) ((ws_conns x)[a := ?c'])"
    using assms(2) by (simp add: list_all2_conv_all_nth nth_list_update later_def)
  moreover have "topics_ok (ws_subs x @ [sub])
      (mput (wb_Topic sub) (mput (cn_ID ?c) (length (ws_subs x)) (inner (wb_Topic sub) (ws_subscriptions x))) (ws_subscriptions x))"
    using assms(1,3) by (intro topics_ok_put) (simp_all add: ws_ok_def)
  ultimately show ?thesis by (simp add: next_ok_def ws_ok_def add_subscription_def Let_def)
qed

lemma topics_next:
  assumes "ws_ok x" "topics_ok (ws_subs x) m"
  shows "next_ok x (x\<lparr>ws_subscriptions := m\<rparr>)"
  using assms by (simp add: next_ok_def ws_ok_def list_all2_same)

lemma unregister_next: "ws_ok x \<Longrightarrow> next_ok x (unregisterConnection a x)"
  by (auto simp: next_ok_def ws_ok_def list_all2_same unregisterConnection_def removeAllSubscriptions_def Let_def
      registry_ok_def topics_ok_remove split: if_splits)

lemma forget_next:
  assumes "ws_ok x" "a < length (ws_conns x)" "c = ws_conns x ! a"
  shows "next_ok x (x\<lparr>ws_conns := (ws_conns x)[a := c\<lparr>cn_subscriptions := mdel t (cn_subscriptions c)\<rparr>]\<rparr>)"
proof -
  let ?c' = "c\<lparr>cn_subscriptions := mdel t (cn_subscriptions c)\<rparr>"
  have "conn_ok (ws_subs x) ?c'"
    using assms by (auto simp: ws_ok_def list_all_length conn_ok_def live_ok_def split: if_splits)
  moreover have "registry_ok (ws_connections x) ((ws_conns x)[a := ?c'])"
    using assms by (auto simp: ws_ok_def registry_ok_def nth_list_update)
  moreover have "list_all2 later (ws_conns x) ((ws_conns x)[a := ?c'])"
    using assms(2,3) by (simp add: list_all2_conv_all_nth nth_list_update later_def)
  ultimately show ?thesis
    using assms(1) by (auto simp: next_ok_def ws_ok_def list_all_iff dest!: set_update_subset_insert [THEN subsetD])
qed

section \<open>The handlers keep the invariant\<close>

lemma next_ok_facts: "next_ok x x' \<Longrightarrow> ws_ok x'" "next_ok x x' \<Longrightarrow> length (ws_conns x') = length (ws_conns x)"
  by (auto simp: next_ok_def dest: list_all2_lengthD)

lemma next_then_send:
  assumes "send_to coin a m st1 w1 = Some (st', w')" "next_ok (hs_ws st) (hs_ws st1)" "a < length (ws_conns (hs_ws st))"
  shows "next_ok (hs_ws st) (hs_ws st')"
  using send_to_next [OF assms(1)] next_ok_facts [OF assms(2)] assms(2,3) next_ok_trans by simp

lemma subscribe_next:
  assumes "conn_handleSubscribe s coin a msg st w = Some (st', w')" "ws_ok (hs_ws st)" "a < length (ws_conns (hs_ws st))"
  shows "next_ok (hs_ws st) (hs_ws st')"
  using assms
  by (auto simp: conn_handleSubscribe_def Let_def on_ws_def conn_def split: handler_splits
      dest!: sendError_next elim!: next_then_send intro!: add_next)

lemma unsubscribe_next:
  assumes "conn_handleUnsubscribe s coin a msg st w = Some (st', w')" "ws_ok (hs_ws st)" "a < length (ws_conns (hs_ws st))"
  shows "next_ok (hs_ws st) (hs_ws st')"
proof -
  define c where "c = conn a st"
  have forget: "next_ok (hs_ws st) ((hs_ws st)\<lparr>ws_conns := (ws_conns (hs_ws st))[a := c\<lparr>cn_subscriptions := mdel t (cn_subscriptions c)\<rparr>],
      ws_subscriptions := drop_subscription t i (ws_subscriptions (hs_ws st))\<rparr>)" for t i
  proof -
    have 1: "next_ok (hs_ws st) ((hs_ws st)\<lparr>ws_conns := (ws_conns (hs_ws st))[a := c\<lparr>cn_subscriptions := mdel t (cn_subscriptions c)\<rparr>]\<rparr>)"
      using assms(2,3) by (rule forget_next) (simp add: c_def conn_def)
    moreover have "topics_ok (ws_subs (hs_ws st)) (drop_subscription t i (ws_subscriptions (hs_ws st)))"
      using assms(2) by (simp add: ws_ok_def topics_ok_drop)
    ultimately show ?thesis using next_ok_trans [OF 1 topics_next] next_ok_facts(1) [OF 1] by simp
  qed
  show ?thesis
    using assms
    by (auto simp: conn_handleUnsubscribe_def Let_def on_ws_def put_conn_def c_def [symmetric] split: handler_splits
        dest!: sendError_next elim!: next_then_send intro!: forget)
qed

lemma publish_next:
  assumes "conn_handlePublish s coin a msg st w = Some (st', w')" "ws_ok (hs_ws st)" "a < length (ws_conns (hs_ws st))"
  shows "next_ok (hs_ws st) (hs_ws st')"
  using assms
  by (auto simp: conn_handlePublish_def Let_def split: handler_splits dest!: sendError_next send_to_next)

lemma ack_next:
  assumes "conn_handleAck s coin a msg st w = Some (st', w')" "ws_ok (hs_ws st)" "a < length (ws_conns (hs_ws st))"
  shows "next_ok (hs_ws st) (hs_ws st')"
  using assms
  by (auto simp: conn_handleAck_def next_ok_refl split: handler_splits dest!: sendError_next)

lemma ping_next:
  assumes "conn_handlePing coin a msg st w = Some (st', w')" "ws_ok (hs_ws st)" "a < length (ws_conns (hs_ws st))"
  shows "next_ok (hs_ws st) (hs_ws st')"
  using assms by (auto simp: conn_handlePing_def Let_def split: prod.splits dest!: send_to_next)

lemma handleMessage_next:
  assumes "handleMessage s coin a d st w = Some (st', w')" "ws_ok (hs_ws st)" "a < length (ws_conns (hs_ws st))"
  shows "next_ok (hs_ws st) (hs_ws st')"
proof -
  define st1 where "st1 = put_conn a ((conn a st)\<lparr>cn_LastPingAt := fst (time_now w)\<rparr>) st"
  have 1: "next_ok (hs_ws st) (hs_ws st1)"
    unfolding st1_def using assms(2,3) by (rule next_put_conn) (rule same_conn_ping)
  have "next_ok (hs_ws st1) (hs_ws st') \<or> next_ok (hs_ws st) (hs_ws st')"
    using assms next_ok_facts [OF 1]
    by (auto simp: handleMessage_def Let_def case_prod_beta st1_def [symmetric] split: handler_splits
        dest: sendError_next subscribe_next unsubscribe_next publish_next ack_next ping_next)
  with 1 show ?thesis using next_ok_trans by blast
qed

lemma deliver_next:
  assumes "DeliverMessage coin a m st w = Some (st', w')" "ws_ok (hs_ws st)" "a < length (ws_conns (hs_ws st))"
  shows "next_ok (hs_ws st) (hs_ws st')"
proof -
  have count: "next_ok x (x\<lparr>ws_subs := (ws_subs x)[i := (ws_subs x ! i)\<lparr>wb_MessageCount := n, wb_LastMessage := t\<rparr>]\<rparr>)"
    if "ws_ok x" for x i n t
  proof -
    have "points_to ((ws_subs x)[i := (ws_subs x ! i)\<lparr>wb_MessageCount := n, wb_LastMessage := t\<rparr>]) p = points_to (ws_subs x) p" for p
      by (cases "i < length (ws_subs x)") (auto simp: points_to_def fun_eq_iff nth_list_update)
    with that show ?thesis
      by (simp add: next_ok_def ws_ok_def topics_ok_def conn_ok_def [abs_def] list_all2_same)
  qed
  show ?thesis
    using assms
    by (auto simp: DeliverMessage_def Let_def on_ws_def split: option.splits prod.splits
        dest!: send_to_next elim!: next_then_send intro!: count next_ok_refl)
qed

lemma broadcast_next:
  assumes "broadcast coins m is st w = Some (st', w')" "ws_ok (hs_ws st)"
  shows "next_ok (hs_ws st) (hs_ws st')"
  using assms
proof (induction coins m "is" st w rule: broadcast.induct)
  case (2 coins m i "is" st w)
  show ?case
  proof (cases "map_of (ws_connections (hs_ws st)) i")
    case (Some a)
    then have a: "a < length (ws_conns (hs_ws st))" using 2(5) by (auto simp: ws_ok_def registry_ok_def)
    show ?thesis
    proof (cases "cn_IsAlive (conn a st)")
      case True
      with 2(4) Some obtain st1 w1 where s: "send_to (coins a) a m st w = Some (st1, w1)"
        "broadcast coins m is st1 w1 = Some (st', w')" by (auto split: option.splits)
      from send_to_next [OF s(1) 2(5) a] have 1: "next_ok (hs_ws st) (hs_ws st1)" .
      moreover have "next_ok (hs_ws st1) (hs_ws st')"
        using 2(2) [OF Some True s(1) refl s(2)] next_ok_facts(1) [OF 1] by blast
      ultimately show ?thesis by (rule next_ok_trans)
    qed (use 2 Some in simp)
  qed (use 2 in simp)
qed (simp add: next_ok_refl)

lemma close_each_next:
  assumes "close_each as x = Some x'" "ws_ok x" "\<forall>a \<in> set as. a < length (ws_conns x)"
  shows "next_ok x x'"
  using assms
proof (induction "as" arbitrary: x)
  case (Cons a "as")
  then obtain c where c: "connection_Close (ws_conns x ! a) = Some c"
    "close_each as (x\<lparr>ws_conns := (ws_conns x)[a := c]\<rparr>) = Some x'" by (auto split: option.splits)
  have 1: "next_ok x (x\<lparr>ws_conns := (ws_conns x)[a := c]\<rparr>)"
    using Cons.prems c(1) by (intro next_put) (auto intro: same_conn_close)
  with Cons.IH [OF c(2)] Cons.prems(3) next_ok_facts [OF 1] show ?case using next_ok_trans [OF 1] by simp
qed (simp add: next_ok_refl)

lemma shutdown_next: "websocket_Shutdown x = Some x' \<Longrightarrow> ws_ok x \<Longrightarrow> next_ok x x'"
  by (rule close_each_next [where as = "map snd (ws_connections x)"])
    (auto simp: websocket_Shutdown_def ws_ok_def registry_ok_def wf_map_def)

section \<open>The steps keep the invariant\<close>

lemma sound_at:
  assumes "sound (gs, st, w)" "a < length gs"
  shows "a < length (ws_conns (hs_ws st))" "ws_ok (hs_ws st)" "pump_ok (gs ! a) (conn a st)" "live_ok (conn a st)"
  using assms by (auto simp: sound_def list_all2_conv_all_nth conn_def ws_ok_def list_all_length conn_ok_def)

lemma sound_pump:
  assumes "sound (gs, st, w)" "next_ok (hs_ws st) (hs_ws st')" "a < length gs" "pump_ok g (conn a st')"
  shows "sound (gs[a := g], st', w')"
proof -
  have "sound (gs, st', w')" using assms(1,2) by (rule sound_next)
  then have s: "ws_ok (hs_ws st')" "list_all2 pump_ok gs (ws_conns (hs_ws st'))" by (simp_all add: sound_def)
  from list_all2_update_cong [OF s(2) assms(4), of a] show ?thesis using s(1) by (simp add: sound_def conn_def)
qed

lemma conn_put [simp]: "a < length (ws_conns (hs_ws st)) \<Longrightarrow> conn a (put_conn a c st) = c"
  by (simp add: conn_def put_conn_def on_ws_def)

lemma sound_put:
  assumes "sound (gs, st, w)" "a < length gs" "same_conn (conn a st) c"
  shows "next_ok (hs_ws st) (hs_ws (put_conn a c st))" "conn a (put_conn a c st) = c"
    "sound (gs, put_conn a c st, w')"
proof -
  show n: "next_ok (hs_ws st) (hs_ws (put_conn a c st))" using sound_at [OF assms(1,2)] assms(3) by (intro next_put_conn)
  show "conn a (put_conn a c st) = c" using sound_at [OF assms(1,2)] by simp
  show "sound (gs, put_conn a c st, w')" using assms(1) n by (rule sound_next)
qed

lemma pump_ok_idle: "pump_ok g c \<Longrightarrow> pump_ok (g\<lparr>gp_reader := Handling d\<rparr>) c" "pump_ok g c \<Longrightarrow> pump_ok (g\<lparr>gp_reader := Reading\<rparr>) c"
  by (simp_all add: pump_ok_def)

lemma pump_ok_left: "pump_ok g c \<Longrightarrow> cn_done c \<Longrightarrow> pump_ok (g\<lparr>gp_reader := x\<rparr>) c" "pump_ok g c \<Longrightarrow> cn_done c \<Longrightarrow> pump_ok (g\<lparr>gp_writer := y\<rparr>) c"
  by (simp_all add: pump_ok_def)

lemma Some_map: "Some y = map_option f x \<longleftrightarrow> (\<exists>z. x = Some z \<and> y = f z)"
  by (cases x) auto

lemma sound_step:
  assumes "ws_step s feed c (Some c')" "sound c"
  shows "sound c'"
  using assms(1)
proof cases
  case (accept hijacker r st w a st' w' gs)
  then show ?thesis using assms(2) accept_sound by blast
next
  case (read_frame a gs st w d)
  with sound_at [of gs st w a] assms(2) show ?thesis
    by (auto simp: set_reader_def intro!: sound_pump next_ok_refl pump_ok_idle)
next
  case (handle a gs d st w coin)
  then obtain st' w' where h: "handleMessage s coin a d st w = Some (st', w')" "c' = (set_reader a Reading gs, st', w')" by (auto simp: Some_map)
  note at = sound_at [OF assms(2) [unfolded handle(1)] handle(3)]
  from handleMessage_next [OF h(1) at(2,1)] have n: "next_ok (hs_ws st) (hs_ws st')" .
  then have "sound (gs, st', w')" using assms(2) handle(1) sound_next by blast
  from sound_at(3) [OF this handle(3)] show ?thesis
    using assms(2) handle(1,3) h(2) n by (auto simp: set_reader_def intro!: sound_pump pump_ok_idle)
next
  case (read_stop a gs st w)
  note p = sound_put [OF assms(2) [unfolded read_stop(1)] read_stop(3) same_conn_close(1)]
  with read_stop sound_at(3) [OF p(3) read_stop(3)] assms(2) show ?thesis
    by (auto simp: set_reader_def intro!: sound_pump pump_ok_left)
next
  case (reader_close a gs st w)
  then obtain c where c: "Close_end (conn a st) = Some c" "c' = (set_reader a ReaderDone gs, put_conn a c st, w)" by (auto simp: Some_map)
  note at = sound_at [OF assms(2) [unfolded reader_close(1)] reader_close(3)]
  have "cn_done (conn a st)" using at(3) reader_close(4) by (simp add: pump_ok_def)
  note p = sound_put [OF assms(2) [unfolded reader_close(1)] reader_close(3) same_conn_close(2) [OF this c(1)]]
  moreover have "cn_done c" using \<open>cn_done (conn a st)\<close> c(1) by (simp add: Close_end_Some)
  ultimately show ?thesis using reader_close(1,3) c(2) sound_at(3) [OF p(3) reader_close(3)] assms(2)
    by (auto simp: set_reader_def intro!: sound_pump pump_ok_left)
next
  case (write_frame a gs st m ms w)
  have "same_conn (conn a st) ((conn a st)\<lparr>cn_send := ms, cn_wire := cn_wire (conn a st) @ [TextFrame m]\<rparr>)"
    using write_frame(6) by (intro same_conn_taken) simp
  from sound_put(3) [OF assms(2) [unfolded write_frame(1)] write_frame(3) this] write_frame(2) show ?thesis by simp
next
  case (ping a gs st w now w')
  from sound_put(3) [OF assms(2) [unfolded ping(1)] ping(3) same_conn_ping(2)] ping(2) show ?thesis by simp
next
  case (write_stop a gs ms st w)
  have "same_conn (conn a st) (Close_begin ((conn a st)\<lparr>cn_send := ms\<rparr>))"
    using write_stop(5) by (intro same_conn_taken) auto
  note p = sound_put [OF assms(2) [unfolded write_stop(1)] write_stop(3) this]
  with write_stop sound_at(3) [OF p(3) write_stop(3)] assms(2) show ?thesis
    by (auto simp: set_writer_def intro!: sound_pump pump_ok_left)
next
  case (writer_close a gs st w)
  then obtain c where c: "Close_end (conn a st) = Some c" "c' = (set_writer a WriterDone gs, put_conn a c st, w)" by (auto simp: Some_map)
  note at = sound_at [OF assms(2) [unfolded writer_close(1)] writer_close(3)]
  have "cn_done (conn a st)" using at(3) writer_close(4) by (simp add: pump_ok_def)
  note p = sound_put [OF assms(2) [unfolded writer_close(1)] writer_close(3) same_conn_close(2) [OF this c(1)]]
  moreover have "cn_done c" using \<open>cn_done (conn a st)\<close> c(1) by (simp add: Close_end_Some)
  ultimately show ?thesis using writer_close(1,3) c(2) sound_at(3) [OF p(3) writer_close(3)] assms(2)
    by (auto simp: set_writer_def intro!: sound_pump pump_ok_left)
next
  case (cleanup a gs st w)
  note at = sound_at [OF assms(2) [unfolded cleanup(1)] cleanup(3)]
  have "next_ok (hs_ws st) (hs_ws (on_ws (unregisterConnection a) st))" using unregister_next [OF at(2)] by (simp add: on_ws_def)
  moreover have "pump_ok ((gs ! a)\<lparr>gp_waiting := False\<rparr>) (conn a (on_ws (unregisterConnection a) st))"
    using at(3) cleanup(5) by (simp add: pump_ok_def conn_def on_ws_def unregisterConnection_def removeAllSubscriptions_def Let_def)
  ultimately show ?thesis using sound_pump [OF assms(2) [unfolded cleanup(1)]] cleanup(2,3) by blast
next
  case (shutdown gs st w)
  then obtain x where "websocket_Shutdown (hs_ws st) = Some x" "c' = (gs, st\<lparr>hs_ws := x\<rparr>, w)" by (auto simp: Some_map)
  moreover from this assms(2) shutdown(1) have "next_ok (hs_ws st) x" by (auto simp: sound_def intro: shutdown_next)
  ultimately show ?thesis using assms(2) shutdown(1) sound_next [of gs st w "st\<lparr>hs_ws := x\<rparr>"] by simp
next
  case (deliver a gs st w coin m)
  then obtain st' w' where d: "DeliverMessage coin a m st w = Some (st', w')" "c' = (gs, st', w')" by (auto simp: Some_map)
  note at = sound_at [OF assms(2) [unfolded deliver(1)] deliver(4)]
  from deliver_next [OF d(1) at(2,1)] show ?thesis using assms(2) deliver(1) d(2) sound_next by blast
next
  case (broadcast gs st w coins topic p)
  then obtain st' w' where b: "BroadcastToTopic coins topic p st w = Some (st', w')" "c' = (gs, st', w')" by (auto simp: Some_map)
  have "ws_ok (hs_ws st)" using assms(2) broadcast(1) by (simp add: sound_def)
  then have "next_ok (hs_ws st) (hs_ws st')"
    using b(1) by (auto simp: BroadcastToTopic_def Let_def next_ok_refl split: option.splits prod.splits dest: broadcast_next)
  then show ?thesis using assms(2) broadcast(1) b(2) sound_next by blast
qed

lemma sound_start: "hs_ws st = ws_state0 \<Longrightarrow> sound ([], st, w)"
  by (simp add: sound_def ws_ok_def registry_ok_def topics_ok_def ws_state0_def wf_map_def)

lemma run_sound: "ws_run s feed c \<Longrightarrow> sound c"
proof (induction rule: ws_run.induct)
  case (others gs st w st' w')
  then show ?case by (simp add: sound_def)
qed (auto intro: sound_start sound_step)

end
