(* ===== verification/WsFlow.thy ===== *)
theory WsFlow
  imports WsSpec
begin

text \<open>
  What the handlers of the WebSocket server queue for their connection, which of the messages they handle
  are confirmed, and when they can panic.
\<close>

section \<open>Frames\<close>

definition frame_field :: "string \<Rightarrow> json \<Rightarrow> string" where
  "frame_field k j = (case j of JObj kvs \<Rightarrow> (case map_of kvs k of Some (JStr t) \<Rightarrow> t | _ \<Rightarrow> '''') | _ \<Rightarrow> '''')"

lemma frame_fields [simp]:
  "frame_field ''type'' (ws_message_json m) = wm_Type m" "frame_field ''id'' (ws_message_json m) = wm_ID m"
  by (auto simp: frame_field_def ws_message_json_def obj_def present_def omitempty_def split: option.splits)

definition decoded :: "go_error + json \<Rightarrow> ws_message option" where
  "decoded d = (case d of Inl e \<Rightarrow> None | Inr j \<Rightarrow> decode_struct False ws_message_setters j zero_ws_message)"

text \<open>The type that answers a request.\<close>

definition reply_type :: "string \<Rightarrow> string" where
  "reply_type t =
     (if t = MsgTypeSubscribe then MsgTypeSubscribed else if t = MsgTypeUnsubscribe then MsgTypeUnsubscribed
      else if t = MsgTypePublish then MsgTypePublished else if t = MsgTypePing then MsgTypePong else MsgTypeError)"

definition answered :: "nat \<Rightarrow> ws_message option \<Rightarrow> ws_state http_state \<Rightarrow> ws_state http_state \<Rightarrow> bool" where
  "answered a msg st st' \<longleftrightarrow>
     (\<exists>j. cn_send (conn a st') = cn_send (conn a st) @ [j] \<and>
        (frame_field ''type'' j = MsgTypeError \<or>
         (\<exists>m. msg = Some m \<and> frame_field ''type'' j = reply_type (wm_Type m) \<and> frame_field ''id'' j = wm_ID m))) \<or>
     (\<exists>m. msg = Some m \<and> wm_Type m = MsgTypeAck \<and> cn_send (conn a st') = cn_send (conn a st))"

definition ready :: "nat \<Rightarrow> ws_state http_state \<Rightarrow> bool" where
  "ready a st \<longleftrightarrow> a < length (ws_conns (hs_ws st)) \<and> \<not> cn_done (conn a st) \<and> \<not> cn_closed (conn a st) \<and>
     length (cn_send (conn a st)) < 256"

lemma send_ready:
  assumes "ready a st" "send_to coin a m st w = Some (st', w')"
  shows "cn_send (conn a st') = cn_send (conn a st) @ [ws_message_json m]" "w' = w"
  using assms by (auto simp: ready_def send_to_def sendMessage_def)

lemma error_ready:
  "ready a st \<Longrightarrow> sendError coin a msg e st w = Some (st', w') \<Longrightarrow> answered a m st st'"
  by (auto simp: sendError_def answered_def Let_def split: prod.splits dest!: send_ready(1))

lemma ready_subscriber [simp]:
  "ready a (st\<lparr>hs_subscriber := ss\<rparr>) = ready a st" "conn a (st\<lparr>hs_subscriber := ss\<rparr>) = conn a st"
  by (simp_all add: ready_def conn_def)

lemma answered_subscriber [simp]: "answered a m (st\<lparr>hs_subscriber := ss\<rparr>) st' = answered a m st st'"
  by (simp add: answered_def)

lemma error_ready_subscriber:
  "ready a st \<Longrightarrow> sendError coin a msg e (st\<lparr>hs_subscriber := ss\<rparr>) w = Some (st', w') \<Longrightarrow> answered a m st st'"
  using error_ready [of a "st\<lparr>hs_subscriber := ss\<rparr>"] by simp

lemma ready_changed:
  assumes "ready a st" "conn a st1 = (conn a st)\<lparr>cn_subscriptions := x\<rparr>" "length (ws_conns (hs_ws st1)) = length (ws_conns (hs_ws st))"
  shows "ready a st1" "cn_send (conn a st1) = cn_send (conn a st)"
  using assms by (simp_all add: ready_def)

lemma conn_added:
  "a < length (ws_conns (hs_ws st)) \<Longrightarrow> conn a (on_ws (add_subscription a sub) (st\<lparr>hs_subscriber := ss\<rparr>)) =
     (conn a st)\<lparr>cn_subscriptions := mput (wb_Topic sub) (length (ws_subs (hs_ws st))) (cn_subscriptions (conn a st))\<rparr>"
  by (simp add: conn_def on_ws_def add_subscription_def Let_def)

lemma length_added [simp]: "length (ws_conns (hs_ws (on_ws (add_subscription a sub) st))) = length (ws_conns (hs_ws st))"
  by (simp add: on_ws_def add_subscription_def Let_def)

lemma subscribe_answered:
  assumes "ready a st" "conn_handleSubscribe s coin a m st w = Some (st', w')" "wm_Type m = MsgTypeSubscribe"
  shows "answered a (Some m) st st'"
proof -
  note err = error_ready [where m = "Some m", OF assms(1)] error_ready_subscriber [where m = "Some m", OF assms(1)]
  have len: "a < length (ws_conns (hs_ws st))" using assms(1) by (simp add: ready_def)
  have sub: "ready a (on_ws (add_subscription a sub) (st\<lparr>hs_subscriber := ss\<rparr>))"
    "cn_send (conn a (on_ws (add_subscription a sub) (st\<lparr>hs_subscriber := ss\<rparr>))) = cn_send (conn a st)" for sub ss
    by (rule ready_changed [OF assms(1) conn_added [OF len]]; simp)+
  show ?thesis
    using assms
    by (auto simp: conn_handleSubscribe_def Let_def split: handler_splits dest!: err send_ready(1) [OF sub(1)])
      (auto simp: answered_def sub(2) reply_type_def msg_types)
qed

lemma unsubscribe_answered:
  assumes "ready a st" "conn_handleUnsubscribe s coin a m st w = Some (st', w')" "wm_Type m = MsgTypeUnsubscribe"
  shows "answered a (Some m) st st'"
proof -
  note err = error_ready [where m = "Some m", OF assms(1)] error_ready_subscriber [where m = "Some m", OF assms(1)]
  have len: "a < length (ws_conns (hs_ws st))" using assms(1) by (simp add: ready_def)
  define st1 where "st1 ss t = on_ws (\<lambda>x. x\<lparr>ws_subscriptions := drop_subscription t (cn_ID (conn a st)) (ws_subscriptions x)\<rparr>)
      (put_conn a ((conn a st)\<lparr>cn_subscriptions := mdel t (cn_subscriptions (conn a st))\<rparr>) (st\<lparr>hs_subscriber := ss\<rparr>))" for ss t
  have "conn a (st1 ss t) = (conn a st)\<lparr>cn_subscriptions := mdel t (cn_subscriptions (conn a st))\<rparr>"
    "length (ws_conns (hs_ws (st1 ss t))) = length (ws_conns (hs_ws st))" for ss t
    using len by (simp_all add: st1_def conn_def on_ws_def put_conn_def)
  then have sub: "ready a (st1 ss t)" "cn_send (conn a (st1 ss t)) = cn_send (conn a st)" for ss t
    using ready_changed [OF assms(1)] by blast+
  show ?thesis
    using assms
    by (auto simp: conn_handleUnsubscribe_def Let_def st1_def [symmetric] split: handler_splits
        dest!: err send_ready(1) [OF sub(1)])
      (auto simp: answered_def sub(2) reply_type_def msg_types)
qed

lemma publish_answered:
  assumes "ready a st" "conn_handlePublish s coin a m st w = Some (st', w')" "wm_Type m = MsgTypePublish"
  shows "answered a (Some m) st st'"
proof -
  note err = error_ready [where m = "Some m", OF assms(1)] error_ready_subscriber [where m = "Some m", OF assms(1)]
  show ?thesis
    using assms
    by (auto simp: conn_handlePublish_def Let_def split: handler_splits dest!: err send_ready(1) [OF assms(1)])
      (auto simp: answered_def reply_type_def publish_confirmation_def msg_types)
qed

lemma ack_answered:
  assumes "ready a st" "conn_handleAck s coin a m st w = Some (st', w')" "wm_Type m = MsgTypeAck"
  shows "answered a (Some m) st st'"
proof -
  note err = error_ready [where m = "Some m", OF assms(1)] error_ready_subscriber [where m = "Some m", OF assms(1)]
  show ?thesis
    using assms
    by (auto simp: conn_handleAck_def split: handler_splits dest!: err) (auto simp: answered_def)
qed

lemma ping_answered:
  assumes "ready a st" "conn_handlePing coin a m st w = Some (st', w')" "wm_Type m = MsgTypePing"
  shows "answered a (Some m) st st'"
  using assms
  by (auto simp: conn_handlePing_def Let_def split: prod.splits dest!: send_ready(1) [OF assms(1)])
    (auto simp: answered_def reply_type_def msg_types)

lemma handle_answered:
  assumes "ready a st" "handleMessage s coin a d st w = Some (st', w')"
  shows "answered a (decoded d) st st'"
proof -
  define st1 where "st1 = put_conn a ((conn a st)\<lparr>cn_LastPingAt := fst (time_now w)\<rparr>) st"
  have c: "conn a st1 = (conn a st)\<lparr>cn_LastPingAt := fst (time_now w)\<rparr>" "length (ws_conns (hs_ws st1)) = length (ws_conns (hs_ws st))"
    using assms(1) by (simp_all add: ready_def st1_def) (simp add: put_conn_def on_ws_def)
  then have r: "ready a st1" using assms(1) by (simp add: ready_def)
  have same: "answered a m st1 st' = answered a m st st'" for m by (simp add: answered_def c(1))
  show ?thesis
  proof (cases "decoded d")
    case None
    with assms show ?thesis
      by (auto simp: handleMessage_def decoded_def split: sum.splits option.splits dest: error_ready)
  next
    case (Some m)
    with assms(2) have "(let w = snd (time_now w) in
        if wm_Type m = MsgTypeSubscribe then conn_handleSubscribe s coin a m st1 w
        else if wm_Type m = MsgTypeUnsubscribe then conn_handleUnsubscribe s coin a m st1 w
        else if wm_Type m = MsgTypePublish then conn_handlePublish s coin a m st1 w
        else if wm_Type m = MsgTypeAck then conn_handleAck s coin a m st1 w
        else if wm_Type m = MsgTypePing then conn_handlePing coin a m st1 w
        else sendError coin a ''Unknown message type'' (Errorf (''unsupported message type: '' @ wm_Type m)) st1 w) = Some (st', w')"
      by (auto simp: handleMessage_def decoded_def st1_def Let_def case_prod_beta split: sum.splits option.splits)
    then have "answered a (Some m) st1 st'"
      by (auto simp: Let_def split: if_splits dest: error_ready [OF r] subscribe_answered [OF r] unsubscribe_answered [OF r]
          publish_answered [OF r] ack_answered [OF r] ping_answered [OF r])
    then show ?thesis using Some same by simp
  qed
qed

section \<open>No message is delivered\<close>

definition calm :: "json \<Rightarrow> bool" where
  "calm j \<longleftrightarrow> frame_field ''type'' j \<noteq> MsgTypeMessage"

fun calm_frame :: "frame \<Rightarrow> bool" where
  "calm_frame (TextFrame j) = calm j"
| "calm_frame _ = True"

definition quiet :: "ws_connection \<Rightarrow> bool" where
  "quiet c \<longleftrightarrow> list_all calm (cn_send c) \<and> list_all calm_frame (cn_wire c)"

definition all_quiet :: "ws_state \<Rightarrow> bool" where
  "all_quiet x \<longleftrightarrow> (\<forall>c \<in> set (ws_conns x). quiet c)"

lemma quiet_put:
  assumes "all_quiet x" "a < length (ws_conns x) \<Longrightarrow> quiet (ws_conns x ! a) \<Longrightarrow> quiet c"
  shows "all_quiet (x\<lparr>ws_conns := (ws_conns x)[a := c]\<rparr>)"
proof (cases "a < length (ws_conns x)")
  case True
  then have "quiet (ws_conns x ! a)" using assms(1) by (simp add: all_quiet_def)
  with assms True show ?thesis by (auto simp: all_quiet_def dest!: set_update_subset_insert [THEN subsetD])
qed (use assms in \<open>simp add: all_quiet_def list_update_beyond\<close>)

lemma quiet_put_conn:
  "all_quiet (hs_ws st) \<Longrightarrow> (quiet (conn a st) \<Longrightarrow> quiet c) \<Longrightarrow> all_quiet (hs_ws (put_conn a c st))"
  by (simp add: put_conn_def on_ws_def conn_def quiet_put)

lemma quiet_begin: "quiet c \<Longrightarrow> quiet (Close_begin c)"
  by (simp add: Close_begin_def quiet_def)

lemma quiet_end: "quiet c \<Longrightarrow> Close_end c = Some c' \<Longrightarrow> quiet c'"
  by (simp add: Close_end_Some quiet_def)

lemma quiet_close: "quiet c \<Longrightarrow> connection_Close c = Some c' \<Longrightarrow> quiet c'"
  by (auto simp: connection_Close_def Let_def quiet_begin split: if_splits intro: quiet_end quiet_begin)

lemma quiet_enqueue: "quiet c \<Longrightarrow> wm_Type m \<noteq> MsgTypeMessage \<Longrightarrow> quiet (c\<lparr>cn_send := cn_send c @ [ws_message_json m]\<rparr>)"
  by (simp add: quiet_def calm_def)

lemma quiet_send:
  assumes "quiet c" "wm_Type m \<noteq> MsgTypeMessage" "sendMessage coin m c = Some c'"
  shows "quiet c'"
proof -
  from assms(3) have "c' = c\<lparr>cn_send := cn_send c @ [ws_message_json m]\<rparr> \<or> c' = c \<or> connection_Close c = Some c'"
    by (simp add: sendMessage_def split: if_splits)
  then show ?thesis using quiet_enqueue [OF assms(1,2)] quiet_close [OF assms(1)] assms(1) by metis
qed

lemma quiet_send_to:
  assumes "send_to coin a m st w = Some (st', w')" "wm_Type m \<noteq> MsgTypeMessage" "all_quiet (hs_ws st)"
  shows "all_quiet (hs_ws st')"
proof -
  obtain c where "sendMessage coin m (conn a st) = Some c" "st' = put_conn a c st" using assms(1) by (auto simp: send_to_def)
  then show ?thesis using quiet_put_conn [OF assms(3)] quiet_send [OF _ assms(2)] by metis
qed

lemma quiet_sendError:
  assumes "sendError coin a msg e st w = Some (st', w')" "all_quiet (hs_ws st)"
  shows "all_quiet (hs_ws st')"
proof -
  obtain m where "send_to coin a m st (snd (time_now w)) = Some (st', w')" "wm_Type m = MsgTypeError"
    using assms(1) by (simp add: sendError_def Let_def case_prod_beta)
  with assms(2) show ?thesis by (elim quiet_send_to) (simp add: msg_types)
qed

lemma quiet_add:
  assumes "all_quiet x"
  shows "all_quiet (add_subscription a sub x)"
proof -
  have "all_quiet (x\<lparr>ws_conns := (ws_conns x)[a := (ws_conns x ! a)\<lparr>cn_subscriptions := y\<rparr>]\<rparr>)" for y
    using assms by (rule quiet_put) (simp add: quiet_def)
  then show ?thesis by (simp add: add_subscription_def Let_def all_quiet_def)
qed

lemma quiet_handlers:
  assumes "all_quiet (hs_ws st)"
  shows "conn_handleSubscribe s coin a m st w = Some (st', w') \<Longrightarrow> all_quiet (hs_ws st')"
    "conn_handleUnsubscribe s coin a m st w = Some (st', w') \<Longrightarrow> all_quiet (hs_ws st')"
    "conn_handlePublish s coin a m st w = Some (st', w') \<Longrightarrow> all_quiet (hs_ws st')"
    "conn_handleAck s coin a m st w = Some (st', w') \<Longrightarrow> all_quiet (hs_ws st')"
    "conn_handlePing coin a m st w = Some (st', w') \<Longrightarrow> all_quiet (hs_ws st')"
proof -
  show "conn_handleSubscribe s coin a m st w = Some (st', w') \<Longrightarrow> all_quiet (hs_ws st')"
    using assms
    by (auto simp: conn_handleSubscribe_def Let_def on_ws_def msg_types quiet_add split: handler_splits
        elim!: quiet_sendError quiet_send_to)
  have forget: "all_quiet ((hs_ws st)\<lparr>ws_conns := (ws_conns (hs_ws st))[a := (conn a st)\<lparr>cn_subscriptions := x\<rparr>],
      ws_subscriptions := y\<rparr>)" for x y
    using quiet_put [OF assms, of a "(conn a st)\<lparr>cn_subscriptions := x\<rparr>"] by (simp add: all_quiet_def conn_def quiet_def)
  show "conn_handleUnsubscribe s coin a m st w = Some (st', w') \<Longrightarrow> all_quiet (hs_ws st')"
    using assms forget
    by (auto simp: conn_handleUnsubscribe_def Let_def on_ws_def put_conn_def msg_types split: handler_splits
        elim!: quiet_sendError quiet_send_to)
  show "conn_handlePublish s coin a m st w = Some (st', w') \<Longrightarrow> all_quiet (hs_ws st')"
    using assms
    by (auto simp: conn_handlePublish_def Let_def publish_confirmation_def msg_types split: handler_splits
        elim!: quiet_sendError quiet_send_to)
  show "conn_handleAck s coin a m st w = Some (st', w') \<Longrightarrow> all_quiet (hs_ws st')"
    using assms by (auto simp: conn_handleAck_def split: handler_splits elim!: quiet_sendError)
  show "conn_handlePing coin a m st w = Some (st', w') \<Longrightarrow> all_quiet (hs_ws st')"
    using assms by (auto simp: conn_handlePing_def Let_def msg_types split: prod.splits elim!: quiet_send_to)
qed

lemma quiet_handle:
  assumes "handleMessage s coin a d st w = Some (st', w')" "all_quiet (hs_ws st)"
  shows "all_quiet (hs_ws st')"
proof -
  define st1 where "st1 = put_conn a ((conn a st)\<lparr>cn_LastPingAt := fst (time_now w)\<rparr>) st"
  have "all_quiet (hs_ws st1)" unfolding st1_def using assms(2) by (rule quiet_put_conn) (simp add: quiet_def)
  with assms show ?thesis
    by (auto simp: handleMessage_def Let_def case_prod_beta st1_def [symmetric] split: sum.splits option.splits if_splits
        dest: quiet_sendError quiet_handlers)
qed

lemma quiet_close_each: "close_each as x = Some x' \<Longrightarrow> all_quiet x \<Longrightarrow> all_quiet x'"
proof (induction "as" arbitrary: x)
  case (Cons a "as")
  then show ?case by (auto split: option.splits intro!: Cons.IH quiet_put intro: quiet_close)
qed simp

lemma quiet_step:
  assumes "ws_step s False (gs, st, w) (Some (gs', st', w'))" "all_quiet (hs_ws st)"
  shows "all_quiet (hs_ws st')"
  using assms(1)
proof cases
  case (accept hijacker r a)
  then obtain c where "createConnection r w = (c, w')" "hs_ws st' = snd (registerConnection c (hs_ws st))"
    by (elim openWebSocket_new) blast
  with assms(2) show ?thesis by (simp add: all_quiet_def registerConnection_def quiet_def createConnection_new)
next
  case (write_frame a m ms)
  then show ?thesis using assms(2) by (auto simp: quiet_def intro!: quiet_put_conn)
next
  case (ping a)
  then show ?thesis using assms(2) by (auto simp: quiet_def intro!: quiet_put_conn)
next
  case (write_stop a ms)
  have "quiet c \<Longrightarrow> quiet (c\<lparr>cn_send := tl (cn_send c)\<rparr>)" for c
    by (cases "cn_send c") (simp_all add: quiet_def)
  with write_stop assms(2) show ?thesis by (auto intro!: quiet_put_conn quiet_begin)
next
  case (cleanup a)
  then show ?thesis
    using assms(2) by (simp add: all_quiet_def on_ws_def unregisterConnection_def removeAllSubscriptions_def Let_def)
next
  case shutdown
  then show ?thesis using assms(2) quiet_close_each by (auto simp: Some_map websocket_Shutdown_def)
next
  case (handle a d coin)
  then show ?thesis using assms(2) quiet_handle by (auto simp: Some_map)
next
  case (read_stop a)
  then show ?thesis using assms(2) by (auto intro!: quiet_put_conn quiet_begin)
next
  case (reader_close a)
  then show ?thesis using assms(2) by (auto simp: Some_map intro!: quiet_put_conn intro: quiet_end)
next
  case (writer_close a)
  then show ?thesis using assms(2) by (auto simp: Some_map intro!: quiet_put_conn intro: quiet_end)
qed (use assms(2) in auto)

lemma run_quiet: "ws_run s False c \<Longrightarrow> all_quiet (hs_ws (fst (snd c)))"
proof (induction rule: ws_run.induct)
  case (step c c')
  then show ?case using quiet_step by (cases c; cases c') auto
qed (simp_all add: all_quiet_def ws_state0_def)

section \<open>Panics\<close>

lemma send_open: "\<not> cn_closed c \<Longrightarrow> sendMessage coin m c \<noteq> None"
  by (simp add: sendMessage_def connection_Close_def Close_begin_def Close_end_def Let_def)

lemma send_to_open: "\<not> cn_closed (conn a st) \<Longrightarrow> send_to coin a m st w \<noteq> None"
  using send_open by (simp add: send_to_def)

lemma sendError_open: "\<not> cn_closed (conn a st) \<Longrightarrow> sendError coin a msg e st w \<noteq> None"
  using send_to_open by (simp add: sendError_def Let_def case_prod_beta)

lemma handlers_open:
  assumes "\<not> cn_closed (conn a st)" "a < length (ws_conns (hs_ws st))" "\<forall>q w. Publish (sv_publisher s) q w \<noteq> None"
  shows "conn_handleSubscribe s coin a m st w \<noteq> None" "conn_handleUnsubscribe s coin a m st w \<noteq> None"
    "conn_handlePublish s coin a m st w \<noteq> None" "conn_handleAck s coin a m st w \<noteq> None"
    "conn_handlePing coin a m st w \<noteq> None"
proof -
  have sub: "\<not> cn_closed (conn a (st\<lparr>hs_subscriber := ss\<rparr>))" for ss using assms(1) by simp
  have add: "\<not> cn_closed (conn a (on_ws (add_subscription a x) (st\<lparr>hs_subscriber := ss\<rparr>)))" for x ss
    using assms(1) conn_added [OF assms(2)] by simp
  have forget: "\<not> cn_closed (conn a (on_ws (\<lambda>x. x\<lparr>ws_subscriptions := f x\<rparr>)
      (put_conn a ((conn a st)\<lparr>cn_subscriptions := y\<rparr>) (st\<lparr>hs_subscriber := ss\<rparr>))))" for f y ss
    using assms(1,2) by (simp add: conn_def on_ws_def put_conn_def)
  note no_panic = sendError_open [OF assms(1)] sendError_open [OF sub] send_to_open [OF assms(1)] send_to_open [OF add]
    send_to_open [OF forget]
  show "conn_handleSubscribe s coin a m st w \<noteq> None"
    by (simp add: conn_handleSubscribe_def Let_def case_prod_beta no_panic del: not_None_eq split: sum.split)
  show "conn_handleUnsubscribe s coin a m st w \<noteq> None"
    by (simp add: conn_handleUnsubscribe_def Let_def case_prod_beta no_panic del: not_None_eq split: sum.split option.split)
  show "conn_handlePublish s coin a m st w \<noteq> None"
    using assms(3)
    by (simp add: conn_handlePublish_def Let_def case_prod_beta no_panic del: not_None_eq split: sum.split option.split)
  show "conn_handleAck s coin a m st w \<noteq> None"
    by (simp add: conn_handleAck_def Let_def case_prod_beta no_panic del: not_None_eq split: sum.split option.split)
  show "conn_handlePing coin a m st w \<noteq> None"
    by (simp add: conn_handlePing_def Let_def case_prod_beta no_panic del: not_None_eq)
qed

lemma handle_open:
  assumes "\<not> cn_closed (conn a st)" "a < length (ws_conns (hs_ws st))" "\<forall>q w. Publish (sv_publisher s) q w \<noteq> None"
  shows "handleMessage s coin a d st w \<noteq> None"
proof -
  have 1: "\<not> cn_closed (conn a (put_conn a ((conn a st)\<lparr>cn_LastPingAt := t\<rparr>) st))"
    "a < length (ws_conns (hs_ws (put_conn a ((conn a st)\<lparr>cn_LastPingAt := t\<rparr>) st)))" for t
    using assms(1,2) by simp (use assms(2) in \<open>simp add: put_conn_def on_ws_def\<close>)
  show ?thesis
    by (simp add: handleMessage_def Let_def case_prod_beta sendError_open [OF assms(1)] sendError_open [OF 1(1)]
        handlers_open [OF 1 assms(3)] del: not_None_eq split: sum.split option.split)
qed

lemma close_each_open:
  assumes "\<forall>a \<in> set as. a < length (ws_conns x)" "list_all (conn_ok (ws_subs x)) (ws_conns x)"
  shows "close_each as x \<noteq> None"
  using assms
proof (induction "as" arbitrary: x)
  case (Cons a "as")
  have ok: "conn_ok (ws_subs x) (ws_conns x ! a)" using Cons.prems by (simp add: list_all_length)
  then obtain c where c: "connection_Close (ws_conns x ! a) = Some c"
    by (auto simp: conn_ok_def live_ok_def connection_Close_def Close_begin_def Close_end_def Let_def)
  have "conn_ok (ws_subs x) c"
    using ok same_conn_close(3) [OF c] by (simp add: conn_ok_def same_conn_def later_def)
  then have "list_all (conn_ok (ws_subs x)) ((ws_conns x)[a := c])"
    using Cons.prems(2) by (auto simp: list_all_iff dest!: set_update_subset_insert [THEN subsetD])
  with c Cons.prems(1) Cons.IH [of "x\<lparr>ws_conns := (ws_conns x)[a := c]\<rparr>"] show ?case by simp
qed simp

lemma no_map: "None = map_option f x \<longleftrightarrow> x = None"
  by (cases x) simp_all

section \<open>Which request is confirmed\<close>

lemma sent_message:
  assumes "send_to coin a m st w = Some (st', w')" "a < length (ws_conns (hs_ws st))" "cn_send (conn a st') = cn_send (conn a st) @ [j]"
  shows "j = ws_message_json m \<and> w' = w"
proof -
  obtain c where c: "sendMessage coin m (conn a st) = Some c" "st' = put_conn a c st" "w' = w" using assms(1) by (auto simp: send_to_def)
  have "connection_Close (conn a st) = Some c' \<Longrightarrow> cn_send c' = cn_send (conn a st)" for c'
    by (auto simp: connection_Close_def Close_begin_def Close_end_Some Let_def split: if_splits)
  with c assms(2,3) show ?thesis by (auto simp: sendMessage_def split: if_splits)
qed

lemma sent_error:
  assumes "sendError coin a msg e st w = Some (st', w')" "a < length (ws_conns (hs_ws st))" "cn_send (conn a st') = cn_send (conn a st) @ [j]"
  shows "frame_field ''type'' j = MsgTypeError"
proof -
  obtain m w0 where "send_to coin a m st w0 = Some (st', w')" "wm_Type m = MsgTypeError"
    using assms(1) by (simp add: sendError_def Let_def case_prod_beta)
  with sent_message [OF this(1) assms(2,3)] show ?thesis by simp
qed

lemma sent_error_subscriber:
  assumes "sendError coin a msg e (st\<lparr>hs_subscriber := ss\<rparr>) w = Some (st', w')" "a < length (ws_conns (hs_ws st))"
    "cn_send (conn a st') = cn_send (conn a st) @ [j]"
  shows "frame_field ''type'' j = MsgTypeError"
  using sent_error [OF assms(1)] assms(2,3) by simp

lemma other_replies:
  assumes "a < length (ws_conns (hs_ws st))" "cn_send (conn a st') = cn_send (conn a st) @ [j]"
  shows "conn_handleSubscribe s coin a m st w = Some (st', w') \<Longrightarrow> frame_field ''type'' j \<noteq> MsgTypePublished"
    "conn_handleUnsubscribe s coin a m st w = Some (st', w') \<Longrightarrow> frame_field ''type'' j \<noteq> MsgTypePublished"
    "conn_handleAck s coin a m st w = Some (st', w') \<Longrightarrow> frame_field ''type'' j \<noteq> MsgTypePublished"
    "conn_handlePing coin a m st w = Some (st', w') \<Longrightarrow> frame_field ''type'' j \<noteq> MsgTypePublished"
proof -
  note err = sent_error [OF _ assms] sent_error_subscriber [OF _ assms]
  have add: "cn_send (conn a st') = cn_send (conn a (on_ws (add_subscription a sub) (st\<lparr>hs_subscriber := ss\<rparr>))) @ [j]" for sub ss
    using assms conn_added [OF assms(1)] by simp
  have forget: "cn_send (conn a st') = cn_send (conn a (on_ws (\<lambda>x. x\<lparr>ws_subscriptions := f x\<rparr>)
      (put_conn a ((conn a st)\<lparr>cn_subscriptions := y\<rparr>) (st\<lparr>hs_subscriber := ss\<rparr>)))) @ [j]" for f y ss
    using assms by (simp add: conn_def on_ws_def put_conn_def)
  have len: "a < length (ws_conns (hs_ws (on_ws (\<lambda>x. x\<lparr>ws_subscriptions := f x\<rparr>)
      (put_conn a ((conn a st)\<lparr>cn_subscriptions := y\<rparr>) (st\<lparr>hs_subscriber := ss\<rparr>)))))" for f y ss
    using assms(1) by (simp add: on_ws_def put_conn_def)
  show "conn_handleSubscribe s coin a m st w = Some (st', w') \<Longrightarrow> frame_field ''type'' j \<noteq> MsgTypePublished"
    using assms(1)
    by (auto simp: conn_handleSubscribe_def Let_def split: handler_splits dest!: err sent_message [OF _ _ add])
      (simp_all add: msg_types)
  show "conn_handleUnsubscribe s coin a m st w = Some (st', w') \<Longrightarrow> frame_field ''type'' j \<noteq> MsgTypePublished"
    by (auto simp: conn_handleUnsubscribe_def Let_def split: handler_splits dest!: err sent_message [OF _ len forget])
      (simp_all add: msg_types)
  show "conn_handleAck s coin a m st w = Some (st', w') \<Longrightarrow> frame_field ''type'' j \<noteq> MsgTypePublished"
    using assms(2) by (auto simp: conn_handleAck_def split: handler_splits dest!: err) (simp_all add: msg_types)
  show "conn_handlePing coin a m st w = Some (st', w') \<Longrightarrow> frame_field ''type'' j \<noteq> MsgTypePublished"
    by (auto simp: conn_handlePing_def Let_def split: prod.splits dest!: sent_message [OF _ assms])
      (simp_all add: msg_types)
qed

lemma publish_confirmed:
  assumes "a < length (ws_conns (hs_ws st))" "cn_send (conn a st') = cn_send (conn a st) @ [j]"
    "conn_handlePublish s coin a m st w = Some (st', w')" "frame_field ''type'' j = MsgTypePublished"
  obtains p payload resp w1 now where "unmarshal_payload publish_payload_setters zero_publish_payload (wm_Payload m) = Inr p"
    "DecodeString (wpp_Payload p) = Inr payload"
    "Publish (sv_publisher s) (ws_publish_request (wm_Topic m) p payload) w = Some (Inr resp, w1)" "db w' = db w1"
    "j = ws_message_json (publish_confirmation m resp now)"
  using assms(3,4)
  by (auto simp: conn_handlePublish_def Let_def split: handler_splits dest!: sent_error [OF _ assms(1,2)]
      sent_message [OF _ assms(1,2)] intro: that) (auto simp: msg_types time_now_def intro: that)

lemma message_confirmed:
  assumes "a < length (ws_conns (hs_ws st))" "cn_send (conn a st') = cn_send (conn a st) @ [j]"
    "handleMessage s coin a d st w = Some (st', w')" "frame_field ''type'' j = MsgTypePublished"
  obtains m st1 w1 where "decoded d = Some m" "wm_Type m = MsgTypePublish" "conn_handlePublish s coin a m st1 w1 = Some (st', w')"
    "a < length (ws_conns (hs_ws st1))" "cn_send (conn a st') = cn_send (conn a st1) @ [j]"
proof -
  define st1 where "st1 = put_conn a ((conn a st)\<lparr>cn_LastPingAt := fst (time_now w)\<rparr>) st"
  have 1: "a < length (ws_conns (hs_ws st1))" "cn_send (conn a st') = cn_send (conn a st1) @ [j]"
    using assms(1,2) by (simp_all add: st1_def) (simp add: put_conn_def on_ws_def)
  show thesis
  proof (cases "decoded d")
    case None
    with assms show thesis
      by (auto simp: handleMessage_def decoded_def msg_types split: sum.splits option.splits dest: sent_error [OF _ assms(1,2)])
  next
    case (Some m)
    with assms(3) have "(let w = snd (time_now w) in
        if wm_Type m = MsgTypeSubscribe then conn_handleSubscribe s coin a m st1 w
        else if wm_Type m = MsgTypeUnsubscribe then conn_handleUnsubscribe s coin a m st1 w
        else if wm_Type m = MsgTypePublish then conn_handlePublish s coin a m st1 w
        else if wm_Type m = MsgTypeAck then conn_handleAck s coin a m st1 w
        else if wm_Type m = MsgTypePing then conn_handlePing coin a m st1 w
        else sendError coin a ''Unknown message type'' (Errorf (''unsupported message type: '' @ wm_Type m)) st1 w) = Some (st', w')"
      by (auto simp: handleMessage_def decoded_def st1_def Let_def case_prod_beta split: sum.splits option.splits)
    moreover have "sendError coin a x e st1 w0 \<noteq> Some (st', w')" for x e w0
      using sent_error [OF _ 1] assms(4) by (auto simp: msg_types)
    moreover have "conn_handleSubscribe s coin a m st1 w0 \<noteq> Some (st', w')" "conn_handleUnsubscribe s coin a m st1 w0 \<noteq> Some (st', w')"
      "conn_handleAck s coin a m st1 w0 \<noteq> Some (st', w')" "conn_handlePing coin a m st1 w0 \<noteq> Some (st', w')" for w0
      using other_replies [OF 1] assms(4) by blast+
    ultimately have "wm_Type m = MsgTypePublish" "conn_handlePublish s coin a m st1 (snd (time_now w)) = Some (st', w')"
      by (simp_all only: Let_def split: if_splits)
    from that [OF Some this 1] show thesis .
  qed
qed

end
