(* ===== verification/RedisSubscriptions.thy ===== *)
theory RedisSubscriptions
  imports RedisMessages
begin

text \<open>
  \<^verbatim>\<open>subscription_repository.go\<close> and \<^verbatim>\<open>consumer_repository.go\<close> under
  \<^verbatim>\<open>internal/adapters/storage/redis\<close>. A repository call that fails half-way returns at once, so its
  earlier commands stay in effect.
\<close>

section \<open>Running commands in turn\<close>

text \<open>Each command with the text that wraps its error; the first error ends the sequence.\<close>

fun run_checked ::
  "(rcmd \<Rightarrow> 'd \<Rightarrow> rreply \<times> 'd) \<Rightarrow> (rcmd \<times> string) list \<Rightarrow> 'd world \<Rightarrow> go_error option \<times> 'd world" where
  "run_checked exec [] w = (None, w)"
| "run_checked exec ((c, text) # cs) w =
     (let (r, w) = run exec c w
      in (case Err r of Some e \<Rightarrow> (Some (Wrap text e), w) | None \<Rightarrow> run_checked exec cs w))"

section \<open>subscription_repository.go\<close>

definition subscriptionKey :: "string \<Rightarrow> string" where
  "subscriptionKey i = ''subscription:'' @ i"

definition topicSubscriptionsKey :: "string \<Rightarrow> string" where
  "topicSubscriptionsKey t = ''topic:'' @ t @ '':subscriptions''"

definition groupSubscriptionsKey :: "string \<Rightarrow> string" where
  "groupSubscriptionsKey g = ''consumergroup:'' @ g @ '':subscriptions''"

definition subscription_Create ::
  "(rcmd \<Rightarrow> 'd \<Rightarrow> rreply \<times> 'd) \<Rightarrow> subscription \<Rightarrow> 'd world \<Rightarrow> go_error option \<times> 'd world" where
  "subscription_Create exec s w = run_checked exec
     ([(SET (subscriptionKey (s_ID s)) (Doc (subscription_json s)) 0, ''failed to store subscription''),
       (SADD (topicSubscriptionsKey (s_Topic s)) (s_ID s), ''failed to add subscription to topic'')]
      @ (if s_ConsumerGroup s \<noteq> ''''
         then [(SADD (groupSubscriptionsKey (s_ConsumerGroup s)) (s_ID s),
                ''failed to add subscription to consumer group'')]
         else [])) w"

definition subscription_Get ::
  "(rcmd \<Rightarrow> 'd \<Rightarrow> rreply \<times> 'd) \<Rightarrow> string \<Rightarrow> 'd world \<Rightarrow> subscription res \<times> 'd world" where
  "subscription_Get exec i w =
     (let (r, w) = run exec (GET (subscriptionKey i)) w
      in (case reply_blob r of
            Inl e \<Rightarrow> (if e = redis_Nil then Inl (Errorf (''subscription not found: '' @ i))
                      else Inl (Wrap ''failed to get subscription'' e), w)
          | Inr data \<Rightarrow>
              (case Unmarshal subscription_of_json data of
                 Inl e \<Rightarrow> (Inl (Wrap ''failed to unmarshal subscription'' e), w)
               | Inr s \<Rightarrow> (Inr s, w))))"

definition subscription_Update ::
  "(rcmd \<Rightarrow> 'd \<Rightarrow> rreply \<times> 'd) \<Rightarrow> subscription \<Rightarrow> 'd world \<Rightarrow> go_error option \<times> subscription \<times> 'd world" where
  "subscription_Update exec s w =
     (let (now, w) = time_now w;
          s = s\<lparr>s_UpdatedAt := now\<rparr>;
          (r, w) = run exec (SET (subscriptionKey (s_ID s)) (Doc (subscription_json s)) 0) w
      in (wrap_err ''failed to update subscription'' (Err r), s, w))"

definition subscription_Delete ::
  "(rcmd \<Rightarrow> 'd \<Rightarrow> rreply \<times> 'd) \<Rightarrow> string \<Rightarrow> 'd world \<Rightarrow> go_error option \<times> 'd world" where
  "subscription_Delete exec i w =
     (case subscription_Get exec i w of
        (Inl e, w) \<Rightarrow> (Some e, w)
      | (Inr s, w) \<Rightarrow> run_checked exec
          ([(SREM (topicSubscriptionsKey (s_Topic s)) i, ''failed to remove subscription from topic'')]
           @ (if s_ConsumerGroup s \<noteq> ''''
              then [(SREM (groupSubscriptionsKey (s_ConsumerGroup s)) i,
                     ''failed to remove subscription from consumer group'')]
              else [])
           @ [(DEL [subscriptionKey i], ''failed to delete subscription'')]) w)"

fun get_subscriptions ::
  "(rcmd \<Rightarrow> 'd \<Rightarrow> rreply \<times> 'd) \<Rightarrow> string list \<Rightarrow> 'd world \<Rightarrow> subscription list \<times> 'd world" where
  "get_subscriptions exec [] w = ([], w)"
| "get_subscriptions exec (i # is) w =
     (let (r, w) = subscription_Get exec i w; (ss, w) = get_subscriptions exec is w
      in (case r of Inl _ \<Rightarrow> (ss, w) | Inr s \<Rightarrow> (s # ss, w)))"

definition subscription_GetByTopic ::
  "(rcmd \<Rightarrow> 'd \<Rightarrow> rreply \<times> 'd) \<Rightarrow> string \<Rightarrow> 'd world \<Rightarrow> subscription list res \<times> 'd world" where
  "subscription_GetByTopic exec topic w =
     (let (r, w) = run exec (SMEMBERS (topicSubscriptionsKey topic)) w
      in (case reply_keys r of
            Inl e \<Rightarrow> (Inl (Wrap ''failed to get subscriptions for topic'' e), w)
          | Inr is \<Rightarrow> (let (ss, w) = get_subscriptions exec is w in (Inr ss, w))))"

definition subscription_GetByConsumerGroup ::
  "(rcmd \<Rightarrow> 'd \<Rightarrow> rreply \<times> 'd) \<Rightarrow> string \<Rightarrow> 'd world \<Rightarrow> subscription list res \<times> 'd world" where
  "subscription_GetByConsumerGroup exec g w =
     (let (r, w) = run exec (SMEMBERS (groupSubscriptionsKey g)) w
      in (case reply_keys r of
            Inl e \<Rightarrow> (Inl (Wrap ''failed to get subscriptions for consumer group'' e), w)
          | Inr is \<Rightarrow> (let (ss, w) = get_subscriptions exec is w in (Inr ss, w))))"

text \<open>The documents under the keys that \<open>SCAN\<close> found; keys that cannot be read are skipped.\<close>

fun scan_subscriptions ::
  "(rcmd \<Rightarrow> 'd \<Rightarrow> rreply \<times> 'd) \<Rightarrow> string list \<Rightarrow> 'd world \<Rightarrow> subscription list \<times> 'd world" where
  "scan_subscriptions exec [] w = ([], w)"
| "scan_subscriptions exec (k # ks) w =
     (let (r, w) = run exec (GET k) w; (ss, w) = scan_subscriptions exec ks w
      in (case reply_blob r of
            Inl _ \<Rightarrow> (ss, w)
          | Inr data \<Rightarrow>
              (case Unmarshal subscription_of_json data of Inl _ \<Rightarrow> (ss, w) | Inr s \<Rightarrow> (s # ss, w))))"

definition all_subscriptions ::
  "(rcmd \<Rightarrow> 'd \<Rightarrow> rreply \<times> 'd) \<Rightarrow> 'd world \<Rightarrow> subscription list res \<times> 'd world" where
  "all_subscriptions exec w =
     (let (r, w) = run exec (SCAN ''subscription:*'') w
      in (case reply_keys r of
            Inl e \<Rightarrow> (Inl (Wrap ''failed to iterate subscriptions'' e), w)
          | Inr ks \<Rightarrow> (let (ss, w) = scan_subscriptions exec ks w in (Inr ss, w))))"

definition subscription_GetActive ::
  "(rcmd \<Rightarrow> 'd \<Rightarrow> rreply \<times> 'd) \<Rightarrow> 'd world \<Rightarrow> subscription list res \<times> 'd world" where
  "subscription_GetActive exec w =
     (case all_subscriptions exec w of
        (Inl e, w) \<Rightarrow> (Inl e, w) | (Inr ss, w) \<Rightarrow> (Inr (filter s_Active ss), w))"

text \<open>\<open>subscriptions[start:end]\<close> panics unless \<open>0 \<le> start \<le> end\<close>.\<close>

definition subscription_List ::
  "(rcmd \<Rightarrow> 'd \<Rightarrow> rreply \<times> 'd) \<Rightarrow> int \<Rightarrow> int \<Rightarrow> 'd world \<Rightarrow> (subscription list res \<times> 'd world) option" where
  "subscription_List exec offset limit w =
     (case all_subscriptions exec w of
        (Inl e, w) \<Rightarrow> Some (Inl e, w)
      | (Inr ss, w) \<Rightarrow>
          (let n = int (length ss); e0 = wrap64 (offset + limit)
           in if offset > n then Some (Inr [], w)
              else (let e = (if e0 > n then n else e0)
                    in if 0 \<le> offset \<and> offset \<le> e
                       then Some (Inr (take (nat (e - offset)) (drop (nat offset) ss)), w)
                       else None)))"

definition subscription_Exists ::
  "(rcmd \<Rightarrow> 'd \<Rightarrow> rreply \<times> 'd) \<Rightarrow> string \<Rightarrow> 'd world \<Rightarrow> bool res \<times> 'd world" where
  "subscription_Exists exec i w =
     (let (r, w) = run exec (EXISTS (subscriptionKey i)) w
      in (case reply_int r of
            Inl e \<Rightarrow> (Inl (Wrap ''failed to check subscription existence'' e), w)
          | Inr n \<Rightarrow> (Inr (n > 0), w)))"

definition NewSubscriptionRepository :: "(rcmd \<Rightarrow> 'd \<Rightarrow> rreply \<times> 'd) \<Rightarrow> 'd subscription_repository" where
  "NewSubscriptionRepository exec =
     \<lparr>SR_Create = subscription_Create exec, SR_Get = subscription_Get exec,
      SR_Update = subscription_Update exec, SR_Delete = subscription_Delete exec,
      SR_GetByTopic = subscription_GetByTopic exec,
      SR_GetByConsumerGroup = subscription_GetByConsumerGroup exec,
      SR_GetActive = subscription_GetActive exec, SR_List = subscription_List exec\<rparr>"

section \<open>consumer_repository.go\<close>

definition groupKey :: "string \<Rightarrow> string" where
  "groupKey g = ''consumergroup:'' @ g"

definition topicGroupsKey :: "string \<Rightarrow> string" where
  "topicGroupsKey t = ''topic:'' @ t @ '':consumergroups''"

definition consumersKey :: "string \<Rightarrow> string" where
  "consumersKey g = ''consumergroup:'' @ g @ '':consumers''"

definition consumerKey :: "string \<Rightarrow> string \<Rightarrow> string" where
  "consumerKey g c = ''consumer:'' @ g @ '':'' @ c"

definition CreateGroup ::
  "(rcmd \<Rightarrow> 'd \<Rightarrow> rreply \<times> 'd) \<Rightarrow> consumer_group \<Rightarrow> 'd world \<Rightarrow> go_error option \<times> 'd world" where
  "CreateGroup exec g w = run_checked exec
     [(SET (groupKey (cg_Name g)) (Doc (group_json g)) 0, ''failed to store consumer group''),
      (SADD ''consumergroups'' (cg_Name g), ''failed to add consumer group to set''),
      (SADD (topicGroupsKey (cg_Topic g)) (cg_Name g), ''failed to add consumer group to topic'')] w"

definition GetGroup ::
  "(rcmd \<Rightarrow> 'd \<Rightarrow> rreply \<times> 'd) \<Rightarrow> string \<Rightarrow> 'd world \<Rightarrow> consumer_group res \<times> 'd world" where
  "GetGroup exec name w =
     (let (r, w) = run exec (GET (groupKey name)) w
      in (case reply_blob r of
            Inl e \<Rightarrow> (if e = redis_Nil then Inl (Errorf (''consumer group not found: '' @ name))
                      else Inl (Wrap ''failed to get consumer group'' e), w)
          | Inr data \<Rightarrow>
              (case Unmarshal group_of_json data of
                 Inl e \<Rightarrow> (Inl (Wrap ''failed to unmarshal consumer group'' e), w)
               | Inr g \<Rightarrow> (Inr g, w))))"

definition UpdateGroup ::
  "(rcmd \<Rightarrow> 'd \<Rightarrow> rreply \<times> 'd) \<Rightarrow> consumer_group \<Rightarrow> 'd world \<Rightarrow> go_error option \<times> consumer_group \<times> 'd world" where
  "UpdateGroup exec g w =
     (let (now, w) = time_now w;
          g = g\<lparr>cg_UpdatedAt := now\<rparr>;
          (r, w) = run exec (SET (groupKey (cg_Name g)) (Doc (group_json g)) 0) w
      in (wrap_err ''failed to update consumer group'' (Err r), g, w))"

definition repo_RemoveConsumer ::
  "(rcmd \<Rightarrow> 'd \<Rightarrow> rreply \<times> 'd) \<Rightarrow> string \<Rightarrow> string \<Rightarrow> 'd world \<Rightarrow> go_error option \<times> 'd world" where
  "repo_RemoveConsumer exec groupName consumerID w =
     (case run_checked exec
         [(SREM (consumersKey groupName) consumerID, ''failed to remove consumer from group''),
          (DEL [consumerKey groupName consumerID], ''failed to delete consumer'')] w of
        (Some e, w) \<Rightarrow> (Some e, w)
      | (None, w) \<Rightarrow>
          (case GetGroup exec groupName w of
             (Inl e, w) \<Rightarrow> (Some e, w)
           | (Inr g, w) \<Rightarrow>
               (let (e, g, w) = UpdateGroup exec (g\<lparr>cg_Consumers := mdel consumerID (cg_Consumers g)\<rparr>) w
                in (e, w))))"

fun remove_each :: "(rcmd \<Rightarrow> 'd \<Rightarrow> rreply \<times> 'd) \<Rightarrow> string \<Rightarrow> string list \<Rightarrow> 'd world \<Rightarrow> 'd world" where
  "remove_each exec g [] w = w"
| "remove_each exec g (c # cs) w = remove_each exec g cs (snd (repo_RemoveConsumer exec g c w))"

definition DeleteGroup ::
  "(rcmd \<Rightarrow> 'd \<Rightarrow> rreply \<times> 'd) \<Rightarrow> string \<Rightarrow> 'd world \<Rightarrow> go_error option \<times> 'd world" where
  "DeleteGroup exec name w =
     (case GetGroup exec name w of
        (Inl e, w) \<Rightarrow> (Some e, w)
      | (Inr g, w) \<Rightarrow>
          (case run_checked exec
              [(SREM ''consumergroups'' name, ''failed to remove consumer group from set''),
               (SREM (topicGroupsKey (cg_Topic g)) name, ''failed to remove consumer group from topic'')] w of
             (Some e, w) \<Rightarrow> (Some e, w)
           | (None, w) \<Rightarrow>
               (let (r, w) = run exec (SMEMBERS (consumersKey name)) w;
                    cs = (case reply_keys r of Inl _ \<Rightarrow> [] | Inr cs \<Rightarrow> cs);
                    w = remove_each exec name cs w
                in run_checked exec
                     [(DEL [groupKey name, consumersKey name], ''failed to delete consumer group'')] w)))"

fun get_groups ::
  "(rcmd \<Rightarrow> 'd \<Rightarrow> rreply \<times> 'd) \<Rightarrow> string list \<Rightarrow> 'd world \<Rightarrow> consumer_group list \<times> 'd world" where
  "get_groups exec [] w = ([], w)"
| "get_groups exec (n # ns) w =
     (let (r, w) = GetGroup exec n w; (gs, w) = get_groups exec ns w
      in (case r of Inl _ \<Rightarrow> (gs, w) | Inr g \<Rightarrow> (g # gs, w)))"

definition GetGroupsByTopic ::
  "(rcmd \<Rightarrow> 'd \<Rightarrow> rreply \<times> 'd) \<Rightarrow> string \<Rightarrow> 'd world \<Rightarrow> consumer_group list res \<times> 'd world" where
  "GetGroupsByTopic exec topic w =
     (let (r, w) = run exec (SMEMBERS (topicGroupsKey topic)) w
      in (case reply_keys r of
            Inl e \<Rightarrow> (Inl (Wrap ''failed to get consumer groups for topic'' e), w)
          | Inr ns \<Rightarrow> (let (gs, w) = get_groups exec ns w in (Inr gs, w))))"

definition ListGroups ::
  "(rcmd \<Rightarrow> 'd \<Rightarrow> rreply \<times> 'd) \<Rightarrow> string \<Rightarrow> 'd world \<Rightarrow> consumer_group list res \<times> 'd world" where
  "ListGroups exec topic w =
     (if topic \<noteq> '''' then GetGroupsByTopic exec topic w
      else (let (r, w) = run exec (SMEMBERS ''consumergroups'') w
            in (case reply_keys r of
                  Inl e \<Rightarrow> (Inl (Wrap ''failed to list consumer groups'' e), w)
                | Inr ns \<Rightarrow> (let (gs, w) = get_groups exec ns w in (Inr gs, w)))))"

definition repo_AddConsumer ::
  "(rcmd \<Rightarrow> 'd \<Rightarrow> rreply \<times> 'd) \<Rightarrow> string \<Rightarrow> consumer \<Rightarrow> 'd world \<Rightarrow> go_error option \<times> 'd world" where
  "repo_AddConsumer exec groupName c w =
     (case run_checked exec
         [(SET (consumerKey groupName (c_ID c)) (Doc (consumer_json c)) 0, ''failed to store consumer''),
          (SADD (consumersKey groupName) (c_ID c), ''failed to add consumer to group'')] w of
        (Some e, w) \<Rightarrow> (Some e, w)
      | (None, w) \<Rightarrow>
          (case GetGroup exec groupName w of
             (Inl e, w) \<Rightarrow> (Some e, w)
           | (Inr g, w) \<Rightarrow>
               (let (e, g, w) = UpdateGroup exec (g\<lparr>cg_Consumers := mput (c_ID c) c (cg_Consumers g)\<rparr>) w
                in (e, w))))"

definition GetConsumer ::
  "(rcmd \<Rightarrow> 'd \<Rightarrow> rreply \<times> 'd) \<Rightarrow> string \<Rightarrow> string \<Rightarrow> 'd world \<Rightarrow> consumer res \<times> 'd world" where
  "GetConsumer exec groupName consumerID w =
     (let (r, w) = run exec (GET (consumerKey groupName consumerID)) w
      in (case reply_blob r of
            Inl e \<Rightarrow> (if e = redis_Nil
                      then Inl (Errorf (''consumer not found: '' @ consumerID @ '' in group '' @ groupName))
                      else Inl (Wrap ''failed to get consumer'' e), w)
          | Inr data \<Rightarrow>
              (case Unmarshal consumer_of_json data of
                 Inl e \<Rightarrow> (Inl (Wrap ''failed to unmarshal consumer'' e), w)
               | Inr c \<Rightarrow> (Inr c, w))))"

definition UpdateConsumerHeartbeat ::
  "(rcmd \<Rightarrow> 'd \<Rightarrow> rreply \<times> 'd) \<Rightarrow> string \<Rightarrow> string \<Rightarrow> 'd world \<Rightarrow> go_error option \<times> 'd world" where
  "UpdateConsumerHeartbeat exec groupName consumerID w =
     (case GetConsumer exec groupName consumerID w of
        (Inl e, w) \<Rightarrow> (Some e, w)
      | (Inr c, w) \<Rightarrow>
          (let (now, w) = time_now w;
               c = c\<lparr>c_LastHeartbeat := now, c_Status := ConsumerActive\<rparr>;
               (r, w) = run exec (SET (consumerKey groupName consumerID) (Doc (consumer_json c)) 0) w
           in (wrap_err ''failed to update consumer heartbeat'' (Err r), w)))"

fun get_active ::
  "(rcmd \<Rightarrow> 'd \<Rightarrow> rreply \<times> 'd) \<Rightarrow> string \<Rightarrow> int \<Rightarrow> string list \<Rightarrow> 'd world \<Rightarrow> consumer list \<times> 'd world" where
  "get_active exec g threshold [] w = ([], w)"
| "get_active exec g threshold (i # is) w =
     (let (r, w) = GetConsumer exec g i w; (cs, w) = get_active exec g threshold is w
      in (case r of
            Inl _ \<Rightarrow> (cs, w)
          | Inr c \<Rightarrow> (if c_Status c = ConsumerActive \<and> c_LastHeartbeat c > threshold then c # cs else cs, w)))"

definition GetActiveConsumers ::
  "(rcmd \<Rightarrow> 'd \<Rightarrow> rreply \<times> 'd) \<Rightarrow> string \<Rightarrow> 'd world \<Rightarrow> consumer list res \<times> 'd world" where
  "GetActiveConsumers exec groupName w =
     (let (r, w) = run exec (SMEMBERS (consumersKey groupName)) w
      in (case reply_keys r of
            Inl e \<Rightarrow> (Inl (Wrap ''failed to get consumers for group'' e), w)
          | Inr is \<Rightarrow>
              (let (now, w) = time_now w;
                   (cs, w) = get_active exec groupName (now - 30 * Second) is w
               in (Inr cs, w))))"

definition NewConsumerGroupRepository :: "(rcmd \<Rightarrow> 'd \<Rightarrow> rreply \<times> 'd) \<Rightarrow> 'd consumer_repository" where
  "NewConsumerGroupRepository exec =
     \<lparr>CR_CreateGroup = CreateGroup exec, CR_GetGroup = GetGroup exec, CR_UpdateGroup = UpdateGroup exec,
      CR_DeleteGroup = DeleteGroup exec, CR_ListGroups = ListGroups exec,
      CR_AddConsumer = repo_AddConsumer exec, CR_RemoveConsumer = repo_RemoveConsumer exec,
      CR_UpdateConsumerHeartbeat = UpdateConsumerHeartbeat exec,
      CR_GetActiveConsumers = GetActiveConsumers exec\<rparr>"

end
