(* ===== verification/HttpFlow.thy ===== *)
theory HttpFlow
  imports HttpSpec RedisSubscriptions
begin

text \<open>
  What a request over HTTP does to the broker: what a publish stores, what an acknowledgment settles,
  and what the consumer endpoints cannot do. The services are those of the program on the Redis
  repositories, the requests come through the multiplexer and the middleware.
\<close>

section \<open>Answers traced back to their handlers\<close>

lemma ServeHTTP_success:
  assumes "ServeHTTP s r st w = Some (p, st', w')" "rq_Path r \<noteq> ''/ws''" "rp_Body p = [BSuccess su]"
  obtains q h w0 p1 st1 w1 d where "(q, h) \<in> set (api_routes s)" "q = rq_Path r \<or> HasPrefix (rq_Path r) q"
    "w0 = snd (time_now w)" "h False r st w0 = Some (p1, st1, w1)" "rp_Body p1 = [BSuccess su]"
    "route_kind q (su_Data su)" "st' = st1\<lparr>hs_log := hs_log st1 @ [entry_of r p d]\<rparr>" "db w' = db w1"
  using assms(1)
proof (cases rule: ServeHTTP_cases)
  case (preflight d)
  with assms(3) show thesis by simp
next
  case (served w0 q st1 w1 d)
  have body: "rp_Body q = [BSuccess su]" using served(4) assms(3) by (simp add: over_header_def)
  with api_served [OF served(3) assms(2)] obtain k h where
    "(k, h) \<in> set (routes s)" "k = rq_Path r \<or> HasSuffix k ''/'' \<and> HasPrefix (rq_Path r) k"
    "h False r st w0 = Some (q, st1, w1)" "route_kind k (su_Data su)" by blast
  moreover from this assms(2) have "(k, h) \<in> set (api_routes s)" using not_ws_subtree by (metis routes_api)
  ultimately show thesis using that served body by (auto simp: time_now_def)
qed

lemma publish_route: "(q, h) \<in> set (api_routes s) \<Longrightarrow> route_kind q d \<Longrightarrow> published d \<Longrightarrow>
    q = ''/v1/publish/'' \<and> h = (\<lambda>_. handlePublisherRoutes s)"
  by (auto simp: api_routes_def setups route_kind_def plain_def split: if_splits)

lemma publish_answer:
  assumes "handlePublisherRoutes s r st w = Some (p, st', w')" "rp_Body p = [BSuccess su]"
    "HasPrefix (rq_Path r) ''/v1/publish/''"
  obtains topic req payload resp where "rq_Path r = ''/v1/publish/'' @ topic" "rq_Method r = ''POST''"
    "parseJSONRequest publish_setters zero_publish_request r = Inr req" "http_validatePublishRequest req = None"
    "DecodeString (hq_Payload req) = Inr payload"
    "Publish (hv_publisher s) (service_request topic req payload) w = Some (Inr resp, w')"
    "su_Data su = DPublished (http_response_of resp)"
proof -
  obtain topic where path: "rq_Path r = ''/v1/publish/'' @ topic"
    using assms(3) by (auto simp: HasPrefix_def elim: prefixE)
  then have trim: "TrimPrefix (rq_Path r) ''/v1/publish/'' = topic" by (simp add: TrimPrefix_def)
  have nobatch: "handleBatchPublish s n r st w \<noteq> Some (p, st', w')" for n
    using assms(2) by (auto simp: handleBatchPublish_def Let_def split: handler_splits)
  have one: "split_on CHR ''/'' topic = [x] \<Longrightarrow> x = topic" for x using split_on_single by metis
  from assms(1,2) trim nobatch have "handlePublish s topic r st w = Some (p, st', w')"
    using one by (auto simp: handlePublisherRoutes_def Let_def length_Suc_conv split: if_splits)
  with assms(2) show thesis
    by (auto simp: handlePublish_def split: handler_splits intro: that [OF path])
qed

section \<open>A server to run\<close>

lemma ServeHTTP_run:
  assumes "rq_Method r \<noteq> ''OPTIONS''" "mux_route (routes s) r = Serve h"
    "h False r st (snd (time_now w)) = Some (q, st1, w1)"
  shows "\<exists>d. ServeHTTP s r st w = Some (over_header cors_header q, st1\<lparr>hs_log := hs_log st1 @
    [entry_of r (over_header cors_header q) d]\<rparr>, snd (time_now w1))"
  using assms
  by (simp add: ServeHTTP_def GetHandler_def setupRoutes_def withMiddleware_def withLogging_def withRateLimit_def
      withCORS_def mux_serve_def entry_of_def Let_def time_now_def) (metis over_header_def)

definition http_post :: "string \<Rightarrow> json \<Rightarrow> http_request" where
  "http_post path j = \<lparr>rq_Method = ''POST'', rq_Path = path, rq_Query = [],
     rq_Header = [(''Content-Type'', ''application/json'')], rq_RemoteAddr = ''10.0.0.1:9'', rq_Body = Inr j\<rparr>"

definition http_get :: "string \<Rightarrow> http_request" where
  "http_get path = \<lparr>rq_Method = ''GET'', rq_Path = path, rq_Query = [], rq_Header = [],
     rq_RemoteAddr = ''10.0.0.1:9'', rq_Body = Inl (Errorf ''EOF'')\<rparr>"

definition redis_subscriber :: "mem subscriber \<times> subscriber_state" where
  "redis_subscriber = NewSubscriber (NewMessageRepository mem_exec) (NewSubscriptionRepository mem_exec)
     (NewConsumerGroupRepository mem_exec) (NewTopicRepository mem_exec) default_broker"

definition redis_topics :: "mem topic_service \<times> topic_state" where
  "redis_topics = NewTopicService (NewTopicRepository mem_exec) default_broker"

definition example_http :: "(mem, unit) http_server" where
  "example_http = NewServer example_publisher (fst redis_subscriber) (fst redis_topics) ([], [], \<lambda>_. [])"

definition http_state0 :: "unit http_state" where
  "http_state0 = \<lparr>hs_subscriber = snd redis_subscriber, hs_topics = snd redis_topics, hs_ws = (), hs_log = []\<rparr>"

lemmas route_eval = mux_route_def cleanPath_def clean_step_def join_path_def HasPrefix_def HasSuffix_def
  suffix_to_prefix mux_match_def longer_def routes_def setups Let_def

lemma example_routes:
  "mux_route (routes example_http) (http_post ''/v1/publish/o'' j) = Serve (\<lambda>_. handlePublisherRoutes example_http)"
  "mux_route (routes example_http) (http_get ''/health'') = Serve (\<lambda>_. healthHandler)"
  by (simp_all add: route_eval example_http_def NewServer_def http_post_def http_get_def)

text \<open>A publish on an empty database.\<close>

lemma publish_runs:
  assumes "validatePublishRequest s q = None" "ensureTopicExists s (pr_Topic q) w = (Inr t, w2)"
    "createMessage s q t w2 = Some (m, w3)" "MR_Store (ps_messageRepo s) (compress_message s (pr_Payload q) m) w3 = (None, w4)"
  shows "\<exists>resp w'. Publish s q w = Some (Inr resp, w')"
  using assms by (simp add: Publish_def Let_def case_prod_beta)

text \<open>Storing a message in a database without anything of its topic.\<close>

definition fresh_for :: "string \<Rightarrow> mem world \<Rightarrow> bool" where
  "fresh_for topic w \<longleftrightarrow> map_of (db w) (topicMessagesKey topic) = None \<and> map_of (db w) (topicStatsKey topic) = None \<and>
     (\<forall>p. map_of (db w) (partitionKey topic p) = None)"

lemma fresh_store:
  assumes "fresh_for ''o'' w" "m_Topic m = ''o''" "m_ExpiresAt m = None" "length (m_Payload m) = 2"
  shows "\<exists>w'. Store mem_exec m w = (None, w')"
  using assms
  by (simp add: Store_def fresh_for_def expire_cmds_def run_def mem_exec_def Let_def put_value_def message_keys case_prod_beta)

lemma fresh_topic: "\<exists>t w. ensureTopicExists example_publisher ''o'' (snd (time_now mem_world)) = (Inr t, w) \<and> t_Partitions t \<noteq> 0 \<and> fresh_for ''o'' w"
    by (simp add: example_publisher_def publish_eval fresh_for_def)

lemma example_publishes:
  assumes "pr_Topic q = ''o''" "pr_Payload q = [104, 105]" "pr_TTL q = None" "validatePublishRequest example_publisher q = None"
  shows "\<exists>resp w'. Publish example_publisher q (snd (time_now mem_world)) = Some (Inr resp, w')"
proof -
  obtain t w2 where t: "ensureTopicExists example_publisher ''o'' (snd (time_now mem_world)) = (Inr t, w2)"
    "t_Partitions t \<noteq> 0" "fresh_for ''o'' w2" using fresh_topic by blast
  then obtain m w3 where m: "createMessage example_publisher q t w2 = Some (m, w3)"
    using assms(3) by (fastforce simp: createMessage_def choose_partition_def Let_def case_prod_beta split: option.split)
  have "compress_message example_publisher (pr_Payload q) m = m"
    using assms(2) by (simp add: compress_message_def shouldCompress_def example_publisher_def NewPublisher_def default_broker_def)
  moreover have "fresh_for ''o'' w3" using t(3) createMessage_facts(5) [OF m] by (simp add: fresh_for_def)
  then obtain w4 where "Store mem_exec m w3 = (None, w4)"
    using fresh_store [of w3 m] createMessage_facts(1,3) [OF m] assms(1-3) by (auto simp: published_from_def)
  ultimately show ?thesis
    using publish_runs [OF assms(4) t(1) [folded assms(1)] m]
    by (simp add: example_publisher_def NewPublisher_def NewMessageRepository_def)
qed

lemmas example_request_evals = validatePublishRequest_def example_publisher_def NewPublisher_def default_broker_def
  bytes_of_def priority_defs delivery_defs wrap64_def

section \<open>Properties\<close>

text \<open>
  C6. Every answer of the server outside \<^verbatim>\<open>/ws\<close> is well formed, whatever the request, the state and the
  database: one status is written; an error status comes with a JSON error with its code and text, or
  is the all-failed answer of a batch, or the plain 404 of the multiplexer; a success status comes with
  a success, batch, health or text body; the CORS fields are set; and the access log grows by one entry
  with the method, the path and the status that was sent.
\<close>

theorem answers_are_well_formed:
  assumes "ServeHTTP s r st w = Some (p, st', w')" "rq_Path r \<noteq> ''/ws''"
  shows "answer_ok p \<and> cors_ok p \<and>
    (\<exists>e. hs_log st' = hs_log st @ [e] \<and> lg_Method e = rq_Method r \<and> lg_Path e = rq_Path r \<and> lg_Status e = sent_status p)"
  using assms(1)
proof (cases rule: ServeHTTP_cases)
  case (preflight d)
  then have "answer_ok p" "cors_ok p" by (simp_all add: answer_ok_def body_ok_def cors_ok_def cors_header_def)
  with preflight logged_sent [of p] show ?thesis by (simp add: entry_of_def)
next
  case (served w0 q st1 w1 d)
  then have "answer_ok q" "hs_log st1 = hs_log st" using api_served [OF _ assms(2)] by blast+
  moreover from this(1) have "answer_ok p" using served answer_ok_over by blast
  ultimately show ?thesis using served logged_sent [of p] by (simp add: entry_of_def)
qed

theorem answers_are_well_formed_witness:
  "\<exists>p st' w' e. ServeHTTP example_http (http_get ''/health'') http_state0 mem_world = Some (p, st', w') \<and>
     answer_ok p \<and> cors_ok p \<and> hs_log st' = [e] \<and> lg_Status e = 200"
proof -
  obtain q where "healthHandler (http_get ''/health'') http_state0 (snd (time_now mem_world)) =
      Some (q, http_state0, snd (time_now (snd (time_now mem_world))))" "sent_status q = 200"
    by (simp add: healthHandler_def http_get_def Let_def case_prod_beta reply_def sent_status_def writeJSONResponse_def)
  with ServeHTTP_run [OF _ example_routes(2), OF _ this(1)] obtain p st' w' where
    p: "ServeHTTP example_http (http_get ''/health'') http_state0 mem_world = Some (p, st', w')" "sent_status p = 200"
    by (auto simp: http_get_def sent_status_def over_header_def)
  moreover have "hs_log http_state0 = []" by (simp add: http_state0_def)
  ultimately show ?thesis using answers_are_well_formed [OF p(1)] by (auto simp: http_get_def)
qed

text \<open>
  C2. A publish over HTTP stores its message, end to end: whenever the server answers that a message
  was published, the request was a \<^verbatim>\<open>POST\<close> to \<^verbatim>\<open>/v1/publish/<topic>\<close> with a JSON body, and the database
  holds under the identifier in the answer a pending message of that topic with the key and headers of
  the body, the payload decoded from base64 (compressed if it says so), the priority asked for, except
  that low priority became normal, and the delivery mode asked for, except that at most once became at
  least once.
\<close>

theorem http_publish_stores_message:
  assumes "redis_server exec ks" "ServeHTTP s r st w = Some (p, st', w')" "rq_Path r \<noteq> ''/ws''"
    and "hv_publisher s = NewPublisher l (NewMessageRepository exec) (NewTopicRepository exec) cfg"
    and "rp_Body p = [BSuccess su]" "su_Data su = DPublished a"
  shows "\<exists>topic req payload m. rq_Path r = ''/v1/publish/'' @ topic \<and> rq_Method r = ''POST'' \<and>
    parseJSONRequest publish_setters zero_publish_request r = Inr req \<and> DecodeString (hq_Payload req) = Inr payload \<and>
    msg_at (ks (db w')) (hp_MessageID a) m \<and> m_ID m = hp_MessageID a \<and> m_Topic m = topic \<and>
    m_Partition m = hp_Partition a \<and> m_CreatedAt m = hp_Timestamp a \<and>
    m_Key m = bytes_of (hq_Key req) \<and> m_Headers m = hq_Headers req \<and> m_Status m = StatusPending \<and>
    (if m_Compressed m then Compress (ps_compressor (hv_publisher s)) payload = Inr (m_Payload m)
     else m_Payload m = payload) \<and>
    formatPriority (m_Priority m) = (if hq_Priority req \<in> {''high'', ''critical''} then hq_Priority req else ''normal'') \<and>
    formatDeliveryMode (m_DeliveryMode m) = (if hq_DeliveryMode req = ''exactly_once'' then ''exactly_once'' else ''at_least_once'')"
proof -
  from assms(2,3,5) obtain q h w0 p1 st1 w1 d where h: "(q, h) \<in> set (api_routes s)" "q = rq_Path r \<or> HasPrefix (rq_Path r) q"
    "h False r st w0 = Some (p1, st1, w1)" "rp_Body p1 = [BSuccess su]" "route_kind q (su_Data su)" "db w' = db w1"
    by (rule ServeHTTP_success)
  have "published (su_Data su)" using assms(6) by (simp add: published_def)
  from publish_route [OF h(1,5) this] have q: "q = ''/v1/publish/''" "h = (\<lambda>_. handlePublisherRoutes s)"
    by blast+
  with h have "handlePublisherRoutes s r st w0 = Some (p1, st1, w1)" "HasPrefix (rq_Path r) ''/v1/publish/''"
    by (auto simp: HasPrefix_def)
  then obtain topic req payload resp where a: "rq_Path r = ''/v1/publish/'' @ topic" "rq_Method r = ''POST''"
    "parseJSONRequest publish_setters zero_publish_request r = Inr req" "DecodeString (hq_Payload req) = Inr payload"
    "Publish (hv_publisher s) (service_request topic req payload) w0 = Some (Inr resp, w1)"
    "su_Data su = DPublished (http_response_of resp)" "http_validatePublishRequest req = None"
    using h(4) by (elim publish_answer) auto
  from publish_on_redis [OF assms(1) a(5) [unfolded assms(4)]] obtain t m where
    "published_from (hv_publisher s) (service_request topic req payload) t m" "resp = response_of m"
    "msg_at (ks (db w1)) (pp_MessageID resp) m" unfolding assms(4) by blast
  with a h(6) assms(6) show ?thesis
    by (intro exI [of _ topic] exI [of _ req] exI [of _ payload] exI [of _ m])
      (auto simp: published_from_def service_request_def http_response_of_def response_of_def
        parsePriority_def parseDeliveryMode_def formatPriority_def formatDeliveryMode_def priority_defs delivery_defs
        http_validatePublishRequest_def split: if_splits sum.splits)
qed

lemma example_published:
  "\<exists>p st' w' su a. ServeHTTP example_http (http_post ''/v1/publish/o'' (JObj [(''payload'', JStr ''aGk=''), (''PRIORITY'', JStr ''high'')]))
       http_state0 mem_world = Some (p, st', w') \<and> rp_Body p = [BSuccess su] \<and> su_Data su = DPublished a"
proof -
  let ?r = "http_post ''/v1/publish/o'' (JObj [(''payload'', JStr ''aGk=''), (''PRIORITY'', JStr ''high'')])"
  let ?q = "zero_publish_request\<lparr>hq_Payload := ''aGk='', hq_Priority := ''high''\<rparr>"
  have parse: "parseJSONRequest publish_setters zero_publish_request ?r = Inr ?q"
    by (simp add: parseJSONRequest_def HeaderGet_def http_post_def decode_struct_def struct_field_def publish_setters_def
        set_str_def ToLower_def to_lower_char_def char_of_def bit_iff_odd)
  have dec: "DecodeString ''aGk='' = Inr [104, 105]"
    by (simp add: DecodeString_def b64_val_def)
  obtain resp w' where pub: "Publish example_publisher (service_request ''o'' ?q [104, 105]) (snd (time_now mem_world))
      = Some (Inr resp, w')"
    by (atomize_elim, rule example_publishes)
      (simp_all add: service_request_def zero_publish_request_def parsePriority_def parseDeliveryMode_def example_request_evals)
  have "handlePublisherRoutes example_http ?r http_state0 (snd (time_now mem_world)) =
      Some (writeSuccessResponse (DPublished (http_response_of resp)) ''Message published successfully'', http_state0, w')"
    using parse dec pub
    by (simp add: handlePublisherRoutes_def handlePublish_def TrimPrefix_def http_validatePublishRequest_def
        zero_publish_request_def example_http_def NewServer_def Let_def)
      (simp add: http_post_def)?
  from ServeHTTP_run [OF _ example_routes(1), OF _ this] show ?thesis
    by (auto simp: http_post_def over_header_def)
qed

theorem http_publish_stores_message_witness:
  "\<exists>p st' w' m i. ServeHTTP example_http (http_post ''/v1/publish/o'' (JObj [(''payload'', JStr ''aGk=''), (''PRIORITY'', JStr ''high'')]))
       http_state0 mem_world = Some (p, st', w') \<and> msg_at (map_of (db w')) i m \<and> m_Topic m = ''o''"
proof -
  obtain p st' w' su a where p: "ServeHTTP example_http (http_post ''/v1/publish/o''
      (JObj [(''payload'', JStr ''aGk=''), (''PRIORITY'', JStr ''high'')])) http_state0 mem_world = Some (p, st', w')"
    "rp_Body p = [BSuccess su]" "su_Data su = DPublished a" using example_published by blast
  have s: "hv_publisher example_http = NewPublisher marker_codecs (NewMessageRepository mem_exec) (NewTopicRepository mem_exec) default_broker"
    by (simp add: example_http_def NewServer_def example_publisher_def)
  from http_publish_stores_message [OF mem_server.redis_server_axioms p(1) _ s p(2,3)] p(1)
  show ?thesis by (auto simp: http_post_def)
qed

end
