(* ===== verification/WsRuns.thy ===== *)
theory WsRuns
  imports WsFlow HttpFlow
begin

text \<open>
  The WebSocket server in the program: what its goroutines can do to each other, what it stores and never
  delivers, and that behind the HTTP server it is never reached.
\<close>

section \<open>A server to run\<close>

text \<open>
  The upgrader that the code relies on: it fails, with a status of its own, when the writer it is given
  is no \<open>Hijacker\<close>. \<open>gorilla\<close> is one that accepts any other request.
\<close>

definition needs_hijacker :: "(bool \<Rightarrow> http_request \<Rightarrow> (http_response \<times> go_error) + unit) \<Rightarrow> bool" where
  "needs_hijacker up \<longleftrightarrow> (\<forall>r. \<exists>p e c. up False r = Inl (p, e) \<and> rp_Codes p = [c] \<and> 400 \<le> c)"

definition gorilla :: "bool \<Rightarrow> http_request \<Rightarrow> (http_response \<times> go_error) + unit" where
  "gorilla hijacker r =
     (if hijacker then Inr ()
      else Inl (http_Error ''Internal Server Error'' 500, Errorf ''websocket: response does not implement http.Hijacker''))"

lemma gorilla_needs_hijacker: "needs_hijacker gorilla"
  by (simp add: needs_hijacker_def gorilla_def http_Error_def)

definition example_ws :: "mem ws_server" where
  "example_ws = fst (websocket_NewServer example_publisher (fst redis_subscriber) gorilla)"

definition ws_http_state :: "ws_state http_state" where
  "ws_http_state = \<lparr>hs_subscriber = snd redis_subscriber, hs_topics = snd redis_topics, hs_ws = ws_state0, hs_log = []\<rparr>"

lemma opened:
  "\<exists>st w. openWebSocket example_ws True r ws_http_state mem_world = (Inr 0, st, w) \<and>
     conn 0 st = fst (createConnection r mem_world) \<and> length (ws_conns (hs_ws st)) = 1 \<and> db w = []"
  by (simp add: openWebSocket_def upgradeConnection_def example_ws_def websocket_NewServer_def gorilla_def
      registerConnection_def ws_http_state_def ws_state0_def conn_def Let_def case_prod_beta)
    (simp add: createConnection_def generateConnectionID_def uuid_new_def time_now_def Let_def mem_world_def)

lemma example_opened:
  obtains st w where "ws_run example_ws feed ([new_pumps], st, w)" "ready 0 st" "cn_send (conn 0 st) = []"
    "cn_IsAlive (conn 0 st)" "db w = []"
proof -
  obtain st w where o: "openWebSocket example_ws True (http_get ''/ws'') ws_http_state mem_world = (Inr 0, st, w)"
    "conn 0 st = fst (createConnection (http_get ''/ws'') mem_world)" "length (ws_conns (hs_ws st)) = 1" "db w = []"
    using opened by blast
  have "ws_run example_ws feed ([], ws_http_state, mem_world)"
    by (rule ws_run.start) (simp add: ws_http_state_def)
  from ws_run.step [OF this ws_step.accept [OF o(1)]] have "ws_run example_ws feed ([new_pumps], st, w)" by simp
  moreover have "\<not> cn_done (conn 0 st)" "cn_send (conn 0 st) = []" "live_ok (conn 0 st)"
    using createConnection_new [of "http_get ''/ws''" mem_world] o(2) by (metis prod.collapse)+
  moreover from this have "cn_IsAlive (conn 0 st)" "\<not> cn_closed (conn 0 st)" by (auto simp: live_ok_def)
  ultimately show thesis using o(3,4) by (intro that) (auto simp: ready_def)
qed

section \<open>Crashing\<close>

definition ping_data :: "go_error + json" where
  "ping_data = Inr (JObj [(''type'', JStr ''ping''), (''id'', JStr ''p1'')])"

lemma ping_decoded: "decoded ping_data = Some (zero_ws_message\<lparr>wm_Type := ''ping'', wm_ID := ''p1''\<rparr>)"
  by (simp add: decoded_def ping_data_def decode_struct_def struct_field_def ws_message_setters_def set_str_def
      zero_ws_message_def)

lemma ping_handled:
  "handleMessage s coin a ping_data st w =
     conn_handlePing coin a (zero_ws_message\<lparr>wm_Type := ''ping'', wm_ID := ''p1''\<rparr>)
       (put_conn a ((conn a st)\<lparr>cn_LastPingAt := fst (time_now w)\<rparr>) st) (snd (time_now w))"
  using ping_decoded by (simp add: handleMessage_def decoded_def ping_data_def Let_def case_prod_beta msg_types)

definition ws_steps :: "'d ws_server \<Rightarrow> 'd ws_config \<Rightarrow> 'd ws_config \<Rightarrow> bool" where
  "ws_steps s = (\<lambda>c c'. ws_step s False c (Some c'))\<^sup>*\<^sup>*"

lemma steps_add: "ws_steps s c c' \<Longrightarrow> ws_step s False c' (Some c'') \<Longrightarrow> ws_steps s c c''"
  unfolding ws_steps_def by (rule rtranclp.rtrancl_into_rtrancl)

lemma run_steps: "ws_steps s c c' \<Longrightarrow> ws_run s False c \<Longrightarrow> ws_run s False c'"
  unfolding ws_steps_def by (induction rule: rtranclp_induct) (auto intro: ws_run.step)

lemma put_conn_twice [simp]: "put_conn a c (put_conn a c' st) = put_conn a c st"
  by (simp add: put_conn_def on_ws_def)

text \<open>A failing write closes the connection, whatever the reader is doing.\<close>

lemma writer_closes:
  assumes "a < length gs" "a < length (ws_conns (hs_ws st))" "gp_writer (gs ! a) = Writing" "cn_IsAlive (conn a st)"
    "\<not> cn_closed (conn a st)"
  obtains c where "cn_closed c" "ws_steps s (gs, st, w) (set_writer a WriterDone gs, put_conn a c st, w)"
proof -
  let ?gs = "set_writer a WriterClosing gs" and ?st = "put_conn a (Close_begin (conn a st)) st"
  have "ws_step s False (gs, st, w) (Some (?gs, ?st, w))"
    using ws_step.write_stop [of a gs "cn_send (conn a st)" st s False w] assms by simp
  then have 1: "ws_steps s (gs, st, w) (?gs, ?st, w)" by (simp add: ws_steps_def r_into_rtranclp)
  have "Close_end (conn a ?st) \<noteq> None" using assms(2,5) by (simp add: Close_end_def Close_begin_def)
  then obtain c where c: "Close_end (conn a ?st) = Some c" by blast
  then have "ws_step s False (?gs, ?st, w) (Some (set_writer a WriterDone gs, put_conn a c st, w))"
    using ws_step.writer_close [of a ?gs s False ?st w] assms(1) by (simp add: set_writer_def)
  moreover have "cn_closed c" using c by (auto simp: Close_end_Some)
  ultimately show thesis using that steps_add [OF 1] by blast
qed

lemma crash_by_closing:
  assumes "sound (gs, st, w)" "a < length gs" "gp_reader (gs ! a) = Reading" "gp_writer (gs ! a) = Writing"
    and "cn_IsAlive (conn a st)"
  shows "\<exists>gs' st'. ws_steps s (gs, st, w) (gs', st', w) \<and> gp_reader (gs' ! a) = ReaderClosing \<and>
      ws_step s False (gs', st', w) None"
proof -
  note at = sound_at [OF assms(1,2)]
  have alive: "cn_open (conn a st)" "\<not> cn_closed (conn a st)" using at(4) assms(5) by (simp_all add: live_ok_def)
  let ?gs = "set_reader a ReaderClosing gs" and ?st = "put_conn a (Close_begin (conn a st)) st"
  have "ws_step s False (gs, st, w) (Some (?gs, ?st, w))"
    using ws_step.read_stop [of a gs s False st w] assms by simp
  then have 1: "ws_steps s (gs, st, w) (?gs, ?st, w)" by (simp add: ws_steps_def r_into_rtranclp)
  have "a < length ?gs" "a < length (ws_conns (hs_ws ?st))" "gp_writer (?gs ! a) = Writing"
    "cn_IsAlive (conn a ?st)" "\<not> cn_closed (conn a ?st)"
    using assms(2,4,5) at(1) alive(2) by (simp_all add: set_reader_def Close_begin_def)
      (simp add: put_conn_def on_ws_def)
  then obtain c where c: "cn_closed c" "ws_steps s (?gs, ?st, w) (set_writer a WriterDone ?gs, put_conn a c ?st, w)"
    by (rule writer_closes)
  then have steps: "ws_steps s (gs, st, w) (set_writer a WriterDone ?gs, put_conn a c st, w)"
    using 1 unfolding ws_steps_def by simp
  have "ws_step s False (set_writer a WriterDone ?gs, put_conn a c st, w) None"
    using ws_step.reader_close [of a "set_writer a WriterDone ?gs" s False "put_conn a c st" w] assms(2) at(1) c(1)
    by (simp add: set_reader_def set_writer_def Close_end_def)
  with steps assms(2) show ?thesis
    by (intro exI [of _ "set_writer a WriterDone ?gs"] exI [of _ "put_conn a c st"]) (simp add: set_reader_def set_writer_def)
qed

lemma crash_by_replying:
  assumes "sound (gs, st, w)" "a < length gs" "gp_reader (gs ! a) = Reading" "gp_writer (gs ! a) = Writing"
    and "cn_IsAlive (conn a st)"
  shows "\<exists>gs' st'. ws_steps s (gs, st, w) (gs', st', w) \<and> gp_reader (gs' ! a) = Handling ping_data \<and>
      ws_step s False (gs', st', w) None"
proof -
  note at = sound_at [OF assms(1,2)]
  have alive: "cn_open (conn a st)" "\<not> cn_closed (conn a st)" using at(4) assms(5) by (simp_all add: live_ok_def)
  let ?gs = "set_reader a (Handling ping_data) gs"
  have "ws_step s False (gs, st, w) (Some (?gs, st, w))" using assms(2,3) alive(1) by (rule ws_step.read_frame)
  then have 1: "ws_steps s (gs, st, w) (?gs, st, w)" by (simp add: ws_steps_def r_into_rtranclp)
  have "a < length ?gs" "gp_writer (?gs ! a) = Writing" using assms(2,4) by (simp_all add: set_reader_def)
  from writer_closes [OF this(1) at(1) this(2) assms(5) alive(2)] obtain c where
    c: "cn_closed c" "ws_steps s (?gs, st, w) (set_writer a WriterDone ?gs, put_conn a c st, w)" .
  then have steps: "ws_steps s (gs, st, w) (set_writer a WriterDone ?gs, put_conn a c st, w)"
    using 1 unfolding ws_steps_def by simp
  have "handleMessage s True a ping_data (put_conn a c st) w = None"
    using at(1) c(1) by (simp add: ping_handled conn_handlePing_def Let_def case_prod_beta send_to_def sendMessage_def)
  then have "ws_step s False (set_writer a WriterDone ?gs, put_conn a c st, w) None"
    using ws_step.handle [of a "set_writer a WriterDone ?gs" ping_data s False "put_conn a c st" w True] assms(2)
    by (simp add: set_reader_def set_writer_def)
  with steps assms(2) show ?thesis
    by (intro exI [of _ "set_writer a WriterDone ?gs"] exI [of _ "put_conn a c st"]) (simp add: set_reader_def set_writer_def)
qed

definition example_app :: "(mem, ws_state) http_server" where
  "example_app = SetWebSocketHandler (HandleWebSocket example_ws)
     (NewServer example_publisher (fst redis_subscriber) (fst redis_topics) ([], [], \<lambda>_. []))"

lemma example_app: "hv_wsHandler example_app = Some (HandleWebSocket example_ws)" "needs_hijacker (sv_upgrade example_ws)"
  using gorilla_needs_hijacker by (simp_all add: example_app_def SetWebSocketHandler_def example_ws_def websocket_NewServer_def)

lemma never_opens:
  assumes "needs_hijacker (sv_upgrade x)" "hv_wsHandler s = Some (HandleWebSocket x)"
    and "rq_Path r = ''/ws''" "rq_Method r \<noteq> ''OPTIONS''"
  shows "\<exists>p e w'. ServeHTTP s r st w = Some (p, st\<lparr>hs_log := hs_log st @ [e]\<rparr>, w') \<and> db w' = db w \<and>
    400 \<le> sent_status p \<and> lg_Path e = ''/ws'' \<and> lg_Status e = 400"
proof -
  have route: "mux_route (routes s) r = Serve (HandleWebSocket x)"
    using assms(2,3) by (simp add: route_eval)
  obtain q e c where up: "sv_upgrade x False r = Inl (q, e)" "rp_Codes q = [c]" "400 \<le> c"
    using assms(1) unfolding needs_hijacker_def by blast
  define p where "p = then_Error q ''Failed to upgrade connection'' 400"
  have "HandleWebSocket x False r st w0 = Some (p, st, w0)" for w0 :: "'a world"
    using up(1) by (simp add: HandleWebSocket_def openWebSocket_def upgradeConnection_def p_def)
  from ServeHTTP_run [OF assms(4) route this] obtain d where
    "ServeHTTP s r st w = Some (over_header cors_header p, st\<lparr>hs_log := hs_log st @
       [entry_of r (over_header cors_header p) d]\<rparr>, snd (time_now (snd (time_now w))))" by blast
  moreover have "rp_Codes p = [c, 400]" using up(2) by (simp add: p_def then_Error_def Let_def http_Error_def)
  ultimately show ?thesis
    using up(3) assms(3) by (auto simp: sent_status_def entry_of_def logged_status_def over_header_def)
qed

section \<open>Properties\<close>

text \<open>
  The WebSocket API can not be reached: whatever a request for \<^verbatim>\<open>/ws\<close> asks for, the server answers
  it with an error and opens no connection, because the wrapper that the logging middleware passes on is
  no \<open>Hijacker\<close>, which the upgrader needs. The access log reports 400 for it, whatever was sent.
\<close>

theorem websocket_never_opens:
  assumes "needs_hijacker (sv_upgrade x)" "hv_wsHandler s = Some (HandleWebSocket x)"
    and "rq_Path r = ''/ws''" "rq_Method r \<noteq> ''OPTIONS''"
  shows "\<exists>p e w'. ServeHTTP s r st w = Some (p, st\<lparr>hs_log := hs_log st @ [e]\<rparr>, w') \<and> db w' = db w \<and>
    400 \<le> sent_status p \<and> lg_Path e = ''/ws'' \<and> lg_Status e = 400"
  using assms by (rule never_opens)

theorem websocket_never_opens_witness:
  "\<exists>p e w'. ServeHTTP example_app (http_get ''/ws'') ws_http_state mem_world =
       Some (p, ws_http_state\<lparr>hs_log := hs_log ws_http_state @ [e]\<rparr>, w') \<and> 400 \<le> sent_status p"
  using websocket_never_opens [OF example_app(2,1), of "http_get ''/ws''" ws_http_state mem_world]
  by (auto simp: http_get_def)





text \<open>
  C17. In every run of the program no message is delivered over a WebSocket: nothing of the type
  \<open>message\<close> is ever queued for a connection or written to it. (The functions that would do it,
  \<open>DeliverMessage\<close> and \<open>BroadcastToTopic\<close>, have no caller, and the channel that the subscriber service
  fills is not read.)
\<close>

theorem websocket_never_delivers:
  assumes "ws_run s False (gs, st, w)" "c \<in> set (ws_conns (hs_ws st))" "j \<in> set (cn_send c) \<or> TextFrame j \<in> set (cn_wire c)"
  shows "frame_field ''type'' j \<noteq> ''message''"
  using run_quiet [OF assms(1)] assms(2,3)
  by (fastforce simp: all_quiet_def quiet_def list_all_iff calm_def msg_types)

theorem websocket_never_delivers_witness:
  "\<exists>gs st w j. ws_run example_ws False (gs, st, w) \<and> j \<in> set (cn_send (conn 0 st)) \<and> frame_field ''type'' j \<noteq> ''message''"
proof -
  obtain st w where r: "ws_run example_ws False ([new_pumps], st, w)" "ready 0 st" "cn_send (conn 0 st) = []"
    by (rule example_opened) blast
  then have "cn_open (conn 0 st)"
    using sound_at(4) [OF run_sound [OF r(1)], of 0] by (simp add: ready_def live_ok_def)
  then have read: "ws_run example_ws False (set_reader 0 (Handling ping_data) [new_pumps], st, w)"
    by (intro ws_run.step [OF r(1)] ws_step.read_frame) (simp_all add: new_pumps_def)
  have "handleMessage example_ws True 0 ping_data st w \<noteq> None"
    using r(2) send_to_open [of 0 "put_conn 0 ((conn 0 st)\<lparr>cn_LastPingAt := fst (time_now w)\<rparr>) st"] unfolding ping_handled
    by (simp add: conn_handlePing_def Let_def case_prod_beta ready_def)
  then obtain st' w' where h: "handleMessage example_ws True 0 ping_data st w = Some (st', w')" by auto
  let ?gs = "set_reader 0 (Handling ping_data) [new_pumps]"
  have "ws_step example_ws False (?gs, st, w) (Some (set_reader 0 Reading ?gs, st', w'))"
    using ws_step.handle [of 0 ?gs ping_data example_ws False st w True] h by (simp add: set_reader_def)
  with read have run: "ws_run example_ws False (set_reader 0 Reading ?gs, st', w')" by (rule ws_run.step)
  obtain j where j: "j \<in> set (cn_send (conn 0 st'))"
    using handle_answered [OF r(2) h] r(3) by (auto simp: answered_def ping_decoded msg_types)
  have "conn 0 st' \<in> set (ws_conns (hs_ws st'))"
    using sound_at(1) [OF run_sound [OF run], of 0] by (simp add: conn_def set_reader_def)
  with websocket_never_delivers [OF run this] run j show ?thesis by blast
qed

lemma filter_map_none:
  "wf_map m \<Longrightarrow> map_of (inner t (filter (\<lambda>(t, ts). ts \<noteq> []) (map (\<lambda>(t, ts). (t, mdel i ts)) m))) i = None"
  by (auto simp: inner_def map_of_filter_map split: option.splits)

lemma unregister_forgets:
  assumes "sound (gs, st, w)"
  shows "map_of (inner t (ws_subscriptions (unregisterConnection a (hs_ws st)))) (cn_ID (conn a st)) = None"
proof -
  have "wf_map (ws_subscriptions (hs_ws st))" using assms by (simp add: sound_def ws_ok_def topics_ok_def)
  from filter_map_none [OF this] show ?thesis
    by (simp add: unregisterConnection_def removeAllSubscriptions_def Let_def conn_def)
qed

lemma services_put [simp]: "hs_subscriber (put_conn a c st) = hs_subscriber st"
  by (simp add: put_conn_def on_ws_def)

lemma services_send: "send_to coin a m st w = Some (st', w') \<Longrightarrow> hs_subscriber st' = hs_subscriber st \<and> db w' = db w"
  by (auto simp: send_to_def)

lemma services_broadcast:
  "broadcast coins m is st w = Some (st', w') \<Longrightarrow> hs_subscriber st' = hs_subscriber st \<and> db w' = db w"
proof (induction "is" arbitrary: st w)
  case (Cons i "is")
  then show ?case by (fastforce split: option.splits if_splits dest: services_send)
qed simp

lemma services_steps:
  assumes "ws_step s feed (gs, st, w) (Some (gs', st', w'))" "\<forall>g \<in> set gs. \<forall>d. gp_reader g \<noteq> Handling d"
  shows "hs_subscriber st' = hs_subscriber st \<and> db w' = db w"
  using assms(1)
proof cases
  case (handle a d coin)
  with assms(2) show ?thesis by (metis nth_mem)
next
  case (accept hijacker r a)
  then show ?thesis by (auto elim!: openWebSocket_new simp: createConnection_new)
next
  case (deliver a coin m)
  then show ?thesis
    by (auto simp: Some_map DeliverMessage_def Let_def case_prod_beta on_ws_def uuid_new_def time_now_def
        split: option.splits dest!: services_send)
next
  case (broadcast coins topic p)
  then show ?thesis
    by (auto simp: Some_map BroadcastToTopic_def Let_def case_prod_beta split: option.splits dest!: services_broadcast)
qed (auto simp: Some_map time_now_def on_ws_def)

text \<open>
  C19. The end of a connection does not end its subscriptions: no step but the handling of a message
  changes the subscriber service or the database; what the closing, the clean up and the shut down forget
  are only the entries of the server itself, of which the clean up leaves none.
\<close>

theorem closing_leaves_subscriptions:
  assumes "ws_run s feed (gs, st, w)" "ws_step s feed (gs, st, w) (Some (gs', st', w'))"
    and "\<forall>g \<in> set gs. \<forall>d. gp_reader g \<noteq> Handling d"
  shows "hs_subscriber st' = hs_subscriber st \<and> db w' = db w \<and>
    (\<forall>a < length gs. gp_waiting (gs ! a) \<and> \<not> gp_waiting (gs' ! a) \<longrightarrow>
       (\<forall>t. map_of (inner t (ws_subscriptions (hs_ws st'))) (cn_ID (conn a st)) = None))"
proof (intro conjI allI impI)
  show "hs_subscriber st' = hs_subscriber st" "db w' = db w" using services_steps [OF assms(2,3)] by simp_all
next
  fix a t
  assume a: "a < length gs" "gp_waiting (gs ! a) \<and> \<not> gp_waiting (gs' ! a)"
  from assms(2) show "map_of (inner t (ws_subscriptions (hs_ws st'))) (cn_ID (conn a st)) = None"
  proof cases
    case (cleanup b)
    with a have "b = a" by (cases "b = a") simp_all
    with cleanup(2) show ?thesis using unregister_forgets [OF run_sound [OF assms(1)]] by (simp add: on_ws_def)
  qed (use a in \<open>auto simp: Some_map set_reader_def set_writer_def nth_append nth_list_update split: if_splits\<close>)
qed

theorem closing_leaves_subscriptions_witness:
  "\<exists>st w gs' st' w'. ws_run example_ws True ([new_pumps], st, w) \<and>
     ws_step example_ws True ([new_pumps], st, w) (Some (gs', st', w')) \<and> gp_reader (gs' ! 0) = ReaderClosing \<and>
     hs_subscriber st' = hs_subscriber st \<and> db w' = db w"
proof -
  obtain st w where r: "ws_run example_ws True ([new_pumps], st, w)" "cn_IsAlive (conn 0 st)" by (rule example_opened) blast
  let ?gs = "set_reader 0 ReaderClosing [new_pumps]"
  have s: "ws_step example_ws True ([new_pumps], st, w) (Some (?gs, put_conn 0 (Close_begin (conn 0 st)) st, w))"
    using ws_step.read_stop [of 0 "[new_pumps]" example_ws True st w] r(2) by (simp add: new_pumps_def)
  have "\<forall>g \<in> set [new_pumps]. \<forall>d. gp_reader g \<noteq> Handling d" by (simp add: new_pumps_def)
  from closing_leaves_subscriptions [OF r(1) s this] r(1) s show ?thesis
    by (intro exI [of _ st] exI [of _ w] exI [of _ ?gs] exI [of _ "put_conn 0 (Close_begin (conn 0 st)) st"])
      (auto simp: set_reader_def)
qed



text \<open>
  C20. Such panics are there for any peer: from every state in which a connection is alive and both its
  pumps are in their loops, two steps that fail in both pumps lead to the second closing of a closed
  channel; and a failing write while the peer's message is being handled leads to a reply that is sent on
  the closed channel.
\<close>

theorem websocket_can_crash:
  assumes "sound (gs, st, w)" "a < length gs" "gp_reader (gs ! a) = Reading" "gp_writer (gs ! a) = Writing"
    and "cn_IsAlive (conn a st)"
  shows "(\<exists>gs' st'. ws_steps s (gs, st, w) (gs', st', w) \<and> gp_reader (gs' ! a) = ReaderClosing \<and>
      ws_step s False (gs', st', w) None) \<and>
    (\<exists>gs' st'. ws_steps s (gs, st, w) (gs', st', w) \<and> gp_reader (gs' ! a) = Handling ping_data \<and>
      ws_step s False (gs', st', w) None)"
  using crash_by_closing [OF assms] crash_by_replying [OF assms] by blast

theorem websocket_can_crash_witness:
  "\<exists>st w gs' st'. ws_run example_ws False ([new_pumps], st, w) \<and> ws_steps example_ws ([new_pumps], st, w) (gs', st', w) \<and>
     ws_step example_ws False (gs', st', w) None"
proof -
  obtain st w where r: "ws_run example_ws False ([new_pumps], st, w)" "cn_IsAlive (conn 0 st)" by (rule example_opened) blast
  from websocket_can_crash [OF run_sound [OF r(1)], of 0 example_ws] r show ?thesis
    by (auto simp: new_pumps_def)
qed

text \<open>
  C9. A publish over a WebSocket stores its message: whenever handling a message queues a confirmation of
  the type \<open>published\<close>, the message was a publish with a payload in base64, and the database holds under the
  identifier in the confirmation a pending message of its topic with its key, headers and payload
  (compressed if it says so), at least once, and of its priority, except that low became normal.
\<close>

theorem websocket_publish_stores_message:
  assumes "redis_server exec ks" "sv_publisher s = NewPublisher l (NewMessageRepository exec) (NewTopicRepository exec) cfg"
    and "a < length (ws_conns (hs_ws st))" "handleMessage s coin a d st w = Some (st', w')"
    and "cn_send (conn a st') = cn_send (conn a st) @ [j]" "frame_field ''type'' j = ''published''"
  shows "\<exists>msg p payload m now. decoded d = Some msg \<and> wm_Type msg = ''publish'' \<and>
    unmarshal_payload publish_payload_setters zero_publish_payload (wm_Payload msg) = Inr p \<and>
    DecodeString (wpp_Payload p) = Inr payload \<and> j = ws_message_json (publish_confirmation msg (response_of m) now) \<and>
    msg_at (ks (db w')) (m_ID m) m \<and> m_Topic m = wm_Topic msg \<and> m_Key m = bytes_of (wpp_Key p) \<and>
    m_Headers m = wpp_Headers p \<and> m_Status m = StatusPending \<and> ws_formatDeliveryMode (m_DeliveryMode m) = ''at_least_once'' \<and>
    ws_formatPriority (m_Priority m) = (if wpp_Priority p \<in> {''high'', ''critical''} then wpp_Priority p else ''normal'') \<and>
    (if m_Compressed m then Compress (ps_compressor (sv_publisher s)) payload = Inr (m_Payload m) else m_Payload m = payload)"
proof -
  obtain msg st1 w1 where h: "decoded d = Some msg" "wm_Type msg = MsgTypePublish"
    "conn_handlePublish s coin a msg st1 w1 = Some (st', w')" "a < length (ws_conns (hs_ws st1))"
    "cn_send (conn a st') = cn_send (conn a st1) @ [j]"
    using message_confirmed [OF assms(3,5,4)] assms(6) by (auto simp: MsgTypePublished_def)
  have t: "frame_field ''type'' j = MsgTypePublished" using assms(6) by (simp add: MsgTypePublished_def)
  obtain p payload resp w2 now where b: "unmarshal_payload publish_payload_setters zero_publish_payload (wm_Payload msg) = Inr p"
    "DecodeString (wpp_Payload p) = Inr payload"
    "Publish (sv_publisher s) (ws_publish_request (wm_Topic msg) p payload) w1 = Some (Inr resp, w2)" "db w' = db w2"
    "j = ws_message_json (publish_confirmation msg resp now)"
    by (rule publish_confirmed [OF h(4,5,3) t])
  from publish_on_redis [OF assms(1) b(3) [unfolded assms(2)]] obtain t m where
    "published_from (sv_publisher s) (ws_publish_request (wm_Topic msg) p payload) t m" "resp = response_of m"
    "msg_at (ks (db w2)) (pp_MessageID resp) m" unfolding assms(2) by blast
  with h(1,2) b show ?thesis
    by (intro exI [of _ msg] exI [of _ p] exI [of _ payload] exI [of _ m] exI [of _ now])
      (auto simp: published_from_def ws_publish_request_def response_of_def ws_parsePriority_def ws_formatPriority_def
        ws_formatDeliveryMode_def priority_defs delivery_defs MsgTypePublish_def split: if_splits)
qed

definition publish_data :: "go_error + json" where
  "publish_data = Inr (JObj [(''type'', JStr ''publish''), (''topic'', JStr ''o''),
     (''payload'', JObj [(''payload'', JStr ''aGk='')])])"

theorem websocket_publish_stores_message_witness:
  "\<exists>st st' w' j m. handleMessage example_ws True 0 publish_data st mem_world = Some (st', w') \<and>
     cn_send (conn 0 st') = [j] \<and> frame_field ''type'' j = ''published'' \<and> msg_at (map_of (db w')) (m_ID m) m \<and> m_Topic m = ''o''"
proof -
  obtain st where r: "ready 0 st" "cn_send (conn 0 st) = []" by (rule example_opened) blast
  let ?m = "zero_ws_message\<lparr>wm_Type := ''publish'', wm_Topic := ''o'', wm_Payload := Some (JObj [(''payload'', JStr ''aGk='')])\<rparr>"
  let ?p = "zero_publish_payload\<lparr>wpp_Payload := ''aGk=''\<rparr>"
  let ?st1 = "put_conn 0 ((conn 0 st)\<lparr>cn_LastPingAt := fst (time_now mem_world)\<rparr>) st"
  have dec: "decode_struct False ws_message_setters (JObj [(''type'', JStr ''publish''), (''topic'', JStr ''o''),
      (''payload'', JObj [(''payload'', JStr ''aGk='')])]) zero_ws_message = Some ?m"
    by (simp add: decode_struct_def struct_field_def ws_message_setters_def set_str_def set_raw_def zero_ws_message_def)
  have pay: "unmarshal_payload publish_payload_setters zero_publish_payload (wm_Payload ?m) = Inr ?p"
    by (simp add: unmarshal_payload_def decode_struct_def struct_field_def publish_payload_setters_def set_str_def
        zero_publish_payload_def)
  have b64: "DecodeString ''aGk='' = Inr [104, 105]" by (simp add: DecodeString_def b64_val_def)
  obtain resp w1 where pub: "Publish (sv_publisher example_ws) (ws_publish_request ''o'' ?p [104, 105]) (snd (time_now mem_world))
      = Some (Inr resp, w1)"
    unfolding example_ws_def websocket_NewServer_def fst_conv ws_server.select_convs
    by (atomize_elim, rule example_publishes)
      (simp_all add: ws_publish_request_def zero_publish_payload_def ws_parsePriority_def example_request_evals)
  have ready: "ready 0 ?st1" "cn_send (conn 0 ?st1) = []" using r by (simp_all add: ready_def) (simp add: put_conn_def on_ws_def)
  define c where "c = publish_confirmation ?m resp (fst (time_now w1))"
  have "handleMessage example_ws True 0 publish_data st mem_world = send_to True 0 c ?st1 (snd (time_now w1))"
    using dec pay b64 pub
    by (simp add: handleMessage_def publish_data_def conn_handlePublish_def c_def Let_def case_prod_beta msg_types)
      (simp add: zero_ws_message_def zero_publish_payload_def)?
  moreover have "send_to True 0 c ?st1 (snd (time_now w1)) \<noteq> None" using ready(1) by (intro send_to_open) (simp add: ready_def)
  ultimately obtain st' w' where h: "handleMessage example_ws True 0 publish_data st mem_world = Some (st', w')"
    "send_to True 0 c ?st1 (snd (time_now w1)) = Some (st', w')" by auto
  have j: "cn_send (conn 0 st') = [ws_message_json c]" using send_ready(1) [OF ready(1) h(2)] ready(2) by simp
  have t: "frame_field ''type'' (ws_message_json c) = ''published''" by (simp add: c_def publish_confirmation_def msg_types)
  have s: "sv_publisher example_ws = NewPublisher marker_codecs (NewMessageRepository mem_exec) (NewTopicRepository mem_exec) default_broker"
    by (simp add: example_ws_def websocket_NewServer_def example_publisher_def)
  have "cn_send (conn 0 st') = cn_send (conn 0 st) @ [ws_message_json c]" using j r(2) by simp
  from websocket_publish_stores_message [OF mem_server.redis_server_axioms s _ h(1) this t] r(1)
  obtain msg m where "decoded publish_data = Some msg" "msg_at (map_of (db w')) (m_ID m) m" "m_Topic m = wm_Topic msg"
    by (auto simp: ready_def)
  moreover from this(1) dec have "wm_Topic msg = ''o''" by (auto simp: decoded_def publish_data_def)
  ultimately show ?thesis using h(1) j t by (intro exI [of _ st] exI [of _ st'] exI [of _ w']) auto
qed

end
