(* ===== verification/CliSpec.thy ===== *)
theory CliSpec
  imports Cli WsRuns
begin

text \<open>
  The client against the server: which headers it accepts, and that none of its commands gets through.
\<close>

section \<open>Headers\<close>

lemma header_split_found:
  "CHR ''='' \<notin> set k \<Longrightarrow> header_split i h (k @ CHR ''='' # v) =
     (if i + length k = 0 \<or> i + length k = length h - 1 then None
      else Some (take (i + length k) h, drop (i + length k + 1) h))"
  by (induction k arbitrary: i) auto

lemma header_split_none: "CHR ''='' \<notin> set k \<Longrightarrow> header_split i h k = None"
  by (induction k arbitrary: i) auto

lemma parseHeader_forms:
  "CHR ''='' \<notin> set k \<Longrightarrow> parseHeader (k @ CHR ''='' # v) m =
     (if k = [] \<or> v = [] then Inl (Errorf ''invalid format, expected key=value'') else Inr (mput k v m))"
  "CHR ''='' \<notin> set k \<Longrightarrow> parseHeader k m = Inl (Errorf ''invalid format, expected key=value'')"
  by (auto simp: parseHeader_def header_split_found header_split_none)

lemma first_sign_unique:
  "k' @ CHR ''='' # v' = k @ CHR ''='' # v \<Longrightarrow> CHR ''='' \<notin> set k \<Longrightarrow> CHR ''='' \<notin> set k' \<Longrightarrow> k' = k \<and> v' = v"
proof (induction k arbitrary: k')
  case Nil
  then show ?case by (cases k') simp_all
next
  case (Cons c k)
  then show ?case by (cases k') auto
qed

section \<open>The server as the network\<close>

text \<open>
  One exchange: the request that \<^verbatim>\<open>net/http\<close> makes of what the client sends, and the answer of the server
  as the client sees it; \<open>render\<close> is the text of a body and its JSON tree.
\<close>

definition request_of :: "string \<Rightarrow> client_request \<Rightarrow> string \<Rightarrow> http_request" where
  "request_of addr q path =
     \<lparr>rq_Method = cq_Method q, rq_Path = path, rq_Query = [],
      rq_Header = (''User-Agent'', ''Go-http-client/1.1'') #
        (if cq_ContentType q = '''' then [] else [(''Content-Type'', cq_ContentType q)]),
      rq_RemoteAddr = addr, rq_Body = (case cq_Body q of None \<Rightarrow> Inl (Errorf ''EOF'') | Some j \<Rightarrow> Inr j)\<rparr>"

definition exchange ::
  "('d, 'w) http_server \<Rightarrow> string \<Rightarrow> (body list \<Rightarrow> string \<times> (go_error + json)) \<Rightarrow> string \<Rightarrow> client_request
    \<Rightarrow> 'w http_state \<times> 'd world \<Rightarrow> (go_error + client_response) \<times> 'w http_state \<times> 'd world" where
  "exchange s addr render path q n =
     (case n of (st, w) \<Rightarrow>
        (case ServeHTTP s (request_of addr q path) st w of
           None \<Rightarrow> (Inl (Errorf ''EOF''), st, w)
         | Some (p, st, w) \<Rightarrow>
             (Inr \<lparr>cr_Status = sent_status p, cr_Text = Inr (fst (render (rp_Body p))), cr_Json = snd (render (rp_Body p))\<rparr>, st, w)))"

text \<open>
  What the client relies on: a request for a URL of the server, with a path whose characters need no
  escaping, is one exchange with it, unless the server redirects; connecting to its \<^verbatim>\<open>/ws\<close> asks the server
  for an upgrade, and fails when the answer is an error.
\<close>

definition path_char :: "char \<Rightarrow> bool" where
  "path_char c \<longleftrightarrow> name_char c \<or> c = CHR ''/''"

definition reaches ::
  "('w http_state \<times> 'd world) network \<Rightarrow> string \<Rightarrow> ('d, 'w) http_server \<Rightarrow> string
    \<Rightarrow> (body list \<Rightarrow> string \<times> (go_error + json)) \<Rightarrow> bool" where
  "reaches net base s addr render \<longleftrightarrow>
     (\<forall>q path n. list_all path_char path \<and> cq_URL q = base @ path \<and>
        (\<forall>u. mux_route (routes s) (request_of addr q path) \<noteq> Redirect u) \<longrightarrow>
        NewRequest net (cq_URL q) = None \<and> Do net q n = exchange s addr render path q n)"

definition upgrade_request :: "string \<Rightarrow> http_request" where
  "upgrade_request addr =
     \<lparr>rq_Method = ''GET'', rq_Path = ''/ws'', rq_Query = [],
      rq_Header = [(''Upgrade'', ''websocket''), (''Connection'', ''Upgrade''), (''Sec-Websocket-Version'', ''13'')],
      rq_RemoteAddr = addr, rq_Body = Inl (Errorf ''EOF'')\<rparr>"

definition dials ::
  "(string \<Rightarrow> 'w http_state \<times> 'd world \<Rightarrow> go_error option \<times> 'w http_state \<times> 'd world) \<Rightarrow> string \<Rightarrow> ('d, 'w) http_server
    \<Rightarrow> string \<Rightarrow> bool" where
  "dials dial url s addr \<longleftrightarrow>
     (\<forall>st w p st' w'. ServeHTTP s (upgrade_request addr) st w = Some (p, st', w') \<and> 400 \<le> sent_status p \<longrightarrow>
        dial url (st, w) = (Some (Errorf ''websocket: bad handshake''), st', w'))"

lemma upgrade_request_methods:
  "rq_Path (upgrade_request addr) = ''/ws''" "rq_Method (upgrade_request addr) \<noteq> ''OPTIONS''"
  by (simp_all add: upgrade_request_def)

lemma foldl_longer_none: "foldl longer None (filter P ps) = None \<longleftrightarrow> filter P ps = []"
proof -
  have "foldl longer (Some b) xs \<noteq> None" for b :: "string \<times> 'a" and xs
    by (induction xs arbitrary: b) (auto simp: longer_def)
  then show ?thesis by (cases "filter P ps") (auto simp: longer_def)
qed

lemma api_no_route:
  assumes "rq_Path r = join_path (''api'' # ds)" "list_all plain_seg ds"
  shows "mux_route (routes s) r = NoRoute"
proof -
  have "list_all plain_seg (''api'' # ds)" using assms(2) by (simp add: plain_seg_def)
  then have c: "cleanPath (rq_Path r) = rq_Path r" using cleanPath_join [of "''api'' # ds"] assms(1) by simp
  have n: "map_of (routes s) (''/api'' @ x) = None" for x
    by (cases "hv_wsHandler s") (simp_all add: setups)
  have m: "filter (\<lambda>(p, h). HasSuffix p ''/'' \<and> HasPrefix (''/api'' @ x) p) (routes s) = []" for x
    by (cases "hv_wsHandler s") (simp_all add: setups HasPrefix_def HasSuffix_def suffix_to_prefix)
  obtain x where x: "rq_Path r = ''/api'' @ x" using assms(1) by simp
  then have "mux_match (routes s) (rq_Path r) = None" using n [of x] m [of x]
    by (simp only: mux_match_def option.case foldl_longer_none [symmetric] option.map)
  with c x n [of x] n [of "x @ ''/''"] show ?thesis by (simp add: mux_route_def Let_def)
qed

text \<open>A command that the server has refused, having done nothing but to log the request.\<close>

definition refused :: "result \<times> 'w http_state \<times> 'd world \<Rightarrow> 'w http_state \<Rightarrow> 'd world \<Rightarrow> bool" where
  "refused r st w \<longleftrightarrow>
     (\<exists>text out e w'. r = ((Some (Errorf (''server error (404): '' @ text)), out), st\<lparr>hs_log := hs_log st @ [e]\<rparr>, w') \<and>
        db w' = db w \<and> lg_Status e = 404)"

lemma ServeHTTP_mux:
  assumes "rq_Method r \<noteq> ''OPTIONS''" "mux_serve (routes s) False r st (snd (time_now w)) = Some (q, st1, w1)"
  shows "\<exists>d. ServeHTTP s r st w = Some (over_header cors_header q, st1\<lparr>hs_log := hs_log st1 @
    [entry_of r (over_header cors_header q) d]\<rparr>, snd (time_now w1))"
  using assms
  by (simp add: ServeHTTP_def GetHandler_def setupRoutes_def withMiddleware_def withLogging_def withRateLimit_def
      withCORS_def entry_of_def Let_def time_now_def) (metis over_header_def)

lemma no_route_exchange:
  assumes "reaches net base s addr render" "list_all plain_seg ds" "list_all (list_all name_char) ds" "cq_Method q \<noteq> ''OPTIONS''"
    "cq_URL q = base @ join_path (''api'' # ds)"
  obtains x e w' msg where "NewRequest net (cq_URL q) = None"
    "Do net q (st, w) = (Inr x, st\<lparr>hs_log := hs_log st @ [e]\<rparr>, w')" "cr_Status x = 404" "cr_Text x = Inr msg"
    "db w' = db w" "lg_Status e = 404"
proof -
  let ?path = "join_path (''api'' # ds)" and ?q = "http_Error ''404 page not found'' 404"
  let ?r = "request_of addr q ?path"
  have route: "mux_route (routes s) ?r = NoRoute" by (rule api_no_route [OF _ assms(2)]) (simp add: request_of_def)
  moreover have "list_all path_char (join_path ds)" using assms(3)
    by (induction ds) (auto simp: path_char_def list_all_iff)
  then have "list_all path_char ?path" by (simp add: path_char_def name_char_def)
  ultimately have "NewRequest net (cq_URL q) = None \<and> Do net q (st, w) = exchange s addr render ?path q (st, w)"
    using assms(1,5) unfolding reaches_def by (metis route.distinct(3))
  moreover have "rq_Method ?r \<noteq> ''OPTIONS''" using assms(4) by (simp add: request_of_def)
  then have "\<exists>d. ServeHTTP s ?r st w = Some (over_header cors_header ?q, st\<lparr>hs_log := hs_log st @
      [entry_of ?r (over_header cors_header ?q) d]\<rparr>, snd (time_now (snd (time_now w))))"
    by (rule ServeHTTP_mux) (simp only: mux_serve_def route route.case reply_def)
  moreover have "sent_status (over_header cors_header ?q) = 404" "logged_status (over_header cors_header ?q) = 404"
    by (simp_all add: sent_status_def logged_status_def over_header_def http_Error_def)
  ultimately show thesis by (auto simp: exchange_def entry_of_def intro: that)
qed

lemma refusedI:
  assumes "db w' = db w" "lg_Status e = 404" "cr_Status x = 404"
  shows "refused (server_error x msg out, st\<lparr>hs_log := hs_log st @ [e]\<rparr>, w') st w"
proof -
  have "itoa 404 = ''404''" by code_simp
  then have "server_error x msg out = (Some (Errorf (''server error (404): '' @ msg)), out)"
    by (simp add: server_error_def fail_def assms(3))
  with assms(1,2) show ?thesis unfolding refused_def by blast
qed

lemma command_refused:
  assumes "reaches net base s addr render" "list_all plain_seg ds" "list_all (list_all name_char) ds" "cq_Method q \<noteq> ''OPTIONS''"
    "cq_URL q = base @ join_path (''api'' # ds)"
    and "\<And>x n msg. cr_Status x = 404 \<Longrightarrow> cr_Text x = Inr msg \<Longrightarrow> NewRequest net (cq_URL q) = None \<Longrightarrow>
      Do net q (st, w) = (Inr x, n) \<Longrightarrow> \<exists>out. c = (server_error x msg out, n)"
  shows "refused c st w"
proof -
  obtain x e w' msg where x: "NewRequest net (cq_URL q) = None"
    "Do net q (st, w) = (Inr x, st\<lparr>hs_log := hs_log st @ [e]\<rparr>, w')" "cr_Status x = 404" "cr_Text x = Inr msg"
    "db w' = db w" "lg_Status e = 404"
    by (rule no_route_exchange [OF assms(1-5)])
  from assms(6) [OF x(3,4,1,2)] x(3,5,6) show ?thesis by (auto intro: refusedI)
qed

lemma commands_refused:
  assumes "reaches net base s addr render"
  shows "refused (publishMessage net base pq v (st, w)) st w" "refused (listTopics net base v (st, w)) st w"
    "refused (createTopic net base cq v (st, w)) st w"
    "plain_seg n \<Longrightarrow> list_all name_char n \<Longrightarrow> refused (deleteTopic net base n v (st, w)) st w"
    "plain_seg n \<Longrightarrow> list_all name_char n \<Longrightarrow> refused (getTopicStats net base n v (st, w)) st w"
proof -
  have plain: "list_all plain_seg [''v1'', ''publish'']" "list_all plain_seg [''v1'', ''topics'']"
    "plain_seg n \<Longrightarrow> list_all plain_seg [''v1'', ''topics'', n]" "plain_seg n \<Longrightarrow> list_all plain_seg [''v1'', ''topics'', n, ''stats'']"
    by (simp_all add: plain_seg_def)
  have names: "list_all (list_all name_char) [''v1'', ''publish'']" "list_all (list_all name_char) [''v1'', ''topics'']"
    "list_all name_char n \<Longrightarrow> list_all (list_all name_char) [''v1'', ''topics'', n]"
    "list_all name_char n \<Longrightarrow> list_all (list_all name_char) [''v1'', ''topics'', n, ''stats'']"
    by (simp_all add: name_char_def)
  show "refused (publishMessage net base pq v (st, w)) st w"
    by (rule command_refused [OF assms plain(1) names(1), of "\<lparr>cq_Method = ''POST'', cq_URL = base @ ''/api/v1/publish'',
          cq_ContentType = ''application/json'', cq_Body = Some (cli_publish_json pq)\<rparr>"])
      (simp_all add: publishMessage_def and_read_def, (rule exI, rule refl)?)
  show "refused (listTopics net base v (st, w)) st w"
    by (rule command_refused [OF assms plain(2) names(2), of "simple_get ''GET'' (base @ ''/api/v1/topics'')"])
      (simp_all add: listTopics_def simple_get_def and_read_def, (rule exI, rule refl)?)
  show "refused (createTopic net base cq v (st, w)) st w"
    by (rule command_refused [OF assms plain(2) names(2), of "\<lparr>cq_Method = ''POST'', cq_URL = base @ ''/api/v1/topics'',
          cq_ContentType = ''application/json'', cq_Body = Some (cli_create_json cq)\<rparr>"])
      (simp_all add: createTopic_def and_read_def, (rule exI, rule refl)?)
  show "plain_seg n \<Longrightarrow> list_all name_char n \<Longrightarrow> refused (deleteTopic net base n v (st, w)) st w"
    by (rule command_refused [OF assms plain(3) names(3), of "simple_get ''DELETE'' (base @ ''/api/v1/topics/'' @ n)"])
      (simp_all add: deleteTopic_def simple_get_def and_read_def, (rule exI, rule refl)?)
  show "plain_seg n \<Longrightarrow> list_all name_char n \<Longrightarrow> refused (getTopicStats net base n v (st, w)) st w"
    by (rule command_refused [OF assms plain(4) names(4), of "simple_get ''GET'' (base @ ''/api/v1/topics/'' @ n @ ''/stats'')"])
      (simp_all add: getTopicStats_def simple_get_def and_read_def, (rule exI, rule refl)?)
qed

section \<open>Properties\<close>

text \<open>
  A header of the client is accepted exactly when it has the form \<open>key=value\<close> with both parts not
  empty; it is split at its first equals sign, so that the value may hold more of them.
\<close>

theorem header_is_split_at_first_sign:
  "parseHeader h m = Inr m' \<longleftrightarrow>
     (\<exists>k v. h = k @ CHR ''='' # v \<and> CHR ''='' \<notin> set k \<and> k \<noteq> [] \<and> v \<noteq> [] \<and> m' = mput k v m)"
proof (cases "CHR ''='' \<in> set h")
  case True
  then obtain k v where h: "h = k @ CHR ''='' # v" "CHR ''='' \<notin> set k" by (metis split_list_first)
  with parseHeader_forms(1) [OF h(2), of v m]
  have "parseHeader h m = Inr m' \<longleftrightarrow> k \<noteq> [] \<and> v \<noteq> [] \<and> m' = mput k v m" by auto
  then show ?thesis unfolding h(1) using first_sign_unique h(2) by blast
next
  case False
  with parseHeader_forms(2) [OF False] show ?thesis by auto
qed

text \<open>
  C31. None of the client's commands gets through to the server: its HTTP commands ask for paths under
  \<^verbatim>\<open>/api/v1\<close>, which the server does not have, and are refused with 404 while nothing changes but the access
  log; its \<^verbatim>\<open>subscribe\<close> can not connect, as the upgrade fails.
\<close>

theorem client_never_gets_through:
  assumes "reaches net base s addr render"
    and "hv_wsHandler s = Some (HandleWebSocket x)" "needs_hijacker (sv_upgrade x)" "dials dial (ws_url scheme host) s addr"
    and "pf_topic pf \<noteq> ''''" "pf_message pf \<noteq> ''''" "parse_headers (pf_headers pf) [] = Inr hs" "plain_seg n" "list_all name_char n"
  shows "refused (publish_command net base v pf (st, w)) st w \<and> refused (listTopics net base v (st, w)) st w \<and>
    refused (create_topic_command net base v n parts repl ret msize (st, w)) st w \<and>
    refused (delete_topic_command net base v n (st, w)) st w \<and> refused (topic_stats_command net base v n (st, w)) st w \<and>
    (\<exists>e out st' w'. subscribe_command dial wr events (Inr (scheme, host)) n g flt noAck v (st, w) cw =
       ((Some (Some e), out, cw), st', w') \<and> db w' = db w)"
proof -
  have n: "n \<noteq> ''''" using assms(8) by (simp add: plain_seg_def)
  from never_opens [OF assms(3,2) upgrade_request_methods [of addr], of st w] obtain p e w' where up:
    "ServeHTTP s (upgrade_request addr) st w = Some (p, st\<lparr>hs_log := hs_log st @ [e]\<rparr>, w')" "400 \<le> sent_status p" "db w' = db w"
    by blast
  then have "dial (ws_url scheme host) (st, w) = (Some (Errorf ''websocket: bad handshake''), st\<lparr>hs_log := hs_log st @ [e]\<rparr>, w')"
    using assms(4) unfolding dials_def by blast
  with up(3) n have "\<exists>e out st' w'. subscribe_command dial wr events (Inr (scheme, host)) n g flt noAck v (st, w) cw =
      ((Some (Some e), out, cw), st', w') \<and> db w' = db w"
    by (simp add: subscribe_command_def subscribeToTopic_def Let_def)
  moreover have "refused (publish_command net base v pf (st, w)) st w"
    using assms(5-7) commands_refused(1) [OF assms(1)] by (simp add: publish_command_def)
  ultimately show ?thesis
    using n commands_refused [OF assms(1)] assms(8,9)
    by (simp add: create_topic_command_def delete_topic_command_def topic_stats_command_def)
qed

definition example_network ::
  "('d, 'w) http_server \<Rightarrow> ('w http_state \<times> 'd world) network" where
  "example_network s = \<lparr>NewRequest = \<lambda>_. None,
     Do = \<lambda>q. exchange s ''10.0.0.1:9'' (\<lambda>_. ('''', Inl (Errorf ''no JSON''))) (drop 21 (cq_URL q)) q\<rparr>"

definition example_dial ::
  "('d, 'w) http_server \<Rightarrow> string \<Rightarrow> 'w http_state \<times> 'd world \<Rightarrow> go_error option \<times> 'w http_state \<times> 'd world" where
  "example_dial s url n =
     (case ServeHTTP s (upgrade_request ''10.0.0.1:9'') (fst n) (snd n) of
        None \<Rightarrow> (Some (Errorf ''EOF''), n)
      | Some (p, st, w) \<Rightarrow> (if 400 \<le> sent_status p then Some (Errorf ''websocket: bad handshake'') else None, st, w))"

lemma example_network_reaches:
  "reaches (example_network s) ''http://localhost:8080'' s ''10.0.0.1:9'' (\<lambda>_. ('''', Inl (Errorf ''no JSON'')))"
  "dials (example_dial s) url s ''10.0.0.1:9''"
  by (auto simp: reaches_def dials_def example_network_def example_dial_def)

theorem client_never_gets_through_witness:
  "refused (publish_command (example_network example_app) ''http://localhost:8080'' False
     (publish_defaults\<lparr>pf_topic := ''o'', pf_message := ''hi'', pf_headers := [''a=b'']\<rparr>) (ws_http_state, mem_world)) ws_http_state mem_world"
proof -
  let ?f = "publish_defaults\<lparr>pf_topic := ''o'', pf_message := ''hi'', pf_headers := [''a=b'']\<rparr>"
  have "parse_headers (pf_headers ?f) [] = Inr [(''a'', ''b'')]"
    by (simp add: parseHeader_def)
  moreover have "plain_seg ''o''" "list_all name_char ''o''" by (simp_all add: plain_seg_def name_char_def)
  moreover have "pf_topic ?f \<noteq> ''''" "pf_message ?f \<noteq> ''''" by simp_all
  ultimately show ?thesis
    using client_never_gets_through [OF example_network_reaches(1) example_app(1,2) example_network_reaches(2), of ?f _ "''o''"]
    by blast
qed

text \<open>
  C32. An interruption does not end the subscriber: however often it is interrupted, it goes on waiting; it
  ends with the next document that arrives, which it still handles.
\<close>

theorem interrupt_waits_for_a_document:
  assumes "list_all (\<lambda>e. e = Interrupted) es"
  shows "fst (cli_receive wr noAck v c es out w) = None \<and>
    (es \<noteq> [] \<and> decode_struct False cli_message_setters j zero_cli_message = Some m \<longrightarrow>
       fst (cli_receive wr noAck v c (es @ Received j i # es') out w) = Some None)"
proof -
  have "fst (cli_receive wr noAck v True (es @ Received j i # es') out w) = Some None"
    if "decode_struct False cli_message_setters j zero_cli_message = Some m" "list_all (\<lambda>e. e = Interrupted) es" for es out
    using that by (induction es arbitrary: out) (auto simp: Let_def split: prod.split)
  moreover have "fst (cli_receive wr noAck v c es out w) = None"
    using assms by (induction es arbitrary: out c) auto
  ultimately show ?thesis using assms by (cases es) auto
qed

theorem interrupt_waits_for_a_document_witness:
  "fst (cli_receive (\<lambda>j w. (None, w)) True False False [Interrupted, Interrupted] [] mem_world) = None \<and>
   fst (cli_receive (\<lambda>j w. (None, w)) True False False
     [Interrupted, Interrupted, Received (JObj [(''type'', JStr ''pong'')]) False, Received JNull False] [] mem_world) = Some None"
proof -
  have "list_all (\<lambda>e. e = Interrupted) [Interrupted, Interrupted]" by simp
  moreover have "decode_struct False cli_message_setters (JObj [(''type'', JStr ''pong'')]) zero_cli_message =
      Some (zero_cli_message\<lparr>km_Type := ''pong''\<rparr>)"
    by (simp add: decode_struct_def struct_field_def cli_message_setters_def set_str_def)
  ultimately show ?thesis
    using interrupt_waits_for_a_document [of "[Interrupted, Interrupted]" "\<lambda>j w. (None, w)" True False False "[]" mem_world
        "JObj [(''type'', JStr ''pong'')]" "zero_cli_message\<lparr>km_Type := ''pong''\<rparr>" False "[Received JNull False]"]
    by simp
qed

end
