(* ===== verification/Keeping.thy ===== *)
theory Keeping
  imports HttpSpec RedisTopics RedisSubscriptions
begin

text \<open>
  A property of the database that every operation of the repositories keeps is kept by every call of
  the services that the HTTP server makes. The interface is the locale \<open>keeping\<close>; on the Redis adapters
  it holds for every property that each of their commands keeps.
\<close>

lemma createMessage_db: "createMessage s q t w = Some x \<Longrightarrow> db (snd x) = db w"
  by (cases x) (simp add: createMessage_facts(5))

lemma batch_loop_db: "batch_loop s n t i mbs b w = Some x \<Longrightarrow> db (snd x) = db w"
  by (cases x) (simp add: batch_loop_facts)

lemma health_checks_db: "db (snd (health_checks t info w)) = db w"
  by (simp add: health_checks_def checkTopicActivity_def Let_def case_prod_beta split: option.split)

text \<open>The repositories that the services of a server work on.\<close>

definition runs_on ::
  "('d, 'w) http_server \<Rightarrow> 'd message_repository \<Rightarrow> 'd topic_repository \<Rightarrow> 'd subscription_repository
    \<Rightarrow> 'd consumer_repository \<Rightarrow> bool" where
  "runs_on s mr tr sr cr \<longleftrightarrow>
     ps_messageRepo (hv_publisher s) = mr \<and> ps_topicRepo (hv_publisher s) = tr \<and>
     sb_messageRepo (hv_subscriber s) = mr \<and> sb_topicRepo (hv_subscriber s) = tr \<and>
     sb_subscriptionRepo (hv_subscriber s) = sr \<and> sb_consumerRepo (hv_subscriber s) = cr \<and>
     tm_topicRepo (hv_topics s) = tr"

text \<open>Handlers that keep a property of the database.\<close>

definition handler_keeps :: "('d \<Rightarrow> bool) \<Rightarrow> ('d, 'w) http_handler \<Rightarrow> bool" where
  "handler_keeps P h \<longleftrightarrow> (\<forall>r st w p st' w'. P (db w) \<longrightarrow> h r st w = Some (p, st', w') \<longrightarrow> P (db w'))"

lemma handler_keepsI:
  "(\<And>r st w p st' w'. P (db w) \<Longrightarrow> h r st w = Some (p, st', w') \<Longrightarrow> P (db w')) \<Longrightarrow> handler_keeps P h"
  unfolding handler_keeps_def by blast

lemma health_keeps: "handler_keeps P healthHandler" "handler_keeps P metricsHandler"
  by (rule handler_keepsI, simp add: healthHandler_def metricsHandler_def time_now_def Let_def split: if_splits;
      force)+

lemma mux_serve_keeps:
  assumes "mux_serve (routes s) hijacker r st w = Some (p, st', w')" "rq_Path r \<noteq> ''/ws''"
    and "\<And>k h. (k, h) \<in> set (api_routes s) \<Longrightarrow> handler_keeps P (h hijacker)" "P (db w)"
  shows "P (db w')"
proof (cases "mux_route (routes s) r")
  case (Serve h)
  then have "mux_match (routes s) (rq_Path r) = Some h" by (rule mux_route_Serve [THEN conjunct2])
  then obtain q where q: "(q, h) \<in> set (routes s)" "q = rq_Path r \<or> HasSuffix q ''/'' \<and> HasPrefix (rq_Path r) q"
    by (rule mux_match_in) blast
  then have "q \<noteq> ''/ws''" using assms(2) not_ws_subtree by metis
  with q(1) have "handler_keeps P (h hijacker)" using assms(3) routes_api by blast
  moreover have "h hijacker r st w = Some (p, st', w')" using assms(1) Serve by (simp add: mux_serve_def)
  ultimately show ?thesis using assms(4) unfolding handler_keeps_def by blast
next
  case (Redirect url)
  with assms(1,4) show ?thesis by (simp add: mux_serve_def)
next
  case NoRoute
  with assms(1,4) show ?thesis by (simp add: mux_serve_def)
qed

section \<open>The interface\<close>

locale keeping =
  fixes P :: "'d \<Rightarrow> bool" and mr :: "'d message_repository" and tr :: "'d topic_repository"
    and sr :: "'d subscription_repository" and cr :: "'d consumer_repository"
  assumes store: "P (db w) \<Longrightarrow> P (db (snd (MR_Store mr m w)))"
    and store_batch: "P (db w) \<Longrightarrow> P (db (snd (MR_StoreBatch mr ms w)))"
    and acknowledge: "P (db w) \<Longrightarrow> P (db (snd (MR_Acknowledge mr a w)))"
    and for_group: "P (db w) \<Longrightarrow> MR_GetForConsumerGroup mr t g n w = Some x \<Longrightarrow> P (db (snd x))"
    and topic_create: "P (db w) \<Longrightarrow> P (db (snd (TR_Create tr t' w)))"
    and topic_get: "P (db w) \<Longrightarrow> P (db (snd (TR_Get tr t w)))"
    and topic_update: "P (db w) \<Longrightarrow> P (db (snd (snd (TR_Update tr t' w))))"
    and topic_delete: "P (db w) \<Longrightarrow> P (db (snd (TR_Delete tr t w)))"
    and topic_list: "P (db w) \<Longrightarrow> TR_List tr i j w = Some y \<Longrightarrow> P (db (snd y))"
    and topic_exists: "P (db w) \<Longrightarrow> P (db (snd (TR_Exists tr t w)))"
    and sub_create: "P (db w) \<Longrightarrow> P (db (snd (SR_Create sr s w)))"
    and sub_get: "P (db w) \<Longrightarrow> P (db (snd (SR_Get sr t w)))"
    and sub_update: "P (db w) \<Longrightarrow> P (db (snd (snd (SR_Update sr s w))))"
    and group_create: "P (db w) \<Longrightarrow> P (db (snd (CR_CreateGroup cr g' w)))"
    and group_get: "P (db w) \<Longrightarrow> P (db (snd (CR_GetGroup cr t w)))"
    and consumer_add: "P (db w) \<Longrightarrow> P (db (snd (CR_AddConsumer cr t c w)))"
    and consumer_remove: "P (db w) \<Longrightarrow> P (db (snd (CR_RemoveConsumer cr t g w)))"
begin

lemmas repos = store store_batch acknowledge topic_create topic_get topic_update topic_delete
  topic_exists sub_create sub_get sub_update group_create group_get consumer_add consumer_remove

lemmas flat = Let_def case_prod_beta

text \<open>The publisher.\<close>

lemma keep_pub_create:
  assumes [simp]: "ps_topicRepo s = tr" and "P (db w)"
  shows "P (db (snd (publisher_CreateTopic s q w)))"
  using assms(2) by (simp add: publisher_CreateTopic_def NewTopic_def flat repos split: sum.split bool.split option.split)

lemma keep_ensure:
  assumes [simp]: "ps_topicRepo s = tr" and "P (db w)"
  shows "P (db (snd (ensureTopicExists s n w)))"
  using assms(2)
  by (simp add: ensureTopicExists_def flat repos keep_pub_create split: sum.split bool.split option.split)

lemma keep_publish:
  assumes [simp]: "ps_topicRepo s = tr" "ps_messageRepo s = mr" and "P (db w)" "Publish s q w = Some x"
  shows "P (db (snd x))"
  using assms(3,4) keep_ensure [of s w "pr_Topic q"]
  by (auto simp: Publish_def IncrementMessages_def flat repos split: option.splits sum.splits
      dest!: createMessage_db)

lemma keep_batch:
  assumes [simp]: "ps_topicRepo s = tr" "ps_messageRepo s = mr" and "P (db w)" "PublishBatch s q w = Some x"
  shows "P (db (snd x))"
  using assms(3,4) keep_ensure [of s w "br_Topic q"]
  by (auto simp: PublishBatch_def IncrementMessages_def flat repos split: option.splits sum.splits if_splits
      dest!: batch_loop_db)

text \<open>The subscriber.\<close>

lemma keep_subscribe:
  assumes [simp]: "sb_topicRepo s = tr" "sb_subscriptionRepo s = sr" and "P (db w)"
  shows "P (db (snd (snd (Subscribe s q st w))))"
  using assms(3)
  by (simp add: Subscribe_def NewSubscription_def flat repos split: sum.split bool.split option.split)

lemma keep_unsubscribe:
  assumes [simp]: "sb_subscriptionRepo s = sr" and "P (db w)"
  shows "P (db (snd (snd (Unsubscribe s i st w))))"
  using assms(2) by (simp add: Unsubscribe_def Deactivate_def flat repos split: option.split)

lemma keep_get_subscription:
  assumes [simp]: "sb_subscriptionRepo s = sr" and "P (db w)"
  shows "P (db (snd (GetSubscription s i st w)))"
  using assms(2) by (simp add: GetSubscription_def flat repos split: option.split sum.split)

lemma keep_in_group:
  assumes [simp]: "sb_consumerRepo s = cr" and "P (db w)"
  shows "P (db (snd (ensureConsumerInGroup s t g c w)))"
  using assms(2)
  by (simp add: ensureConsumerInGroup_def NewConsumerGroup_def flat repos split: option.split sum.split)

lemma keep_assign: "P (db w) \<Longrightarrow> P (db (snd (assign_messages q g now ms w)))"
  by (induction ms arbitrary: w) (simp_all add: IsExpired_def flat split: option.split)

lemma keep_heartbeat: "P (db w) \<Longrightarrow> P (db (snd (updateConsumerHeartbeat g c st w)))"
  by (simp add: updateConsumerHeartbeat_def flat split: option.split)

lemma keep_group_pull:
  assumes [simp]: "sb_consumerRepo s = cr" "sb_messageRepo s = mr" and "P (db w)"
    "PullWithConsumerGroup s q st w = Some x"
  shows "P (db (snd (snd x)))"
  using assms(3,4) keep_in_group [of s w "gq_Topic q" "gq_ConsumerGroup q" "gq_ConsumerID q"]
  by (auto simp: PullWithConsumerGroup_def flat repos keep_assign keep_heartbeat
      split: option.splits sum.splits dest: for_group)

lemma keep_join:
  assumes [simp]: "sb_consumerRepo s = cr" and "P (db w)"
  shows "P (db (snd (snd (JoinConsumerGroup s q st w))))"
  using assms(2) by (simp add: JoinConsumerGroup_def flat keep_in_group split: option.split sum.split)

lemma keep_leave:
  assumes [simp]: "sb_consumerRepo s = cr" and "P (db w)"
  shows "P (db (snd (LeaveConsumerGroup s g c st w)))"
  using assms(2) by (simp add: LeaveConsumerGroup_def flat repos split: option.split)

lemma keep_acks:
  assumes [simp]: "sb_messageRepo s = mr" and "P (db w)"
  shows "P (db (snd (snd (subscriber_Acknowledge s q st w))))" "P (db (snd (snd (NegativeAcknowledge s n st w))))"
  using assms(2)
  by (simp_all add: subscriber_Acknowledge_def NegativeAcknowledge_def flat repos split: option.split)

text \<open>The topic service.\<close>

lemma keep_stats:
  assumes [simp]: "tm_topicRepo s = tr" and "P (db w)"
  shows "P (db (snd (snd (manager_GetTopicStats s n st w))))"
  using assms(2)
  by (simp add: manager_GetTopicStats_def GetCachedStats_def CollectTopicStats_def flat repos split: option.split sum.split)

lemma keep_health:
  assumes [simp]: "tm_topicRepo s = tr" and "P (db w)"
  shows "P (db (snd (snd (GetTopicHealth s n st w))))"
  using assms(2)
  by (simp add: GetTopicHealth_def GetCachedHealth_def CollectTopicHealth_def flat repos health_checks_db split: option.split sum.split)

lemma keep_get_topic:
  assumes [simp]: "tm_topicRepo s = tr" and "P (db w)"
  shows "P (db (snd (snd (GetTopic s n st w))))"
  using assms(2) by (simp add: GetTopic_def flat repos keep_stats keep_health split: option.split sum.split)

lemma keep_update_topic:
  assumes [simp]: "tm_topicRepo s = tr" and "P (db w)"
  shows "P (db (snd (snd (UpdateTopic s n q st w))))"
  using assms(2)
  by (simp add: UpdateTopic_def updateActiveTopics_def flat repos keep_get_topic split: option.split sum.split)

lemma keep_delete_topic:
  assumes [simp]: "tm_topicRepo s = tr" and "P (db w)"
  shows "P (db (snd (snd (manager_DeleteTopic s n st w))))"
  using assms(2) by (simp add: manager_DeleteTopic_def flat repos split: option.split sum.split bool.split)

lemma keep_create_topic:
  assumes [simp]: "tm_topicRepo s = tr" and "P (db w)" "manager_CreateTopic s q st w = Some x"
  shows "P (db (snd (snd x)))"
  using assms(2,3)
  by (auto simp: manager_CreateTopic_def topic_of_request_def NewTopic_def InitializePartitions_def
      addToActiveTopics_def flat repos split: option.splits sum.splits bool.splits if_splits)

lemma keep_list_topics:
  assumes [simp]: "tm_topicRepo s = tr" and "P (db w)" "manager_ListTopics s q w = Some x"
  shows "P (db (snd x))"
  using assms(2,3)
  by (auto simp: manager_ListTopics_def flat split: option.splits sum.splits dest: topic_list)

lemma keep_rebalance:
  assumes "P (db w)" "manager_RebalancePartitions cs0 cs order n st w = Some x"
  shows "P (db (snd (snd x)))"
  using assms
  by (auto simp: manager_RebalancePartitions_def RebalancePartitions_def flat split: option.splits if_splits)

text \<open>The handlers.\<close>

lemma server_calls:
  assumes "runs_on s mr tr sr cr" "P (db w)"
  shows "Publish (hv_publisher s) pq w = Some p \<Longrightarrow> P (db (snd p))"
    "PublishBatch (hv_publisher s) bq w = Some b \<Longrightarrow> P (db (snd b))"
    "PullWithConsumerGroup (hv_subscriber s) gq st w = Some g \<Longrightarrow> P (db (snd (snd g)))"
    "manager_CreateTopic (hv_topics s) cq ts w = Some x \<Longrightarrow> P (db (snd (snd x)))"
    "manager_ListTopics (hv_topics s) lq w = Some l \<Longrightarrow> P (db (snd l))"
    "manager_RebalancePartitions cs0 cs order i ts w = Some z \<Longrightarrow> P (db (snd (snd z)))"
proof -
  have b: "ps_messageRepo (hv_publisher s) = mr" "ps_topicRepo (hv_publisher s) = tr"
    "sb_messageRepo (hv_subscriber s) = mr" "sb_consumerRepo (hv_subscriber s) = cr"
    "tm_topicRepo (hv_topics s) = tr" using assms(1) by (simp_all add: runs_on_def)
  show "Publish (hv_publisher s) pq w = Some p \<Longrightarrow> P (db (snd p))"
    "PublishBatch (hv_publisher s) bq w = Some b \<Longrightarrow> P (db (snd b))"
    "PullWithConsumerGroup (hv_subscriber s) gq st w = Some g \<Longrightarrow> P (db (snd (snd g)))"
    "manager_CreateTopic (hv_topics s) cq ts w = Some x \<Longrightarrow> P (db (snd (snd x)))"
    "manager_ListTopics (hv_topics s) lq w = Some l \<Longrightarrow> P (db (snd l))"
    "manager_RebalancePartitions cs0 cs order i ts w = Some z \<Longrightarrow> P (db (snd (snd z)))"
    by (rule keep_publish [OF b(2,1) assms(2)] keep_batch [OF b(2,1) assms(2)] keep_group_pull [OF b(4,3) assms(2)]
        keep_create_topic [OF b(5) assms(2)] keep_list_topics [OF b(5) assms(2)] keep_rebalance [OF assms(2)]; assumption)+
qed

lemma plain_calls:
  assumes "runs_on s mr tr sr cr" "P (db w)"
  shows "P (db (snd (snd (Subscribe (hv_subscriber s) q st w))))"
    "P (db (snd (snd (Unsubscribe (hv_subscriber s) i st w))))"
    "P (db (snd (GetSubscription (hv_subscriber s) i st w)))"
    "P (db (snd (snd (JoinConsumerGroup (hv_subscriber s) jq st w))))"
    "P (db (snd (LeaveConsumerGroup (hv_subscriber s) i c st w)))"
    "P (db (snd (snd (subscriber_Acknowledge (hv_subscriber s) aq st w))))"
    "P (db (snd (snd (NegativeAcknowledge (hv_subscriber s) nq st w))))"
    "P (db (snd (snd (GetTopic (hv_topics s) i ts w))))"
    "P (db (snd (snd (UpdateTopic (hv_topics s) i uq ts w))))"
    "P (db (snd (snd (manager_DeleteTopic (hv_topics s) i ts w))))"
    "P (db (snd (snd (manager_GetTopicStats (hv_topics s) i ts w))))"
    "P (db (snd (snd (GetTopicHealth (hv_topics s) i ts w))))"
  using assms unfolding runs_on_def
  by (simp_all add: keep_subscribe keep_unsubscribe keep_get_subscription keep_join keep_leave keep_acks
      keep_get_topic keep_update_topic keep_delete_topic keep_stats keep_health)

lemma publisher_keeps:
  assumes "runs_on s mr tr sr cr" "P (db w)" "handlePublisherRoutes s r st w = Some (p, st', w')"
  shows "P (db w')"
  using assms(3) server_calls(1,2) [OF assms(1,2)] assms(2)
  by (auto simp: handlePublisherRoutes_def handlePublish_def handleBatchPublish_def flat reply_def
      split: option.splits sum.splits if_splits)

lemma subscriptions_keep:
  assumes "runs_on s mr tr sr cr" "P (db w)"
  shows "handleSubscriptionListOrCreate s r st w = Some (p, st', w') \<Longrightarrow> P (db w')"
    "handleSubscriptionOperations s r st w = Some (p, st', w') \<Longrightarrow> P (db w')"
  using plain_calls(1-3) [OF assms(1,2)] assms(2)
  by (auto simp: handleSubscriptionListOrCreate_def handleCreateSubscription_def handleSubscriptionOperations_def
      handleGetSubscription_def handleDeleteSubscription_def flat reply_def split: option.splits sum.splits if_splits)

lemma groups_keep:
  assumes "runs_on s mr tr sr cr" "P (db w)" "handleConsumerGroupOperations s r st w = Some (p, st', w')"
  shows "P (db w')"
  using assms(3) server_calls(3) [OF assms(1,2)] plain_calls(4,5) [OF assms(1,2)] assms(2)
  by (auto simp: handleConsumerGroupOperations_def handleConsumerGroupPull_def handleJoinConsumerGroup_def
      handleLeaveConsumerGroup_def convertPullResponse_def flat reply_def split: option.splits sum.splits if_splits)

lemma acks_keep:
  assumes "runs_on s mr tr sr cr" "P (db w)" "handleMessageOperations s r st w = Some (p, st', w')"
  shows "P (db w')"
  using assms(3) plain_calls(6,7) [OF assms(1,2)] assms(2)
  by (auto simp: handleMessageOperations_def handleAcknowledgeMessage_def handleNegativeAcknowledgeMessage_def
      flat reply_def split: option.splits sum.splits if_splits)

lemma topics_keep:
  assumes "runs_on s mr tr sr cr" "P (db w)"
  shows "handleTopicListOrCreate s r st w = Some (p, st', w') \<Longrightarrow> P (db w')"
    "handleTopicOperations s r st w = Some (p, st', w') \<Longrightarrow> P (db w')"
  using server_calls(4-6) [OF assms(1,2)] plain_calls(8-12) [OF assms(1,2)] assms(2)
  by (auto simp: handleTopicListOrCreate_def handleCreateTopic_def handleListTopics_def handleTopicOperations_def
      handleGetTopic_def handleUpdateTopic_def handleDeleteTopic_def handleGetTopicStats_def handleGetTopicHealth_def
      handleGetPartitionInfo_def handleRebalancePartitions_def flat reply_def split: option.splits sum.splits if_splits)

lemma api_keeps:
  assumes "runs_on s mr tr sr cr" "(p, h) \<in> set (api_routes s)"
  shows "handler_keeps P (h hijacker)"
proof -
  have k: "handler_keeps P (handlePublisherRoutes s)" "handler_keeps P (handleSubscriptionListOrCreate s)"
    "handler_keeps P (handleSubscriptionOperations s)" "handler_keeps P (handleConsumerGroupOperations s)"
    "handler_keeps P (handleMessageOperations s)" "handler_keeps P (handleTopicListOrCreate s)"
    "handler_keeps P (handleTopicOperations s)"
    by (rule handler_keepsI, erule (1) publisher_keeps [OF assms(1)] subscriptions_keep [OF assms(1)]
        groups_keep [OF assms(1)] acks_keep [OF assms(1)] topics_keep [OF assms(1)])+
  have "list_all (\<lambda>(p, h). handler_keeps P (h hijacker)) (api_routes s)"
    by (simp add: api_routes_def setups health_keeps k)
  with assms(2) show ?thesis by (auto simp: list_all_iff)
qed

lemma ServeHTTP_keeps:
  assumes "runs_on s mr tr sr cr" "P (db w)" "ServeHTTP s r st w = Some (p, st', w')" "rq_Path r \<noteq> ''/ws''"
  shows "P (db w')"
  using assms(3)
proof (cases rule: ServeHTTP_cases)
  case (preflight d)
  with assms(2) show ?thesis by simp
next
  case (served w0 q st1 w1 d)
  have "P (db w0)" using served(2) assms(2) by simp
  moreover have "db w' = db w1" using served(6) by simp
  ultimately show ?thesis using mux_serve_keeps [OF served(3) assms(4)] api_keeps [OF assms(1)] by metis
qed

end

section \<open>The Redis adapters\<close>

locale exec_keeps =
  fixes exec :: "rcmd \<Rightarrow> 'd \<Rightarrow> rreply \<times> 'd" and P :: "'d \<Rightarrow> bool"
  assumes exec_keep: "P d \<Longrightarrow> P (snd (exec c d))"
begin

lemma run_keep: "P (db w) \<Longrightarrow> P (db (snd (run exec c w)))"
  by (simp add: run_def case_prod_beta exec_keep)

lemma pipeline_keep: "P (db w) \<Longrightarrow> P (db (snd (pipeline exec cs w)))"
  by (induction cs arbitrary: w) (simp_all add: Let_def case_prod_beta run_keep)

lemma checked_keep: "P (db w) \<Longrightarrow> P (db (snd (run_checked exec cs w)))"
  by (induction cs arbitrary: w) (auto simp: Let_def case_prod_beta run_keep split: option.split)

lemmas keep_flat = Let_def case_prod_beta run_keep pipeline_keep checked_keep

lemma get_keep: "P (db w) \<Longrightarrow> P (db (snd (Get exec i w)))" "P (db w) \<Longrightarrow> P (db (snd (topic_Get exec i w)))"
  "P (db w) \<Longrightarrow> P (db (snd (GetGroup exec i w)))" "P (db w) \<Longrightarrow> P (db (snd (subscription_Get exec i w)))"
  by (simp_all add: Get_def topic_Get_def GetGroup_def subscription_Get_def keep_flat split: sum.split)

lemma expire_db: "db (snd (expire_cmds m w)) = db w"
  by (simp add: expire_cmds_def Let_def case_prod_beta split: option.split)

lemma batch_db: "db (snd (batch_cmds ms w)) = db w"
  by (induction ms arbitrary: w) (simp_all add: Let_def case_prod_beta expire_db)

lemma entries_keep: "P (db w) \<Longrightarrow> P (db (snd (get_entries exec es w)))"
  by (induction es arbitrary: w) (auto simp: Let_def case_prod_beta get_keep split: option.split sum.split)

lemma topics_list_keep: "P (db w) \<Longrightarrow> P (db (snd (get_topics exec ns w)))"
  by (induction ns arbitrary: w) (simp_all add: Let_def case_prod_beta get_keep split: sum.split)

lemma del_keep: "P (db w) \<Longrightarrow> P (db (del_each exec ks w))"
  by (induction ks arbitrary: w) (simp_all add: run_keep)

lemma update_group_keep: "P (db w) \<Longrightarrow> P (db (snd (snd (UpdateGroup exec g w))))"
  by (simp add: UpdateGroup_def keep_flat)

lemma for_group_keep:
  "P (db w) \<Longrightarrow> GetForConsumerGroup exec t g n w = Some x \<Longrightarrow> P (db (snd x))"
  by (auto simp: GetForConsumerGroup_def keep_flat entries_keep split: rreply.splits)

lemma list_keep: "P (db w) \<Longrightarrow> topic_List exec i j w = Some y \<Longrightarrow> P (db (snd y))"
  by (auto simp: topic_List_def keep_flat topics_list_keep split: sum.splits if_splits)

end

sublocale exec_keeps \<subseteq> repos: keeping P "NewMessageRepository exec" "NewTopicRepository exec"
  "NewSubscriptionRepository exec" "NewConsumerGroupRepository exec"
  by unfold_locales
    (auto simp: NewMessageRepository_def NewTopicRepository_def NewSubscriptionRepository_def
      NewConsumerGroupRepository_def Store_def StoreBatch_def Acknowledge_def topic_Create_def topic_Update_def
      topic_Delete_def topic_Exists_def subscription_Create_def subscription_Update_def CreateGroup_def
      repo_AddConsumer_def repo_RemoveConsumer_def keep_flat get_keep expire_db batch_db del_keep update_group_keep
      simp del: pipeline.simps run_checked.simps dest: for_group_keep list_keep split: option.split sum.split rreply.split)

section \<open>Streams without entries\<close>

text \<open>
  No command of the program adds an entry to a stream. A consumer group, which reads the stream of
  its topic, is then never given a message.
\<close>

fun no_entry :: "rvalue \<Rightarrow> bool" where
  "no_entry (VStream es gs) \<longleftrightarrow> es = []"
| "no_entry _ \<longleftrightarrow> True"

definition no_entries :: "keyspace \<Rightarrow> bool" where
  "no_entries ks \<longleftrightarrow> (\<forall>k v t. ks k = Some (v, t) \<longrightarrow> no_entry v)"

lemma no_entriesD: "no_entries ks \<Longrightarrow> ks k = Some (v, t) \<Longrightarrow> no_entry v"
  unfolding no_entries_def by blast

lemma no_entries_upd:
  "no_entries ks \<Longrightarrow> no_entries (ks(k := None))"
  "no_entries ks \<Longrightarrow> no_entry v \<Longrightarrow> no_entries (ks(k \<mapsto> (v, t)))"
  "no_entries ks \<Longrightarrow> no_entry v \<Longrightarrow> no_entries (put_value k v ks)"
  "no_entries ks \<Longrightarrow> no_entry v \<Longrightarrow> no_entries (put_coll k z v ks)"
  by (auto simp: no_entries_def put_value_def put_coll_def)

lemma no_entries_same:
  "ks k = Some (v, t0) \<Longrightarrow> no_entries ks \<Longrightarrow> no_entries (ks(k \<mapsto> (v, t)))"
  "ks k = Some (VStream es gs0, t0) \<Longrightarrow> no_entries ks \<Longrightarrow> no_entries (put_value k (VStream es gs) ks)"
  by (simp_all add: no_entries_upd no_entriesD) (metis no_entriesD no_entries_upd(3) no_entry.simps(1))

lemma no_entries_expires: "expires ks ks' \<Longrightarrow> no_entries ks \<Longrightarrow> no_entries ks'"
  unfolding expires_def no_entries_def by (metis option.distinct(1))

lemma no_entries_step: "no_entries ks \<Longrightarrow> no_entries (snd (redis_step ks c))"
proof (induction ks c rule: redis_step.induct)
  case (3 ks keys)
  then show ?case by (auto simp: no_entries_def)
qed (auto simp: Let_def no_entries_upd no_entries_same
    split: option.splits rvalue.splits blob.splits)

lemma no_entries_ok: "redis_ok ks c r ks' \<Longrightarrow> no_entries ks \<Longrightarrow> no_entries ks'"
  using no_entries_step [of ks c] by (cases c) (auto simp: redis_ok_def dest: sym)

lemma no_entries_result: "redis_result ks c r ks' \<Longrightarrow> no_entries ks \<Longrightarrow> no_entries ks'"
  unfolding redis_result_def using no_entries_expires no_entries_ok by blast

lemma nothing_to_read:
  assumes "redis_result ks (XREADGROUP k g c n) r ks'" "no_entries ks"
  shows "r \<noteq> REntries es"
proof
  assume r: "r = REntries es"
  with assms obtain ks1 where "no_entries ks1" "redis_ok ks1 (XREADGROUP k g c n) r ks'"
    using no_entries_expires by (auto simp: redis_result_def)
  with r have "(REntries es, ks') = redis_step ks1 (XREADGROUP k g c n)" by (simp add: redis_ok_def)
  then obtain es0 gs t i where "ks1 k = Some (VStream es0 gs, t)" "\<not> length es0 \<le> i"
    by (auto simp: Let_def wrongtype_def split: option.splits rvalue.splits if_splits)
  with \<open>no_entries ks1\<close> show False by (auto dest: no_entriesD)
qed

locale silent_groups = keeping +
  assumes silent: "P (db w) \<Longrightarrow> MR_GetForConsumerGroup mr t g n w = Some (x, w') \<Longrightarrow> \<exists>e. x = Inl e"
begin

lemma no_pull:
  assumes "runs_on s mr tr sr cr" "P (db w)" "PullWithConsumerGroup (hv_subscriber s) q st w = Some (x, st', w')"
  shows "\<exists>e. x = Inl e"
proof -
  have b: "sb_messageRepo (hv_subscriber s) = mr" "sb_consumerRepo (hv_subscriber s) = cr"
    using assms(1) by (simp_all add: runs_on_def)
  obtain g w1 where g: "ensureConsumerInGroup (hv_subscriber s) (gq_Topic q) (gq_ConsumerGroup q) (gq_ConsumerID q) w = (g, w1)"
    by fastforce
  then have "P (db w1)" using keep_in_group [OF b(2) assms(2)] by (metis snd_conv)
  with assms(3) g b(1) show ?thesis
    by (auto simp: PullWithConsumerGroup_def Let_def split: option.splits sum.splits prod.splits dest!: silent)
qed

lemma group_never_pulls:
  assumes "runs_on s mr tr sr cr" "P (db w)" "handleConsumerGroupOperations s r st w = Some (p, st', w')"
    "rp_Body p = [BSuccess su]"
  shows "\<not> pulled (su_Data su)"
  using assms(3,4)
  by (auto simp: handleConsumerGroupOperations_def handleConsumerGroupPull_def plain_def Let_def split: handler_splits
      dest!: no_pull [OF assms(1,2)] group_handlers_ok(2,3) [THEN handler_okD])

end

context redis_server
begin

lemma streams_keep: "no_entries (abs d) \<Longrightarrow> no_entries (abs (snd (exec c d)))"
  using exec_result [of c d] no_entries_result by (metis prod.collapse)

lemma group_read_fails:
  assumes "no_entries (abs (db w))" "GetForConsumerGroup exec t g n w = Some (x, w')"
  shows "\<exists>e. x = Inl e"
proof -
  obtain now w1 where t: "time_now w = (now, w1)" by fastforce
  obtain r0 w2 where r0: "run exec (XGROUPCREATE (streamKey t) g) w1 = (r0, w2)" by fastforce
  obtain r w3 where r: "run exec (XREADGROUP (streamKey t) g (g @ ''-'' @ itoa now) n) w2 = (r, w3)" by fastforce
  have "no_entries (abs (db w1))" using assms(1) t by (simp add: time_now_db)
  with run_result [OF r0] have "no_entries (abs (db w2))" using no_entries_result by blast
  with run_result [OF r] have "r \<noteq> REntries es" for es by (rule nothing_to_read)
  with assms(2) t r0 r show ?thesis by (cases r) (auto simp: GetForConsumerGroup_def)
qed

end

sublocale redis_server \<subseteq> streams: exec_keeps exec "\<lambda>d. no_entries (abs d)"
  by unfold_locales (rule streams_keep)

sublocale redis_server \<subseteq> silence: silent_groups "\<lambda>d. no_entries (abs d)" "NewMessageRepository exec"
  "NewTopicRepository exec" "NewSubscriptionRepository exec" "NewConsumerGroupRepository exec"
  by unfold_locales (auto simp: NewMessageRepository_def dest: group_read_fails)

interpretation mem_keeps: exec_keeps mem_exec "\<lambda>d. no_entries (map_of d)"
  by unfold_locales (rule mem_server.streams_keep)

interpretation mem_silent: silent_groups "\<lambda>d. no_entries (map_of d)" "NewMessageRepository mem_exec"
  "NewTopicRepository mem_exec" "NewSubscriptionRepository mem_exec" "NewConsumerGroupRepository mem_exec"
  by unfold_locales (auto simp: NewMessageRepository_def dest: mem_server.group_read_fails)

end
