(* ===== verification/HttpRuns.thy ===== *)
theory HttpRuns
  imports Keeping HttpFlow
begin

text \<open>
  The HTTP server in use: runs of many requests, and what its consumer endpoints can and cannot do.
\<close>

section \<open>Properties\<close>

text \<open>
  A server in use: it starts on a database without stream entries, it answers requests, and between
  them the database may run any of the commands of the program (of background tasks, of other servers
  of the program, of requests that are never answered), while the state changes at will.
\<close>

inductive http_run ::
  "(rcmd \<Rightarrow> 'd \<Rightarrow> rreply \<times> 'd) \<Rightarrow> ('d \<Rightarrow> keyspace) \<Rightarrow> ('d, 'w) http_server \<Rightarrow> http_response list
    \<Rightarrow> 'w http_state \<Rightarrow> 'd world \<Rightarrow> bool"
  for exec ks s where
  start: "no_entries (ks (db w)) \<Longrightarrow> http_run exec ks s [] st w"
| request: "http_run exec ks s ps st w \<Longrightarrow> ServeHTTP s r st w = Some (p, st', w') \<Longrightarrow> rq_Path r \<noteq> ''/ws'' \<Longrightarrow>
    http_run exec ks s (ps @ [p]) st' w'"
| other: "http_run exec ks s ps st w \<Longrightarrow> db w' = snd (exec c (db w)) \<Longrightarrow> http_run exec ks s ps st' w'"

inductive_cases http_runE: "http_run exec ks s ps st w"

lemma group_route: "(q, h) \<in> set (api_routes s) \<Longrightarrow> route_kind q d \<Longrightarrow> pulled d \<Longrightarrow>
    q = ''/v1/consumer-groups/'' \<and> h = (\<lambda>_. handleConsumerGroupOperations s)"
  by (auto simp: api_routes_def setups route_kind_def kinds split: if_splits)

definition on_redis :: "(rcmd \<Rightarrow> 'd \<Rightarrow> rreply \<times> 'd) \<Rightarrow> ('d, 'w) http_server \<Rightarrow> bool" where
  "on_redis exec s \<longleftrightarrow> runs_on s (NewMessageRepository exec) (NewTopicRepository exec)
     (NewSubscriptionRepository exec) (NewConsumerGroupRepository exec)"

context redis_server
begin

lemma answer_never_pulls:
  assumes "on_redis exec s" "no_entries (abs (db w))" "ServeHTTP s r st w = Some (p, st', w')" "rq_Path r \<noteq> ''/ws''"
    "rp_Body p = [BSuccess su]"
  shows "\<not> pulled (su_Data su)"
proof
  assume pulled: "pulled (su_Data su)"
  from assms(3-5) obtain q h w0 p1 st1 w1 d where h: "(q, h) \<in> set (api_routes s)" "q = rq_Path r \<or> HasPrefix (rq_Path r) q"
    "w0 = snd (time_now w)" "h False r st w0 = Some (p1, st1, w1)" "rp_Body p1 = [BSuccess su]" "route_kind q (su_Data su)"
    by (rule ServeHTTP_success)
  from group_route [OF h(1,6) pulled] h(4) have "handleConsumerGroupOperations s r st w0 = Some (p1, st1, w1)" by simp
  from silence.group_never_pulls [OF assms(1) [unfolded on_redis_def] _ this h(5)] pulled assms(2) h(3)
  show False by simp
qed

lemma run_never_pulls:
  assumes "on_redis exec s" "http_run exec abs s ps st w"
  shows "no_entries (abs (db w)) \<and> (\<forall>p \<in> set ps. \<forall>su. rp_Body p = [BSuccess su] \<longrightarrow> \<not> pulled (su_Data su))"
  using assms(2)
proof (induction rule: http_run.induct)
  case (request ps st w r p st' w')
  with answer_never_pulls [OF assms(1) _ request.hyps(2,3)]
    streams.repos.ServeHTTP_keeps [OF assms(1) [unfolded on_redis_def] _ request.hyps(2,3)]
  show ?case by auto
next
  case (other ps st w w' c st')
  then show ?case using streams_keep by simp
qed simp

end

lemma example_on_redis: "on_redis mem_exec example_http"
  by (simp add: on_redis_def runs_on_def example_http_def NewServer_def example_publisher_def NewPublisher_def
      redis_subscriber_def NewSubscriber_def redis_topics_def NewTopicService_def Let_def)

text \<open>
  No consumer ever gets a message over HTTP: in every run of the server on Redis, with any requests
  outside \<^verbatim>\<open>/ws\<close> and any other commands of the program in between, no answer carries pulled messages,
  whatever was published. The only pull endpoint that is routed reads a stream that nothing fills.
\<close>

theorem http_never_delivers:
  assumes "redis_server exec ks" "on_redis exec s" "http_run exec ks s ps st w" "p \<in> set ps"
    and "rp_Body p = [BSuccess su]"
  shows "\<forall>x. su_Data su \<noteq> DPulled x"
  using redis_server.run_never_pulls [OF assms(1-3)] assms(4,5) by (auto simp: pulled_def)

theorem http_never_delivers_witness:
  "\<exists>p st' w' su. http_run mem_exec map_of example_http [p] st' w' \<and> rp_Body p = [BSuccess su] \<and> (\<forall>x. su_Data su \<noteq> DPulled x)"
proof -
  let ?r = "http_post ''/v1/publish/o'' (JObj [(''payload'', JStr ''aGk=''), (''PRIORITY'', JStr ''high'')])"
  obtain p st' w' su where p: "ServeHTTP example_http ?r http_state0 mem_world = Some (p, st', w')"
    "rp_Body p = [BSuccess su]" using example_published by blast
  have "no_entries (map_of (db mem_world))" by (simp add: no_entries_def mem_world_def)
  then have "http_run mem_exec map_of example_http [] http_state0 mem_world" by (rule http_run.start)
  from http_run.request [OF this p(1)]
  have "http_run mem_exec map_of example_http [p] st' w'" by (simp add: http_post_def)
  from http_never_delivers [OF mem_server.redis_server_axioms example_on_redis this _ p(2)] this p(2)
  show ?thesis by auto
qed

lemma join_fails:
  "\<exists>e. JoinConsumerGroup s \<lparr>jq_Topic = '''', jq_ConsumerGroup = g, jq_ConsumerID = c, jq_Metadata = m\<rparr> st w = (Inl e, st, w)"
  by (simp add: JoinConsumerGroup_def validateJoinGroupRequest_def)

lemma handleJoin_fails:
  obtains p where "handleJoinConsumerGroup s g r st w = Some (p, st, w)" "sent_status p \<in> {400, 405, 500}"
proof -
  have "\<exists>p. handleJoinConsumerGroup s g r st w = Some (p, st, w) \<and> sent_status p \<in> {400, 405, 500}"
  proof (cases "parseJSONRequest join_setters \<lparr>wj_ConsumerGroup = '''', wj_ConsumerID = '''', wj_Config = []\<rparr> r")
    case (Inr req)
    obtain e where "JoinConsumerGroup (hv_subscriber s)
        \<lparr>jq_Topic = '''', jq_ConsumerGroup = g, jq_ConsumerID = wj_ConsumerID req, jq_Metadata = wj_Config req\<rparr>
        (hs_subscriber st) w = (Inl e, hs_subscriber st, w)" using join_fails by metis
    with Inr show ?thesis
      by (simp add: handleJoinConsumerGroup_def sent_status_def method_not_allowed_def writeErrorResponse_def
          writeJSONResponse_def)
  qed (simp add: handleJoinConsumerGroup_def sent_status_def method_not_allowed_def writeErrorResponse_def
      writeJSONResponse_def)
  then show thesis using that by blast
qed

lemma plain_words [simp]: "plain_seg ''v1''" "plain_seg ''topics''" "plain_seg ''consumer-groups''" "plain_seg ''messages''"
  "plain_seg ''pull''" "plain_seg ''subscriptions''" "plain_seg ''join''" "plain_seg ''ack''"
  by (simp_all add: plain_seg_def)

lemma topic_tail_missing:
  assumes "plain_seg i" "x \<in> {''pull'', ''subscriptions''}" "rq_Path r = join_path [''v1'', ''topics'', i, x]"
  shows "handleTopicOperations s r st w = Some (endpoint_not_found, st, w)"
proof -
  have l: "list_all plain_seg [''v1'', ''topics'', i, x]" using assms by auto
  have "extractTopicFromPath (rq_Path r) = i"
    using extract_join [of "''topics''" i "[x]" "''topics''"] l by (simp add: extractTopicFromPath_def assms(3))
  moreover have "HasSuffix (rq_Path r) (CHR ''/'' # e) \<longleftrightarrow> x = e" if "CHR ''/'' \<notin> set e" for e
    using HasSuffix_join [OF l _ that] assms(3) by simp
  moreover have "rq_Path r \<noteq> ''/v1/topics/'' @ i" using assms(3) by simp
  moreover have "i \<noteq> ''''" using assms(1) by (simp add: plain_seg_def)
  ultimately show ?thesis using assms(2) by (auto simp: handleTopicOperations_def reply_def)
qed

lemma group_join_route:
  assumes "plain_seg i" "rq_Path r = join_path [''v1'', ''consumer-groups'', i, ''join'']"
  shows "handleConsumerGroupOperations s r st w = handleJoinConsumerGroup s i r st w"
proof -
  have l: "list_all plain_seg [''v1'', ''consumer-groups'', i, ''join'']" using assms by auto
  have "extractConsumerGroupFromPath (rq_Path r) = i"
    using extract_join [of "''consumer-groups''" i "[''join'']" "''consumer-groups''"] l
    by (simp add: extractConsumerGroupFromPath_def assms(2))
  moreover have "HasSuffix (rq_Path r) (CHR ''/'' # e) \<longleftrightarrow> ''join'' = e" if "CHR ''/'' \<notin> set e" for e
    using HasSuffix_join [OF l _ that] assms(2) by simp
  moreover have "i \<noteq> ''''" using assms(1) by (simp add: plain_seg_def)
  ultimately show ?thesis by (simp add: handleConsumerGroupOperations_def)
qed

lemma sent_over [simp]: "sent_status (over_header es p) = sent_status p"
  by (simp add: sent_status_def over_header_def)

text \<open>
  C18. Endpoints that a consumer needs are not served: a pull or a list of subscriptions under a topic is
  answered with 404, and joining a consumer group, which the handler asks for without a topic, never
  succeeds; none of them changes the database or the state of the services.
\<close>

theorem consumer_endpoints_are_missing:
  assumes "plain_seg i" "rq_Method r \<noteq> ''OPTIONS''"
    and "rq_Path r \<in> {join_path [''v1'', ''topics'', i, ''pull''], join_path [''v1'', ''topics'', i, ''subscriptions''],
      join_path [''v1'', ''consumer-groups'', i, ''join'']}"
  shows "\<exists>p e w'. ServeHTTP s r st w = Some (p, st\<lparr>hs_log := hs_log st @ [e]\<rparr>, w') \<and> db w' = db w \<and>
    sent_status p \<in> {400, 404, 405, 500} \<and> (\<not> HasSuffix (rq_Path r) ''/join'' \<longrightarrow> sent_status p = 404)"
proof (cases "\<exists>x \<in> {''pull'', ''subscriptions''}. rq_Path r = join_path [''v1'', ''topics'', i, x]")
  case True
  then obtain x where x: "x \<in> {''pull'', ''subscriptions''}" "rq_Path r = join_path (''v1'' # ''topics'' # [i, x])" by blast
  moreover have "list_all plain_seg (''v1'' # ''topics'' # [i, x])" using assms(1) x(1) by auto
  ultimately have "mux_route (routes s) r = Serve (\<lambda>_. handleTopicOperations s)"
    using tree_routes(4) [of r "''topics''" "[i, x]" s] by blast
  from ServeHTTP_run [OF assms(2) this topic_tail_missing [OF assms(1) x(1)]] x(2) obtain d where
    "ServeHTTP s r st w = Some (over_header cors_header endpoint_not_found, st\<lparr>hs_log := hs_log st @
      [entry_of r (over_header cors_header endpoint_not_found) d]\<rparr>, snd (time_now (snd (time_now w))))" by auto
  then show ?thesis
    by (auto simp: sent_status_def endpoint_not_found_def writeErrorResponse_def writeJSONResponse_def over_header_def)
next
  case False
  with assms(3) have path: "rq_Path r = join_path (''v1'' # ''consumer-groups'' # [i, ''join''])" by auto
  moreover have l: "list_all plain_seg (''v1'' # ''consumer-groups'' # [i, ''join''])" using assms(1) by auto
  ultimately have route: "mux_route (routes s) r = Serve (\<lambda>_. handleConsumerGroupOperations s)"
    using tree_routes(3) [of r "''consumer-groups''" "[i, ''join'']" s] by blast
  obtain p where p: "handleJoinConsumerGroup s i r st (snd (time_now w)) = Some (p, st, snd (time_now w))"
    "sent_status p \<in> {400, 405, 500}" by (rule handleJoin_fails)
  have "handleConsumerGroupOperations s r st (snd (time_now w)) = Some (p, st, snd (time_now w))"
    by (rule trans [OF group_join_route [OF assms(1) path] p(1)])
  from ServeHTTP_run [OF assms(2) route this] obtain d where
    "ServeHTTP s r st w = Some (over_header cors_header p, st\<lparr>hs_log := hs_log st @
      [entry_of r (over_header cors_header p) d]\<rparr>, snd (time_now (snd (time_now w))))" by auto
  moreover have "HasSuffix (rq_Path r) ''/join''" using HasSuffix_join [OF l, of "''join''"] path by simp
  ultimately show ?thesis using p(2) by auto
qed

theorem consumer_endpoints_are_missing_witness:
  "\<exists>p e w'. ServeHTTP example_http (http_post ''/v1/topics/o/pull'' (JObj [])) http_state0 mem_world =
     Some (p, http_state0\<lparr>hs_log := hs_log http_state0 @ [e]\<rparr>, w') \<and> sent_status p = 404"
proof -
  have "plain_seg ''o''" "\<not> HasSuffix ''/v1/topics/o/pull'' ''/join''"
    by (simp_all add: plain_seg_def HasSuffix_def suffix_to_prefix)
  with consumer_endpoints_are_missing [of "''o''" "http_post ''/v1/topics/o/pull'' (JObj [])" example_http http_state0 mem_world]
  show ?thesis by (auto simp: http_post_def)
qed

context redis_server
begin

lemmas redis_message_store = messages.message_store_axioms

end

text \<open>What the path says decides which message an acknowledgment settles.\<close>

definition zero_ack_request :: http_ack_request where
  "zero_ack_request = \<lparr>wa_MessageID = '''', wa_ConsumerID = '''', wa_ConsumerGroup = ''''\<rparr>"

lemma ack_answer:
  assumes "handleAcknowledgeMessage s i r st w = Some (p, st', w')" "sent_status p = 200"
  obtains req ss where "rq_Method r = ''POST''" "parseJSONRequest ack_setters zero_ack_request r = Inr req"
    "validateAcknowledgeRequest req = None"
    "subscriber_Acknowledge (hv_subscriber s) \<lparr>aq_MessageID = i, aq_ConsumerID = wa_ConsumerID req,
       aq_ConsumerGroup = wa_ConsumerGroup req\<rparr> (hs_subscriber st) w = (None, ss, w')"
proof -
  have err: "sent_status (writeErrorResponse c e code) = c" for c e code
    by (simp add: sent_status_def writeErrorResponse_def writeJSONResponse_def)
  have "sent_status (error_reply cs d e) \<noteq> 200" if "\<forall>(x, c, y) \<in> set cs. c \<noteq> 200" for cs d e
    using that by (induction cs d e rule: error_reply.induct) (auto simp: err)
  with assms show thesis
    by (fastforce simp: handleAcknowledgeMessage_def zero_ack_request_def err method_not_allowed_def
        split: handler_splits intro: that)
qed

lemma ack_route:
  assumes "plain_seg i" "rq_Path r = join_path [''v1'', ''messages'', i, ''ack'']"
  shows "mux_route (routes s) r = Serve (\<lambda>_. handleMessageOperations s)"
    "handleMessageOperations s r st w = handleAcknowledgeMessage s i r st w"
proof -
  have l: "list_all plain_seg (''v1'' # ''messages'' # [i, ''ack''])" using assms by auto
  show "mux_route (routes s) r = Serve (\<lambda>_. handleMessageOperations s)"
    using tree_routes(5) [OF assms(2) l] by blast
  have "extractMessageIDFromPath (rq_Path r) = i"
    using extract_join [of "''messages''" i "[''ack'']" "''messages''"] l
    by (simp add: extractMessageIDFromPath_def assms(2))
  moreover have "HasSuffix (rq_Path r) ''/ack''" using HasSuffix_join [OF l, of "''ack''"] assms(2) by simp
  moreover have "i \<noteq> ''''" using assms(1) by (simp add: plain_seg_def)
  ultimately show "handleMessageOperations s r st w = handleAcknowledgeMessage s i r st w"
    by (simp add: handleMessageOperations_def)
qed

text \<open>
  C35. Anyone can acknowledge any message over HTTP, and the path alone says which: whenever the server
  answers 200 to a request for \<^verbatim>\<open>/v1/messages/<id>/ack\<close> and a message is stored under that identifier, it
  is then stored as acknowledged. The body must name some message and some consumer, but neither has
  to be that message or the consumer that the message was delivered to.
\<close>

theorem http_ack_follows_path:
  assumes "redis_server exec ks" "sb_messageRepo (hv_subscriber s) = NewMessageRepository exec"
    and "plain_seg i" "rq_Path r = join_path [''v1'', ''messages'', i, ''ack'']" "rq_Method r \<noteq> ''OPTIONS''"
    and "ServeHTTP s r st w = Some (p, st', w')" "sent_status p = 200" "msg_at (ks (db w)) i m"
  shows "rq_Method r = ''POST'' \<and>
    (\<exists>req. parseJSONRequest ack_setters zero_ack_request r = Inr req \<and> wa_MessageID req \<noteq> '''' \<and> wa_ConsumerID req \<noteq> '''') \<and>
    (\<exists>t. msg_at (ks (db w')) i (m\<lparr>m_Status := StatusAcknowledged, m_AckedAt := Some t\<rparr>))"
  using assms(6)
proof (cases rule: ServeHTTP_cases)
  case (preflight d)
  with assms(5) show ?thesis by simp
next
  case (served w0 q st1 w1 d)
  have "handleAcknowledgeMessage s i r st w0 = Some (q, st1, w1)"
    using served(3) by (simp only: mux_serve_def ack_route [OF assms(3,4)] route.case)
  moreover have "sent_status q = 200" using assms(7) served(4) by simp
  ultimately obtain req ss where a: "rq_Method r = ''POST''" "parseJSONRequest ack_setters zero_ack_request r = Inr req"
    "validateAcknowledgeRequest req = None"
    "subscriber_Acknowledge (hv_subscriber s) \<lparr>aq_MessageID = i, aq_ConsumerID = wa_ConsumerID req,
       aq_ConsumerGroup = wa_ConsumerGroup req\<rparr> (hs_subscriber st) w0 = (None, ss, w1)"
    by (rule ack_answer)
  then obtain k w2 where k: "MR_Acknowledge (NewMessageRepository exec) k w2 = (None, w1)" "a_MessageID k = i"
    "a_Success k" "db w2 = db w0"
    using assms(2) by (auto simp: subscriber_Acknowledge_def time_now_def Let_def split: prod.splits option.splits)
  have "db w2 = db w" using k(4) served(2) by simp
  with message_store.ack_ok [OF redis_server.redis_message_store [OF assms(1)] k(1)] assms(8) k(2,3)
  have "\<exists>t. msg_at (ks (db w1)) i (m\<lparr>m_Status := StatusAcknowledged, m_AckedAt := Some t\<rparr>)" by (auto simp: acked_def)
  with a served(6) show ?thesis by (auto simp: validateAcknowledgeRequest_def split: if_splits)
qed

definition message_world :: "mem world" where
  "message_world = mem_world\<lparr>db := [(messageKey ''m'', (VStr (Doc (message_ToJSON example_message)), None))]\<rparr>"

lemma example_acknowledged:
  "\<exists>p st' w'. ServeHTTP example_http (http_post ''/v1/messages/m/ack'' (JObj [(''message_id'', JStr ''other''),
       (''consumer_id'', JStr ''thief'')])) http_state0 message_world = Some (p, st', w') \<and> sent_status p = 200"
proof -
  let ?r = "http_post ''/v1/messages/m/ack'' (JObj [(''message_id'', JStr ''other''), (''consumer_id'', JStr ''thief'')])"
  let ?q = "\<lparr>wa_MessageID = ''other'', wa_ConsumerID = ''thief'', wa_ConsumerGroup = ''''\<rparr>"
  have parse: "parseJSONRequest ack_setters zero_ack_request ?r = Inr ?q"
    by (simp add: parseJSONRequest_def HeaderGet_def http_post_def decode_struct_def struct_field_def ack_setters_def
        zero_ack_request_def set_str_def ToLower_def to_lower_char_def char_of_def bit_iff_odd)
  obtain w' where ack: "subscriber_Acknowledge (fst redis_subscriber)
      \<lparr>aq_MessageID = ''m'', aq_ConsumerID = ''thief'', aq_ConsumerGroup = ''''\<rparr> (hs_subscriber http_state0)
      (snd (time_now message_world)) = (None, hs_subscriber http_state0, w')"
    by (atomize_elim, simp add: redis_subscriber_def NewSubscriber_def NewMessageRepository_def subscriber_Acknowledge_def
        Acknowledge_def Get_def message_world_def mem_eval example_message_wf)
  have "handleMessageOperations example_http ?r http_state0 (snd (time_now message_world)) =
      Some (writeSuccessResponse DNil ''Message acknowledged successfully'', http_state0, w')"
    using ack parse
    by (subst ack_route(2) [of "''m''"]) (simp_all add: plain_seg_def http_post_def handleAcknowledgeMessage_def
        zero_ack_request_def validateAcknowledgeRequest_def example_http_def NewServer_def)
  from ServeHTTP_run [OF _ ack_route(1), OF _ _ _ this, of "''m''"] show ?thesis
    by (fastforce simp: http_post_def plain_seg_def sent_status_def over_header_def writeSuccessResponse_def writeJSONResponse_def)
qed

theorem http_ack_follows_path_witness:
  "\<exists>p st' w' m. ServeHTTP example_http (http_post ''/v1/messages/m/ack'' (JObj [(''message_id'', JStr ''other''),
       (''consumer_id'', JStr ''thief'')])) http_state0 message_world = Some (p, st', w') \<and>
     msg_at (map_of (db w')) ''m'' m \<and> m_Status m = StatusAcknowledged"
proof -
  let ?r = "http_post ''/v1/messages/m/ack'' (JObj [(''message_id'', JStr ''other''), (''consumer_id'', JStr ''thief'')])"
  obtain p st' w' where p: "ServeHTTP example_http ?r http_state0 message_world = Some (p, st', w')" "sent_status p = 200"
    using example_acknowledged by blast
  have s: "sb_messageRepo (hv_subscriber example_http) = NewMessageRepository mem_exec"
    using example_on_redis by (simp add: on_redis_def runs_on_def)
  have "msg_at (map_of (db message_world)) ''m'' example_message" by (simp add: msg_at_def message_world_def Let_def)
  from http_ack_follows_path [OF mem_server.redis_server_axioms s _ _ _ p this] p(1)
  show ?thesis by (auto simp: plain_seg_def http_post_def) (metis message.select_convs message.update_convs)?
qed

end
