(* ===== verification/Application.thy ===== *)
theory Application
  imports Acknowledgment WsRuns HttpRuns
begin

text \<open>
  The server process, \<^verbatim>\<open>cmd/server/app.go\<close> and \<^verbatim>\<open>cmd/server/main.go\<close>, with the Redis client of
  \<^verbatim>\<open>internal/adapters/storage/redis/client.go\<close> and \<open>New\<close> of \<^verbatim>\<open>pkg/tracing/tracer.go\<close>: how the parts are built
  and wired, started and stopped. The libraries are parameters: whether a Redis client can be reached and
  how it executes commands, the exporter of OpenTelemetry, the codecs, the WebSocket upgrader, and what
  shutting down and closing report. Log messages are left out.
\<close>

section \<open>The Redis client\<close>

record redis_options =
  ro_Addrs :: "string list"
  ro_Password :: string
  ro_DB :: int
  ro_MaxRetries :: int
  ro_PoolSize :: int
  ro_MinIdleConns :: int
  ro_DialTimeout :: int
  ro_ReadTimeout :: int
  ro_WriteTimeout :: int
  ro_PoolTimeout :: int
  ro_ConnMaxIdleTime :: int

text \<open>The three constructors of the library; a failover client asks sentinels for the master of a name.\<close>

datatype universal_client =
    SingleClient redis_options
  | FailoverClient string redis_options
  | ClusterClient redis_options

definition redis_options_of :: "redis_config \<Rightarrow> redis_options" where
  "redis_options_of cfg =
     \<lparr>ro_Addrs = rc_Addresses cfg, ro_Password = rc_Password cfg, ro_DB = rc_DB cfg, ro_MaxRetries = rc_MaxRetries cfg,
      ro_PoolSize = rc_PoolSize cfg, ro_MinIdleConns = rc_MinIdleConns cfg, ro_DialTimeout = rc_DialTimeout cfg,
      ro_ReadTimeout = rc_ReadTimeout cfg, ro_WriteTimeout = rc_WriteTimeout cfg, ro_PoolTimeout = rc_PoolTimeout cfg,
      ro_ConnMaxIdleTime = rc_IdleTimeout cfg\<rparr>"

text \<open>A cluster client has no database number. \<open>None\<close> is the panic of an index out of range.\<close>

definition redis_client_of :: "redis_config \<Rightarrow> universal_client option" where
  "redis_client_of cfg =
     (if rc_EnableCluster cfg then Some (ClusterClient ((redis_options_of cfg)\<lparr>ro_DB := 0\<rparr>))
      else if length (rc_Addresses cfg) > 1 then Some (FailoverClient ''master'' (redis_options_of cfg))
      else (case rc_Addresses cfg of
              [] \<Rightarrow> None
            | addr # _ \<Rightarrow> Some (SingleClient ((redis_options_of cfg)\<lparr>ro_Addrs := [addr]\<rparr>))))"

definition redis_NewClient :: "(universal_client \<Rightarrow> go_error option) \<Rightarrow> redis_config \<Rightarrow> universal_client res option" where
  "redis_NewClient ping cfg =
     map_option (\<lambda>client. case ping client of
         Some e \<Rightarrow> Inl (Wrap ''failed to connect to Redis'' e) | None \<Rightarrow> Inr client) (redis_client_of cfg)"

section \<open>Tracing\<close>

record tracer =
  tr_ServiceName :: string
  tr_enabled :: bool

text \<open>\<open>exporter\<close> and \<open>resource\<close> are the constructors of the OpenTelemetry library.\<close>

definition tracing_New ::
  "(string \<Rightarrow> go_error option) \<Rightarrow> (string \<Rightarrow> go_error option) \<Rightarrow> tracing_config \<Rightarrow> tracer res" where
  "tracing_New exporter resource cfg =
     (if \<not> tc_Enabled cfg then Inr \<lparr>tr_ServiceName = tc_ServiceName cfg, tr_enabled = False\<rparr>
      else (case exporter (tc_OTLPEndpoint cfg) of
              Some e \<Rightarrow> Inl (Wrap ''failed to create OTLP exporter'' e)
            | None \<Rightarrow>
                (case resource (tc_ServiceName cfg) of
                   Some e \<Rightarrow> Inl (Wrap ''failed to create resource'' e)
                 | None \<Rightarrow> Inr \<lparr>tr_ServiceName = tc_ServiceName cfg, tr_enabled = True\<rparr>)))"

text \<open>Shutting the provider of an enabled tracer down is the library's.\<close>

definition tracer_Shutdown :: "tracer \<Rightarrow> go_error option \<Rightarrow> go_error option" where
  "tracer_Shutdown t provider = (if \<not> tr_enabled t then None else provider)"

section \<open>Building the application\<close>

record 'd platform =
  en_Ping :: "universal_client \<Rightarrow> go_error option"
  en_exec :: "universal_client \<Rightarrow> rcmd \<Rightarrow> 'd \<Rightarrow> rreply \<times> 'd"
  en_exporter :: "string \<Rightarrow> go_error option"
  en_resource :: "string \<Rightarrow> go_error option"
  en_codecs :: codecs
  en_upgrade :: "bool \<Rightarrow> http_request \<Rightarrow> (http_response \<times> go_error) + unit"
  en_ranges :: "string list \<times> string list \<times> (int \<Rightarrow> string list)"

record 'd application =
  apn_config :: config
  apn_redisClient :: universal_client
  apn_repoClient :: universal_client
  apn_tracer :: tracer
  apn_ack :: "'d ack_service"
  apn_ws :: "'d ws_server"
  apn_http :: "('d, ws_state) http_server"
  apn_httpAddr :: string
  apn_metricsAddr :: string

text \<open>The goroutines that \<open>Start\<close> adds to the wait group.\<close>

datatype goroutine = HTTPServer | MetricsServer | SubscriptionWorkers | AcknowledgmentWorkers | MetricsCollection

record app_state =
  aps_http :: "ws_state http_state"
  aps_acks :: ack_state
  aps_running :: "goroutine list"
  aps_cancel :: bool
  aps_cancelled :: bool
  aps_stats :: "connection_stats list"

definition initTracing :: "'d platform \<Rightarrow> config \<Rightarrow> tracer res" where
  "initTracing en cfg =
     (case tracing_New (en_exporter en) (en_resource en) (cfg_Tracing cfg) of
        Inl e \<Rightarrow> Inl (Wrap ''failed to create tracer'' e) | Inr t \<Rightarrow> Inr t)"

text \<open>
  Two clients are opened: one that is only pinged and closed again, with the default address when none
  is configured, and that of the repositories.
\<close>

definition ping_client :: "redis_config \<Rightarrow> universal_client" where
  "ping_client cfg =
     SingleClient \<lparr>ro_Addrs = [case rc_Addresses cfg of [] \<Rightarrow> ''localhost:6379'' | addr # _ \<Rightarrow> addr],
       ro_Password = rc_Password cfg, ro_DB = rc_DB cfg, ro_MaxRetries = rc_MaxRetries cfg, ro_PoolSize = rc_PoolSize cfg,
       ro_MinIdleConns = rc_MinIdleConns cfg, ro_DialTimeout = 0, ro_ReadTimeout = rc_ReadTimeout cfg,
       ro_WriteTimeout = rc_WriteTimeout cfg, ro_PoolTimeout = 0, ro_ConnMaxIdleTime = 0\<rparr>"

definition initStorage :: "'d platform \<Rightarrow> config \<Rightarrow> (universal_client \<times> universal_client) res option" where
  "initStorage en cfg =
     (let client = ping_client (cfg_Redis cfg)
      in (case en_Ping en client of
            Some e \<Rightarrow> Some (Inl (Wrap ''failed to connect to Redis'' e))
          | None \<Rightarrow>
              (case redis_NewClient (en_Ping en) (cfg_Redis cfg) of
                 None \<Rightarrow> None
               | Some (Inl e) \<Rightarrow> Some (Inl (Wrap ''failed to create Redis adapter client'' e))
               | Some (Inr repoClient) \<Rightarrow> Some (Inr (client, repoClient)))))"

text \<open>\<open>initServices\<close> and \<open>initServers\<close>; neither can fail. A port is written in decimal.\<close>

definition port_addr :: "int \<Rightarrow> string" where
  "port_addr port = CHR '':'' # itoa port"

definition initServers ::
  "'d platform \<Rightarrow> config \<Rightarrow> universal_client \<times> universal_client \<Rightarrow> tracer \<Rightarrow> 'd world
    \<Rightarrow> ('d application \<times> app_state) \<times> 'd world" where
  "initServers en cfg clients t w =
     (let exec = en_exec en (snd clients); broker = cfg_Broker cfg;
          mr = NewMessageRepository exec; tr = NewTopicRepository exec;
          sr = NewSubscriptionRepository exec; cr = NewConsumerGroupRepository exec;
          pub = NewPublisher (en_codecs en) mr tr broker;
          (sub, sub0) = NewSubscriber mr sr cr tr broker;
          (top, top0) = NewTopicService tr broker;
          ((ack, ack0), w) = NewService mr broker w;
          (wss, wss0) = websocket_NewServer pub sub (en_upgrade en);
          http = SetWebSocketHandler (HandleWebSocket wss) (NewServer pub sub top (en_ranges en))
      in ((\<lparr>apn_config = cfg, apn_redisClient = fst clients, apn_repoClient = snd clients, apn_tracer = t, apn_ack = ack,
             apn_ws = wss, apn_http = http, apn_httpAddr = port_addr (sv_Port (cfg_Server cfg)),
             apn_metricsAddr = port_addr (mc_Port (cfg_Metrics cfg))\<rparr>,
            \<lparr>aps_http = \<lparr>hs_subscriber = sub0, hs_topics = top0, hs_ws = wss0, hs_log = []\<rparr>, aps_acks = ack0,
             aps_running = [], aps_cancel = False, aps_cancelled = False, aps_stats = []\<rparr>), w))"

definition NewApplication ::
  "'d platform \<Rightarrow> config \<Rightarrow> 'd world \<Rightarrow> (('d application \<times> app_state) res \<times> 'd world) option" where
  "NewApplication en cfg w =
     (case initTracing en cfg of
        Inl e \<Rightarrow> Some (Inl (Wrap ''failed to initialize tracing'' e), w)
      | Inr t \<Rightarrow>
          (case initStorage en cfg of
             None \<Rightarrow> None
           | Some (Inl e) \<Rightarrow> Some (Inl (Wrap ''failed to initialize storage'' e), w)
           | Some (Inr clients) \<Rightarrow> (let (app, w) = initServers en cfg clients t w in Some (Inr app, w))))"

section \<open>Starting and stopping\<close>

definition startBackgroundWorkers :: "app_state \<Rightarrow> app_state" where
  "startBackgroundWorkers st =
     st\<lparr>aps_running := aps_running st @ [SubscriptionWorkers, AcknowledgmentWorkers, MetricsCollection]\<rparr>"

definition app_Start :: "app_state \<Rightarrow> app_state" where
  "app_Start st =
     startBackgroundWorkers
       (st\<lparr>aps_cancel := True, aps_acks := StartAcknowledgmentWorker (aps_acks st),
           aps_running := aps_running st @ [HTTPServer, MetricsServer]\<rparr>)"

definition collectMetrics :: "app_state \<Rightarrow> app_state" where
  "collectMetrics st = st\<lparr>aps_stats := aps_stats st @ [GetConnectionStats (hs_ws (aps_http st))]\<rparr>"

text \<open>
  While the application runs: requests and the pumps change the state of the servers, a server that can
  not listen ends with nothing but a log entry, a worker ends when the context is cancelled.
\<close>

inductive app_step :: "app_state \<Rightarrow> app_state \<Rightarrow> bool" where
  serve: "app_step st (st\<lparr>aps_http := h, aps_acks := a\<rparr>)"
| listen_fails: "g \<in> set (aps_running st) \<Longrightarrow> g = HTTPServer \<or> g = MetricsServer \<Longrightarrow>
    app_step st (st\<lparr>aps_running := remove1 g (aps_running st)\<rparr>)"
| tick: "MetricsCollection \<in> set (aps_running st) \<Longrightarrow> app_step st (collectMetrics st)"
| worker_ends: "g \<in> set (aps_running st) \<Longrightarrow> aps_cancelled st \<Longrightarrow>
    app_step st (st\<lparr>aps_running := remove1 g (aps_running st)\<rparr>)"

text \<open>
  What the calls of \<open>Stop\<close> report: the two HTTP servers, the Redis client, the provider of the tracer,
  and whether the goroutines end before the context of the shutdown does.
\<close>

record shutdown_reports =
  shd_http :: "go_error option"
  shd_metrics :: "go_error option"
  shd_redis :: "go_error option"
  shd_tracer :: "go_error option"
  shd_done :: bool

definition collect_error :: "string \<Rightarrow> go_error option \<Rightarrow> go_error list" where
  "collect_error msg e = (case e of None \<Rightarrow> [] | Some e \<Rightarrow> [Wrap msg e])"

text \<open>How \<open>%v\<close> prints a slice.\<close>

fun print_elems :: "string list \<Rightarrow> string" where
  "print_elems [] = ''''"
| "print_elems [x] = x"
| "print_elems (x # xs) = x @ '' '' @ print_elems xs"

definition app_Stop ::
  "'d application \<Rightarrow> shutdown_reports \<Rightarrow> app_state \<Rightarrow> (go_error option \<times> app_state) option" where
  "app_Stop app r st =
     (let st = (if aps_cancel st then st\<lparr>aps_cancelled := True\<rparr> else st);
          errs = collect_error ''HTTP server shutdown error'' (shd_http r)
               @ collect_error ''metrics server shutdown error'' (shd_metrics r)
      in (case websocket_Shutdown (hs_ws (aps_http st)) of
            None \<Rightarrow> None
          | Some x \<Rightarrow>
              (let st = st\<lparr>aps_http := (aps_http st)\<lparr>hs_ws := x\<rparr>, aps_acks := StopAcknowledgmentWorker (aps_acks st),
                           aps_running := (if shd_done r then [] else aps_running st)\<rparr>;
                   errs = errs @ collect_error ''Redis close error'' (shd_redis r)
                        @ collect_error ''tracer shutdown error'' (tracer_Shutdown (apn_tracer app) (shd_tracer r))
               in Some (if errs = [] then None
                        else Some (Errorf (''shutdown errors: ['' @ print_elems (map Error errs) @ '']'')), st))))"

text \<open>
  \<open>main\<close>, as its exit code: \<open>serving\<close> is what happens between the start and the signal. \<open>None\<close> is a panic.
\<close>

definition server_main ::
  "viper \<Rightarrow> 'd platform \<Rightarrow> bool \<Rightarrow> string \<Rightarrow> 'd world \<Rightarrow> (app_state \<Rightarrow> app_state) \<Rightarrow> shutdown_reports \<Rightarrow> int option" where
  "server_main v en version configPath w serving r =
     (if version then Some 0
      else (case Load v configPath of
              Inl e \<Rightarrow> Some 1
            | Inr cfg \<Rightarrow>
                (case NewApplication en cfg w of
                   None \<Rightarrow> None
                 | Some (Inl e, w) \<Rightarrow> Some 1
                 | Some (Inr (app, st), w) \<Rightarrow>
                     (case app_Stop app r (serving (app_Start st)) of
                        None \<Rightarrow> None
                      | Some (Some e, st) \<Rightarrow> Some 1
                      | Some (None, st) \<Rightarrow> Some 0))))"

end
