(* ===== verification/AppSpec.thy ===== *)
theory AppSpec
  imports Application
begin

text \<open>
  The server process as a whole: what starting it can report, what the program does once it runs on the
  Redis client it was started with, and what stopping it leaves.
\<close>

section \<open>Wiring\<close>

lemma initServers_wired:
  assumes "initServers en cfg clients t w = ((app, st), w')"
  shows "on_redis (en_exec en (snd clients)) (apn_http app)" "hv_wsHandler (apn_http app) = Some (HandleWebSocket (apn_ws app))"
    "sv_upgrade (apn_ws app) = en_upgrade en" "sv_publisher (apn_ws app) = hv_publisher (apn_http app)"
    "sv_subscriber (apn_ws app) = hv_subscriber (apn_http app)" "apn_repoClient app = snd clients" "apn_redisClient app = fst clients"
    "apn_config app = cfg" "hs_ws (aps_http st) = ws_state0" "aps_running st = []" "db w' = db w"
  using assms
  by (auto simp: initServers_def on_redis_def runs_on_def NewPublisher_def NewSubscriber_def NewTopicService_def
      NewService_def websocket_NewServer_def SetWebSocketHandler_def NewServer_def time_now_def Let_def)

lemma NewApplication_wired:
  assumes "NewApplication en cfg w = Some (Inr (app, st), w')"
  obtains t clients where "initServers en cfg clients t w = ((app, st), w')" "initTracing en cfg = Inr t"
    "initStorage en cfg = Some (Inr clients)"
  using assms by (auto simp: NewApplication_def split: sum.splits option.splits prod.splits)

lemma redis_client_None: "redis_client_of r = None \<longleftrightarrow> rc_Addresses r = [] \<and> \<not> rc_EnableCluster r"
  by (auto simp: redis_client_of_def split: list.split)

section \<open>Stopping\<close>

lemma collect_error_Nil [simp]: "collect_error msg e = [] \<longleftrightarrow> e = None"
  by (simp add: collect_error_def split: option.split)

lemma stop_workers_other: "wf_map (as_workers st) \<Longrightarrow> map fst (as_workers st) = names \<Longrightarrow> as_workers (stop_workers names st) = []"
proof (induction names arbitrary: st)
  case (Cons n names)
  then obtain v m where m: "as_workers st = (n, v) # m" "map fst m = names" by (cases "as_workers st") auto
  then have "mdel n (as_workers st) = m" "wf_map m" using Cons.prems(1)
    by (auto simp: wf_map_def)
  with Cons.IH [of "st\<lparr>as_workers := m\<rparr>"] m(2) show ?case by simp
qed simp

lemma Close_ends: "connection_Close c = Some c' \<Longrightarrow> \<not> cn_IsAlive c' \<and> cn_done c'"
  by (auto simp: connection_Close_def Close_begin_def Close_end_def Let_def split: if_splits)

lemma close_each_alive:
  assumes "close_each as x = Some x'" "\<forall>a \<in> set as. a < length (ws_conns x)"
  shows "length (ws_conns x') = length (ws_conns x) \<and> ws_connections x' = ws_connections x \<and>
    (\<forall>a. \<not> cn_IsAlive (ws_conns x ! a) \<or> a \<in> set as \<longrightarrow> a < length (ws_conns x) \<longrightarrow> \<not> cn_IsAlive (ws_conns x' ! a))"
  using assms
proof (induction "as" arbitrary: x)
  case (Cons a "as")
  then obtain c where c: "connection_Close (ws_conns x ! a) = Some c"
    "close_each as (x\<lparr>ws_conns := (ws_conns x)[a := c]\<rparr>) = Some x'" by (auto split: option.splits)
  from Cons.IH [OF c(2)] Cons.prems(2) Close_ends [OF c(1)] show ?case
    by (auto simp: nth_list_update split: if_splits)
qed simp

lemma stop_no_workers: "wf_map (as_workers st) \<Longrightarrow> as_workers (StopAcknowledgmentWorker st) = []"
  unfolding StopAcknowledgmentWorker_def by (rule stop_workers_other) simp_all

lemma shutdown_closes:
  assumes "ws_ok x"
  obtains x' where "websocket_Shutdown x = Some x'" "ws_ok x'" "ws_connections x' = ws_connections x"
    "\<forall>i a. map_of (ws_connections x') i = Some a \<longrightarrow> \<not> cn_IsAlive (ws_conns x' ! a)"
proof -
  have as: "\<forall>a \<in> set (map snd (ws_connections x)). a < length (ws_conns x)"
    using assms by (auto simp: ws_ok_def registry_ok_def wf_map_def)
  moreover have "list_all (conn_ok (ws_subs x)) (ws_conns x)" using assms by (simp add: ws_ok_def)
  ultimately obtain x' where x': "websocket_Shutdown x = Some x'"
    using close_each_open unfolding websocket_Shutdown_def by (metis option.exhaust)
  note alive = close_each_alive [OF x' [unfolded websocket_Shutdown_def] as]
  have "\<forall>i a. map_of (ws_connections x') i = Some a \<longrightarrow> \<not> cn_IsAlive (ws_conns x' ! a)"
  proof (intro allI impI)
    fix i a
    assume "map_of (ws_connections x') i = Some a"
    with alive have "(i, a) \<in> set (ws_connections x)" by (simp add: map_of_SomeD)
    then have "a \<in> set (map snd (ws_connections x))" by force
    with alive as show "\<not> cn_IsAlive (ws_conns x' ! a)" by blast
  qed
  with x' alive shutdown_next [OF x' assms] show thesis using that [of x'] by (simp add: next_ok_def)
qed

section \<open>Properties\<close>

text \<open>
  C34. Starting the server: it fails with the first thing that fails of the tracer, the ping of the first
  address and the ping of the client of the repositories; it panics exactly when no address is configured
  and the default one, which only the first ping uses, answers; else it is there.
\<close>

theorem startup_reports_first_failure:
  "(NewApplication en cfg w = None \<longleftrightarrow>
     (\<exists>t. tracing_New (en_exporter en) (en_resource en) (cfg_Tracing cfg) = Inr t) \<and>
     en_Ping en (ping_client (cfg_Redis cfg)) = None \<and> rc_Addresses (cfg_Redis cfg) = [] \<and> \<not> rc_EnableCluster (cfg_Redis cfg)) \<and>
   (NewApplication en cfg w = Some (Inl e, w') \<longleftrightarrow> w' = w \<and>
     (case tracing_New (en_exporter en) (en_resource en) (cfg_Tracing cfg) of
        Inl f \<Rightarrow> e = Wrap ''failed to initialize tracing'' (Wrap ''failed to create tracer'' f)
      | Inr t \<Rightarrow>
          (case en_Ping en (ping_client (cfg_Redis cfg)) of
             Some f \<Rightarrow> e = Wrap ''failed to initialize storage'' (Wrap ''failed to connect to Redis'' f)
           | None \<Rightarrow> \<exists>c f. redis_client_of (cfg_Redis cfg) = Some c \<and> en_Ping en c = Some f \<and>
               e = Wrap ''failed to initialize storage'' (Wrap ''failed to create Redis adapter client''
                     (Wrap ''failed to connect to Redis'' f)))))"
  unfolding redis_client_None [symmetric]
  by (auto simp: NewApplication_def initTracing_def initStorage_def redis_NewClient_def Let_def
      split: sum.splits option.splits prod.splits)

text \<open>
  C5. The program as it is started, on a Redis server, delivers nothing to any consumer: whatever is
  published, no answer of its HTTP API carries messages, and no WebSocket is ever opened.
\<close>

theorem deployed_program_delivers_nothing:
  assumes "NewApplication en cfg w0 = Some (Inr (app, st0), w1)"
    and "redis_server (en_exec en (apn_repoClient app)) ks" "needs_hijacker (en_upgrade en)"
    and "http_run (en_exec en (apn_repoClient app)) ks (apn_http app) ps st w"
  shows "(\<forall>p \<in> set ps. \<forall>su x. rp_Body p = [BSuccess su] \<longrightarrow> su_Data su \<noteq> DPulled x) \<and>
    (\<forall>r. rq_Path r = ''/ws'' \<and> rq_Method r \<noteq> ''OPTIONS'' \<longrightarrow>
       (\<exists>p e w'. ServeHTTP (apn_http app) r st w = Some (p, st\<lparr>hs_log := hs_log st @ [e]\<rparr>, w') \<and> 400 \<le> sent_status p))"
proof
  obtain t clients where i: "initServers en cfg clients t w0 = ((app, st0), w1)"
    using assms(1) by (rule NewApplication_wired)
  note wired = initServers_wired [OF i]
  from redis_server.run_never_pulls [OF assms(2) _ assms(4)] wired(1,6)
  show "\<forall>p \<in> set ps. \<forall>su x. rp_Body p = [BSuccess su] \<longrightarrow> su_Data su \<noteq> DPulled x" by (auto simp: pulled_def)
  show "\<forall>r. rq_Path r = ''/ws'' \<and> rq_Method r \<noteq> ''OPTIONS'' \<longrightarrow>
       (\<exists>p e w'. ServeHTTP (apn_http app) r st w = Some (p, st\<lparr>hs_log := hs_log st @ [e]\<rparr>, w') \<and> 400 \<le> sent_status p)"
    using never_opens [of "apn_ws app" "apn_http app"] wired(2,3) assms(3) by metis
qed

definition example_config :: config where
  "example_config =
     \<lparr>cfg_Server = \<lparr>sv_Host = ''0.0.0.0'', sv_Port = 8080, sv_ReadTimeout = 30 * Second, sv_WriteTimeout = 30 * Second,
        sv_IdleTimeout = 120 * Second, sv_ShutdownTimeout = 30 * Second, sv_MaxRequestSize = 8388608, sv_EnableWebSocket = True,
        sv_TLS = \<lparr>tls_Enabled = False, tls_CertFile = '''', tls_KeyFile = '''', tls_CAFile = ''''\<rparr>\<rparr>,
      cfg_Storage = \<lparr>st_Type = ''memory'', st_MaxMessageSize = 1048576, st_MaxQueueSize = 10000,
        st_RetentionTime = 86400 * Second, st_CleanupInterval = 3600 * Second\<rparr>,
      cfg_Redis = \<lparr>rc_Addresses = [''localhost:6379''], rc_Password = '''', rc_DB = 0, rc_MaxRetries = 3, rc_PoolSize = 10,
        rc_MinIdleConns = 5, rc_DialTimeout = 5 * Second, rc_ReadTimeout = 3 * Second, rc_WriteTimeout = 3 * Second,
        rc_PoolTimeout = 4 * Second, rc_IdleTimeout = 300 * Second, rc_IdleCheckFrequency = 60 * Second, rc_EnableCluster = False\<rparr>,
      cfg_Broker = default_broker,
      cfg_Metrics = \<lparr>mc_Enabled = True, mc_Port = 9091, mc_Path = ''/metrics'', mc_CollectInterval = 10 * Second,
        mc_Namespace = ''pubsubgo''\<rparr>,
      cfg_Tracing = \<lparr>tc_Enabled = False, tc_ServiceName = ''pubsubgo'', tc_OTLPEndpoint = '''', tc_SamplingRate = 1 / 10\<rparr>,
      cfg_RateLimit = \<lparr>rl_Enabled = False, rl_RequestsPerSecond = 1000, rl_BurstSize = 100, rl_PerTopic = False,
        rl_PerConsumer = False\<rparr>\<rparr>"

definition example_platform :: "mem platform" where
  "example_platform =
     \<lparr>en_Ping = \<lambda>_. None, en_exec = \<lambda>_. mem_exec, en_exporter = \<lambda>_. None, en_resource = \<lambda>_. None,
      en_codecs = marker_codecs, en_upgrade = gorilla, en_ranges = ([], [], \<lambda>_. [])\<rparr>"

lemma example_starts:
  obtains app st w where "NewApplication example_platform example_config mem_world = Some (Inr (app, st), w)"
    "db w = []" "hs_ws (aps_http st) = ws_state0" "as_workers (aps_acks st) = []" "tr_enabled (apn_tracer app) = False"
proof -
  have "\<exists>app st w. NewApplication example_platform example_config mem_world = Some (Inr (app, st), w) \<and>
    db w = [] \<and> hs_ws (aps_http st) = ws_state0 \<and> as_workers (aps_acks st) = [] \<and> tr_enabled (apn_tracer app) = False"
    by (simp add: NewApplication_def initTracing_def initStorage_def tracing_New_def redis_NewClient_def redis_client_of_def
        initServers_def example_platform_def example_config_def NewSubscriber_def NewTopicService_def NewService_def
        websocket_NewServer_def time_now_def mem_world_def Let_def)
  then show thesis using that by blast
qed

theorem deployed_program_delivers_nothing_witness:
  "\<exists>app st w p e w'. NewApplication example_platform example_config mem_world = Some (Inr (app, st), w) \<and>
     ServeHTTP (apn_http app) (http_get ''/ws'') (aps_http st) w =
       Some (p, (aps_http st)\<lparr>hs_log := hs_log (aps_http st) @ [e]\<rparr>, w') \<and> 400 \<le> sent_status p"
proof -
  obtain app st w where a: "NewApplication example_platform example_config mem_world = Some (Inr (app, st), w)" "db w = []"
    by (rule example_starts)
  have "no_entries (map_of (db w))" using a(2) by (simp add: no_entries_def)
  then have run: "http_run mem_exec map_of (apn_http app) [] (aps_http st) w" by (rule http_run.start)
  have mem: "en_exec example_platform c = mem_exec" "needs_hijacker (en_upgrade example_platform)" for c
    using gorilla_needs_hijacker by (simp_all add: example_platform_def)
  have "rq_Path (http_get ''/ws'') = ''/ws''" "rq_Method (http_get ''/ws'') \<noteq> ''OPTIONS''" by (simp_all add: http_get_def)
  with deployed_program_delivers_nothing [OF a(1), unfolded mem(1), OF mem_server.redis_server_axioms mem(2) run] a(1)
  show ?thesis by blast
qed



end
