(* ===== verification/Spec2Isabelle.thy ===== *)
theory Spec2Isabelle
  imports RingBuffer TopicSpec AckSpec SubscriberSpec Metrics CliSpec AppSpec
begin

text \<open>
  A verification development for PubSubGo, a publish/subscribe broker written in Go that keeps its
  messages in Redis. The program is modelled from its source, function by function, from the Redis
  commands that its repositories send up to the HTTP and the WebSocket API, the server process that wires
  them and the command line client that talks to them.

  \<^bold>\<open>How the parts interact.\<close> A request arrives at \<^verbatim>\<open>internal/adapters/api/http\<close> or over a WebSocket
  (\<^verbatim>\<open>internal/adapters/api/websocket\<close>); a handler decodes it and calls one of the services under
  \<^verbatim>\<open>internal/services\<close> (publisher, subscriber, topic; the acknowledgment service is built but not called by
  any handler). The services work on the entities of \<^verbatim>\<open>internal/core\<close> through the interfaces of
  \<^verbatim>\<open>internal/ports/repository\<close>, which \<^verbatim>\<open>internal/adapters/storage/redis\<close> implements. Besides the
  requests, goroutines run: the workers of push subscriptions, of the acknowledgment service and of the
  topic service, the clean up, the two pumps of each WebSocket, the loop of \<^verbatim>\<open>collectMetrics\<close>.

  \<^bold>\<open>The world.\<close> A function that reads the clock, makes an identifier or uses the database takes a
  \<open>'d world\<close> and returns it: the database, of a type of its own, the readings of the clock and the
  identifiers to come. Errors are values, \<open>go_error + 'a\<close> or \<open>go_error option\<close>; \<open>None\<close> at the outside is a
  panic or a call that never returns. Integers are mathematical, wrapped by \<open>wrap64\<close> and \<open>wrap32\<close> where Go's
  may overflow; \<open>float64\<close> is rational. A Go map is an association list without duplicate keys, a slice a
  list, a JSON text the tree it stands for. A mutex makes the operation it covers a single step.

  \<^bold>\<open>The theories.\<close>
  \<^item> \<open>Prelude\<close>: wrap-around, errors, strings and numbers as text, maps, durations and times, the world.
  \<^item> \<open>Json\<close>: documents, base64, the encoding of Go values (\<^verbatim>\<open>encoding/json\<close>).
  \<^item> \<open>Core\<close>: messages, topics, subscriptions, consumer groups (\<^verbatim>\<open>internal/core\<close>), with the round trips of
    their documents. \<open>Config\<close>: \<^verbatim>\<open>internal/config/config.go\<close>.
  \<^item> \<open>Ports\<close>: the four repository interfaces as records of functions, and what a client may rely on as the
    locales \<open>message_store\<close>, \<open>topic_store\<close> and \<open>broker_store\<close>. \<open>MapStore\<close> interprets them on maps in memory,
    as the simplest provider.
  \<^item> \<open>RedisServer\<close>: the commands the code sends, the meaning the Redis documentation gives them as the
    locale \<open>redis_server\<close> over an arbitrary server, and \<open>mem_exec\<close>, an executable server, as its
    interpretation. \<open>RedisMessages\<close>, \<open>RedisTopics\<close> and \<open>RedisSubscriptions\<close> are the four repositories of
    \<^verbatim>\<open>internal/adapters/storage/redis\<close>; sublocales discharge the laws of \<open>Ports\<close> for them on every such
    server. This is the refinement: the services are proved against the laws and used on Redis.
  \<^item> \<open>Compression\<close> and \<open>Publisher\<close>: \<^verbatim>\<open>internal/services/publisher\<close>. The codecs are parameters; the locale
    \<open>lossless_codecs\<close> states that they undo themselves.
  \<^item> \<open>Retry\<close>, \<open>Acknowledgment\<close>, \<open>AckSpec\<close>: \<^verbatim>\<open>internal/services/acknowledgment\<close>. The strategies of
    retrying and of dead letters are records of functions, their contracts the locales \<open>retry_policy\<close>,
    \<open>bounded_retry\<close>, \<open>valid_backoff\<close> and \<open>terminal_dlq\<close>; \<open>ack_store\<close> is what the service needs.
  \<^item> \<open>Subscriber\<close>, \<open>SubscriberSpec\<close>: \<^verbatim>\<open>internal/services/subscriber\<close>, with channels as bounded lists and
    workers, goroutines and calls as the steps of a relation.
  \<^item> \<open>Partition\<close>, \<open>PartitionSpec\<close>, \<open>Stats\<close>, \<open>TopicManager\<close>, \<open>TopicSpec\<close>: \<^verbatim>\<open>internal/services/topic\<close>.
  \<^item> \<open>RingBuffer\<close>: \<^verbatim>\<open>pkg/collections/ringbuffer.go\<close>, refined to a list by the locale \<open>fifo_buffer\<close>.
  \<^item> \<open>HttpCore\<close>, \<open>HttpPublisher\<close>, \<open>HttpSubscriber\<close>, \<open>HttpTopic\<close>, \<open>HttpServer\<close>: the HTTP API. A handler
    maps a request, the state of the server and the world to what was written to the response; the
    strict decoding of a struct field by field, the middleware and the multiplexer of \<^verbatim>\<open>net/http\<close> are
    definitions, so that \<open>ServeHTTP\<close> is the whole server. \<open>HttpRoutes\<close> shows which handler serves which
    path, \<open>HttpSpec\<close> what every handler answers, \<open>HttpFlow\<close> and \<open>HttpRuns\<close> follow a request through to
    Redis and runs of many requests. \<open>Keeping\<close> has the locales \<open>keeping\<close>, \<open>exec_keeps\<close> and
    \<open>silent_groups\<close>: a property of the database that each command keeps is kept by each service call.
  \<^item> \<open>Sha256\<close>, \<open>WsCore\<close>, \<open>WsSpec\<close>, \<open>WsFlow\<close>, \<open>WsRuns\<close>: the WebSocket API. Connections and subscriptions
    are objects in lists that the maps point into; \<open>ws_step\<close> interleaves the reading, the writing, the
    handling and the closing of all connections, with \<open>Close\<close> in two parts as it has no lock, and steps to
    \<open>None\<close> where the process panics.
  \<^item> \<open>Cli\<close>, \<open>CliSpec\<close>: \<^verbatim>\<open>cmd/cli\<close>, and the client against the server.
  \<^item> \<open>Metrics\<close>: \<^verbatim>\<open>internal/adapters/metrics/prometheus\<close>.
  \<^item> \<open>Application\<close>, \<open>AppSpec\<close>: \<^verbatim>\<open>cmd/server\<close>, with the choice of the Redis client and the set up of tracing.

  \<^bold>\<open>What is shown.\<close> A publish that reports success, over the service, HTTP or a WebSocket, has stored its
  message (\<open>Publisher\<close>, \<open>HttpFlow\<close>, \<open>WsRuns\<close>); an acknowledgment, negative or not, settles its message with
  the status it reports, and only for its consumer (\<open>AckSpec\<close>); dead letters come back (\<open>AckSpec\<close>). The
  states of the services are invariant under every order of calls, ticks and goroutines (\<open>AckSpec\<close>,
  \<open>SubscriberSpec\<close>, \<open>PartitionSpec\<close>, \<open>WsSpec\<close>); partitions are dealt completely and evenly. Documents,
  compressed payloads and topics make the round trip. Queues are bounded FIFO lists. Delays, scores and
  chosen partitions stay in their bounds. Every answer of the HTTP API is well formed, every WebSocket
  request is answered. Several theorems state where the program does not do what it means to: nothing that
  is published is ever delivered to a consumer by the program as it is wired (\<open>AppSpec\<close>), the background
  loops of the acknowledgment service see no messages, closing a WebSocket leaves its subscriptions and
  can crash the process, the client never gets through to the server.

  \<^bold>\<open>Bounds and termination.\<close> No fuel is used: loops are recursions over lists or on decreasing numbers with
  their termination proved (\<open>digits\<close>, the search for the capacity of the ring buffer, the unit of
  \<open>formatBytes\<close>). The commands of the executable server are total. A blocking read of a stream without
  entries, and the handler of an open WebSocket, are \<open>None\<close>. The client's event loop runs over the list of
  what happens, and waits when that ends.

  \<^bold>\<open>Parameters.\<close> The Redis server (\<open>redis_server\<close>), the codecs, the upgrader of \<^verbatim>\<open>gorilla/websocket\<close>
  (\<open>needs_hijacker\<close>), the network of the client (\<open>reaches\<close>, \<open>dials\<close>), viper, the exporter of
  OpenTelemetry, the registry of Prometheus, and the orders in which Go visits a map where they matter.

  \<^bold>\<open>Not modelled.\<close> The log; \<open>Start\<close> and \<open>Stop\<close> of \<^verbatim>\<open>http/server.go\<close>, which only call \<^verbatim>\<open>http.Server\<close> and are
  not used; the spans of \<^verbatim>\<open>pkg/tracing\<close>, which only call OpenTelemetry and nothing starts; \<open>Handler\<close> and
  \<open>Run\<close> of the metrics; \<^verbatim>\<open>internal/ports/broker\<close>, an interface that nothing implements or calls;
  \<^verbatim>\<open>version/version.go\<close>, two strings; the parsing of flags by \<^verbatim>\<open>cobra\<close>; the test helpers and the example.
  Data races are not modelled except for \<open>Close\<close> of a WebSocket: fields that Go reads without a lock are
  read at one point of the step that uses them. Deadlines of contexts and of connections appear only as
  the errors they cause.
\<close>

end
